(* ===== verification/Rust_Std.thy ===== *)
theory Rust_Std
  imports Prelude
begin

text \<open>
  The operations of Rust's standard library that the modelled code calls, on the byte view of
  text: UTF-8 validation and lossy decoding (\<open>str::from_utf8\<close>, \<open>String::from_utf8_lossy\<close>),
  splitting, trimming, number parsing and printing, \<open>std::io::Error\<close> and \<open>Duration\<close>.
  They carry no source lines of their own; the components use them as the source does.
\<close>

section \<open>UTF-8\<close>

text \<open>
  One step of the decoder of \<open>core::str\<close>: for a non-empty input, whether a well-formed
  sequence starts here, and how many bytes the sequence (or the ill-formed maximal prefix) has.
\<close>

definition utf8_cont :: "byte \<Rightarrow> bool" where
  "utf8_cont b \<longleftrightarrow> 0x80 \<le> b \<and> b \<le> 0xBF"

definition utf8_second_ok :: "byte \<Rightarrow> byte \<Rightarrow> bool" where
  "utf8_second_ok b c \<longleftrightarrow>
     (if b = 0xE0 then 0xA0 \<le> c \<and> c \<le> 0xBF
      else if b = 0xED then 0x80 \<le> c \<and> c \<le> 0x9F
      else if b = 0xF0 then 0x90 \<le> c \<and> c \<le> 0xBF
      else if b = 0xF4 then 0x80 \<le> c \<and> c \<le> 0x8F
      else utf8_cont c)"

definition utf8_width :: "byte \<Rightarrow> nat" where
  "utf8_width b =
     (if b < 0x80 then 1 else if 0xC2 \<le> b \<and> b \<le> 0xDF then 2
      else if 0xE0 \<le> b \<and> b \<le> 0xEF then 3 else if 0xF0 \<le> b \<and> b \<le> 0xF4 then 4 else 0)"

fun utf8_step :: "byte list \<Rightarrow> bool \<times> nat" where
  "utf8_step [] = (True, 0)"
| "utf8_step (b # bs) =
     (let w = utf8_width b in
      if w = 1 then (True, 1)
      else if w = 0 then (False, 1)
      else case bs of
        [] \<Rightarrow> (False, 1)
      | c # cs \<Rightarrow>
          if \<not> utf8_second_ok b c then (False, 1)
          else if w = 2 then (True, 2)
          else case cs of
            [] \<Rightarrow> (False, 2)
          | d # ds \<Rightarrow>
              if \<not> utf8_cont d then (False, 2)
              else if w = 3 then (True, 3)
              else case ds of
                [] \<Rightarrow> (False, 3)
              | e # _ \<Rightarrow> if \<not> utf8_cont e then (False, 3) else (True, 4))"

lemma utf8_step_pos: "utf8_step (b # bs) = (ok, n) \<Longrightarrow> 0 < n"
  by (auto simp: Let_def split: list.splits if_splits)

lemma utf8_step_ascii: "utf8_width b = 1 \<Longrightarrow> utf8_step (b # bs) = (True, 1)"
  by simp

declare utf8_step.simps(2) [simp del]

function utf8_valid :: "byte list \<Rightarrow> bool" where
  "utf8_valid [] = True"
| "utf8_valid (b # bs) =
     (case utf8_step (b # bs) of (ok, n) \<Rightarrow> ok \<and> utf8_valid (drop n (b # bs)))"
  by pat_completeness auto
termination
  by (relation "measure length") (auto dest: utf8_step_pos [OF sym])

text \<open>The replacement character U+FFFD in UTF-8.\<close>

definition utf8_replacement :: "byte list" where
  "utf8_replacement = [0xEF, 0xBF, 0xBD]"

function from_utf8_lossy :: "byte list \<Rightarrow> byte list" where
  "from_utf8_lossy [] = []"
| "from_utf8_lossy (b # bs) =
     (case utf8_step (b # bs) of (ok, n) \<Rightarrow>
        (if ok then take n (b # bs) else utf8_replacement)
          @ from_utf8_lossy (drop n (b # bs)))"
  by pat_completeness auto
termination
  by (relation "measure length") (auto dest: utf8_step_pos [OF sym])

definition from_utf8 :: "byte list \<Rightarrow> string option" where
  "from_utf8 bs = (if utf8_valid bs then Some (string_of_bytes bs) else None)"

definition string_from_utf8_lossy :: "byte list \<Rightarrow> string" where
  "string_from_utf8_lossy bs = string_of_bytes (from_utf8_lossy bs)"

text \<open>Valid input is returned unchanged; in particular ASCII is.\<close>

lemma from_utf8_lossy_valid: "utf8_valid bs \<Longrightarrow> from_utf8_lossy bs = bs"
  by (induction bs rule: utf8_valid.induct) (auto split: prod.splits)

definition ascii :: "string \<Rightarrow> bool" where
  "ascii s \<longleftrightarrow> (\<forall>c \<in> set s. of_char c < (128 :: nat))"

lemma ascii_simps [simp]:
  "ascii []"
  "ascii (c # s) \<longleftrightarrow> of_char c < (128 :: nat) \<and> ascii s"
  "ascii (s @ t) \<longleftrightarrow> ascii s \<and> ascii t"
  by (auto simp: ascii_def)

lemma utf8_width_ascii: "of_char c < (128 :: nat) \<Longrightarrow> utf8_width (of_char c) = 1"
  by (simp add: utf8_width_def word_less_nat_alt)

lemma utf8_valid_ascii: "ascii s \<Longrightarrow> utf8_valid (as_bytes s)"
  by (induction s) (simp_all add: utf8_width_ascii utf8_step_ascii)

lemma string_from_utf8_lossy_ascii [simp]:
  "ascii s \<Longrightarrow> string_from_utf8_lossy (as_bytes s) = s"
  by (simp add: string_from_utf8_lossy_def from_utf8_lossy_valid utf8_valid_ascii)

section \<open>Splitting and trimming\<close>

text \<open>\<open>str::split(char)\<close>: never empty; two adjacent separators give an empty piece.\<close>

fun split_char :: "char \<Rightarrow> string \<Rightarrow> string list" where
  "split_char c [] = [[]]"
| "split_char c (x # xs) =
     (if x = c then [] # split_char c xs
      else case split_char c xs of [] \<Rightarrow> [[x]] | w # ws \<Rightarrow> (x # w) # ws)"

lemma split_char_nonempty [simp]: "split_char c s \<noteq> []"
  by (induction s) (auto split: list.splits)

fun join :: "char \<Rightarrow> string list \<Rightarrow> string" where
  "join c [] = []"
| "join c [w] = w"
| "join c (w # ws) = w @ c # join c ws"

lemma join_Cons: "ws \<noteq> [] \<Longrightarrow> join c (w # ws) = w @ c # join c ws"
  by (cases ws) auto

lemma join_split_char: "join c (split_char c s) = s"
proof (induction s)
  case (Cons x xs)
  then show ?case
    by (cases "split_char c xs"; cases "tl (split_char c xs)") (auto simp: join_Cons)
qed simp

lemma split_char_pieces: "w \<in> set (split_char c s) \<Longrightarrow> c \<notin> set w"
  by (induction s arbitrary: w) (auto split: if_splits list.splits)

lemma split_char_append_sep:
  "c \<notin> set w \<Longrightarrow> split_char c (w @ c # s) = w # split_char c s"
  by (induction w) auto

lemma split_char_single: "c \<notin> set w \<Longrightarrow> split_char c w = [w]"
  by (induction w) auto

lemma split_char_join:
  "ws \<noteq> [] \<Longrightarrow> \<forall>w \<in> set ws. c \<notin> set w \<Longrightarrow> split_char c (join c ws) = ws"
  by (induction c ws rule: join.induct) (auto simp: split_char_single split_char_append_sep)

lemma ascii_split_char: "ascii s \<Longrightarrow> w \<in> set (split_char c s) \<Longrightarrow> ascii w"
  by (induction s arbitrary: w) (auto split: if_splits list.splits)

text \<open>\<open>str::split(&str)\<close> and \<open>str::split_once(char)\<close>, \<open>str::strip_prefix\<close>, \<open>str::lines\<close>.\<close>

fun strip_prefix :: "'a list \<Rightarrow> 'a list \<Rightarrow> 'a list option" where
  "strip_prefix [] s = Some s"
| "strip_prefix (p # ps) [] = None"
| "strip_prefix (p # ps) (c # s) = (if p = c then strip_prefix ps s else None)"

lemma strip_prefix_Some: "strip_prefix p s = Some r \<longleftrightarrow> s = p @ r"
  by (induction p s rule: strip_prefix.induct) auto

function split_str :: "string \<Rightarrow> string \<Rightarrow> string list" where
  "split_str sep [] = [[]]"
| "split_str sep (x # xs) =
     (case strip_prefix sep (x # xs) of
        Some r \<Rightarrow> if sep = [] then [x # xs] else [] # split_str sep r
      | None \<Rightarrow>
          (case split_str sep xs of [] \<Rightarrow> [[x]] | w # ws \<Rightarrow> (x # w) # ws))"
  by pat_completeness auto
termination
  by (relation "measure (\<lambda>(sep, s). length s)")
     (auto simp: strip_prefix_Some neq_Nil_conv dest!: arg_cong [where f = length])

definition split_once :: "char \<Rightarrow> string \<Rightarrow> (string \<times> string) option" where
  "split_once c s =
     (if c \<in> set s
      then Some (takeWhile (\<lambda>x. x \<noteq> c) s, tl (dropWhile (\<lambda>x. x \<noteq> c) s))
      else None)"

definition strip_cr :: "string \<Rightarrow> string" where
  "strip_cr l = (if l \<noteq> [] \<and> last l = CHR 0x0D then butlast l else l)"

definition lines :: "string \<Rightarrow> string list" where
  "lines s =
     (let ps = split_char (CHR 0x0A) s
      in map strip_cr (butlast ps) @ (if last ps = [] then [] else [last ps]))"

text \<open>
  The characters with the Unicode property \<open>White_Space\<close>, as UTF-8 sequences. On valid UTF-8
  a sequence is found as a prefix or a suffix exactly when the character is there.
\<close>

definition white_space :: "string list" where
  "white_space =
     map (\<lambda>c. [char_of c]) ([9, 10, 11, 12, 13, 32] :: nat list)
     @ map (\<lambda>bs. map char_of bs)
         ([[0xC2, 0x85], [0xC2, 0xA0], [0xE1, 0x9A, 0x80]] @
          map (\<lambda>b. [0xE2, 0x80, b])
            [0x80, 0x81, 0x82, 0x83, 0x84, 0x85, 0x86, 0x87, 0x88, 0x89, 0x8A, 0xA8, 0xA9, 0xAF] @
          [[0xE2, 0x81, 0x9F], [0xE3, 0x80, 0x80]] :: nat list list)"

fun first_stripped :: "string list \<Rightarrow> string \<Rightarrow> string option" where
  "first_stripped [] s = None"
| "first_stripped (w # ws) s =
     (case strip_prefix w s of Some r \<Rightarrow> Some r | None \<Rightarrow> first_stripped ws s)"

lemma first_stripped_Some:
  "first_stripped ws s = Some r \<Longrightarrow> \<exists>w \<in> set ws. s = w @ r"
  by (induction ws s rule: first_stripped.induct) (auto simp: strip_prefix_Some split: option.splits)

lemma white_space_nonempty: "w \<in> set white_space \<Longrightarrow> w \<noteq> []"
  by (auto simp: white_space_def)

definition ws_prefix :: "string \<Rightarrow> string option" where
  "ws_prefix s = first_stripped white_space s"

lemma ws_prefix_shorter: "ws_prefix s = Some r \<Longrightarrow> length r < length s"
  by (auto simp: ws_prefix_def dest!: first_stripped_Some white_space_nonempty)

function trim_start :: "string \<Rightarrow> string" where
  "trim_start s = (case ws_prefix s of None \<Rightarrow> s | Some r \<Rightarrow> trim_start r)"
  by pat_completeness auto
termination
  by (relation "measure length") (auto dest: ws_prefix_shorter)

declare trim_start.simps [simp del]

definition ws_suffix :: "string \<Rightarrow> string option" where
  "ws_suffix s = map_option rev (first_stripped (map rev white_space) (rev s))"

lemma ws_suffix_shorter: "ws_suffix s = Some r \<Longrightarrow> length r < length s"
  by (auto simp: ws_suffix_def dest!: first_stripped_Some white_space_nonempty
      arg_cong [where f = length])

function trim_end :: "string \<Rightarrow> string" where
  "trim_end s = (case ws_suffix s of None \<Rightarrow> s | Some r \<Rightarrow> trim_end r)"
  by pat_completeness auto
termination
  by (relation "measure length") (auto dest: ws_suffix_shorter)

declare trim_end.simps [simp del]

definition trim :: "string \<Rightarrow> string" where
  "trim s = trim_end (trim_start s)"

text \<open>\<open>str::split_whitespace\<close>: the maximal runs without white space.\<close>

function split_ws :: "string \<Rightarrow> string \<Rightarrow> string list" where
  "split_ws w [] = (if w = [] then [] else [w])"
| "split_ws w (c # s) =
     (case ws_prefix (c # s) of
        Some r \<Rightarrow> (if w = [] then [] else [w]) @ split_ws [] r
      | None \<Rightarrow> split_ws (w @ [c]) s)"
  by pat_completeness auto
termination
  by (relation "measure (\<lambda>(w, s). length s)") (auto dest: ws_prefix_shorter)

definition split_whitespace :: "string \<Rightarrow> string list" where
  "split_whitespace s = split_ws [] s"

section \<open>Numbers\<close>

fun digit_value :: "char \<Rightarrow> nat option" where
  "digit_value c =
     (let n = (of_char c :: nat) in if 48 \<le> n \<and> n \<le> 57 then Some (n - 48) else None)"

fun parse_digits :: "nat \<Rightarrow> nat \<Rightarrow> string \<Rightarrow> nat option" where
  "parse_digits limit acc [] = Some acc"
| "parse_digits limit acc (c # s) =
     (case digit_value c of
        None \<Rightarrow> None
      | Some d \<Rightarrow>
          if acc * 10 + d \<ge> limit then None else parse_digits limit (acc * 10 + d) s)"

text \<open>\<open>str::parse\<close> for an unsigned type with \<open>limit\<close> values; a leading \<open>+\<close> is accepted.\<close>

definition parse_unsigned :: "nat \<Rightarrow> string \<Rightarrow> nat option" where
  "parse_unsigned limit s =
     (case s of
        [] \<Rightarrow> None
      | c # r \<Rightarrow>
          if c = CHR ''+'' then (if r = [] then None else parse_digits limit 0 r)
          else parse_digits limit 0 s)"

lemma parse_digits_bound: "acc < limit \<Longrightarrow> parse_digits limit acc s = Some n \<Longrightarrow> n < limit"
  by (induction limit acc s rule: parse_digits.induct) (auto split: option.splits if_splits)

lemma parse_unsigned_bound: "0 < limit \<Longrightarrow> parse_unsigned limit s = Some n \<Longrightarrow> n < limit"
  by (auto simp: parse_unsigned_def simp del: parse_digits.simps
      split: list.splits if_splits intro: parse_digits_bound)

fun decimal :: "nat \<Rightarrow> string" where
  "decimal n =
     (if n < 10 then [char_of (48 + n)] else decimal (n div 10) @ [char_of (48 + n mod 10)])"

declare decimal.simps [simp del]

section \<open>ASCII case\<close>

definition to_ascii_lowercase :: "string \<Rightarrow> string" where
  "to_ascii_lowercase s =
     map (\<lambda>c. let n = (of_char c :: nat) in if 65 \<le> n \<and> n \<le> 90 then char_of (n + 32) else c) s"

definition eq_ignore_ascii_case :: "string \<Rightarrow> string \<Rightarrow> bool" where
  "eq_ignore_ascii_case s t \<longleftrightarrow> to_ascii_lowercase s = to_ascii_lowercase t"

section \<open>Errors and durations\<close>

text \<open>\<open>std::io::Error\<close>: its kind and its message. \<open>Duration\<close>: whole seconds and nanoseconds.\<close>

datatype io_kind =
    InvalidData | InvalidInput | TimedOut | BrokenPipe | ConnectionReset | ConnectionAborted
  | UnexpectedEof | WriteZero | OtherKind

record io_error =
  io_kind :: io_kind
  io_message :: string

definition io_err :: "io_kind \<Rightarrow> string \<Rightarrow> io_error" where
  "io_err k m = \<lparr>io_kind = k, io_message = m\<rparr>"

record duration =
  secs :: u64
  subsec_nanos :: u32

definition duration_wf :: "duration \<Rightarrow> bool" where
  "duration_wf d \<longleftrightarrow> unat (subsec_nanos d) < 10 ^ 9"

definition as_nanos :: "duration \<Rightarrow> nat" where
  "as_nanos d = unat (secs d) * 10 ^ 9 + unat (subsec_nanos d)"

definition from_secs :: "u64 \<Rightarrow> duration" where
  "from_secs n = \<lparr>secs = n, subsec_nanos = 0\<rparr>"

definition from_nanos :: "u64 \<Rightarrow> duration" where
  "from_nanos n = \<lparr>secs = n div 10 ^ 9, subsec_nanos = ucast (n mod 10 ^ 9)\<rparr>"

text \<open>The \<open>Display\<close> text of \<open>Utf8Error\<close>: where the valid prefix ends, and what follows it.\<close>

function utf8_error_from :: "nat \<Rightarrow> byte list \<Rightarrow> string" where
  "utf8_error_from i [] = []"
| "utf8_error_from i (b # bs) =
     (case utf8_step (b # bs) of (ok, n) \<Rightarrow>
        if ok then utf8_error_from (i + n) (drop n (b # bs))
        else if utf8_width b > 1 \<and> n = length (b # bs)
        then ''incomplete utf-8 byte sequence from index '' @ decimal i
        else ''invalid utf-8 sequence of '' @ decimal n @ '' bytes from index '' @ decimal i)"
  by pat_completeness auto
termination
  by (relation "measure (\<lambda>(i, bs). length bs)") (auto dest: utf8_step_pos [OF sym])

definition utf8_error_message :: "byte list \<Rightarrow> string" where
  "utf8_error_message bs = utf8_error_from 0 bs"

end
