(* ===== verification/Errors.thy ===== *)
theory Errors
  imports Rust_Std
begin

text \<open>
  The error types of the two crates: \<open>rpc/src/error.rs\<close>, \<open>src/tunnel/error.rs\<close>,
  \<open>src/edge/error.rs\<close>, \<open>src/origin/error.rs\<close> and the crate-level \<open>src/error.rs\<close>, with the
  registration failure of \<open>rpc/src/tunnel.rs\<close>, the \<open>From\<close> conversions the \<open>?\<close> operator
  applies, the constructor helpers, the \<open>Display\<close> texts and the permanent-failure test that
  decides whether the connector retries. Errors of third-party crates appear as the text the
  conversions take from them.
\<close>

section \<open>The error enums\<close>

datatype rpc_error =
    Eof
  | Protocol string
  | Abort string u16
  | RemoteCall string
  | RpcIo io_error

datatype registration_failure =
    Retryable string i64
  | Permanent string

datatype tunnel_error =
    QuickTunnelApi string
  | QuickTunnelResponse string
  | QuickTunnelRequest io_error
  | NamedTunnelCredentials string
  | InvalidTunnelIdentifier string

datatype edge_error =
    EdgeDiscovery string
  | Quic string
  | Registration registration_failure
  | DuplicateConnection string
  | H2 string
  | Control rpc_error
  | Tls string
  | EdgeIo io_error

datatype origin_error =
    Handler string
  | OriginIo io_error

datatype error =
    ETunnel tunnel_error
  | EEdge edge_error
  | EOrigin origin_error

section \<open>Conversions and constructors\<close>

definition rpc_error_from_capnp :: "string \<Rightarrow> rpc_error" where
  "rpc_error_from_capnp message = Protocol message"

definition rpc_error_from_not_in_schema :: "string \<Rightarrow> rpc_error" where
  "rpc_error_from_not_in_schema debug = Protocol (''value not in schema: '' @ debug)"

definition rpc_error_from_utf8 :: "string \<Rightarrow> rpc_error" where
  "rpc_error_from_utf8 message = Protocol (''invalid utf-8 in message: '' @ message)"

definition error_from_string :: "string \<Rightarrow> error" where
  "error_from_string message = EOrigin (Handler message)"

definition error_from_io :: "io_error \<Rightarrow> error" where
  "error_from_io e = EEdge (EdgeIo e)"

definition error_from_rpc :: "rpc_error \<Rightarrow> error" where
  "error_from_rpc e = EEdge (Control e)"

definition edge_error_from_boring :: "string \<Rightarrow> edge_error" where
  "edge_error_from_boring message = Tls message"

definition edge_error_from_quiche :: "string \<Rightarrow> edge_error" where
  "edge_error_from_quiche message = Quic message"

definition edge_error_from_h2 :: "string \<Rightarrow> edge_error" where
  "edge_error_from_h2 message = H2 message"

definition error_from_boring :: "string \<Rightarrow> error" where
  "error_from_boring message = EEdge (edge_error_from_boring message)"

definition error_from_h2 :: "string \<Rightarrow> error" where
  "error_from_h2 message = EEdge (edge_error_from_h2 message)"

definition error_from_quiche :: "string \<Rightarrow> error" where
  "error_from_quiche message = EEdge (edge_error_from_quiche message)"

definition quick_tunnel_api :: "string \<Rightarrow> error" where
  "quick_tunnel_api message = ETunnel (QuickTunnelApi message)"

definition quick_tunnel_response_error :: "string \<Rightarrow> error" where
  "quick_tunnel_response_error message = ETunnel (QuickTunnelResponse message)"

definition quick_tunnel_request :: "io_error \<Rightarrow> error" where
  "quick_tunnel_request e = ETunnel (QuickTunnelRequest e)"

definition named_tunnel_credentials :: "string \<Rightarrow> error" where
  "named_tunnel_credentials message = ETunnel (NamedTunnelCredentials message)"

definition invalid_tunnel_identifier :: "string \<Rightarrow> error" where
  "invalid_tunnel_identifier message = ETunnel (InvalidTunnelIdentifier message)"

definition edge_discovery :: "string \<Rightarrow> error" where
  "edge_discovery message = EEdge (EdgeDiscovery message)"

definition quic_error :: "string \<Rightarrow> error" where
  "quic_error message = EEdge (Quic message)"

definition registration_error :: "registration_failure \<Rightarrow> error" where
  "registration_error failure = EEdge (Registration failure)"

definition duplicate_connection :: "string \<Rightarrow> error" where
  "duplicate_connection cause = EEdge (DuplicateConnection cause)"

definition h2_error :: "string \<Rightarrow> error" where
  "h2_error message = EEdge (H2 message)"

definition edge_io :: "io_error \<Rightarrow> error" where
  "edge_io e = EEdge (EdgeIo e)"

definition origin_handler :: "string \<Rightarrow> error" where
  "origin_handler message = EOrigin (Handler message)"

lemmas error_constructors =
  rpc_error_from_capnp_def rpc_error_from_not_in_schema_def rpc_error_from_utf8_def
  error_from_string_def error_from_io_def error_from_rpc_def edge_error_from_boring_def
  edge_error_from_quiche_def edge_error_from_h2_def error_from_boring_def error_from_h2_def
  error_from_quiche_def quick_tunnel_api_def quick_tunnel_response_error_def quick_tunnel_request_def
  named_tunnel_credentials_def invalid_tunnel_identifier_def edge_discovery_def quic_error_def
  registration_error_def duplicate_connection_def h2_error_def edge_io_def origin_handler_def

section \<open>Permanent failures\<close>

fun is_permanent :: "error \<Rightarrow> bool" where
  "is_permanent (EEdge (Registration (Permanent _))) = True"
| "is_permanent _ = False"

fun is_duplicate_connection :: "error \<Rightarrow> bool" where
  "is_duplicate_connection (EEdge (DuplicateConnection _)) = True"
| "is_duplicate_connection _ = False"

lemma is_permanent_iff: "is_permanent e \<longleftrightarrow> (\<exists>c. e = EEdge (Registration (Permanent c)))"
  by (cases e rule: is_permanent.cases) auto

lemma is_permanent_constructors [simp]:
  "\<not> is_permanent (edge_discovery m)"
  "\<not> is_permanent (quic_error m)"
  "\<not> is_permanent (h2_error m)"
  "\<not> is_permanent (error_from_rpc r)"
  "\<not> is_permanent (error_from_io i)"
  "\<not> is_permanent (duplicate_connection m)"
  "\<not> is_permanent (invalid_tunnel_identifier m)"
  by (simp_all add: error_constructors)

lemma permanent_not_duplicate: "is_permanent e \<Longrightarrow> \<not> is_duplicate_connection e"
  by (auto simp: is_permanent_iff)

section \<open>Display texts\<close>

definition decimal_int :: "int \<Rightarrow> string" where
  "decimal_int i = (if i < 0 then CHR ''-'' # decimal (nat (- i)) else decimal (nat i))"

definition display_io :: "io_error \<Rightarrow> string" where
  "display_io e = io_message e"

fun display_rpc_error :: "rpc_error \<Rightarrow> string" where
  "display_rpc_error Eof = ''rpc stream ended unexpectedly''"
| "display_rpc_error (Protocol m) = ''rpc protocol error: '' @ m"
| "display_rpc_error (Abort reason t) =
     ''rpc aborted by peer (type '' @ decimal (unat t) @ ''): '' @ reason"
| "display_rpc_error (RemoteCall m) = ''rpc call failed remotely: '' @ m"
| "display_rpc_error (RpcIo e) = ''rpc transport error: '' @ display_io e"

fun display_registration_failure :: "registration_failure \<Rightarrow> string" where
  "display_registration_failure (Retryable cause retry_after) =
     ''retryable registration failure ('' @ cause @ '', retry after ''
       @ decimal_int (sint retry_after) @ ''ns)''"
| "display_registration_failure (Permanent cause) =
     ''permanent registration failure: '' @ cause"

fun display_tunnel_error :: "tunnel_error \<Rightarrow> string" where
  "display_tunnel_error (QuickTunnelApi m) = ''quick tunnel API error: '' @ m"
| "display_tunnel_error (QuickTunnelResponse m) =
     ''quick tunnel API response was malformed: '' @ m"
| "display_tunnel_error (QuickTunnelRequest e) =
     ''quick tunnel API request failed: '' @ display_io e"
| "display_tunnel_error (NamedTunnelCredentials m) = ''named tunnel credentials error: '' @ m"
| "display_tunnel_error (InvalidTunnelIdentifier m) = ''invalid tunnel id: '' @ m"

fun display_edge_error :: "edge_error \<Rightarrow> string" where
  "display_edge_error (EdgeDiscovery m) = ''edge discovery failed: '' @ m"
| "display_edge_error (Quic m) = ''quic connection failed: '' @ m"
| "display_edge_error (Registration f) =
     ''registration failed: '' @ display_registration_failure f"
| "display_edge_error (DuplicateConnection m) = ''duplicate connection: '' @ m"
| "display_edge_error (H2 m) = ''http2 edge connection failed: '' @ m"
| "display_edge_error (Control e) = ''control stream error: '' @ display_rpc_error e"
| "display_edge_error (Tls m) = ''tls configuration failed: '' @ m"
| "display_edge_error (EdgeIo e) = ''io error: '' @ display_io e"

fun display_origin_error :: "origin_error \<Rightarrow> string" where
  "display_origin_error (Handler m) = ''origin handler error: '' @ m"
| "display_origin_error (OriginIo e) = ''io error: '' @ display_io e"

fun display_error :: "error \<Rightarrow> string" where
  "display_error (ETunnel e) = display_tunnel_error e"
| "display_error (EEdge e) = display_edge_error e"
| "display_error (EOrigin e) = display_origin_error e"

end
