(* ===== verification/Dns.thy ===== *)
theory Dns
  imports Errors
begin

text \<open>
  The DNS SRV query and response code of \<open>src/edge/discovery.rs\<close>: \<open>encode_name\<close>,
  \<open>skip_name\<close>, \<open>decode_name\<close> and \<open>parse_srv_response\<close>, over the bytes of a message. Every
  index expression goes through \<^const>\<open>index\<close> or \<^const>\<open>slice\<close>, so a panic would be a result.
  The loop of \<open>decode_name\<close> follows compression pointers without any bound, so it is a
  \<open>partial_function\<close>; \<open>decode_loop_eq_fuel\<close> shows that it returns exactly when it returns
  within \<open>length bytes + 1\<close> iterations. What it returns is stated over \<open>name_at\<close>, the names of
  RFC 1035 as they stand in a message.
\<close>

section \<open>The functions\<close>

definition dns_err :: "string \<Rightarrow> io_error fault + 'a" where
  "dns_err m = Inl (Err (io_err InvalidData m))"

fun encode_labels :: "byte list \<Rightarrow> string list \<Rightarrow> io_error + byte list" where
  "encode_labels out [] = Inr out"
| "encode_labels out (label # labels) =
     (if label = [] \<or> length label > 63 then Inl (io_err InvalidInput ''bad label'')
      else encode_labels (out @ [of_nat (length label)] @ as_bytes label) labels)"

definition encode_name :: "byte list \<Rightarrow> string \<Rightarrow> io_error + byte list" where
  "encode_name out name = encode_labels out (split_char (CHR ''.'') name)"

definition is_pointer :: "byte \<Rightarrow> bool" where
  "is_pointer b \<longleftrightarrow> b AND 0xc0 = 0xc0"

definition is_reserved :: "byte \<Rightarrow> bool" where
  "is_reserved b \<longleftrightarrow> b AND 0xc0 \<noteq> 0"

function skip_name :: "byte list \<Rightarrow> nat \<Rightarrow> io_error fault + nat" where
  "skip_name bytes position =
     (if position \<ge> length bytes then dns_err ''name overflow''
      else bind_result (index bytes position) (\<lambda>len.
        if len = 0 then Inr (position + 1)
        else if is_pointer len then Inr (position + 2)
        else if is_reserved len then dns_err ''bad label''
        else skip_name bytes (position + (1 + unat len))))"
  by pat_completeness auto
termination
  by (relation "measure (\<lambda>(bytes, position). length bytes - position)") auto

declare skip_name.simps [simp del]

text \<open>
  One iteration of the loop of \<open>decode_name\<close>: it ends with a result, or goes on with new
  values of \<open>p\<close>, \<open>jumped\<close>, \<open>position\<close> and \<open>out\<close>.
\<close>

datatype decode_next =
    Done "io_error fault + nat \<times> string"
  | Next nat bool nat string

fun decode_done :: "io_error fault + decode_next \<Rightarrow> decode_next" where
  "decode_done (Inl e) = Done (Inl e)"
| "decode_done (Inr s) = s"

definition push_label :: "string \<Rightarrow> byte list \<Rightarrow> string" where
  "push_label out label =
     (if out \<noteq> [] then out @ ''.'' else out) @ string_from_utf8_lossy label"

definition pointer_target :: "byte \<Rightarrow> byte \<Rightarrow> nat" where
  "pointer_target len low = push_bit 8 (unat (len AND 0x3f)) OR unat low"

definition decode_step :: "byte list \<Rightarrow> nat \<Rightarrow> bool \<Rightarrow> nat \<Rightarrow> string \<Rightarrow> decode_next" where
  "decode_step bytes p jumped position out =
     (if p \<ge> length bytes then Done (dns_err ''name overflow'')
      else decode_done (bind_result (index bytes p) (\<lambda>len.
        if len = 0 then Inr (Done (Inr (if \<not> jumped then p + 1 else position, out)))
        else if is_pointer len then
          if p + 1 \<ge> length bytes then dns_err ''bad pointer''
          else bind_result (index bytes (p + 1)) (\<lambda>low.
            Inr (Next (pointer_target len low) True
              (if \<not> jumped then p + 2 else position) out))
        else if is_reserved len then dns_err ''bad label''
        else if p + 1 + unat len > length bytes then dns_err ''label overflow''
        else bind_result (slice bytes (p + 1) (p + 1 + unat len)) (\<lambda>label.
          Inr (Next (p + (1 + unat len)) jumped position (push_label out label))))))"

partial_function (option) decode_loop ::
  "byte list \<Rightarrow> nat \<Rightarrow> bool \<Rightarrow> nat \<Rightarrow> string \<Rightarrow> (io_error fault + nat \<times> string) option" where
  "decode_loop bytes p jumped position out =
     (case decode_step bytes p jumped position out of
        Done r \<Rightarrow> Some r
      | Next p' jumped' position' out' \<Rightarrow> decode_loop bytes p' jumped' position' out')"

declare decode_loop.simps [code]

definition decode_name ::
  "byte list \<Rightarrow> nat \<Rightarrow> string \<Rightarrow> (io_error fault + nat \<times> string) option" where
  "decode_name bytes position out = decode_loop bytes position False position out"

text \<open>The body of the answer loop of \<open>parse_srv_response\<close> and the function itself.\<close>

definition read_u16 :: "byte list \<Rightarrow> nat \<Rightarrow> io_error fault + u16" where
  "read_u16 bytes i =
     bind_result (index bytes i) (\<lambda>hi. bind_result (index bytes (i + 1)) (\<lambda>lo.
       Inr (u16_from_be_bytes hi lo)))"

type_synonym srv_records = "(string \<times> u16) list"

definition parse_answer ::
  "byte list \<Rightarrow> nat \<Rightarrow> srv_records \<Rightarrow> (io_error fault + nat \<times> srv_records) option" where
  "parse_answer bytes position records =
     (if position \<ge> length bytes then Some (dns_err ''truncated dns answer'')
      else bind_run (Some (skip_name bytes position)) (\<lambda>position.
        if position + 10 > length bytes then Some (dns_err ''truncated rr'')
        else bind_run (Some (read_u16 bytes position)) (\<lambda>rtype.
        bind_run (Some (read_u16 bytes (position + 2))) (\<lambda>rclass.
        bind_run (Some (read_u16 bytes (position + 8))) (\<lambda>rdlen.
          let rdlen = unat rdlen; position = position + 10 in
          if position + rdlen > length bytes then Some (dns_err ''truncated rdata'')
          else bind_run (Some (slice bytes position (position + rdlen))) (\<lambda>rdata.
            let position = position + rdlen in
            if rclass \<noteq> 1 then Some (Inr (position, records))
            else if rtype = 33 \<and> rdlen \<ge> 6 then
              bind_run (Some (read_u16 rdata 4)) (\<lambda>port.
              bind_run (decode_name bytes (position - rdlen + 6) []) (\<lambda>(_, target).
                Some (Inr (position, records @ [(target, port)]))))
            else Some (Inr (position, records))))))))"

fun parse_answers ::
  "byte list \<Rightarrow> nat \<Rightarrow> nat \<Rightarrow> srv_records \<Rightarrow> (io_error fault + srv_records) option" where
  "parse_answers bytes 0 position records = Some (Inr records)"
| "parse_answers bytes (Suc n) position records =
     bind_run (parse_answer bytes position records) (\<lambda>(position, records).
       parse_answers bytes n position records)"

definition parse_srv_response ::
  "byte list \<Rightarrow> u16 \<Rightarrow> (io_error fault + srv_records) option" where
  "parse_srv_response bytes identifier =
     (if length bytes < 12 then Some (dns_err ''short dns header'')
      else bind_run (Some (read_u16 bytes 0)) (\<lambda>response_identifier.
        if response_identifier \<noteq> identifier then Some (dns_err ''dns id mismatch'')
        else bind_run (Some (read_u16 bytes 6)) (\<lambda>answer_count.
        bind_run (Some (skip_name bytes 12)) (\<lambda>position.
          parse_answers bytes (unat answer_count) (position + 4) []))))"


text \<open>The query that \<open>query_srv\<close> sends: its name, then the datagram with that name.\<close>

definition srv_qname :: "string \<Rightarrow> string \<Rightarrow> string \<Rightarrow> io_error + byte list" where
  "srv_qname service proto name =
     bind_result (encode_name [] service) (\<lambda>qname.
     bind_result (encode_name qname proto) (\<lambda>qname.
     bind_result (encode_name qname name) (\<lambda>qname. Inr (qname @ [0]))))"

definition srv_query :: "u16 \<Rightarrow> byte list \<Rightarrow> byte list" where
  "srv_query identifier qname =
     u16_to_be_bytes identifier @ [0x01, 0x00] @ [0, 1] @ [0, 0] @ [0, 0] @ [0, 0]
     @ qname @ [0, 33] @ [0, 1]"

section \<open>No input makes the parser panic\<close>

definition no_panic :: "('e fault + 'a) \<Rightarrow> bool" where
  "no_panic r \<longleftrightarrow> r \<noteq> Inl Panic"

lemma no_panic_simps [simp]:
  "no_panic (Inr x)" "no_panic (Inl (Err e))" "\<not> no_panic (Inl Panic)" "no_panic (dns_err m)"
  by (simp_all add: no_panic_def dns_err_def)

lemma no_panic_bind_result:
  "no_panic r \<Longrightarrow> (\<And>x. r = Inr x \<Longrightarrow> no_panic (f x)) \<Longrightarrow> no_panic (bind_result r f)"
  by (cases r) (auto simp: no_panic_def)

definition run_no_panic :: "('e fault + 'a) option \<Rightarrow> bool" where
  "run_no_panic r \<longleftrightarrow> r \<noteq> Some (Inl Panic)"

lemma run_no_panic_simps [simp]:
  "run_no_panic None" "run_no_panic (Some r) \<longleftrightarrow> no_panic r"
  by (simp_all add: run_no_panic_def no_panic_def)

lemma run_no_panic_bind:
  "run_no_panic r \<Longrightarrow> (\<And>x. r = Some (Inr x) \<Longrightarrow> run_no_panic (f x)) \<Longrightarrow>
   run_no_panic (bind_run r f)"
  by (cases "(r, f)" rule: bind_run.cases) (auto simp: run_no_panic_def)

lemma no_panic_read_u16: "i + 1 < length bytes \<Longrightarrow> no_panic (read_u16 bytes i)"
  by (simp add: read_u16_def)

lemma no_panic_skip_name: "no_panic (skip_name bytes position)"
proof (induction bytes position rule: skip_name.induct)
  case (1 bytes position)
  show ?case
  proof (cases "position < length bytes")
    case True
    with 1 show ?thesis by (subst skip_name.simps) simp
  next
    case False
    then show ?thesis by (subst skip_name.simps) simp
  qed
qed

fun next_no_panic :: "decode_next \<Rightarrow> bool" where
  "next_no_panic (Done r) = no_panic r"
| "next_no_panic (Next p jumped position out) = True"

lemma decode_step_no_panic: "next_no_panic (decode_step bytes p jumped position out)"
  by (simp add: decode_step_def dns_err_def)

lemma decode_loop_no_panic: "run_no_panic (decode_loop bytes p jumped position out)"
proof (cases "decode_loop bytes p jumped position out")
  case (Some r)
  have "no_panic r"
  proof (rule decode_loop.raw_induct [where P = "\<lambda>_ _ _ _ _ r. no_panic r", OF _ Some])
    fix f bytes p jumped position out r
    assume IH: "\<And>bytes p jumped position out r.
        f bytes p jumped position out = Some r \<Longrightarrow> no_panic r"
      and eq: "(case decode_step bytes p jumped position out of
          Done r \<Rightarrow> Some r
        | Next p' jumped' position' out' \<Rightarrow> f bytes p' jumped' position' out') = Some r"
    show "no_panic r"
      using eq decode_step_no_panic [of bytes p jumped position out]
      by (auto split: decode_next.splits intro: IH)
  qed
  with Some show ?thesis by simp
qed simp

lemma parse_answer_no_panic: "run_no_panic (parse_answer bytes position records)"
  by (auto simp: parse_answer_def Let_def decode_name_def split_beta
      intro!: run_no_panic_bind no_panic_read_u16 no_panic_skip_name decode_loop_no_panic)

lemma parse_answers_no_panic: "run_no_panic (parse_answers bytes n position records)"
  by (induction bytes n position records rule: parse_answers.induct)
     (auto intro!: run_no_panic_bind parse_answer_no_panic)


lemma parse_srv_response_no_panic: "run_no_panic (parse_srv_response bytes identifier)"
  by (auto simp: parse_srv_response_def
      intro!: run_no_panic_bind no_panic_read_u16 no_panic_skip_name parse_answers_no_panic)

section \<open>When the pointer loop returns\<close>

text \<open>
  Where the next iteration reads depends on the position alone, so a position that comes back
  comes back for ever. \<open>halts_in bytes n p\<close>: the loop started at \<open>p\<close> ends in its \<open>n\<close>-th
  iteration. The positions on the way are distinct indices of the message, hence the bound.
\<close>

definition next_position :: "byte list \<Rightarrow> nat \<Rightarrow> nat option" where
  "next_position bytes p =
     (case decode_step bytes p False 0 [] of Done _ \<Rightarrow> None | Next p' _ _ _ \<Rightarrow> Some p')"

lemma decode_step_next_position:
  "(case decode_step bytes p jumped position out of Done _ \<Rightarrow> None | Next p' _ _ _ \<Rightarrow> Some p')
     = next_position bytes p"
  by (simp add: next_position_def decode_step_def dns_err_def Let_def)

lemma next_position_in_range: "next_position bytes p = Some p' \<Longrightarrow> p < length bytes"
  by (auto simp: next_position_def decode_step_def dns_err_def split: if_splits)

fun halts_in :: "byte list \<Rightarrow> nat \<Rightarrow> nat \<Rightarrow> bool" where
  "halts_in bytes 0 p = False"
| "halts_in bytes (Suc n) p =
     (case next_position bytes p of None \<Rightarrow> n = 0 | Some p' \<Rightarrow> halts_in bytes n p')"

fun walk :: "byte list \<Rightarrow> nat \<Rightarrow> nat \<Rightarrow> nat list" where
  "walk bytes 0 p = []"
| "walk bytes (Suc n) p =
     p # (case next_position bytes p of None \<Rightarrow> [] | Some p' \<Rightarrow> walk bytes n p')"

lemma halts_in_unique: "halts_in bytes m p \<Longrightarrow> halts_in bytes n p \<Longrightarrow> m = n"
proof (induction bytes m p arbitrary: n rule: halts_in.induct)
  case (2 bytes m p)
  then show ?case by (cases n) (auto split: option.splits)
qed simp

lemma walk_halts: "halts_in bytes n p \<Longrightarrow> q \<in> set (walk bytes n p) \<Longrightarrow> \<exists>m \<le> n. halts_in bytes m q"
proof (induction bytes n p rule: halts_in.induct)
  case (2 bytes n p)
  show ?case
  proof (cases "q = p")
    case True
    with "2.prems" show ?thesis by blast
  next
    case False
    with 2 show ?thesis by (auto split: option.splits intro: le_SucI)
  qed
qed simp

lemma distinct_walk: "halts_in bytes n p \<Longrightarrow> distinct (walk bytes n p)"
proof (induction bytes n p rule: halts_in.induct)
  case (2 bytes n p)
  show ?case
  proof (cases "next_position bytes p")
    case None
    then show ?thesis by simp
  next
    case (Some p')
    with "2.prems" have rest: "halts_in bytes n p'" by simp
    have "p \<notin> set (walk bytes n p')"
    proof
      assume "p \<in> set (walk bytes n p')"
      from walk_halts [OF rest this] obtain m where "m \<le> n" "halts_in bytes m p" by blast
      with "2.prems" halts_in_unique [of bytes m p "Suc n"] show False by simp
    qed
    with 2 Some rest show ?thesis by simp
  qed
qed simp

lemma length_walk: "halts_in bytes n p \<Longrightarrow> length (walk bytes n p) = n"
  by (induction bytes n p rule: halts_in.induct) (auto split: option.splits)

lemma walk_in_range: "halts_in bytes n p \<Longrightarrow> set (butlast (walk bytes n p)) \<subseteq> {..<length bytes}"
proof (induction bytes n p rule: halts_in.induct)
  case (2 bytes n p)
  show ?case
  proof (cases "next_position bytes p")
    case (Some p')
    with 2 have "set (butlast (walk bytes n p')) \<subseteq> {..<length bytes}" by simp
    with Some next_position_in_range [OF Some] show ?thesis by auto
  qed simp
qed simp

lemma halts_in_bound:
  assumes "halts_in bytes n p"
  shows "n \<le> length bytes + 1"
proof -
  let ?ps = "butlast (walk bytes n p)"
  have "length ?ps = card (set ?ps)"
    using distinct_walk [OF assms] by (simp add: distinct_butlast distinct_card)
  also have "\<dots> \<le> card {..<length bytes}"
    using walk_in_range [OF assms] by (intro card_mono) auto
  finally show ?thesis using length_walk [OF assms] by simp
qed

text \<open>The same loop with a bound on the iterations.\<close>

fun decode_fuel ::
  "nat \<Rightarrow> byte list \<Rightarrow> nat \<Rightarrow> bool \<Rightarrow> nat \<Rightarrow> string \<Rightarrow> (io_error fault + nat \<times> string) option"
where
  "decode_fuel 0 bytes p jumped position out = None"
| "decode_fuel (Suc n) bytes p jumped position out =
     (case decode_step bytes p jumped position out of
        Done r \<Rightarrow> Some r
      | Next p' jumped' position' out' \<Rightarrow> decode_fuel n bytes p' jumped' position' out')"

lemma decode_fuel_halts:
  "decode_fuel n bytes p jumped position out \<noteq> None \<longleftrightarrow> (\<exists>m \<le> n. halts_in bytes m p)"
proof (induction n bytes p jumped position out rule: decode_fuel.induct)
  case (2 n bytes p jumped position out)
  have split: "(\<exists>m \<le> Suc n. halts_in bytes m p) \<longleftrightarrow> (\<exists>m \<le> n. halts_in bytes (Suc m) p)"
    by (metis Suc_le_mono halts_in.simps(1) not0_implies_Suc)
  show ?case
  proof (cases "decode_step bytes p jumped position out")
    case (Done r)
    with decode_step_next_position [of bytes p jumped position out]
    have "next_position bytes p = None" by simp
    with Done show ?thesis by (auto simp: split)
  next
    case (Next p' jumped' position' out')
    with decode_step_next_position [of bytes p jumped position out]
    have "next_position bytes p = Some p'" by simp
    with Next show ?thesis using 2 [OF Next] by (simp add: split)
  qed
qed simp

lemma decode_loop_of_fuel:
  "decode_fuel n bytes p jumped position out = Some r \<Longrightarrow>
   decode_loop bytes p jumped position out = Some r"
proof (induction n bytes p jumped position out rule: decode_fuel.induct)
  case (2 n bytes p jumped position out)
  then show ?case
    by (subst decode_loop.simps) (auto split: decode_next.splits)
qed simp

lemma decode_loop_halts:
  assumes "decode_loop bytes p jumped position out = Some r"
  shows "\<exists>n. halts_in bytes n p"
proof (rule decode_loop.raw_induct [where P = "\<lambda>bytes p _ _ _ _. \<exists>n. halts_in bytes n p",
      OF _ assms])
  fix f bytes p jumped position out r
  assume IH: "\<And>bytes p jumped position out r.
      f bytes p jumped position out = Some r \<Longrightarrow> \<exists>n. halts_in bytes n p"
    and eq: "(case decode_step bytes p jumped position out of
        Done r \<Rightarrow> Some r
      | Next p' jumped' position' out' \<Rightarrow> f bytes p' jumped' position' out') = Some r"
  show "\<exists>n. halts_in bytes n p"
  proof (cases "decode_step bytes p jumped position out")
    case (Done r')
    with decode_step_next_position [of bytes p jumped position out]
    have "halts_in bytes (Suc 0) p" by simp
    then show ?thesis ..
  next
    case (Next p' jumped' position' out')
    with eq have "f bytes p' jumped' position' out' = Some r" by simp
    from IH [OF this] obtain n where "halts_in bytes n p'" ..
    moreover from Next decode_step_next_position [of bytes p jumped position out]
    have "next_position bytes p = Some p'" by simp
    ultimately have "halts_in bytes (Suc n) p" by simp
    then show ?thesis ..
  qed
qed

lemma decode_loop_eq_fuel:
  "decode_loop bytes p jumped position out =
     decode_fuel (length bytes + 1) bytes p jumped position out"
proof (cases "decode_fuel (length bytes + 1) bytes p jumped position out")
  case None
  then have "\<not> (\<exists>n. halts_in bytes n p)"
    using decode_fuel_halts [of "length bytes + 1" bytes p jumped position out] halts_in_bound
    by blast
  then show ?thesis using None decode_loop_halts by (metis not_Some_eq)
next
  case (Some r)
  then show ?thesis by (simp only: decode_loop_of_fuel)
qed

lemma decode_name_eq_fuel:
  "decode_name bytes p out = decode_fuel (length bytes + 1) bytes p False p out"
  by (simp add: decode_name_def decode_loop_eq_fuel)


text \<open>A position that points at itself is never left.\<close>

lemma decode_fuel_self_pointer:
  "next_position bytes p = Some p \<Longrightarrow> decode_fuel n bytes p jumped position out = None"
proof (induction n arbitrary: jumped position out)
  case (Suc n)
  show ?case
  proof (cases "decode_step bytes p jumped position out")
    case (Done r)
    with Suc.prems decode_step_next_position [of bytes p jumped position out]
    show ?thesis by simp
  next
    case (Next p' jumped' position' out')
    with Suc.prems decode_step_next_position [of bytes p jumped position out]
    have "p' = p" by simp
    with Next Suc show ?thesis by simp
  qed
qed simp

lemma decode_name_self_pointer:
  assumes "p + 1 < length bytes" "is_pointer (bytes ! p)"
    and "pointer_target (bytes ! p) (bytes ! (p + 1)) = p"
  shows "decode_name bytes p out = None"
proof -
  have "bytes ! p \<noteq> 0" using assms(2) by (auto simp: is_pointer_def)
  with assms have "next_position bytes p = Some p"
    by (simp add: next_position_def decode_step_def)
  then show ?thesis by (simp only: decode_name_eq_fuel decode_fuel_self_pointer)
qed

section \<open>Names on the wire\<close>

text \<open>
  The wire format of RFC 1035: each label with its length in front. It is the specification
  the encoder, the skipper and the decoder are checked against.
\<close>

definition valid_label :: "string \<Rightarrow> bool" where
  "valid_label l \<longleftrightarrow> l \<noteq> [] \<and> length l \<le> 63"

definition wire_label :: "string \<Rightarrow> byte list" where
  "wire_label l = of_nat (length l) # as_bytes l"

definition wire_labels :: "string list \<Rightarrow> byte list" where
  "wire_labels ls = concat (map wire_label ls)"

lemma wire_labels_simps [simp]:
  "wire_labels [] = []"
  "wire_labels (l # ls) = wire_label l @ wire_labels ls"
  by (simp_all add: wire_labels_def)

lemma length_wire_label [simp, wire_simps]: "length (wire_label l) = length l + 1"
  by (simp add: wire_label_def)

lemma encode_labels_wire:
  "encode_labels out ls =
     (if \<forall>l \<in> set ls. valid_label l then Inr (out @ wire_labels ls)
      else Inl (io_err InvalidInput ''bad label''))"
  by (induction out ls rule: encode_labels.induct)
     (auto simp: valid_label_def wire_label_def)

lemma small_byte_bits: "n < 64 \<Longrightarrow> (of_nat n :: byte) AND 0xc0 = 0"
proof -
  have "\<forall>n \<in> set [0..<64]. (of_nat n :: byte) AND 0xc0 = 0" by code_simp
  then show "n < 64 \<Longrightarrow> (of_nat n :: byte) AND 0xc0 = 0" by simp
qed

lemma label_byte:
  assumes "valid_label l"
  shows "unat (of_nat (length l) :: byte) = length l" "(of_nat (length l) :: byte) \<noteq> 0"
    "\<not> is_pointer (of_nat (length l))" "\<not> is_reserved (of_nat (length l))"
proof -
  from assms have len: "0 < length l" "length l < 64" by (auto simp: valid_label_def)
  then show u: "unat (of_nat (length l) :: byte) = length l" by (simp add: unat_of_nat)
  show "(of_nat (length l) :: byte) \<noteq> 0"
    using len u by (metis not_less_zero unat_0)
  show "\<not> is_pointer (of_nat (length l))" "\<not> is_reserved (of_nat (length l))"
    using small_byte_bits [OF len(2)] by (simp_all add: is_pointer_def is_reserved_def)
qed

lemma skip_name_label:
  assumes "valid_label l"
  shows "skip_name (pre @ wire_label l @ post) (length pre) =
           skip_name (pre @ wire_label l @ post) (length (pre @ wire_label l))"
  by (subst skip_name.simps)
     (simp add: wire_label_def label_byte [OF assms] nth_append)

lemma skip_name_wire:
  "\<forall>l \<in> set ls. valid_label l \<Longrightarrow>
   skip_name (pre @ wire_labels ls @ 0 # post) (length pre) =
     Inr (length pre + length (wire_labels ls) + 1)"
proof (induction ls arbitrary: pre)
  case Nil
  show ?case by (subst skip_name.simps) (simp add: nth_append)
next
  case (Cons l ls)
  then have "skip_name ((pre @ wire_label l) @ wire_labels ls @ 0 # post) (length (pre @ wire_label l))
      = Inr (length (pre @ wire_label l) + length (wire_labels ls) + 1)"
    by (intro Cons.IH) auto
  with Cons.prems skip_name_label [of l pre "wire_labels ls @ 0 # post"] show ?case by simp
qed

lemma skip_name_pointer:
  "is_pointer b \<Longrightarrow> skip_name (pre @ b # post) (length pre) = Inr (length pre + 2)"
  by (subst skip_name.simps) (auto simp: nth_append is_pointer_def)

text \<open>Decoding appends the labels to \<open>out\<close>, with a dot before each but the first.\<close>

fun dotted :: "string \<Rightarrow> string list \<Rightarrow> string" where
  "dotted out [] = out"
| "dotted out (l # ls) = dotted ((if out \<noteq> [] then out @ ''.'' else out) @ l) ls"

lemma dotted_out: "out \<noteq> [] \<Longrightarrow> dotted out ls = out @ concat (map (\<lambda>l. ''.'' @ l) ls)"
  by (induction ls arbitrary: out) auto

lemma join_concat: "join c (l # ls) = l @ concat (map (\<lambda>w. c # w) ls)"
  by (induction ls arbitrary: l) (auto simp: join_Cons)

lemma dotted_join: "\<forall>l \<in> set ls. l \<noteq> [] \<Longrightarrow> dotted [] ls = join (CHR ''.'') ls"
  by (cases ls) (auto simp: dotted_out join_concat simp del: join.simps(3))

lemma decode_step_label:
  assumes "valid_label l" "ascii l"
  shows "decode_step (pre @ wire_label l @ post) (length pre) False position out =
           Next (length (pre @ wire_label l)) False position
             ((if out \<noteq> [] then out @ ''.'' else out) @ l)"
  using label_byte [OF assms(1)] assms(2)
  by (simp add: decode_step_def wire_label_def nth_append push_label_def)

lemma decode_loop_wire:
  "\<forall>l \<in> set ls. valid_label l \<and> ascii l \<Longrightarrow>
   decode_loop (pre @ wire_labels ls @ 0 # post) (length pre) False position out =
     Some (Inr (length pre + length (wire_labels ls) + 1, dotted out ls))"
proof (induction ls arbitrary: pre out)
  case Nil
  show ?case by (subst decode_loop.simps) (simp add: decode_step_def nth_append)
next
  case (Cons l ls)
  let ?bytes = "pre @ wire_label l @ wire_labels ls @ 0 # post"
  let ?out = "(if out \<noteq> [] then out @ ''.'' else out) @ l"
  have "decode_loop ?bytes (length pre) False position out =
      decode_loop ?bytes (length (pre @ wire_label l)) False position ?out"
    using Cons.prems by (subst decode_loop.simps) (simp add: decode_step_label)
  also have "\<dots> = Some (Inr (length (pre @ wire_label l) + length (wire_labels ls) + 1,
      dotted ?out ls))"
    using Cons.IH [of "pre @ wire_label l" ?out] Cons.prems by simp
  finally show ?case by simp
qed

lemma decode_name_wire:
  assumes "\<forall>l \<in> set ls. valid_label l \<and> ascii l"
  shows "decode_name (pre @ wire_labels ls @ 0 # post) (length pre) [] =
           Some (Inr (length pre + length (wire_labels ls) + 1, join (CHR ''.'') ls))"
proof -
  have "\<forall>l \<in> set ls. l \<noteq> []" using assms by (auto simp: valid_label_def)
  then show ?thesis by (simp add: decode_name_def decode_loop_wire [OF assms] dotted_join)
qed

section \<open>Names as RFC 1035 describes them\<close>

text \<open>
  What stands at a position of a message, by the value of its first byte: the root (0), a label
  of up to 63 bytes, a compression pointer (from 192), or nothing that belongs in a name, with the
  complaint about it. \<open>name_at bytes p ls e\<close>: the name at \<open>p\<close> has the labels \<open>ls\<close> and is over
  before \<open>e\<close>, a pointer standing for the rest of the name. \<open>name_continues\<close> leads from one part
  of a name to the next. Nothing here refers to the decoder.
\<close>

definition root_at :: "byte list \<Rightarrow> nat \<Rightarrow> bool" where
  "root_at bytes p \<longleftrightarrow> p < length bytes \<and> bytes ! p = 0"

definition label_at :: "byte list \<Rightarrow> nat \<Rightarrow> byte list \<Rightarrow> bool" where
  "label_at bytes p l \<longleftrightarrow>
     p < length bytes \<and> 0 < unat (bytes ! p) \<and> unat (bytes ! p) < 64 \<and>
     p + 1 + unat (bytes ! p) \<le> length bytes \<and> l = take (unat (bytes ! p)) (drop (p + 1) bytes)"

definition pointer_at :: "byte list \<Rightarrow> nat \<Rightarrow> nat \<Rightarrow> bool" where
  "pointer_at bytes p t \<longleftrightarrow>
     p + 1 < length bytes \<and> 192 \<le> unat (bytes ! p) \<and>
     t = (unat (bytes ! p) - 192) * 256 + unat (bytes ! (p + 1))"

definition fault_at :: "byte list \<Rightarrow> nat \<Rightarrow> string \<Rightarrow> bool" where
  "fault_at bytes p m \<longleftrightarrow>
     (if length bytes \<le> p then m = ''name overflow''
      else (64 \<le> unat (bytes ! p) \<and> unat (bytes ! p) < 192 \<and> m = ''bad label'') \<or>
           (192 \<le> unat (bytes ! p) \<and> length bytes = p + 1 \<and> m = ''bad pointer'') \<or>
           (0 < unat (bytes ! p) \<and> unat (bytes ! p) < 64 \<and> length bytes < p + 1 + unat (bytes ! p) \<and>
              m = ''label overflow''))"

inductive name_at :: "byte list \<Rightarrow> nat \<Rightarrow> byte list list \<Rightarrow> nat \<Rightarrow> bool"
  for bytes :: "byte list" where
  name_root: "root_at bytes p \<Longrightarrow> name_at bytes p [] (p + 1)"
| name_label: "label_at bytes p l \<Longrightarrow> name_at bytes (p + 1 + length l) ls e \<Longrightarrow> name_at bytes p (l # ls) e"
| name_pointer: "pointer_at bytes p t \<Longrightarrow> name_at bytes t ls e \<Longrightarrow> name_at bytes p ls (p + 2)"

definition name_continues :: "byte list \<Rightarrow> nat \<Rightarrow> nat \<Rightarrow> bool" where
  "name_continues bytes p q \<longleftrightarrow>
     (\<exists>l. label_at bytes p l \<and> q = p + 1 + length l) \<or> pointer_at bytes p q"

lemma byte_classes:
  "is_pointer b \<longleftrightarrow> 192 \<le> unat b" "is_reserved b \<longleftrightarrow> 64 \<le> unat b"
  "192 \<le> unat b \<Longrightarrow> unat (b AND 0x3f) = unat b - 192"
proof -
  have "\<forall>n \<in> set [0..<256]. (is_pointer (of_nat n) \<longleftrightarrow> 192 \<le> n) \<and> (is_reserved (of_nat n) \<longleftrightarrow> 64 \<le> n) \<and>
      (192 \<le> n \<longrightarrow> unat ((of_nat n :: byte) AND 0x3f) = n - 192)"
    by code_simp
  moreover have "unat b \<in> set [0..<256]" using unsigned_less [of b, where 'a = nat] by simp
  ultimately have "(is_pointer (of_nat (unat b)) \<longleftrightarrow> 192 \<le> unat b) \<and> (is_reserved (of_nat (unat b)) \<longleftrightarrow> 64 \<le> unat b) \<and>
      (192 \<le> unat b \<longrightarrow> unat ((of_nat (unat b) :: byte) AND 0x3f) = unat b - 192)"
    by (rule bspec)
  moreover have "of_nat (unat b) = b" by simp
  ultimately show "is_pointer b \<longleftrightarrow> 192 \<le> unat b" "is_reserved b \<longleftrightarrow> 64 \<le> unat b"
    "192 \<le> unat b \<Longrightarrow> unat (b AND 0x3f) = unat b - 192"
    by (simp_all only: simp_thms)
qed

lemma pointer_target_value:
  assumes "192 \<le> unat b"
  shows "pointer_target b low = (unat b - 192) * 256 + unat low"
proof -
  have "unat low < 2 ^ 8" using unsigned_less [of low, where 'a = nat] by simp
  then have low: "take_bit 8 (unat low) = unat low" by (simp only: take_bit_nat_eq_self_iff)
  have "push_bit 8 (unat b - 192) AND take_bit 8 (unat low) = 0"
    by (rule bit_eqI) (simp add: bit_simps)
  then have "push_bit 8 (unat b - 192) OR unat low = push_bit 8 (unat b - 192) + unat low"
    by (simp only: low disjunctive_add_eq_or)
  then show ?thesis
    by (simp add: pointer_target_def byte_classes(3) [OF assms] push_bit_eq_mult)
qed

lemma name_part_cases:
  obtains "root_at bytes p" | l where "label_at bytes p l"
    | t where "pointer_at bytes p t" | m where "fault_at bytes p m"
proof -
  let ?n = "unat (bytes ! p)"
  have zero: "bytes ! p = 0" if "?n = 0" using that by (simp only: unat_eq_zero)
  consider "length bytes \<le> p" | "p < length bytes" "?n = 0"
    | "p < length bytes" "0 < ?n" "?n < 64" "length bytes < p + 1 + ?n"
    | "p < length bytes" "0 < ?n" "?n < 64" "p + 1 + ?n \<le> length bytes"
    | "p < length bytes" "64 \<le> ?n" "?n < 192" | "192 \<le> ?n" "length bytes = p + 1"
    | "192 \<le> ?n" "p + 1 < length bytes"
    by linarith
  then show ?thesis
  proof cases
    case 1
    then show ?thesis by (intro that(4) [of "''name overflow''"]) (simp add: fault_at_def)
  next
    case 2
    then show ?thesis using zero by (intro that(1)) (simp add: root_at_def)
  next
    case 3
    then show ?thesis by (intro that(4) [of "''label overflow''"]) (simp add: fault_at_def)
  next
    case 4
    then show ?thesis by (intro that(2)) (simp add: label_at_def)
  next
    case 5
    then show ?thesis by (intro that(4) [of "''bad label''"]) (simp add: fault_at_def)
  next
    case 6
    then show ?thesis by (intro that(4) [of "''bad pointer''"]) (simp add: fault_at_def)
  next
    case 7
    then show ?thesis by (intro that(3)) (simp add: pointer_at_def)
  qed
qed

lemma unat_pos_nonzero: "0 < unat b \<Longrightarrow> (b :: byte) \<noteq> 0"
  by (metis less_numeral_extra(3) unat_0)

lemma decode_step_parts:
  "root_at bytes p \<Longrightarrow> decode_step bytes p jumped position out =
     Done (Inr (if jumped then position else p + 1, out))"
  "label_at bytes p l \<Longrightarrow> decode_step bytes p jumped position out =
     Next (p + 1 + length l) jumped position (push_label out l)"
  "pointer_at bytes p t \<Longrightarrow> decode_step bytes p jumped position out =
     Next t True (if jumped then position else p + 2) out"
  "fault_at bytes p m \<Longrightarrow> decode_step bytes p jumped position out = Done (dns_err m)"
proof -
  show "root_at bytes p \<Longrightarrow> decode_step bytes p jumped position out =
     Done (Inr (if jumped then position else p + 1, out))" by (simp add: decode_step_def root_at_def)
  show "label_at bytes p l \<Longrightarrow> decode_step bytes p jumped position out =
     Next (p + 1 + length l) jumped position (push_label out l)"
    by (auto simp: decode_step_def label_at_def byte_classes unat_pos_nonzero slice_def)
  show "pointer_at bytes p t \<Longrightarrow> decode_step bytes p jumped position out =
     Next t True (if jumped then position else p + 2) out"
    by (auto simp: decode_step_def pointer_at_def byte_classes unat_pos_nonzero pointer_target_value)
  show "fault_at bytes p m \<Longrightarrow> decode_step bytes p jumped position out = Done (dns_err m)"
    by (auto simp: decode_step_def fault_at_def byte_classes unat_pos_nonzero dns_err_def split: if_splits)
qed


lemma lossy_nonempty: "bs \<noteq> [] \<Longrightarrow> string_from_utf8_lossy bs \<noteq> []"
proof (cases bs)
  case (Cons b rest)
  obtain ok n where step: "utf8_step (b # rest) = (ok, n)" by fastforce
  then have "0 < n" by (rule utf8_step_pos)
  then show ?thesis
    by (cases ok) (simp_all add: Cons step string_from_utf8_lossy_def string_of_bytes_def utf8_replacement_def)
qed simp

lemma name_decoded:
  assumes "name_at bytes p ls e"
  shows "decode_loop bytes p jumped position out =
    Some (Inr (if jumped then position else e, dotted out (map string_from_utf8_lossy ls)))"
  using assms
proof (induction arbitrary: jumped position out)
  case (name_root p)
  then show ?case by (subst decode_loop.simps) (simp add: decode_step_parts)
next
  case (name_label p l ls e)
  then show ?case by (subst decode_loop.simps) (simp add: decode_step_parts push_label_def)
next
  case (name_pointer p t ls e)
  then show ?case by (subst decode_loop.simps) (simp add: decode_step_parts)
qed

lemma fault_decoded:
  assumes "fault_at bytes q m" and "(name_continues bytes)\<^sup>*\<^sup>* p q"
  shows "decode_loop bytes p jumped position out = Some (dns_err m)"
  using assms(2)
proof (induction arbitrary: jumped position out rule: converse_rtranclp_induct)
  case base
  then show ?case using assms(1) by (subst decode_loop.simps) (simp add: decode_step_parts)
next
  case (step p p')
  then show ?case
    by (subst decode_loop.simps) (auto simp: name_continues_def decode_step_parts)
qed

lemma decoded_name:
  "decode_fuel n bytes p jumped position out = Some r \<Longrightarrow>
     (\<exists>ls e. name_at bytes p ls e) \<or> (\<exists>q m. (name_continues bytes)\<^sup>*\<^sup>* p q \<and> fault_at bytes q m)"
proof (induction n arbitrary: p jumped position out)
  case (Suc n)
  consider (root) "root_at bytes p" | (label) l where "label_at bytes p l"
    | (pointer) t where "pointer_at bytes p t" | (fault) m where "fault_at bytes p m"
    by (rule name_part_cases)
  then show ?case
  proof cases
    case root
    then show ?thesis by (blast intro: name_root)
  next
    case (label l)
    then have "name_continues bytes p (p + 1 + length l)" by (auto simp: name_continues_def)
    moreover from label Suc.prems have "decode_fuel n bytes (p + 1 + length l) jumped position (push_label out l) = Some r"
      by (simp add: decode_step_parts)
    ultimately show ?thesis
      using Suc.IH label by (meson converse_rtranclp_into_rtranclp name_label)
  next
    case (pointer t)
    then have "name_continues bytes p t" by (auto simp: name_continues_def)
    moreover from pointer Suc.prems have "decode_fuel n bytes t True (if jumped then position else p + 2) out = Some r"
      by (simp add: decode_step_parts)
    ultimately show ?thesis
      using Suc.IH pointer by (meson converse_rtranclp_into_rtranclp name_pointer)
  next
    case (fault m)
    then show ?thesis by blast
  qed
qed simp

lemma next_position_continues: "next_position bytes p = Some q \<longleftrightarrow> name_continues bytes p q"
proof -
  consider "root_at bytes p" | l where "label_at bytes p l"
    | t where "pointer_at bytes p t" | m where "fault_at bytes p m"
    by (rule name_part_cases)
  then show ?thesis
    by cases
       (auto simp: next_position_def decode_step_parts name_continues_def dns_err_def
         root_at_def label_at_def pointer_at_def fault_at_def split: if_splits)
qed

lemma halts_in_continues:
  "name_continues bytes p q \<Longrightarrow> halts_in bytes n p \<longleftrightarrow> (\<exists>m. n = Suc m \<and> halts_in bytes m q)"
  by (cases n) (auto simp: next_position_continues [symmetric])

lemma halts_in_reach:
  "(name_continues bytes)\<^sup>*\<^sup>* p q \<Longrightarrow> halts_in bytes n p \<Longrightarrow> \<exists>m. halts_in bytes m q"
  by (induction arbitrary: n rule: converse_rtranclp_induct) (auto simp: halts_in_continues)

lemma halts_in_loop:
  "(name_continues bytes)\<^sup>+\<^sup>+ p q \<Longrightarrow> halts_in bytes n p \<Longrightarrow> \<exists>m < n. halts_in bytes m q"
  by (induction arbitrary: n rule: converse_tranclp_induct)
     (auto simp: halts_in_continues intro: less_SucI)

lemma cycle_never_halts:
  assumes "(name_continues bytes)\<^sup>*\<^sup>* p q" and "(name_continues bytes)\<^sup>+\<^sup>+ q q"
  shows "\<not> halts_in bytes n p"
proof
  assume "halts_in bytes n p"
  then obtain m where m: "halts_in bytes m q" using halts_in_reach [OF assms(1)] by blast
  with halts_in_loop [OF assms(2)] obtain k where "k < m" "halts_in bytes k q" by blast
  with m show False using halts_in_unique by fastforce
qed


lemma halts_in_backwards:
  "(name_continues bytes)\<^sup>*\<^sup>* p q \<Longrightarrow> halts_in bytes n q \<Longrightarrow> \<exists>m. halts_in bytes m p"
proof (induction rule: converse_rtranclp_induct)
  case (step p p')
  then obtain m where "halts_in bytes m p'" by blast
  with step(1) have "halts_in bytes (Suc m) p" by (simp add: next_position_continues [symmetric])
  then show ?case by blast
qed blast

lemma never_halts_cycle:
  assumes "\<And>n. \<not> halts_in bytes n p"
  shows "\<exists>q. (name_continues bytes)\<^sup>*\<^sup>* p q \<and> (name_continues bytes)\<^sup>+\<^sup>+ q q"
proof -
  let ?R = "name_continues bytes"
  define at where "at k = ((\<lambda>q. the (next_position bytes q)) ^^ k) p" for k
  have on: "?R\<^sup>*\<^sup>* p (at k) \<and> ?R (at k) (at (Suc k))" for k
  proof (induction k)
    have moves: "?R q (the (next_position bytes q))" if "?R\<^sup>*\<^sup>* p q" for q
    proof (cases "next_position bytes q")
      case None
      then have "halts_in bytes (Suc 0) q" by simp
      with assms halts_in_backwards [OF that] show ?thesis by blast
    qed (simp add: next_position_continues [symmetric])
    case 0
    show ?case using moves [of p] by (simp add: at_def)
    case (Suc k)
    then have "?R\<^sup>*\<^sup>* p (at (Suc k))" by (rule conjE) (rule rtranclp.rtrancl_into_rtrancl)
    with moves show ?case by (simp add: at_def)
  qed
  then have range: "at k < length bytes" for k
    by (meson next_position_continues next_position_in_range)
  have "\<not> inj_on at {..length bytes}"
  proof
    assume "inj_on at {..length bytes}"
    then have "card {..length bytes} \<le> card {..<length bytes}"
      by (rule card_inj_on_le) (auto simp: range)
    then show False by simp
  qed
  then obtain i j where ij: "at i = at j" "i < j"
    by (auto simp: inj_on_def) (metis nat_neq_iff)
  have "?R\<^sup>+\<^sup>+ (at i) (at (Suc (i + d)))" for d
    using on by (induction d) (auto intro: tranclp.trancl_into_trancl)
  from this [of "j - Suc i"] ij have "?R\<^sup>+\<^sup>+ (at i) (at i)" by simp
  with on show ?thesis by blast
qed

lemma decode_name_hangs:
  "decode_name bytes p out = None \<longleftrightarrow>
     (\<exists>q. (name_continues bytes)\<^sup>*\<^sup>* p q \<and> (name_continues bytes)\<^sup>+\<^sup>+ q q)"
proof -
  have "decode_name bytes p out = None \<longleftrightarrow> (\<forall>n. \<not> halts_in bytes n p)"
    using decode_fuel_halts [of "length bytes + 1" bytes p False p out] halts_in_bound
    by (simp only: decode_name_eq_fuel) blast
  then show ?thesis using cycle_never_halts never_halts_cycle by blast
qed

lemma labels_nonempty: "name_at bytes p ls e \<Longrightarrow> \<forall>l \<in> set ls. l \<noteq> []"
  by (induction rule: name_at.induct) (auto simp: label_at_def)

lemma decode_name_labels:
  "name_at bytes p ls e \<Longrightarrow> decode_name bytes p [] =
     Some (Inr (e, join (CHR ''.'') (map string_from_utf8_lossy ls)))"
  using labels_nonempty [of bytes p ls e] lossy_nonempty
  by (simp add: decode_name_def name_decoded dotted_join)

lemma decode_name_outcomes:
  assumes "decode_name bytes p out = Some r"
  shows "(\<exists>ls e. name_at bytes p ls e) \<or> (\<exists>q m. (name_continues bytes)\<^sup>*\<^sup>* p q \<and> fault_at bytes q m)"
  using assms unfolding decode_name_eq_fuel by (rule decoded_name)

lemma decode_name_fault:
  "(name_continues bytes)\<^sup>*\<^sup>* p q \<Longrightarrow> fault_at bytes q m \<Longrightarrow> decode_name bytes p out = Some (dns_err m)"
  by (simp add: decode_name_def fault_decoded)

section \<open>Responses on the wire\<close>

text \<open>
  A response as a name server writes it: the header, the question, and one SRV record in class
  IN per answer, whose owner is the compression pointer to the question name at offset 12.
\<close>

record srv_rr =
  rr_ttl :: u32
  rr_priority :: u16
  rr_weight :: u16
  rr_port :: u16
  rr_target :: "string list"

definition srv_rdata :: "srv_rr \<Rightarrow> byte list" where
  "srv_rdata rr =
     u16_to_be_bytes (rr_priority rr) @ u16_to_be_bytes (rr_weight rr)
     @ u16_to_be_bytes (rr_port rr) @ wire_labels (rr_target rr) @ [0]"

definition srv_answer :: "srv_rr \<Rightarrow> byte list" where
  "srv_answer rr =
     [0xc0, 0x0c] @ [0, 33] @ [0, 1] @ rev (u32_to_le_bytes (rr_ttl rr))
     @ u16_to_be_bytes (of_nat (length (srv_rdata rr))) @ srv_rdata rr"

definition srv_response :: "u16 \<Rightarrow> string list \<Rightarrow> srv_rr list \<Rightarrow> byte list" where
  "srv_response identifier question rrs =
     u16_to_be_bytes identifier @ [0x81, 0x80] @ [0, 1] @ u16_to_be_bytes (of_nat (length rrs))
     @ [0, 0] @ [0, 0] @ wire_labels question @ [0] @ [0, 33] @ [0, 1]
     @ concat (map srv_answer rrs)"

definition srv_rr_wf :: "srv_rr \<Rightarrow> bool" where
  "srv_rr_wf rr \<longleftrightarrow>
     (\<forall>l \<in> set (rr_target rr). valid_label l \<and> ascii l) \<and> length (srv_rdata rr) < 2 ^ 16"

lemma read_u16_drop: "drop i bytes = hi # lo # rest \<Longrightarrow> read_u16 bytes i = Inr (u16_from_be_bytes hi lo)"
proof -
  assume d: "drop i bytes = hi # lo # rest"
  then have "i + 1 < length bytes"
    by (metis One_nat_def drop_all leD length_Cons length_drop less_diff_conv linorder_le_less_linear
        list.distinct(1) plus_1_eq_Suc add.commute zero_less_Suc Suc_less_eq)
  moreover have "bytes ! i = hi" "bytes ! (i + 1) = lo"
    using d calculation by (metis add_leD1 hd_drop_conv_nth list.sel(1) less_imp_le nth_via_drop)
      (metis add.commute d drop_drop drop_0 drop_Suc_Cons nth_via_drop plus_1_eq_Suc)
  ultimately show ?thesis by (simp add: read_u16_def)
qed

lemma read_u16_be:
  "drop i bytes = u16_to_be_bytes w @ rest \<Longrightarrow> read_u16 bytes i = Inr w"
  using read_u16_drop [of i bytes "ucast (drop_bit 8 w)" "ucast w" rest]
  by (simp add: u16_to_be_bytes_def u16_from_be_bytes_split)

lemma length_srv_rdata [wire_simps]: "length (srv_rdata rr) = 7 + length (wire_labels (rr_target rr))"
  by (simp add: srv_rdata_def)

lemma length_srv_answer [wire_simps]: "length (srv_answer rr) = 12 + length (srv_rdata rr)"
  by (simp add: srv_answer_def u32_to_le_bytes_def)

lemma is_pointer_c0: "is_pointer 0xc0"
  by (simp add: is_pointer_def)

lemma parse_answer_srv:
  assumes "srv_rr_wf rr"
  shows "parse_answer (pre @ srv_answer rr @ post) (length pre) records =
           Some (Inr (length pre + length (srv_answer rr),
             records @ [(join (CHR ''.'') (rr_target rr), rr_port rr)]))"
proof -
  let ?bytes = "pre @ srv_answer rr @ post"
  let ?rdata = "srv_rdata rr"
  let ?pos = "length pre + 2"
  from assms have labels: "\<forall>l \<in> set (rr_target rr). valid_label l \<and> ascii l"
    and len: "unat (of_nat (length ?rdata) :: u16) = length ?rdata"
    by (simp_all add: srv_rr_wf_def unat_of_nat)
  have skip: "skip_name ?bytes (length pre) = Inr ?pos"
    using skip_name_pointer [OF is_pointer_c0] by (simp add: srv_answer_def)
  have rtype: "read_u16 ?bytes ?pos = Inr 33" and rclass: "read_u16 ?bytes (?pos + 2) = Inr 1"
    by (simp_all add: srv_answer_def read_u16_drop u16_from_be_bytes_def)
  have rdlen: "read_u16 ?bytes (?pos + 8) = Inr (of_nat (length ?rdata))"
    by (rule read_u16_be [where rest = "?rdata @ post"])
      (simp add: srv_answer_def u32_to_le_bytes_def)
  have rdata: "take (length ?rdata) (drop (?pos + 10) ?bytes) = ?rdata"
    by (simp add: srv_answer_def u32_to_le_bytes_def u16_to_be_bytes_def)
  have port: "read_u16 ?rdata 4 = Inr (rr_port rr)"
    by (rule read_u16_be [where rest = "wire_labels (rr_target rr) @ [0]"])
      (simp add: srv_rdata_def u16_to_be_bytes_def)
  have name: "decode_name ?bytes (?pos + 10 + 6) [] =
      Some (Inr (?pos + 10 + 6 + length (wire_labels (rr_target rr)) + 1,
        join (CHR ''.'') (rr_target rr)))"
    using decode_name_wire [OF labels, of "pre @ take 18 (srv_answer rr)" post]
    by (simp add: srv_answer_def srv_rdata_def u32_to_le_bytes_def u16_to_be_bytes_def
        eval_nat_numeral)
  show ?thesis
    using skip rtype rclass rdlen rdata port name len
    by (simp add: parse_answer_def Let_def wire_simps)
qed

lemma parse_answers_srv:
  "\<forall>rr \<in> set rrs. srv_rr_wf rr \<Longrightarrow>
   parse_answers (pre @ concat (map srv_answer rrs)) (length rrs) (length pre) records =
     Some (Inr (records @ map (\<lambda>rr. (join (CHR ''.'') (rr_target rr), rr_port rr)) rrs))"
proof (induction rrs arbitrary: pre records)
  case (Cons rr rrs)
  then show ?case
    using parse_answer_srv [of rr pre "concat (map srv_answer rrs)" records]
      Cons.IH [of "pre @ srv_answer rr"]
    by simp
qed simp

lemma parse_srv_response_srv:
  assumes question: "\<forall>l \<in> set question. valid_label l"
    and rrs: "\<forall>rr \<in> set rrs. srv_rr_wf rr" "length rrs < 2 ^ 16"
  shows "parse_srv_response (srv_response identifier question rrs) identifier =
           Some (Inr (map (\<lambda>rr. (join (CHR ''.'') (rr_target rr), rr_port rr)) rrs))"
proof -
  let ?head = "u16_to_be_bytes identifier @ [0x81, 0x80, 0, 1]
      @ u16_to_be_bytes (of_nat (length rrs)) @ [0, 0, 0, 0]"
  let ?answers = "concat (map srv_answer rrs)"
  let ?bytes = "srv_response identifier question rrs"
  have bytes: "?bytes = ?head @ wire_labels question @ 0 # [0, 33, 0, 1] @ ?answers"
    by (simp add: srv_response_def)
  have head: "length ?head = 12" by simp
  have long: "\<not> length ?bytes < 12" by (simp add: bytes)
  have ident: "read_u16 ?bytes 0 = Inr identifier"
    by (rule read_u16_be [where rest = "drop 2 ?bytes"]) (simp add: bytes u16_to_be_bytes_def)
  have count: "read_u16 ?bytes 6 = Inr (of_nat (length rrs))"
    by (rule read_u16_be [where rest = "drop 8 ?bytes"]) (simp add: bytes u16_to_be_bytes_def)
  have skip: "skip_name ?bytes 12 = Inr (12 + length (wire_labels question) + 1)"
    using skip_name_wire [OF question, of ?head "[0, 33, 0, 1] @ ?answers"] head
    by (simp only: bytes head)
  have answers: "parse_answers ?bytes (length rrs) (12 + length (wire_labels question) + 1 + 4) [] =
      Some (Inr (map (\<lambda>rr. (join (CHR ''.'') (rr_target rr), rr_port rr)) rrs))"
    using parse_answers_srv [OF rrs(1), of "?head @ wire_labels question @ 0 # [0, 33, 0, 1]" "[]"]
    by (simp add: bytes eval_nat_numeral)
  show ?thesis
    using long ident count skip answers rrs(2)
    by (simp add: parse_srv_response_def unat_of_nat)
qed


section \<open>A response that is never parsed\<close>

text \<open>
  A well-formed header, a root question and one SRV answer whose target, at offset 34, is a
  compression pointer to offset 34.
\<close>

definition self_pointer_response :: "u16 \<Rightarrow> byte list" where
  "self_pointer_response identifier =
     u16_to_be_bytes identifier @ [0x81, 0x80, 0, 1, 0, 1, 0, 0, 0, 0]
     @ [0] @ [0, 33, 0, 1]
     @ [0] @ [0, 33, 0, 1] @ [0, 0, 0, 60] @ [0, 8] @ [0, 0, 0, 0, 0x1e, 0xa4] @ [0xc0, 34]"

lemma parse_self_pointer_response:
  "parse_srv_response (self_pointer_response identifier) identifier = None"
proof -
  let ?bytes = "self_pointer_response identifier"
  have len: "length ?bytes = 36" by (simp add: self_pointer_response_def)
  have ident: "read_u16 ?bytes 0 = Inr identifier"
    by (rule read_u16_be [where rest = "drop 2 ?bytes"])
      (simp add: self_pointer_response_def u16_to_be_bytes_def)
  have words: "read_u16 ?bytes 6 = Inr 1" "read_u16 ?bytes 18 = Inr 33" "read_u16 ?bytes 20 = Inr 1"
    "read_u16 ?bytes 26 = Inr 8"
    by (simp_all add: self_pointer_response_def u16_to_be_bytes_def read_u16_drop
        u16_from_be_bytes_def)
  have skip: "skip_name ?bytes 12 = Inr 13" "skip_name ?bytes 17 = Inr 18"
    by (subst skip_name.simps,
        simp add: len, simp add: self_pointer_response_def u16_to_be_bytes_def)+
  have port: "read_u16 (take 8 (drop 28 ?bytes)) 4 = Inr 0x1ea4"
    by (simp add: self_pointer_response_def u16_to_be_bytes_def read_u16_drop
        u16_from_be_bytes_def)
  have name: "decode_name ?bytes 34 [] = None"
    by (rule decode_name_self_pointer)
      (simp_all add: len, simp_all add: self_pointer_response_def u16_to_be_bytes_def
        is_pointer_def pointer_target_def)
  show ?thesis
    using len ident words skip port name
    by (simp add: parse_srv_response_def parse_answer_def Let_def)
qed

section \<open>The properties of the message code\<close>

lemma encode_name_wire:
  "encode_name pre name = Inr bytes \<longleftrightarrow>
     (\<forall>l \<in> set (split_char (CHR ''.'') name). valid_label l) \<and>
     bytes = pre @ wire_labels (split_char (CHR ''.'') name)"
  by (auto simp: encode_name_def encode_labels_wire split: if_splits)

text \<open>C29. Whatever bytes a name server sends, parsing the SRV response never indexes or slices
  out of range: the parser does not panic.\<close>

theorem srv_parser_never_panics: "parse_srv_response bytes identifier \<noteq> Some (Inl Panic)"
  using parse_srv_response_no_panic [of bytes "identifier"] by auto

text \<open>C23. The records of a response written as a name server writes it are read back: for any
  question and any well-formed SRV records behind compression pointers to it, the parser
  returns each record's dotted target and port, in order.\<close>

theorem srv_response_roundtrip:
  assumes "\<forall>l \<in> set question. valid_label l"
    and "\<forall>rr \<in> set rrs. srv_rr_wf rr" and "length rrs < 2 ^ 16"
  shows "parse_srv_response (srv_response identifier question rrs) identifier =
           Some (Inr (map (\<lambda>rr. (join (CHR ''.'') (rr_target rr), rr_port rr)) rrs))"
  by (rule parse_srv_response_srv [OF assms])

theorem srv_response_roundtrip_witness:
  "parse_srv_response (srv_response 7 [''a'']
     [\<lparr>rr_ttl = 60, rr_priority = 1, rr_weight = 1, rr_port = 7844, rr_target = [''e'', ''b'']\<rparr>]) 7
     = Some (Inr [(''e.b'', 7844)])"
  by (subst srv_response_roundtrip)
     (simp_all add: valid_label_def srv_rr_wf_def ascii_def length_srv_rdata wire_labels_def)

text \<open>C27. \<open>decode_name\<close> reads names as RFC 1035 writes them: it returns a name exactly when the
  labels and pointers at the position spell one, namely its labels with dots between them and
  the position after it; it returns an error exactly when the parts of the name lead to
  something that belongs in no name, and then the error about that; and it hangs exactly when
  they lead into a cycle. It needs at most one iteration more than the message has bytes.\<close>

theorem decode_name_bound:
  "decode_name bytes p out = decode_fuel (length bytes + 1) bytes p False p out \<and>
   (decode_name bytes p out = None \<longleftrightarrow>
      (\<exists>q. (name_continues bytes)\<^sup>*\<^sup>* p q \<and> (name_continues bytes)\<^sup>+\<^sup>+ q q)) \<and>
   (decode_name bytes p [] = Some (Inr (e, name)) \<longleftrightarrow>
      (\<exists>ls. name_at bytes p ls e \<and> name = join (CHR ''.'') (map string_from_utf8_lossy ls))) \<and>
   (decode_name bytes p out = Some (Inl x) \<longleftrightarrow>
      (\<exists>q m. (name_continues bytes)\<^sup>*\<^sup>* p q \<and> fault_at bytes q m \<and> x = Err (io_err InvalidData m)))"
proof (intro conjI)
  show "decode_name bytes p [] = Some (Inr (e, name)) \<longleftrightarrow>
      (\<exists>ls. name_at bytes p ls e \<and> name = join (CHR ''.'') (map string_from_utf8_lossy ls))"
    using decode_name_labels [of bytes p] decode_name_fault [of bytes p _ _ "[]"]
      decode_name_outcomes [of bytes p "[]"]
    by (fastforce simp: dns_err_def)
  show "decode_name bytes p out = Some (Inl x) \<longleftrightarrow>
      (\<exists>q m. (name_continues bytes)\<^sup>*\<^sup>* p q \<and> fault_at bytes q m \<and> x = Err (io_err InvalidData m))"
    using name_decoded [of bytes p _ _ False p out] decode_name_fault [of bytes p _ _ out]
      decode_name_outcomes [of bytes p out]
    by (fastforce simp: dns_err_def decode_name_def)
qed (rule decode_name_eq_fuel decode_name_hangs)+

text \<open>A name that \<open>encode_name\<close> accepts is decoded to itself wherever it stands in a
  message, and \<open>skip_name\<close> and \<open>decode_name\<close> agree on where it ends.\<close>

lemma name_roundtrip:
  assumes "encode_name pre name = Inr bytes" and "ascii name"
  shows "decode_name (bytes @ 0 # post) (length pre) [] = Some (Inr (length bytes + 1, name)) \<and>
         skip_name (bytes @ 0 # post) (length pre) = Inr (length bytes + 1)"
proof -
  let ?ls = "split_char (CHR ''.'') name"
  from assms(1) have valid: "\<forall>l \<in> set ?ls. valid_label l" and bytes: "bytes = pre @ wire_labels ?ls"
    by (simp_all add: encode_name_wire)
  moreover have "\<forall>l \<in> set ?ls. valid_label l \<and> ascii l"
    using valid assms(2) by (auto intro: ascii_split_char)
  ultimately show ?thesis
    using decode_name_wire [of ?ls pre post] skip_name_wire [OF valid, of pre post]
    by (simp add: join_split_char)
qed

end
