(* ===== verification/Ip_Addr.thy ===== *)
theory Ip_Addr
  imports Rust_Std
begin

text \<open>
  \<open>std::net\<close>: \<open>IpAddr\<close> and \<open>SocketAddr\<close>, the octets of an address, and the \<open>FromStr\<close> parser of
  \<open>IpAddr\<close> (dotted decimal without leading zeros; eight hexadecimal groups with at most one
  \<open>::\<close> and an optional trailing dotted part). A parser returns what it read and the rest.
\<close>

datatype ip_addr = V4 "32 word" | V6 "128 word"

record socket_addr =
  ip :: ip_addr
  port :: u16

fun octets :: "ip_addr \<Rightarrow> byte list" where
  "octets (V4 w) = map (\<lambda>i. ucast (drop_bit (8 * i) w)) (rev [0..<4])"
| "octets (V6 w) = map (\<lambda>i. ucast (drop_bit (8 * i) w)) (rev [0..<16])"

lemma length_octets [simp]:
  "length (octets (V4 w)) = 4" "length (octets (V6 v)) = 16"
  by simp_all

text \<open>\<open>read_number\<close>: \<open>digits\<close> digits at most, in the given radix, below \<open>limit\<close>.\<close>

definition digit_in :: "nat \<Rightarrow> char \<Rightarrow> nat option" where
  "digit_in radix c =
     (let n = (of_char c :: nat);
          d = (if 48 \<le> n \<and> n \<le> 57 then Some (n - 48)
               else if 97 \<le> n \<and> n \<le> 122 then Some (n - 87)
               else if 65 \<le> n \<and> n \<le> 90 then Some (n - 55) else None)
      in case d of None \<Rightarrow> None | Some d \<Rightarrow> if d < radix then Some d else None)"

fun read_digits :: "nat \<Rightarrow> nat \<Rightarrow> nat \<Rightarrow> nat \<Rightarrow> nat \<Rightarrow> string \<Rightarrow> (nat \<times> nat \<times> string) option" where
  "read_digits radix maximum limit count acc [] = Some (count, acc, [])"
| "read_digits radix maximum limit count acc (c # s) =
     (case digit_in radix c of
        None \<Rightarrow> Some (count, acc, c # s)
      | Some d \<Rightarrow>
          if acc * radix + d \<ge> limit \<or> count + 1 > maximum then None
          else read_digits radix maximum limit (count + 1) (acc * radix + d) s)"

definition read_number :: "nat \<Rightarrow> nat \<Rightarrow> bool \<Rightarrow> nat \<Rightarrow> string \<Rightarrow> (nat \<times> string) option" where
  "read_number radix maximum allow_zero_prefix limit s =
     (case read_digits radix maximum limit 0 0 s of
        None \<Rightarrow> None
      | Some (count, n, r) \<Rightarrow>
          if count = 0 then None
          else if \<not> allow_zero_prefix \<and> hd s = CHR ''0'' \<and> count > 1 then None
          else Some (n, r))"

definition read_char :: "char \<Rightarrow> string \<Rightarrow> string option" where
  "read_char c s = (case s of [] \<Rightarrow> None | x # r \<Rightarrow> if x = c then Some r else None)"

definition read_sep :: "char \<Rightarrow> nat \<Rightarrow> (string \<Rightarrow> ('a \<times> string) option) \<Rightarrow> string \<Rightarrow> ('a \<times> string) option"
where
  "read_sep sep i p s = (if i > 0 then Option.bind (read_char sep s) p else p s)"

fun read_v4_parts :: "nat \<Rightarrow> nat list \<Rightarrow> string \<Rightarrow> (nat list \<times> string) option" where
  "read_v4_parts 0 parts s = Some (parts, s)"
| "read_v4_parts (Suc n) parts s =
     (case read_sep (CHR ''.'') (length parts) (read_number 10 3 False 256) s of
        None \<Rightarrow> None
      | Some (d, r) \<Rightarrow> read_v4_parts n (parts @ [d]) r)"

definition read_ipv4 :: "string \<Rightarrow> (nat list \<times> string) option" where
  "read_ipv4 s = read_v4_parts 4 [] s"

text \<open>\<open>read_groups\<close>: the groups read, whether the last two came from a dotted part, the rest.\<close>

fun read_groups :: "nat \<Rightarrow> nat \<Rightarrow> string \<Rightarrow> nat list \<times> bool \<times> string" where
  "read_groups 0 i s = ([], False, s)"
| "read_groups (Suc n) i s =
     (case (if n > 0 then read_sep (CHR '':'') i read_ipv4 s else None) of
        Some (d, r) \<Rightarrow> ([d ! 0 * 256 + d ! 1, d ! 2 * 256 + d ! 3], True, r)
      | None \<Rightarrow>
          (case read_sep (CHR '':'') i (read_number 16 4 True 65536) s of
             None \<Rightarrow> ([], False, s)
           | Some (g, r) \<Rightarrow>
               (case read_groups n (i + 1) r of (gs, dotted, r') \<Rightarrow> (g # gs, dotted, r'))))"

definition word_of_parts :: "nat \<Rightarrow> nat list \<Rightarrow> 'a::len word" where
  "word_of_parts bits ps = foldl (\<lambda>a p. push_bit bits a OR of_nat p) 0 ps"

definition read_ipv6 :: "string \<Rightarrow> (nat list \<times> string) option" where
  "read_ipv6 s =
     (case read_groups 8 0 s of (head, head_ipv4, r) \<Rightarrow>
        if length head = 8 then Some (head, r)
        else if head_ipv4 then None
        else Option.bind (read_char (CHR '':'') r) (\<lambda>r.
             Option.bind (read_char (CHR '':'') r) (\<lambda>r.
               case read_groups (8 - (length head + 1)) 0 r of (tail, _, r) \<Rightarrow>
                 Some (head @ replicate (8 - length head - length tail) 0 @ tail, r))))"

definition parse_ip_addr :: "string \<Rightarrow> ip_addr option" where
  "parse_ip_addr s =
     (case read_ipv4 s of
        Some (n, r) \<Rightarrow> if r = [] then Some (V4 (word_of_parts 8 n)) else None
      | None \<Rightarrow>
          (case read_ipv6 s of
             Some (n, r) \<Rightarrow> if r = [] then Some (V6 (word_of_parts 16 n)) else None
           | None \<Rightarrow> None))"

section \<open>Text of addresses\<close>

text \<open>
  \<open>Display\<close> of the address types: an IPv4 address in dotted form, the groups of an IPv6 address in
  lower-case hexadecimal with the first longest run of at least two zero groups as \<open>::\<close>, an
  IPv4-mapped one with its dotted form behind \<open>::ffff:\<close>. A socket address has no scope here.
\<close>

fun hexadecimal :: "nat \<Rightarrow> string" where
  "hexadecimal n =
     (let d = (\<lambda>k. if k < 10 then char_of (48 + k) else char_of (87 + k)) in
      if n < 16 then [d n] else hexadecimal (n div 16) @ [d (n mod 16)])"

declare hexadecimal.simps [simp del]

fun separated :: "string \<Rightarrow> string list \<Rightarrow> string" where
  "separated sep [] = []"
| "separated sep [w] = w"
| "separated sep (w # ws) = w @ sep @ separated sep ws"

definition ipv6_segments :: "128 word \<Rightarrow> nat list" where
  "ipv6_segments w = map (\<lambda>i. unat (drop_bit (16 * i) w) mod 65536) (rev [0..<8])"

text \<open>The first longest run of zeros: the current run and the longest one, each a start and a length.\<close>

definition zero_run :: "nat list \<Rightarrow> nat \<times> nat" where
  "zero_run gs = snd (foldl (\<lambda>(current, longest) (i, g).
       if g \<noteq> 0 then ((0, 0), longest)
       else let current = (if snd current = 0 then (i, 1) else (fst current, snd current + 1)) in
            (current, if snd current > snd longest then current else longest))
     ((0, 0), (0, 0)) (zip [0..<length gs] gs))"

definition ipv4_text :: "32 word \<Rightarrow> string" where
  "ipv4_text w = separated ''.'' (map (decimal \<circ> unat) (octets (V4 w)))"

fun ip_text :: "ip_addr \<Rightarrow> string" where
  "ip_text (V4 w) = ipv4_text w"
| "ip_text (V6 w) =
     (let gs = ipv6_segments w; sep = separated '':'' \<circ> map hexadecimal in
      if take 6 gs = [0, 0, 0, 0, 0, 65535] then ''::ffff:'' @ ipv4_text (ucast w)
      else case zero_run gs of (start, n) \<Rightarrow>
        if n > 1 then sep (take start gs) @ ''::'' @ sep (drop (start + n) gs) else sep gs)"

definition socket_addr_text :: "socket_addr \<Rightarrow> string" where
  "socket_addr_text a =
     (case ip a of
        V4 w \<Rightarrow> ip_text (V4 w) @ '':'' @ decimal (unat (port a))
      | V6 w \<Rightarrow> ''['' @ ip_text (V6 w) @ '']:'' @ decimal (unat (port a)))"

end
