(* ===== verification/Discovery.thy ===== *)
theory Discovery
  imports Dns Ip_Addr
begin

text \<open>
  Edge discovery, \<open>src/edge/discovery.rs\<close>: the resolvers of \<open>/etc/resolv.conf\<close>, the SRV lookup
  over them, host resolution, and \<open>discover_edges\<close>. The operating system is a world of type
  \<open>'w\<close> behind the record \<open>dns_world\<close>: reading the file, the random identifier, sending one
  datagram (bind, connect, send), receiving one (\<open>None\<close> is the five-second timeout) and the
  resolver of the host. Results have the fault and option layers of \<^const>\<open>parse_srv_response\<close>.
\<close>

section \<open>Constants and the outside world\<close>

definition SRV_SERVICE :: string where "SRV_SERVICE = ''v2-origintunneld''"
definition SRV_PROTO :: string where "SRV_PROTO = ''tcp''"
definition SRV_NAME :: string where "SRV_NAME = ''argotunnel.com''"
definition FALLBACK_EDGE_PORT :: u16 where "FALLBACK_EDGE_PORT = 7844"
definition FALLBACK_EDGES :: "string list" where
  "FALLBACK_EDGES = [''region1.v2.argotunnel.com'', ''region2.v2.argotunnel.com'']"

record 'w dns_world =
  read_resolv_conf :: "'w \<Rightarrow> (io_error + string) \<times> 'w"
  random16 :: "'w \<Rightarrow> u16 \<times> 'w"
  udp_send :: "socket_addr \<Rightarrow> byte list \<Rightarrow> 'w \<Rightarrow> (io_error + unit) \<times> 'w"
  udp_recv :: "'w \<Rightarrow> (io_error + byte list) option \<times> 'w"
  lookup_host :: "string \<Rightarrow> u16 \<Rightarrow> 'w \<Rightarrow> (io_error + socket_addr list) \<times> 'w"

section \<open>Resolvers and hosts\<close>

definition push_new :: "'a list \<Rightarrow> 'a \<Rightarrow> 'a list" where
  "push_new xs x = (if x \<in> set xs then xs else xs @ [x])"

lemma distinct_foldl_push_new [simp]: "distinct xs \<Longrightarrow> distinct (foldl push_new xs ys)"
  by (induction ys arbitrary: xs) (auto simp: push_new_def)

lemma set_foldl_push_new [simp]: "set (foldl push_new xs ys) = set xs \<union> set ys"
  by (induction ys arbitrary: xs) (auto simp: push_new_def)

definition resolve_host :: "'w dns_world \<Rightarrow> string \<Rightarrow> 'w \<Rightarrow> ip_addr list \<times> 'w" where
  "resolve_host env host w =
     (case lookup_host env host FALLBACK_EDGE_PORT w of
        (Inr addrs, w) \<Rightarrow> (foldl push_new [] (map ip addrs), w)
      | (Inl _, w) \<Rightarrow> ([], w))"

definition nameserver_line :: "string \<Rightarrow> socket_addr list" where
  "nameserver_line line =
     (case strip_prefix ''nameserver'' (trim line) of
        None \<Rightarrow> []
      | Some rest \<Rightarrow>
          (case parse_ip_addr (trim rest) of
             None \<Rightarrow> []
           | Some a \<Rightarrow> [\<lparr>ip = a, port = 53\<rparr>]))"

definition resolver_address :: "'w dns_world \<Rightarrow> 'w \<Rightarrow> socket_addr list \<times> 'w" where
  "resolver_address env w =
     (case read_resolv_conf env w of (contents, w) \<Rightarrow>
        ((case contents of
            Inr contents \<Rightarrow> concat (map nameserver_line (lines contents))
          | Inl _ \<Rightarrow> [])
         @ [\<lparr>ip = V4 0x01010101, port = 53\<rparr>], w))"

section \<open>The SRV lookup\<close>

definition query_srv ::
  "'w dns_world \<Rightarrow> socket_addr \<Rightarrow> string \<Rightarrow> string \<Rightarrow> string \<Rightarrow> 'w
     \<Rightarrow> ((io_error fault + srv_records) \<times> 'w) option" where
  "query_srv env resolver service proto name w =
     (case srv_qname service proto name of
        Inl e \<Rightarrow> Some (Inl (Err e), w)
      | Inr qname \<Rightarrow>
          (case random16 env w of (identifier, w) \<Rightarrow>
           case udp_send env resolver (srv_query identifier qname) w of
             (Inl e, w) \<Rightarrow> Some (Inl (Err e), w)
           | (Inr _, w) \<Rightarrow>
               (case udp_recv env w of
                  (None, w) \<Rightarrow> Some (Inl (Err (io_err TimedOut ''dns timeout'')), w)
                | (Some (Inl e), w) \<Rightarrow> Some (Inl (Err e), w)
                | (Some (Inr bytes), w) \<Rightarrow>
                    if bytes = [] then Some (Inr [], w)
                    else map_option (\<lambda>r. (r, w)) (parse_srv_response bytes identifier))))"

fun srv_lookup_over ::
  "'w dns_world \<Rightarrow> socket_addr list \<Rightarrow> string \<Rightarrow> string \<Rightarrow> string \<Rightarrow> 'w
     \<Rightarrow> ((io_error fault + srv_records) \<times> 'w) option" where
  "srv_lookup_over env [] service proto name w = Some (Inr [], w)"
| "srv_lookup_over env (a # as) service proto name w =
     (case query_srv env a service proto name w of
        None \<Rightarrow> None
      | Some (Inl Panic, w) \<Rightarrow> Some (Inl Panic, w)
      | Some (Inl (Err _), w) \<Rightarrow> srv_lookup_over env as service proto name w
      | Some (Inr records, w) \<Rightarrow>
          if records \<noteq> [] then Some (Inr records, w)
          else srv_lookup_over env as service proto name w)"

definition srv_lookup ::
  "'w dns_world \<Rightarrow> string \<Rightarrow> string \<Rightarrow> string \<Rightarrow> 'w
     \<Rightarrow> ((io_error fault + srv_records) \<times> 'w) option" where
  "srv_lookup env service proto name w =
     (case resolver_address env w of (resolvers, w) \<Rightarrow>
        srv_lookup_over env resolvers service proto name w)"

section \<open>Discovery\<close>

definition srv_service :: "string option \<Rightarrow> string" where
  "srv_service region =
     (case region of
        Some r \<Rightarrow> if r \<noteq> [] then r @ ''-'' @ SRV_SERVICE else SRV_SERVICE
      | None \<Rightarrow> SRV_SERVICE)"

fun resolve_all ::
  "'w dns_world \<Rightarrow> (string \<times> u16) list \<Rightarrow> socket_addr list \<Rightarrow> 'w \<Rightarrow> socket_addr list \<times> 'w" where
  "resolve_all env [] edges w = (edges, w)"
| "resolve_all env ((host, prt) # hosts) edges w =
     (case resolve_host env host w of (ips, w) \<Rightarrow>
        resolve_all env hosts (foldl push_new edges (map (\<lambda>a. \<lparr>ip = a, port = prt\<rparr>) ips)) w)"

definition discover_edges ::
  "'w dns_world \<Rightarrow> string option \<Rightarrow> 'w \<Rightarrow> ((error fault + socket_addr list) \<times> 'w) option" where
  "discover_edges env region w =
     (case srv_lookup env (srv_service region) SRV_PROTO SRV_NAME w of
        None \<Rightarrow> None
      | Some (Inl Panic, w) \<Rightarrow> Some (Inl Panic, w)
      | Some (result, w) \<Rightarrow>
          (case (case result of
                   Inr records \<Rightarrow>
                     if records \<noteq> [] then resolve_all env records [] w
                     else resolve_all env (map (\<lambda>h. (h, FALLBACK_EDGE_PORT)) FALLBACK_EDGES) [] w
                 | Inl _ \<Rightarrow>
                     resolve_all env (map (\<lambda>h. (h, FALLBACK_EDGE_PORT)) FALLBACK_EDGES) [] w) of
             (edges, w) \<Rightarrow>
               if edges = []
               then Some (Inl (Err (edge_discovery ''no edge addresses could be resolved'')), w)
               else Some (Inr edges, w)))"


section \<open>What discovery returns\<close>

lemma query_srv_no_panic: "query_srv env a service proto name w \<noteq> Some (Inl Panic, w')"
proof
  assume "query_srv env a service proto name w = Some (Inl Panic, w')"
  then obtain bytes ident where "parse_srv_response bytes ident = Some (Inl Panic)"
    by (auto simp: query_srv_def split: sum.splits prod.splits option.splits if_splits)
  then show False using parse_srv_response_no_panic [of bytes ident] by simp
qed

lemma srv_lookup_over_ok:
  "srv_lookup_over env as service proto name w = Some (r, w') \<Longrightarrow> \<exists>records. r = Inr records"
  by (induction env as service proto name w rule: srv_lookup_over.induct)
     (auto simp: query_srv_no_panic split: option.splits sum.splits fault.splits if_splits)

lemma srv_lookup_ok:
  "srv_lookup env service proto name w = Some (r, w') \<Longrightarrow> \<exists>records. r = Inr records"
  by (auto simp: srv_lookup_def split: prod.splits dest: srv_lookup_over_ok)

lemma resolve_all_distinct:
  "distinct edges \<Longrightarrow> resolve_all env hosts edges w = (edges', w') \<Longrightarrow> distinct edges'"
  by (induction env hosts edges w rule: resolve_all.induct) (auto split: prod.splits)

lemma resolve_all_ports:
  "resolve_all env hosts edges w = (edges', w') \<Longrightarrow>
   port ` set edges' \<subseteq> port ` set edges \<union> snd ` set hosts"
proof (induction env hosts edges w rule: resolve_all.induct)
  case (2 env host prt hosts edges w)
  obtain ips w1 where ips: "resolve_host env host w = (ips, w1)"
    by (cases "resolve_host env host w")
  have "port ` set edges' \<subseteq>
    port ` set (foldl push_new edges (map (\<lambda>a. \<lparr>ip = a, port = prt\<rparr>) ips)) \<union> snd ` set hosts"
    using 2 ips by simp
  then show ?case by (auto simp: image_Un image_image split: if_splits)
qed simp

lemma resolve_all_keeps:
  "resolve_all env hosts edges w = (edges', w') \<Longrightarrow> set edges \<subseteq> set edges'"
  by (induction env hosts edges w rule: resolve_all.induct) (auto split: prod.splits)

lemma discover_edges_cases:
  assumes "discover_edges env region w = Some (r, w')"
  obtains records w1 edges where
    "srv_lookup env (srv_service region) SRV_PROTO SRV_NAME w = Some (Inr records, w1)"
    "resolve_all env
       (if records \<noteq> [] then records else map (\<lambda>h. (h, FALLBACK_EDGE_PORT)) FALLBACK_EDGES) [] w1
         = (edges, w')"
    "r = (if edges = [] then Inl (Err (edge_discovery ''no edge addresses could be resolved''))
          else Inr edges)"
proof (cases "srv_lookup env (srv_service region) SRV_PROTO SRV_NAME w")
  case None
  with assms show ?thesis by (simp add: discover_edges_def)
next
  case (Some rw)
  obtain r1 w1 where rw: "rw = (r1, w1)" by (cases rw)
  with Some obtain records where "r1 = Inr records"
    using srv_lookup_ok [of env "srv_service region" SRV_PROTO SRV_NAME w r1 w1] by auto
  obtain edges w2 where edges: "resolve_all env
      (if records \<noteq> [] then records else map (\<lambda>h. (h, FALLBACK_EDGE_PORT)) FALLBACK_EDGES) [] w1
        = (edges, w2)" by fastforce
  have "discover_edges env region w = Some
      (if edges = [] then Inl (Err (edge_discovery ''no edge addresses could be resolved''))
       else Inr edges, w2)"
    using Some rw \<open>r1 = Inr records\<close> edges
    by (cases "records = []") (simp_all add: discover_edges_def)
  with assms have "r = (if edges = []
      then Inl (Err (edge_discovery ''no edge addresses could be resolved'')) else Inr edges)"
    and "w2 = w'" by simp_all
  then show ?thesis using Some rw \<open>r1 = Inr records\<close> edges that [of records w1 edges] by simp
qed

lemma discover_edges_hang:
  assumes "resolver_address env w = (a # as, w1)"
    and "srv_qname (srv_service region) SRV_PROTO SRV_NAME = Inr qname"
    and "random16 env w1 = (identifier, w2)"
    and "udp_send env a (srv_query identifier qname) w2 = (Inr (), w3)"
    and "udp_recv env w3 = (Some (Inr bytes), w4)" "bytes \<noteq> []"
    and "parse_srv_response bytes identifier = None"
  shows "discover_edges env region w = None"
  using assms by (simp add: discover_edges_def srv_lookup_def query_srv_def)

section \<open>The properties of discovery\<close>

lemma srv_qname_default:
  "srv_qname (srv_service None) SRV_PROTO SRV_NAME =
     Inr (wire_labels [''v2-origintunneld'', ''tcp'', ''argotunnel'', ''com''] @ [0])"
  by code_simp

text \<open>The name that discovery queries has the service and the protocol as they are spelled in
  the constants. It is not the SRV owner name \<open>_v2-origintunneld._tcp.argotunnel.com\<close> that the
  module's documentation gives: nothing adds the underscores.\<close>

lemma queried_name_has_no_underscores:
  "srv_qname (srv_service None) SRV_PROTO SRV_NAME =
     Inr (wire_labels [''v2-origintunneld'', ''tcp'', ''argotunnel'', ''com''] @ [0]) \<and>
   srv_qname (srv_service None) SRV_PROTO SRV_NAME \<noteq>
     Inr (wire_labels [''_v2-origintunneld'', ''_tcp'', ''argotunnel'', ''com''] @ [0])"
  by code_simp

text \<open>Every failure of the lookup is an ordinary error or falls back to the well-known hosts.\<close>

lemma discovery_never_panics: "discover_edges env region w \<noteq> Some (Inl Panic, w')"
proof
  assume "discover_edges env region w = Some (Inl Panic, w')"
  then show False by (rule discover_edges_cases) (simp split: if_splits)
qed

text \<open>C32. A successful discovery returns at least one address and no address twice, and each
  port is that of an SRV record, or 7844 when the lookup gave no record and the fallback hosts
  were resolved.\<close>

theorem discovered_edges:
  assumes "discover_edges env region w = Some (Inr edges, w')"
  shows "edges \<noteq> [] \<and> distinct edges \<and>
    (\<exists>records w1. srv_lookup env (srv_service region) SRV_PROTO SRV_NAME w = Some (Inr records, w1) \<and>
       port ` set edges \<subseteq> (if records = [] then {FALLBACK_EDGE_PORT} else snd ` set records))"
  using assms
proof (rule discover_edges_cases)
  fix records w1 edges'
  assume lookup: "srv_lookup env (srv_service region) SRV_PROTO SRV_NAME w = Some (Inr records, w1)"
    and all: "resolve_all env (if records \<noteq> [] then records
         else map (\<lambda>h. (h, FALLBACK_EDGE_PORT)) FALLBACK_EDGES) [] w1 = (edges', w')"
    and r: "Inr edges = (if edges' = []
         then Inl (Err (edge_discovery ''no edge addresses could be resolved'')) else Inr edges')"
  from r have edges: "edges' = edges" "edges \<noteq> []" by (simp_all split: if_splits)
  have "port ` set edges \<subseteq> (if records = [] then {FALLBACK_EDGE_PORT} else snd ` set records)"
    using resolve_all_ports [OF all] edges by (auto split: if_splits)
  with lookup edges resolve_all_distinct [OF _ all] show ?thesis by auto
qed

definition one_host_world :: "unit dns_world" where
  "one_host_world =
     \<lparr>read_resolv_conf = (\<lambda>w. (Inl (io_err OtherKind ''no file''), w)),
      random16 = (\<lambda>w. (7, w)),
      udp_send = (\<lambda>a b w. (Inr (), w)),
      udp_recv = (\<lambda>w. (None, w)),
      lookup_host = (\<lambda>h p w. (Inr [\<lparr>ip = V4 1, port = p\<rparr>], w))\<rparr>"

lemma one_host_lookup:
  "srv_lookup one_host_world (srv_service None) SRV_PROTO SRV_NAME () = Some (Inr [], ())"
  by (simp add: srv_lookup_def resolver_address_def one_host_world_def query_srv_def
      srv_qname_default)

lemma one_host_edges:
  "discover_edges one_host_world None () = Some (Inr [\<lparr>ip = V4 1, port = 7844\<rparr>], ())"
  by (simp add: discover_edges_def one_host_lookup)
     (simp add: one_host_world_def resolve_host_def push_new_def FALLBACK_EDGES_def
        FALLBACK_EDGE_PORT_def)

theorem discovered_edges_witness:
  "\<exists>records w1. srv_lookup one_host_world (srv_service None) SRV_PROTO SRV_NAME () = Some (Inr records, w1) \<and>
     port ` set [\<lparr>ip = V4 1, port = 7844\<rparr>]
       \<subseteq> (if records = [] then {FALLBACK_EDGE_PORT} else snd ` set records)"
  using discovered_edges [OF one_host_edges] by blast

text \<open>C40. One name server can stop the tunnel: when the first resolver answers the query with the
  self-pointing response, discovery never returns (the five-second timeout covers only the
  receive).\<close>

theorem discovery_hangs_on_self_pointer:
  assumes "resolver_address env w = (a # as, w1)"
    and "srv_qname (srv_service region) SRV_PROTO SRV_NAME = Inr qname"
    and "random16 env w1 = (ident, w2)"
    and "udp_send env a (srv_query ident qname) w2 = (Inr (), w3)"
    and "udp_recv env w3 = (Some (Inr (self_pointer_response ident)), w4)"
  shows "discover_edges env region w = None"
  using discover_edges_hang [OF assms] parse_self_pointer_response
  by (simp add: self_pointer_response_def)

theorem discovery_hangs_on_self_pointer_witness:
  "discover_edges (one_host_world \<lparr>udp_recv := \<lambda>w. (Some (Inr (self_pointer_response 7)), w)\<rparr>)
     None () = None"
  by (rule discovery_hangs_on_self_pointer [OF _ srv_qname_default])
     (simp_all add: one_host_world_def resolver_address_def)

end
