(* ===== verification/Io.thy ===== *)
theory Io
  imports Prelude
begin

text \<open>
  Effects. An \<open>('w, 'e, 'a) io\<close> computation runs in a world of type \<open>'w\<close> (the operating
  system, the network, a stream's remaining input and output) and either never returns
  (\<open>None\<close>) or returns \<open>Err\<close> or \<open>Ok\<close> with the world after it. \<open>bind_io\<close> is sequencing
  with the \<open>?\<close> operator, \<open>catch_io\<close> hands the result of a call to its \<open>match\<close> instead of
  propagating the error. The rules for partial functions and for reasoning about what a
  computation returns are shared by all components.
\<close>

type_synonym ('w, 'e, 'a) io = "'w \<Rightarrow> (('e + 'a) \<times> 'w) option"

definition return_io :: "'a \<Rightarrow> ('w, 'e, 'a) io" where
  "return_io x = (\<lambda>w. Some (Inr x, w))"

definition throw_io :: "'e \<Rightarrow> ('w, 'e, 'a) io" where
  "throw_io e = (\<lambda>w. Some (Inl e, w))"

definition bind_io :: "('w, 'e, 'a) io \<Rightarrow> ('a \<Rightarrow> ('w, 'e, 'b) io) \<Rightarrow> ('w, 'e, 'b) io" where
  "bind_io m f = (\<lambda>w. case m w of
       None \<Rightarrow> None
     | Some (Inl e, w) \<Rightarrow> Some (Inl e, w)
     | Some (Inr x, w) \<Rightarrow> f x w)"

definition catch_io :: "('w, 'e, 'a) io \<Rightarrow> ('e + 'a \<Rightarrow> ('w, 'f, 'b) io) \<Rightarrow> ('w, 'f, 'b) io" where
  "catch_io m f = (\<lambda>w. case m w of None \<Rightarrow> None | Some (r, w) \<Rightarrow> f r w)"

definition lift_io :: "'e + 'a \<Rightarrow> ('w, 'e, 'a) io" where
  "lift_io r = (\<lambda>w. Some (r, w))"

definition map_err_io :: "('e \<Rightarrow> 'f) \<Rightarrow> ('w, 'e, 'a) io \<Rightarrow> ('w, 'f, 'a) io" where
  "map_err_io g m = (\<lambda>w. map_option (\<lambda>(r, w). (map_err g r, w)) (m w))"

text \<open>An operation of the outside world that always returns, as an \<open>io\<close> computation.\<close>

definition call_io :: "('w \<Rightarrow> ('e + 'a) \<times> 'w) \<Rightarrow> ('w, 'e, 'a) io" where
  "call_io m = (\<lambda>w. Some (m w))"

section \<open>Laws\<close>

lemma return_io_apply [simp]: "return_io x w = Some (Inr x, w)"
  by (simp add: return_io_def)

lemma throw_io_apply [simp]: "throw_io e w = Some (Inl e, w)"
  by (simp add: throw_io_def)

lemma lift_io_apply [simp]: "lift_io r w = Some (r, w)"
  by (simp add: lift_io_def)

lemma call_io_apply [simp]: "call_io m w = Some (m w)"
  by (simp add: call_io_def)

lemma bind_io_Inr [simp]: "m w = Some (Inr x, w') \<Longrightarrow> bind_io m f w = f x w'"
  by (simp add: bind_io_def)

lemma bind_io_Inl [simp]: "m w = Some (Inl e, w') \<Longrightarrow> bind_io m f w = Some (Inl e, w')"
  by (simp add: bind_io_def)

lemma bind_io_None [simp]: "m w = None \<Longrightarrow> bind_io m f w = None"
  by (simp add: bind_io_def)

lemma catch_io_Some [simp]: "m w = Some (r, w') \<Longrightarrow> catch_io m f w = f r w'"
  by (simp add: catch_io_def)

lemma catch_io_None [simp]: "m w = None \<Longrightarrow> catch_io m f w = None"
  by (simp add: catch_io_def)

lemma map_err_io_Some [simp]: "m w = Some (r, w') \<Longrightarrow> map_err_io g m w = Some (map_err g r, w')"
  by (simp add: map_err_io_def)

lemma map_err_io_None [simp]: "m w = None \<Longrightarrow> map_err_io g m w = None"
  by (simp add: map_err_io_def)

lemma bind_io_return [simp]: "bind_io (return_io x) f = f x"
  by (simp add: bind_io_def fun_eq_iff)

lemma bind_io_throw [simp]: "bind_io (throw_io e) f = throw_io e"
  by (simp add: bind_io_def fun_eq_iff)

lemma bind_io_assoc: "bind_io (bind_io m f) g = bind_io m (\<lambda>x. bind_io (f x) g)"
  by (auto simp: bind_io_def fun_eq_iff split: option.splits prod.splits sum.splits)

lemma bind_io_eq_None_iff:
  "bind_io m f w = None \<longleftrightarrow> m w = None \<or> (\<exists>x w'. m w = Some (Inr x, w') \<and> f x w' = None)"
  by (auto simp: bind_io_def split: option.splits prod.splits sum.splits)

lemma bind_io_eq_Inr_iff:
  "bind_io m f w = Some (Inr y, w'') \<longleftrightarrow>
     (\<exists>x w'. m w = Some (Inr x, w') \<and> f x w' = Some (Inr y, w''))"
  by (auto simp: bind_io_def split: option.splits prod.splits sum.splits)

lemma bind_io_eq_Inl_iff:
  "bind_io m f w = Some (Inl e, w'') \<longleftrightarrow>
     m w = Some (Inl e, w'') \<or> (\<exists>x w'. m w = Some (Inr x, w') \<and> f x w' = Some (Inl e, w''))"
  by (auto simp: bind_io_def split: option.splits prod.splits sum.splits)

lemmas bind_io_iffs = bind_io_eq_None_iff bind_io_eq_Inr_iff bind_io_eq_Inl_iff

lemma catch_io_eq_Some_iff:
  "catch_io m f w = Some z \<longleftrightarrow> (\<exists>r w'. m w = Some (r, w') \<and> f r w' = Some z)"
  by (auto simp: catch_io_def split: option.splits prod.splits)

lemma catch_io_eq_None_iff:
  "catch_io m f w = None \<longleftrightarrow> m w = None \<or> (\<exists>r w'. m w = Some (r, w') \<and> f r w' = None)"
  by (auto simp: catch_io_def split: option.splits prod.splits)

lemma map_err_io_eq_Some_iff:
  "map_err_io g m w = Some (r, w') \<longleftrightarrow> (\<exists>r'. m w = Some (r', w') \<and> r = map_err g r')"
  by (auto simp: map_err_io_def)

lemma map_err_io_eq_Inr_iff [simp]:
  "map_err_io g m w = Some (Inr y, w') \<longleftrightarrow> m w = Some (Inr y, w')"
  by (auto simp: map_err_io_eq_Some_iff dest: sym [of "Inr y"])

lemma bind_io_cong [fundef_cong]:
  assumes "m w = m' w" and "\<And>x w'. m' w = Some (Inr x, w') \<Longrightarrow> f x w' = g x w'"
  shows "bind_io m f w = bind_io m' g w"
  using assms by (auto simp: bind_io_def split: option.splits prod.splits sum.splits)

text \<open>
  Evaluation of concrete runs: with these congruences the simplifier runs a computation step by
  step and leaves the continuations alone until they are reached.
\<close>

lemma bind_io_apply:
  "bind_io m f w = (case m w of
       None \<Rightarrow> None
     | Some (Inl e, w) \<Rightarrow> Some (Inl e, w)
     | Some (Inr x, w) \<Rightarrow> f x w)"
  by (simp add: bind_io_def)

lemma catch_io_apply: "catch_io m f w = (case m w of None \<Rightarrow> None | Some (r, w) \<Rightarrow> f r w)"
  by (simp add: catch_io_def)

lemma map_err_io_apply: "map_err_io g m w = map_option (\<lambda>(r, w). (map_err g r, w)) (m w)"
  by (simp add: map_err_io_def)

lemma bind_io_weak_cong: "m w = m' w \<Longrightarrow> bind_io m f w = bind_io m' f w"
  by (simp add: bind_io_def)

lemma catch_io_weak_cong: "m w = m' w \<Longrightarrow> catch_io m f w = catch_io m' f w"
  by (simp add: catch_io_def)

lemma map_err_io_weak_cong: "m w = m' w \<Longrightarrow> map_err_io g m w = map_err_io g m' w"
  by (simp add: map_err_io_def)

lemmas run_io = bind_io_apply catch_io_apply map_err_io_apply
lemmas run_io_congs = bind_io_weak_cong catch_io_weak_cong map_err_io_weak_cong

text \<open>What a computation returns, without its final world; for evaluating concrete runs.\<close>

definition returns :: "('r \<times> 'w) option \<Rightarrow> 'r \<Rightarrow> bool" where
  "returns out r \<longleftrightarrow> (case out of None \<Rightarrow> False | Some (q, w) \<Rightarrow> q = r)"

lemma returnsD: "returns out r \<Longrightarrow> out = Some (r, snd (the out))"
  by (auto simp: returns_def split: option.splits)

section \<open>Specifications of computations\<close>

text \<open>
  \<open>ensures_io P m Q E\<close>: started in a world with \<open>P\<close>, the computation returns \<open>Ok\<close> only with
  \<open>Q\<close> and \<open>Err\<close> only with \<open>E\<close>. The rules follow the program text.
\<close>

definition ensures_io ::
  "('w \<Rightarrow> bool) \<Rightarrow> ('w, 'e, 'a) io \<Rightarrow> ('a \<Rightarrow> 'w \<Rightarrow> bool) \<Rightarrow> ('e \<Rightarrow> 'w \<Rightarrow> bool) \<Rightarrow> bool" where
  "ensures_io P m Q E \<longleftrightarrow>
     (\<forall>w r w'. P w \<longrightarrow> m w = Some (r, w') \<longrightarrow> (case r of Inr x \<Rightarrow> Q x w' | Inl e \<Rightarrow> E e w'))"

named_theorems ensures \<open>rules for the specifications of computations\<close>

lemma ensures_ioD:
  assumes "ensures_io P m Q E" and "P w" and "m w = Some (r, w')"
  shows "case r of Inr x \<Rightarrow> Q x w' | Inl e \<Rightarrow> E e w'"
  using assms by (simp add: ensures_io_def)

lemma ensures_weaken:
  assumes "ensures_io P m Q E"
    and "\<And>w. P' w \<Longrightarrow> P w" and "\<And>x w. Q x w \<Longrightarrow> Q' x w" and "\<And>e w. E e w \<Longrightarrow> E' e w"
  shows "ensures_io P' m Q' E'"
  using assms by (fastforce simp: ensures_io_def split: sum.splits)

lemma ensures_ioI:
  assumes "\<And>w x w'. P w \<Longrightarrow> m w = Some (Inr x, w') \<Longrightarrow> Q x w'"
    and "\<And>w e w'. P w \<Longrightarrow> m w = Some (Inl e, w') \<Longrightarrow> E e w'"
  shows "ensures_io P m Q E"
  using assms by (auto simp: ensures_io_def split: sum.split)

lemma ensures_io_Ok: "ensures_io P m Q E \<Longrightarrow> P w \<Longrightarrow> m w = Some (Inr x, w') \<Longrightarrow> Q x w'"
  by (drule ensures_ioD) auto

lemma ensures_io_Err: "ensures_io P m Q E \<Longrightarrow> P w \<Longrightarrow> m w = Some (Inl e, w') \<Longrightarrow> E e w'"
  by (drule ensures_ioD) auto

lemma ensures_bind [ensures]:
  assumes "ensures_io P m Q E" and "\<And>x. ensures_io (Q x) (f x) R E"
  shows "ensures_io P (bind_io m f) R E"
  by (rule ensures_ioI)
     (auto simp: bind_io_iffs dest: ensures_io_Ok [OF assms(1)] ensures_io_Err [OF assms(1)]
        ensures_io_Ok [OF assms(2)] ensures_io_Err [OF assms(2)])

lemma ensures_catch [ensures]:
  assumes "ensures_io P m Q F"
    and "\<And>x. ensures_io (Q x) (f (Inr x)) R E" and "\<And>e. ensures_io (F e) (f (Inl e)) R E"
  shows "ensures_io P (catch_io m f) R E"
proof (rule ensures_ioI)
  fix w x w' assume P: "P w" and run: "catch_io m f w = Some (Inr x, w')"
  then obtain r w1 where m: "m w = Some (r, w1)" and "f r w1 = Some (Inr x, w')"
    by (auto simp: catch_io_eq_Some_iff)
  then show "R x w'"
    by (cases r) (auto intro: ensures_io_Ok assms ensures_io_Err [OF assms(1) P] ensures_io_Ok [OF assms(1) P])
next
  fix w e w' assume P: "P w" and run: "catch_io m f w = Some (Inl e, w')"
  then obtain r w1 where m: "m w = Some (r, w1)" and "f r w1 = Some (Inl e, w')"
    by (auto simp: catch_io_eq_Some_iff)
  then show "E e w'"
    by (cases r) (auto intro: ensures_io_Err assms ensures_io_Err [OF assms(1) P] ensures_io_Ok [OF assms(1) P])
qed

lemma ensures_return: "(\<And>w. P w \<Longrightarrow> Q x w) \<Longrightarrow> ensures_io P (return_io x) Q E"
  by (simp add: ensures_io_def)

lemma ensures_throw: "(\<And>w. P w \<Longrightarrow> E e w) \<Longrightarrow> ensures_io P (throw_io e) Q E"
  by (simp add: ensures_io_def)

section \<open>Monotonicity, for loops that may not end\<close>

lemma bind_io_mono [partial_function_mono]:
  fixes m :: "('i \<Rightarrow> 'o option) \<Rightarrow> ('w, 'f, 'a) io"
    and g :: "'a \<Rightarrow> ('i \<Rightarrow> 'o option) \<Rightarrow> ('w, 'f, 'b) io"
  assumes "\<And>w. mono_option (\<lambda>f. m f w)" and "\<And>x w. mono_option (\<lambda>f. g x f w)"
  shows "mono_option (\<lambda>f. bind_io (m f) (\<lambda>x. g x f) w)"
proof (rule monotoneI)
  fix a b :: "'i \<Rightarrow> 'o option" assume ab: "option.le_fun a b"
  have m: "option_ord (m a w) (m b w)" and g: "\<And>x w. option_ord (g x a w) (g x b w)"
    using assms ab by (auto simp: monotone_def)
  have refl: "option_ord z z" for z :: "(('f + 'b) \<times> 'w) option"
    by (simp add: flat_ord_def)
  from m have "m a w = None \<or> m a w = m b w" by (auto simp: flat_ord_def)
  then show "option_ord (bind_io (m a) (\<lambda>x. g x a) w) (bind_io (m b) (\<lambda>x. g x b) w)"
  proof
    assume "m a w = None"
    then show ?thesis by (simp add: flat_ord_def)
  next
    assume "m a w = m b w"
    then show ?thesis
      by (simp add: bind_io_def refl g split: option.split prod.split sum.split)
  qed
qed

lemma catch_io_mono [partial_function_mono]:
  fixes m :: "('i \<Rightarrow> 'o option) \<Rightarrow> ('w, 'e, 'a) io"
    and g :: "'e + 'a \<Rightarrow> ('i \<Rightarrow> 'o option) \<Rightarrow> ('w, 'f, 'b) io"
  assumes "\<And>w. mono_option (\<lambda>f. m f w)" and "\<And>r w. mono_option (\<lambda>f. g r f w)"
  shows "mono_option (\<lambda>f. catch_io (m f) (\<lambda>r. g r f) w)"
proof (rule monotoneI)
  fix a b :: "'i \<Rightarrow> 'o option" assume ab: "option.le_fun a b"
  have m: "option_ord (m a w) (m b w)" and g: "\<And>x w. option_ord (g x a w) (g x b w)"
    using assms ab by (auto simp: monotone_def)
  have refl: "option_ord z z" for z :: "(('f + 'b) \<times> 'w) option"
    by (simp add: flat_ord_def)
  from m have "m a w = None \<or> m a w = m b w" by (auto simp: flat_ord_def)
  then show "option_ord (catch_io (m a) (\<lambda>x. g x a) w) (catch_io (m b) (\<lambda>x. g x b) w)"
  proof
    assume "m a w = None"
    then show ?thesis by (simp add: flat_ord_def)
  next
    assume "m a w = m b w"
    then show ?thesis
      by (simp add: catch_io_def refl g split: option.split prod.split)
  qed
qed

end
