(* ===== verification/Http_Api.thy ===== *)
theory Http_Api
  imports Errors Io Ip_Addr
begin

text \<open>
  The HTTPS client of the quick tunnel API, \<open>src/tunnel/quick/api.rs\<close>: \<open>parse_http_response\<close>
  on the bytes read, and \<open>post_empty\<close> over a world with the operations the function awaits.
  URI and server-name parsing are those of the \<open>http\<close> and \<open>rustls_pki_types\<close> crates and are
  fields of that world; a timed operation answers \<open>None\<close> when its timeout elapsed.
\<close>

section \<open>The response parser\<close>

type_synonym http_response = "u16 \<times> (string \<times> string) list \<times> byte list"

fun find_window :: "byte list \<Rightarrow> byte list \<Rightarrow> nat option" where
  "find_window p [] = None"
| "find_window p (b # bs) =
     (if take (length p) (b # bs) = p then Some 0 else map_option Suc (find_window p bs))"

definition header_terminator :: "byte list" where
  "header_terminator = [13, 10, 13, 10]"

definition crlf :: string where
  "crlf = [CHR 0x0D, CHR 0x0A]"

fun scan_headers ::
  "string list \<Rightarrow> (string \<times> string) list \<Rightarrow> nat option \<Rightarrow> (string \<times> string) list \<times> nat option" where
  "scan_headers [] headers content_length = (headers, content_length)"
| "scan_headers (line # rest) headers content_length =
     (case split_once CHR '':'' line of
        None \<Rightarrow> scan_headers rest headers content_length
      | Some (name, val) \<Rightarrow>
          scan_headers rest (headers @ [(trim name, trim val)])
            (if eq_ignore_ascii_case name ''content-length''
             then parse_unsigned (2 ^ 64) (trim val) else content_length))"

definition parse_status :: "string \<Rightarrow> error + u16" where
  "parse_status status_line =
     (case split_whitespace status_line of
        _ # code # _ \<Rightarrow>
          (case parse_unsigned (2 ^ 16) code of
             Some n \<Rightarrow> Inr (of_nat n)
           | None \<Rightarrow> Inl (quick_tunnel_response_error ''malformed status code''))
      | _ \<Rightarrow> Inl (quick_tunnel_response_error ''malformed status line''))"

definition parse_http_response :: "byte list \<Rightarrow> error fault + http_response" where
  "parse_http_response bytes =
     (case find_window header_terminator bytes of
        None \<Rightarrow> Inl (Err (quick_tunnel_response_error ''missing response headers''))
      | Some header_end \<Rightarrow>
          bind_result (slice bytes 0 header_end) (\<lambda>prefix.
            case from_utf8 prefix of
              None \<Rightarrow> Inl (Err (quick_tunnel_response_error ''response headers not utf-8''))
            | Some head \<Rightarrow>
                (case split_str crlf head of
                   [] \<Rightarrow> Inl (Err (quick_tunnel_response_error ''empty status line''))
                 | status_line # rest \<Rightarrow>
                     bind_result (map_err Err (parse_status status_line)) (\<lambda>status.
                       case scan_headers rest [] None of (headers, content_length) \<Rightarrow>
                         bind_result (slice bytes (header_end + 4) (length bytes)) (\<lambda>body.
                           bind_result
                             (case content_length of
                                Some n \<Rightarrow> if n \<le> length body then slice body 0 n else Inr body
                              | None \<Rightarrow> Inr body)
                             (\<lambda>body. Inr (status, headers, body)))))))"

section \<open>The request\<close>

record uri =
  uri_scheme :: "string option"
  uri_host :: "string option"
  uri_port :: "u16 option"
  uri_path :: string
  uri_query :: "string option"

record 'w https_world =
  uri_try_from :: "string \<Rightarrow> string + uri"
  server_name_try_from :: "string \<Rightarrow> string + unit"
  https_lookup :: "string \<Rightarrow> u16 \<Rightarrow> ('w, io_error, socket_addr list) io"
  tcp_connect :: "duration \<Rightarrow> socket_addr \<Rightarrow> ('w, io_error, unit option) io"
  tls_connect :: "duration \<Rightarrow> string \<Rightarrow> ('w, io_error, unit option) io"
  tls_write_all :: "byte list \<Rightarrow> ('w, io_error, unit) io"
  tls_flush :: "('w, io_error, unit) io"
  tls_read_to_end :: "duration \<Rightarrow> ('w, io_error, (byte list) option) io"

definition elapsed_or :: "error \<Rightarrow> 'a option \<Rightarrow> ('w, error, 'a) io" where
  "elapsed_or e r = (case r of Some x \<Rightarrow> return_io x | None \<Rightarrow> throw_io e)"

definition request_text :: "string \<Rightarrow> string \<Rightarrow> string \<Rightarrow> (string \<times> string) list \<Rightarrow> string" where
  "request_text path query host headers =
     ''POST '' @ path @ query @ '' HTTP/1.1'' @ crlf
     @ ''Host: '' @ host @ crlf
     @ ''Content-Type: application/json'' @ crlf
     @ ''Content-Length: 0'' @ crlf
     @ ''Connection: close'' @ crlf
     @ concat (map (\<lambda>(name, val). name @ '': '' @ val @ crlf) headers)
     @ crlf"

fun strip_fault :: "error fault + 'a \<Rightarrow> ('w, error fault, 'a) io" where
  "strip_fault (Inl e) = throw_io e"
| "strip_fault (Inr x) = return_io x"

definition post_empty ::
  "'w https_world \<Rightarrow> string \<Rightarrow> (string \<times> string) list \<Rightarrow> duration
     \<Rightarrow> ('w, error fault, u16 \<times> byte list) io" where
  "post_empty env url headers timeout =
     bind_io (map_err_io Err (bind_io
       (lift_io (map_err (\<lambda>e. quick_tunnel_response_error (''invalid api url: '' @ e))
          (uri_try_from env url)))
       (\<lambda>uri.
        let scheme = (case uri_scheme uri of Some s \<Rightarrow> s | None \<Rightarrow> ''https'') in
        if scheme \<noteq> ''https''
        then throw_io (quick_tunnel_response_error (''unsupported scheme '' @ scheme))
        else case uri_host uri of
          None \<Rightarrow> throw_io (quick_tunnel_response_error ''missing host'')
        | Some host \<Rightarrow>
            let prt = (case uri_port uri of Some p \<Rightarrow> p | None \<Rightarrow> 443);
                path = (if uri_path uri = [] then ''/'' else uri_path uri);
                query = (case uri_query uri of Some q \<Rightarrow> CHR ''?'' # q | None \<Rightarrow> []) in
            bind_io (lift_io (map_err (\<lambda>e. quick_tunnel_response_error (''invalid host: '' @ e))
                       (server_name_try_from env host))) (\<lambda>_.
            bind_io (map_err_io quick_tunnel_request (https_lookup env host prt)) (\<lambda>addresses.
            bind_io (case addresses of
                       a # _ \<Rightarrow> return_io a
                     | [] \<Rightarrow> throw_io (quick_tunnel_response_error
                              (''could not resolve '' @ host @ '':'' @ decimal (unat prt)))) (\<lambda>address.
            bind_io (map_err_io quick_tunnel_request (tcp_connect env timeout address)) (\<lambda>r.
            bind_io (elapsed_or (quick_tunnel_api ''connection timed out'') r) (\<lambda>_.
            bind_io (map_err_io (\<lambda>e. quick_tunnel_request (io_err OtherKind (io_message e)))
                       (tls_connect env timeout host)) (\<lambda>r.
            bind_io (elapsed_or (quick_tunnel_api ''tls handshake timed out'') r) (\<lambda>_.
            bind_io (map_err_io quick_tunnel_request
                       (tls_write_all env (as_bytes (request_text path query host headers)))) (\<lambda>_.
            bind_io (map_err_io quick_tunnel_request (tls_flush env)) (\<lambda>_.
            bind_io (map_err_io quick_tunnel_request (tls_read_to_end env timeout))
              (elapsed_or (quick_tunnel_api ''response timed out''))))))))))))))
     (\<lambda>buffer. bind_io (strip_fault (parse_http_response buffer))
        (\<lambda>(status, headers, body). return_io (status, body)))"

section \<open>What the response parser returns\<close>

lemma find_window_Some:
  "find_window p bs = Some n \<Longrightarrow> n + length p \<le> length bs \<and> take (length p) (drop n bs) = p"
proof (induction p bs arbitrary: n rule: find_window.induct)
  case (2 p b bs)
  show ?case
  proof (cases "take (length p) (b # bs) = p")
    case True
    with 2(2) have "n = 0" by simp
    moreover have "length p \<le> length (b # bs)"
      using arg_cong [OF True, of length] by simp
    ultimately show ?thesis using True by simp
  next
    case False
    with 2 show ?thesis by auto
  qed
qed simp

lemma find_window_append:
  "find_window p bs = Some n \<Longrightarrow> bs = take n bs @ p @ drop (n + length p) bs"
  using find_window_Some [of p bs n]
  by (metis append_take_drop_id drop_drop add.commute)

lemma length_header_terminator [simp]: "length header_terminator = 4"
  by (simp add: header_terminator_def)

lemma parse_http_response_cases:
  assumes "find_window header_terminator bytes = Some n"
  shows "parse_http_response bytes =
    (case from_utf8 (take n bytes) of
       None \<Rightarrow> Inl (Err (quick_tunnel_response_error ''response headers not utf-8''))
     | Some head \<Rightarrow>
         (case split_str crlf head of
            [] \<Rightarrow> Inl (Err (quick_tunnel_response_error ''empty status line''))
          | status_line # rest \<Rightarrow>
              bind_result (map_err Err (parse_status status_line)) (\<lambda>status.
                case scan_headers rest [] None of (headers, content_length) \<Rightarrow>
                  Inr (status, headers,
                    case content_length of
                      Some k \<Rightarrow> take k (drop (n + 4) bytes)
                    | None \<Rightarrow> drop (n + 4) bytes))))"
proof -
  have n: "n + 4 \<le> length bytes" using find_window_Some [OF assms] by simp
  have body: "slice bytes (n + 4) (length bytes) = Inr (drop (n + 4) bytes)"
    using n by simp
  have cut: "(case c of
        Some k \<Rightarrow> if k \<le> length b then slice b 0 k else Inr b | None \<Rightarrow> Inr b) =
      Inr (case c of Some k \<Rightarrow> take k b | None \<Rightarrow> b)" for c and b :: "byte list"
    by (simp split: option.split)
  show ?thesis
    using n by (simp add: parse_http_response_def assms body cut cong: option.case_cong list.case_cong prod.case_cong)
qed

lemma parse_http_response_not_panic: "parse_http_response bytes \<noteq> Inl Panic"
proof (cases "find_window header_terminator bytes")
  case None
  then show ?thesis by (simp add: parse_http_response_def)
next
  case (Some n)
  show ?thesis
    by (auto simp: parse_http_response_cases [OF Some] bind_result_eq_Inl_iff map_err_eq_Inl_iff
        split: option.splits list.splits prod.splits)
qed

section \<open>The property of the response parser\<close>

text \<open>The response parser is total on arbitrary bytes: it never slices out of range, and the
  body it returns is a prefix of what follows the first blank line.\<close>

lemma http_response_body:
  "case parse_http_response bytes of
     Inl f \<Rightarrow> f \<noteq> Panic
   | Inr (status, headers, body) \<Rightarrow>
       \<exists>head rest k. bytes = head @ header_terminator @ rest \<and> body = take k rest"
proof (cases "parse_http_response bytes")
  case (Inl f)
  then show ?thesis using parse_http_response_not_panic [of bytes] by auto
next
  case (Inr r)
  obtain status headers body where r: "r = (status, headers, body)" by (cases r)
  with Inr have ok: "parse_http_response bytes = Inr (status, headers, body)" by simp
  then obtain n where n: "find_window header_terminator bytes = Some n"
    by (cases "find_window header_terminator bytes") (simp_all add: parse_http_response_def)
  let ?rest = "drop (n + 4) bytes"
  from ok obtain head where utf8: "from_utf8 (take n bytes) = Some head"
    by (auto simp: parse_http_response_cases [OF n] split: option.splits)
  with ok obtain status_line rest where split: "split_str crlf head = status_line # rest"
    by (auto simp: parse_http_response_cases [OF n] split: list.splits)
  obtain hs len where scan: "scan_headers rest [] None = (hs, len)" by fastforce
  have "body = (case len of Some k \<Rightarrow> take k ?rest | None \<Rightarrow> take (length ?rest) ?rest)"
    using ok by (simp add: parse_http_response_cases [OF n] utf8 split scan bind_result_eq_Inr_iff
        split: option.splits)
  then have "\<exists>k. body = take k ?rest" by (cases len) (simp_all only: option.case, blast+)
  then have "\<exists>head rest k. bytes = head @ header_terminator @ rest \<and> body = take k rest"
    using find_window_append [OF n] by (metis length_header_terminator)
  then show ?thesis using ok by simp
qed

end
