(* ===== verification/Tunnel.thy ===== *)
theory Tunnel
  imports Http_Api
begin

text \<open>
  Tunnel identities, \<open>src/tunnel\<close>: quick and named tunnels and the enum over them, the
  credentials-file and connector-token loaders, the quick tunnel API response and
  \<open>create_quick_tunnel\<close>. The decoders of the \<open>base64\<close>, \<open>serde_json\<close> and \<open>uuid\<close> crates are the
  fields of \<open>tunnel_codecs\<close>; where the source passes its own \<open>deserialize_with\<close> function
  to serde, the JSON decoder takes that function as an argument. Decoding errors are the
  text of the crate's error.
\<close>

section \<open>Identities\<close>

record quick_tunnel =
  quick_tunnel_identifier :: string
  quick_name :: string
  quick_hostname :: string
  quick_account_tag :: string
  quick_secret :: "byte list"

record named_tunnel =
  named_account_tag :: string
  named_tunnel_secret :: "byte list"
  named_tunnel_identifier :: string
  named_endpoint :: "string option"

datatype tunnel = Quick quick_tunnel | Named named_tunnel

fun account_tag :: "tunnel \<Rightarrow> string" where
  "account_tag (Quick t) = quick_account_tag t"
| "account_tag (Named t) = named_account_tag t"

fun tunnel_secret :: "tunnel \<Rightarrow> byte list" where
  "tunnel_secret (Quick t) = quick_secret t"
| "tunnel_secret (Named t) = named_tunnel_secret t"

fun tunnel_identifier :: "tunnel \<Rightarrow> string" where
  "tunnel_identifier (Quick t) = quick_tunnel_identifier t"
| "tunnel_identifier (Named t) = named_tunnel_identifier t"

fun hostname :: "tunnel \<Rightarrow> string option" where
  "hostname (Quick t) = Some (quick_hostname t)"
| "hostname (Named t) = None"

fun region_override :: "tunnel \<Rightarrow> string option" where
  "region_override (Named t) = named_endpoint t"
| "region_override (Quick t) = None"

definition url :: "quick_tunnel \<Rightarrow> string" where
  "url t =
     (if strip_prefix ''https://'' (quick_hostname t) \<noteq> None then quick_hostname t
      else ''https://'' @ quick_hostname t)"

section \<open>The decoders of other crates\<close>

record token_payload =
  token_account_tag :: string
  token_secret :: string
  token_tunnel_identifier :: string
  token_endpoint :: "string option"

record quick_tunnel_result =
  result_identifier :: string
  result_name :: string
  result_hostname :: string
  result_account_tag :: string
  result_secret :: "byte list"

record quick_tunnel_error =
  error_code :: i64
  error_message :: string

record quick_tunnel_response =
  response_success :: bool
  response_result :: "quick_tunnel_result option"
  response_errors :: "quick_tunnel_error list"

type_synonym secret_codec = "string \<Rightarrow> string + byte list"

record tunnel_codecs =
  base64_decode :: "string \<Rightarrow> string + byte list"
  uuid_parse_str :: "string \<Rightarrow> string + byte list"
  json_named_tunnel :: "secret_codec \<Rightarrow> byte list \<Rightarrow> string + named_tunnel"
  json_token_payload :: "byte list \<Rightarrow> string + token_payload"
  json_quick_response :: "secret_codec \<Rightarrow> byte list \<Rightarrow> string + quick_tunnel_response"

text \<open>\<open>secret::deserialize\<close>: a base64 string.\<close>

definition secret_deserialize :: "tunnel_codecs \<Rightarrow> secret_codec" where
  "secret_deserialize codecs encoded = base64_decode codecs encoded"

section \<open>Identifiers\<close>

text \<open>
  The \<open>Debug\<close> text of a string; ASCII control characters and quotes are escaped, other bytes
  are kept.
\<close>

definition hex_lower :: "nat \<Rightarrow> string" where
  "hex_lower n =
     (let d = (\<lambda>k. if k < 10 then char_of (48 + k) else char_of (87 + k)) in
      if n < 16 then [d n] else [d (n div 16), d (n mod 16)])"

definition escape_debug :: "char \<Rightarrow> string" where
  "escape_debug c =
     (let n = (of_char c :: nat) in
      if c = CHR 0x22 then [CHR 0x5C, CHR 0x22]
      else if c = CHR 0x5C then [CHR 0x5C, CHR 0x5C]
      else if n = 9 then [CHR 0x5C, CHR ''t'']
      else if n = 10 then [CHR 0x5C, CHR ''n'']
      else if n = 13 then [CHR 0x5C, CHR ''r'']
      else if n = 0 then [CHR 0x5C, CHR ''0'']
      else if n < 32 \<or> n = 127 then [CHR 0x5C, CHR ''u'', CHR ''{''] @ hex_lower n @ ''}''
      else [c])"

definition debug_str :: "string \<Rightarrow> string" where
  "debug_str s = CHR 0x22 # concat (map escape_debug s) @ [CHR 0x22]"

definition parse_tunnel_identifier :: "tunnel_codecs \<Rightarrow> string \<Rightarrow> error + byte list" where
  "parse_tunnel_identifier codecs ident =
     map_err (\<lambda>e. invalid_tunnel_identifier (debug_str ident @ '': '' @ e)) (uuid_parse_str codecs ident)"

definition tunnel_identifier_bytes :: "tunnel_codecs \<Rightarrow> tunnel \<Rightarrow> error + byte list" where
  "tunnel_identifier_bytes codecs t = parse_tunnel_identifier codecs (tunnel_identifier t)"

section \<open>Loaders\<close>

definition from_credentials_bytes :: "tunnel_codecs \<Rightarrow> io_error + byte list \<Rightarrow> error + named_tunnel" where
  "from_credentials_bytes codecs file =
     bind_result
       (map_err (\<lambda>e. named_tunnel_credentials (''failed to read credentials file: '' @ io_message e)) file)
       (\<lambda>bytes. bind_result
         (map_err named_tunnel_credentials (json_named_tunnel codecs (secret_deserialize codecs) bytes))
         (\<lambda>t. if named_tunnel_identifier t = []
              then Inl (named_tunnel_credentials ''credentials file has no TunnelID'')
              else Inr t))"

definition from_credentials_file ::
  "tunnel_codecs \<Rightarrow> ('path \<Rightarrow> io_error + byte list) \<Rightarrow> 'path \<Rightarrow> error + named_tunnel" where
  "from_credentials_file codecs fs_read path = from_credentials_bytes codecs (fs_read path)"

definition from_token :: "tunnel_codecs \<Rightarrow> string \<Rightarrow> error + named_tunnel" where
  "from_token codecs token =
     bind_result
       (map_err (\<lambda>e. named_tunnel_credentials (''token is not valid base64: '' @ e))
          (base64_decode codecs token))
       (\<lambda>raw. bind_result
         (map_err (\<lambda>e. named_tunnel_credentials (''token payload is not valid JSON: '' @ e))
            (json_token_payload codecs raw))
         (\<lambda>payload. bind_result
           (map_err (\<lambda>e. named_tunnel_credentials (''token secret is not valid base64: '' @ e))
              (base64_decode codecs (token_secret payload)))
           (\<lambda>secret.
             let t = \<lparr>named_account_tag = token_account_tag payload,
                      named_tunnel_secret = secret,
                      named_tunnel_identifier = token_tunnel_identifier payload,
                      named_endpoint = token_endpoint payload\<rparr> in
             if named_account_tag t = [] \<or> named_tunnel_secret t = []
             then Inl (named_tunnel_credentials
                        ''token payload is missing the account tag or secret'')
             else bind_result (parse_tunnel_identifier codecs (named_tunnel_identifier t))
                    (\<lambda>_. Inr t))))"

definition parse_response :: "tunnel_codecs \<Rightarrow> byte list \<Rightarrow> error + quick_tunnel" where
  "parse_response codecs body =
     bind_result
       (map_err quick_tunnel_response_error (json_quick_response codecs (secret_deserialize codecs) body))
       (\<lambda>data.
         if \<not> response_success data
         then Inl (quick_tunnel_api
                (case response_errors data of
                   e # _ \<Rightarrow> decimal_int (sint (error_code e)) @ '': '' @ error_message e
                 | [] \<Rightarrow> ''unknown error''))
         else case response_result data of
           None \<Rightarrow> Inl (quick_tunnel_response_error ''response has no result'')
         | Some result \<Rightarrow>
             if result_identifier result = [] \<or> result_hostname result = []
             then Inl (quick_tunnel_response_error ''response result is missing id or hostname'')
             else Inr \<lparr>quick_tunnel_identifier = result_identifier result,
                       quick_name = result_name result,
                       quick_hostname = result_hostname result,
                       quick_account_tag = result_account_tag result,
                       quick_secret = result_secret result\<rparr>)"

section \<open>Creating a quick tunnel\<close>

record quick_tunnel_options =
  service_url :: string
  http_timeout :: duration

definition DEFAULT_QUICK_SERVICE_URL :: string where
  "DEFAULT_QUICK_SERVICE_URL = ''https://api.trycloudflare.com''"

definition default_quick_tunnel_options :: quick_tunnel_options where
  "default_quick_tunnel_options =
     \<lparr>service_url = DEFAULT_QUICK_SERVICE_URL, http_timeout = from_secs 15\<rparr>"

definition trim_end_matches :: "char \<Rightarrow> string \<Rightarrow> string" where
  "trim_end_matches c s = rev (dropWhile (\<lambda>d. d = c) (rev s))"

text \<open>The package version of \<open>Cargo.toml\<close> that \<open>env!\<close> expands to.\<close>

definition CARGO_PKG_VERSION :: string where
  "CARGO_PKG_VERSION = ''0.2.0''"

definition create_quick_tunnel ::
  "'w https_world \<Rightarrow> tunnel_codecs \<Rightarrow> quick_tunnel_options \<Rightarrow> ('w, error fault, quick_tunnel) io" where
  "create_quick_tunnel env codecs options =
     bind_io
       (post_empty env (trim_end_matches CHR ''/'' (service_url options) @ ''/tunnel'')
          [(''user-agent'', ''cloudflared/'' @ CARGO_PKG_VERSION)] (http_timeout options))
       (\<lambda>(status, body).
         if 300 \<le> status
         then throw_io (Err (quick_tunnel_api
                (''service returned status '' @ decimal (unat status) @ '': ''
                   @ string_from_utf8_lossy body)))
         else lift_io (map_err Err (parse_response codecs body)))"

section \<open>What the loaders accept\<close>

lemma from_token_ok_iff:
  "from_token codecs token = Inr t \<longleftrightarrow>
     (\<exists>raw payload secret bytes.
        base64_decode codecs token = Inr raw \<and> json_token_payload codecs raw = Inr payload \<and>
        base64_decode codecs (token_secret payload) = Inr secret \<and>
        token_account_tag payload \<noteq> [] \<and> secret \<noteq> [] \<and>
        uuid_parse_str codecs (token_tunnel_identifier payload) = Inr bytes \<and>
        t = \<lparr>named_account_tag = token_account_tag payload, named_tunnel_secret = secret,
             named_tunnel_identifier = token_tunnel_identifier payload,
             named_endpoint = token_endpoint payload\<rparr>)"
  by (auto simp: from_token_def bind_result_eq_Inr_iff Let_def parse_tunnel_identifier_def
      split: if_splits)

lemma from_token_identifies:
  "from_token codecs token = Inr t \<Longrightarrow>
     named_account_tag t \<noteq> [] \<and> named_tunnel_secret t \<noteq> [] \<and>
     is_ok (tunnel_identifier_bytes codecs (Named t))"
  by (auto simp: from_token_ok_iff tunnel_identifier_bytes_def parse_tunnel_identifier_def)

lemma parse_response_ok_iff:
  "parse_response codecs body = Inr t \<longleftrightarrow>
     (\<exists>data result. json_quick_response codecs (secret_deserialize codecs) body = Inr data \<and>
        response_success data \<and> response_result data = Some result \<and>
        result_identifier result \<noteq> [] \<and> result_hostname result \<noteq> [] \<and>
        t = \<lparr>quick_tunnel_identifier = result_identifier result, quick_name = result_name result,
             quick_hostname = result_hostname result,
             quick_account_tag = result_account_tag result, quick_secret = result_secret result\<rparr>)"
  by (auto simp: parse_response_def bind_result_eq_Inr_iff split: option.splits if_splits)

lemma url_has_scheme: "\<exists>r. url t = ''https://'' @ r"
  by (auto simp: url_def strip_prefix_Some split: if_splits simp del: strip_prefix.simps)

lemma url_idem: "url (t\<lparr>quick_hostname := url t\<rparr>) = url t"
  by (auto simp: url_def strip_prefix_Some simp del: strip_prefix.simps)

section \<open>The property of the connector token\<close>

text \<open>A connector token that loads gives credentials a registration can use: a non-empty
  account tag and secret and a tunnel id that parses; and it loads exactly when the token, its
  payload and the payload's secret decode and those checks pass.\<close>

lemma token_loads_iff:
  "is_ok (from_token codecs token) \<longleftrightarrow>
     (\<exists>raw payload secret.
        base64_decode codecs token = Inr raw \<and> json_token_payload codecs raw = Inr payload \<and>
        base64_decode codecs (token_secret payload) = Inr secret \<and>
        token_account_tag payload \<noteq> [] \<and> secret \<noteq> [] \<and>
        is_ok (parse_tunnel_identifier codecs (token_tunnel_identifier payload)))"
proof -
  have ok: "is_ok r \<longleftrightarrow> (\<exists>x. r = Inr x)" for r :: "error + 'x" by (cases r) simp_all
  show ?thesis
    unfolding ok from_token_ok_iff parse_tunnel_identifier_def map_err_eq_Inr_iff by blast
qed

end
