(* ===== verification/Features.thy ===== *)
theory Features
  imports Main
begin

text \<open>
  \<open>build.rs\<close>: from the cargo features that are enabled to the \<open>cfg\<close> flags the crate is
  compiled with. The QUIC backends exclude each other and quiche wins.
\<close>

record cargo_features =
  feature_quick_tunnel :: bool
  feature_named_tunnel :: bool
  feature_quic_edge :: bool
  feature_quic_edge_quinn :: bool
  feature_quic_edge_quiche :: bool
  feature_h2_edge :: bool

datatype cfg_flag = any_tunnel | any_edge | edge_conn | quic_any | quic_quinn | quic_quiche | h2_any

definition emit_when :: "bool \<Rightarrow> 'a \<Rightarrow> 'a list" where
  "emit_when b x = (if b then [x] else [])"

definition build_cfgs :: "cargo_features \<Rightarrow> cfg_flag list" where
  "build_cfgs f =
     (let tunnel = feature_quick_tunnel f \<or> feature_named_tunnel f;
          quinn = feature_quic_edge f \<or> feature_quic_edge_quinn f;
          quiche = feature_quic_edge_quiche f;
          quic = quinn \<or> quiche;
          h2 = feature_h2_edge f;
          edge = quic \<or> h2 in
      emit_when tunnel any_tunnel
      @ emit_when edge any_edge
      @ emit_when (tunnel \<and> edge) edge_conn
      @ emit_when (quic \<and> tunnel) quic_any
      @ (if quiche then [quic_quiche] else emit_when quinn quic_quinn)
      @ emit_when (h2 \<and> tunnel) h2_any)"

definition build_warns_both_backends :: "cargo_features \<Rightarrow> bool" where
  "build_warns_both_backends f \<longleftrightarrow>
     feature_quic_edge_quiche f \<and> (feature_quic_edge f \<or> feature_quic_edge_quinn f)"

lemma in_emit_when [simp]: "y \<in> set (emit_when b x) \<longleftrightarrow> b \<and> y = x"
  by (cases b) (simp_all add: emit_when_def)

lemma one_quic_backend:
  "\<not> (quic_quinn \<in> set (build_cfgs f) \<and> quic_quiche \<in> set (build_cfgs f))"
  by (auto simp: build_cfgs_def Let_def)

lemma edge_conn_iff:
  "edge_conn \<in> set (build_cfgs f) \<longleftrightarrow>
     quic_any \<in> set (build_cfgs f) \<or> h2_any \<in> set (build_cfgs f)"
  by (auto simp: build_cfgs_def Let_def)

lemma quic_any_has_backend:
  "quic_any \<in> set (build_cfgs f) \<Longrightarrow>
     quic_quinn \<in> set (build_cfgs f) \<or> quic_quiche \<in> set (build_cfgs f)"
  by (auto simp: build_cfgs_def Let_def)

end
