(* ===== verification/Options.thy ===== *)
theory Options
  imports Rust_Std Features
begin

text \<open>
  Connection options, \<open>src/edge/connector/options.rs\<close> and the option types of \<open>src/run.rs\<close>:
  the transport enum, the defaults, the local configuration payload and the transport
  selection policy. The callback for pushed configurations is user code of type \<open>'cb\<close>.
\<close>

section \<open>Transports\<close>

datatype transport = TQuic | TH2 | TAuto

text \<open>
  The default depends on the build: \<open>None\<close> is a build with no transport, in which the
  function does not exist.
\<close>

definition default_transport :: "cfg_flag list \<Rightarrow> bool \<Rightarrow> transport option" where
  "default_transport cfgs h2_edge =
     (if quic_any \<in> set cfgs \<and> h2_edge then Some TAuto
      else if quic_any \<in> set cfgs then Some TQuic
      else if h2_edge then Some TH2
      else None)"

text \<open>The selection of a build with QUIC.\<close>

fun select_transport :: "transport \<Rightarrow> u8 \<Rightarrow> u8 \<Rightarrow> transport" where
  "select_transport TQuic quic_failures maximum_quic_failures = TQuic"
| "select_transport TH2 quic_failures maximum_quic_failures = TH2"
| "select_transport TAuto quic_failures maximum_quic_failures =
     (if maximum_quic_failures \<le> quic_failures then TH2 else TQuic)"

lemma select_transport_concrete [simp]: "select_transport t q m \<noteq> TAuto"
  by (cases t) simp_all

lemma select_transport_fixed: "t \<noteq> TAuto \<Longrightarrow> select_transport t q m = t"
  by (cases t) simp_all

text \<open>Transports in the order of the fallback: QUIC before HTTP/2, an open choice before both.\<close>

fun fallback_rank :: "transport \<Rightarrow> nat" where
  "fallback_rank TAuto = 0"
| "fallback_rank TQuic = 1"
| "fallback_rank TH2 = 2"

lemma fallback_rank_inject [simp]: "fallback_rank t = fallback_rank u \<longleftrightarrow> t = u"
  by (cases t; cases u) simp_all

instantiation transport :: linorder
begin

definition less_eq_transport :: "transport \<Rightarrow> transport \<Rightarrow> bool" where
  "t \<le> u \<longleftrightarrow> fallback_rank t \<le> fallback_rank u"

definition less_transport :: "transport \<Rightarrow> transport \<Rightarrow> bool" where
  "t < u \<longleftrightarrow> fallback_rank t < fallback_rank u"

instance
  by standard (auto simp: less_eq_transport_def less_transport_def)

end

lemma TH2_greatest [simp]: "TH2 \<le> t \<longleftrightarrow> t = TH2"
  by (cases t) (simp_all add: less_eq_transport_def)

text \<open>More QUIC failures never lead back: the selection is monotone in the counter.\<close>

lemma select_transport_mono: "q \<le> q' \<Longrightarrow> select_transport t q m \<le> select_transport t q' m"
  by (cases t) (auto simp: less_eq_transport_def)

section \<open>Options and defaults\<close>

record 'cb edge_options =
  opt_transport :: transport
  opt_region :: "string option"
  opt_ca_cert_pem :: "byte list option"
  opt_configuration_json :: "byte list"
  opt_connect_timeout :: duration
  opt_backoff :: duration
  opt_grace_period :: duration
  opt_maximum_quic_failures :: u8
  opt_on_remote_configuration :: "'cb option"

definition quoted :: "string \<Rightarrow> string" where
  "quoted s = CHR 0x22 # s @ [CHR 0x22]"

definition default_configuration_json :: string where
  "default_configuration_json =
     ''{'' @ quoted ''ingress'' @ '':[{'' @ quoted ''hostname'' @ '':'' @ quoted '''' @ '',''
     @ quoted ''service'' @ '':'' @ quoted ''http://127.0.0.1:8080'' @ ''}],''
     @ quoted ''warp-routing'' @ '':{}}''"

definition default_edge_options :: "transport \<Rightarrow> 'cb edge_options" where
  "default_edge_options transport =
     \<lparr>opt_transport = transport,
      opt_region = None,
      opt_ca_cert_pem = None,
      opt_configuration_json = as_bytes default_configuration_json,
      opt_connect_timeout = from_secs 15,
      opt_backoff = from_secs 1,
      opt_grace_period = from_secs 30,
      opt_maximum_quic_failures = 5,
      opt_on_remote_configuration = None\<rparr>"

section \<open>Quick tunnel runs\<close>

record run_options =
  run_region :: "string option"
  run_ca_cert_pem :: "byte list option"
  run_configuration_json :: "byte list"
  run_connect_timeout :: duration
  run_backoff :: duration

definition default_run_options :: run_options where
  "default_run_options =
     \<lparr>run_region = None,
      run_ca_cert_pem = None,
      run_configuration_json = as_bytes default_configuration_json,
      run_connect_timeout = from_secs 15,
      run_backoff = from_secs 1\<rparr>"

definition edge_options_from_run :: "transport \<Rightarrow> run_options \<Rightarrow> 'cb edge_options" where
  "edge_options_from_run built_in options =
     (default_edge_options built_in)
       \<lparr>opt_transport := TQuic,
        opt_region := run_region options,
        opt_ca_cert_pem := run_ca_cert_pem options,
        opt_configuration_json := run_configuration_json options,
        opt_connect_timeout := run_connect_timeout options,
        opt_backoff := run_backoff options\<rparr>"

lemma edge_options_from_run_default:
  "edge_options_from_run t default_run_options = (default_edge_options t)\<lparr>opt_transport := TQuic\<rparr>"
  by (simp add: edge_options_from_run_def default_run_options_def default_edge_options_def)

end
