(* ===== verification/Backoff.thy ===== *)
theory Backoff
  imports Rust_Std
begin

text \<open>
  The reconnect delay, \<open>src/edge/connector/backoff.rs\<close>. The eight random bytes (zeros when
  the system has none) arrive as the \<open>u64\<close> that the code reads from them.
\<close>

definition maximum_nanos :: "u32 \<Rightarrow> duration \<Rightarrow> u64" where
  "maximum_nanos retries base =
     (let exponent = min retries 30 in
      min (saturating_mul (of_nat (as_nanos base)) (push_bit (unat exponent) 1)) (push_bit 62 1))"

definition retry_delay :: "u32 \<Rightarrow> duration \<Rightarrow> u64 \<Rightarrow> duration" where
  "retry_delay retries base rand =
     (let maximum = maximum_nanos retries base in
      if maximum = 0 then from_nanos 0 else from_nanos (rand mod maximum))"

lemma as_nanos_from_nanos [simp]: "as_nanos (from_nanos n) = unat n"
proof -
  have ten9: "unat (1000000000 :: u64) = 1000000000" by simp
  have "unat (n mod 1000000000) < 1000000000"
    by (simp add: unat_mod)
  then have "unat (ucast (n mod 1000000000) :: u32) = unat n mod 1000000000"
    by (simp add: unsigned_ucast_eq unat_mod take_bit_nat_eq_self)
  then show ?thesis
    by (simp add: as_nanos_def from_nanos_def unat_div)
qed

lemma as_nanos_from_secs [simp]: "as_nanos (from_secs n) = unat n * 10 ^ 9"
  by (simp add: as_nanos_def from_secs_def)

lemma from_nanos_wf [simp]: "duration_wf (from_nanos n)"
proof -
  have "unat (n mod 1000000000) < 1000000000" by (simp add: unat_mod)
  then have "unat (ucast (n mod 1000000000) :: u32) < 1000000000"
    by (simp add: unsigned_ucast_eq take_bit_nat_eq_self)
  then show ?thesis by (simp add: duration_wf_def from_nanos_def)
qed

lemma unat_min: "unat (min a b) = min (unat a) (unat b)"
  by (simp add: min_def word_le_nat_alt)

lemma unat_shift_one: "n < LENGTH('a::len) \<Longrightarrow> unat (push_bit n (1 :: 'a word)) = 2 ^ n"
proof -
  assume n: "n < LENGTH('a)"
  then have "(2 :: nat) ^ n < 2 ^ LENGTH('a)" by simp
  moreover have "push_bit n (1 :: 'a word) = of_nat (2 ^ n)" by simp
  ultimately show ?thesis by (simp only: unat_of_nat mod_less)
qed

lemma unat_maximum_nanos:
  "unat (maximum_nanos retries base) =
     min (as_nanos base mod 2 ^ 64 * 2 ^ min (unat retries) 30) (2 ^ 62)"
proof -
  have e: "unat (min retries 30) = min (unat retries) 30" by (simp add: unat_min)
  have s: "unat (push_bit (min (unat retries) 30) (1 :: u64)) = 2 ^ min (unat retries) 30"
    by (rule unat_shift_one) simp
  have t: "unat (push_bit 62 (1 :: u64)) = 2 ^ 62"
    by (rule unat_shift_one) simp
  have "unat (maximum_nanos retries base) =
      min (min (as_nanos base mod 2 ^ 64 * 2 ^ min (unat retries) 30) (2 ^ 64 - 1)) (2 ^ 62)"
    unfolding maximum_nanos_def Let_def unat_min unat_saturating_mul e [unfolded unat_min] s t
    by (simp only: unat_of_nat e [unfolded unat_min] s) simp
  then show ?thesis by (simp add: min.assoc)
qed

lemma retry_delay_nanos:
  "as_nanos (retry_delay retries base rand) =
     (if maximum_nanos retries base = 0 then 0
      else unat rand mod unat (maximum_nanos retries base))"
  by (simp add: retry_delay_def Let_def unat_mod)

lemma retry_delay_below_maximum:
  assumes "as_nanos base < 2 ^ 64" and "0 < as_nanos base"
  shows "as_nanos (retry_delay retries base rand)
           < min (as_nanos base * 2 ^ min (unat retries) 30) (2 ^ 62)"
proof -
  have m: "unat (maximum_nanos retries base)
      = min (as_nanos base * 2 ^ min (unat retries) 30) (2 ^ 62)"
    using assms by (simp only: unat_maximum_nanos mod_less)
  then have "0 < unat (maximum_nanos retries base)" using assms by simp
  then show ?thesis unfolding retry_delay_nanos m [symmetric]
    by (auto simp: unat_eq_0)
qed

section \<open>The property of the delay\<close>

text \<open>C31. The delay is below \<open>base * 2 ^ min retries 30\<close> and below \<open>2 ^ 62\<close> nanoseconds whatever
  the random bytes are, for every base of less than \<open>2 ^ 64\<close> nanoseconds; its value is a
  well-formed duration. (A longer base is truncated by the cast to \<open>u64\<close>.)\<close>

theorem retry_delay_bound:
  assumes "0 < as_nanos base" and "as_nanos base < 2 ^ 64"
  shows "as_nanos (retry_delay retries base rand)
           < min (as_nanos base * 2 ^ min (unat retries) 30) (2 ^ 62) \<and>
         duration_wf (retry_delay retries base rand)"
  using retry_delay_below_maximum [OF assms(2,1)]
  by (simp add: retry_delay_def Let_def)

theorem retry_delay_bound_witness:
  "as_nanos (retry_delay 3 (from_secs 1) 12345678901234567) < 8 * 10 ^ 9"
  using retry_delay_bound [of "from_secs 1" 3 12345678901234567] by simp

end
