(* ===== verification/Connector.thy ===== *)
theory Connector
  imports Discovery Tunnel Options Backoff
begin

text \<open>
  The connector, \<open>src/edge/connector/mod.rs\<close>: \<open>build_connection\<close>, the loop over the edges of
  one round and the reconnect loop \<open>EdgeConnector::run\<close>. Its variables are the two mutable
  ones of the source, \<open>quic_failures : u8\<close> and \<open>attempt : u32\<close>. The environment holds the
  DNS world of \<open>Discovery\<close>, the transports' connect functions, the \<open>run\<close> of the
  connection trait, the clock and the shutdown notification: \<open>shutdown_cuts w = Some w'\<close>
  says that the notification arrives while the attempt that starts in \<open>w\<close> is in progress,
  which \<open>select!\<close> then drops in world \<open>w'\<close>. A run that never returns is \<open>None\<close>.
\<close>

section \<open>State and environment\<close>

record serve_attempt =
  attempt_result :: "error + unit"
  registered_at :: "nat option"
  quic_timed_out :: bool

definition serve_attempt_failed :: "error \<Rightarrow> serve_attempt" where
  "serve_attempt_failed e =
     \<lparr>attempt_result = Inl e, registered_at = None, quic_timed_out = False\<rparr>"

record 'cb edge_run_parameters =
  par_edge :: socket_addr
  par_tunnel :: tunnel
  par_configuration_json :: "byte list"
  par_grace_period :: duration
  par_attempt :: u32
  par_on_remote_configuration :: "'cb option"

record ('w, 'conn, 'cb) connector_env =
  conn_dns :: "'w dns_world"
  quic_connect :: "duration \<Rightarrow> socket_addr \<Rightarrow> byte list option \<Rightarrow> ('w, error, 'conn option) io"
  h2_connect :: "duration \<Rightarrow> socket_addr \<Rightarrow> byte list option \<Rightarrow> ('w, error, 'conn option) io"
  connection_run :: "'conn \<Rightarrow> 'cb edge_run_parameters \<Rightarrow> 'w \<Rightarrow> (serve_attempt \<times> 'w) option"
  shutdown_cuts :: "'w \<Rightarrow> 'w option"
  sleep_or_shutdown :: "duration \<Rightarrow> 'w \<Rightarrow> bool \<times> 'w"
  random64 :: "'w \<Rightarrow> u64 \<times> 'w"
  clock :: "'w \<Rightarrow> nat"

record loop_state =
  quic_failures :: u8
  attempt :: u32

text \<open>A statement of the loop body returns from \<open>run\<close> or goes on with a value.\<close>

datatype ('r, 'a) control = Return 'r | Continue 'a

section \<open>One connection attempt\<close>

definition build_connection ::
  "('w, 'conn, 'cb) connector_env \<Rightarrow> transport \<Rightarrow> socket_addr \<Rightarrow> byte list option \<Rightarrow> duration
     \<Rightarrow> ('w, error fault, 'conn) io" where
  "build_connection env transport edge ca_cert_pem connect_timeout =
     (case transport of
        TQuic \<Rightarrow>
          bind_io (map_err_io Err (quic_connect env connect_timeout edge ca_cert_pem))
            (\<lambda>r. case r of
               None \<Rightarrow> throw_io (Err (quic_error ''edge connection timed out''))
             | Some connection \<Rightarrow> return_io connection)
      | TH2 \<Rightarrow>
          bind_io (map_err_io Err (h2_connect env connect_timeout edge ca_cert_pem))
            (\<lambda>r. case r of
               None \<Rightarrow> throw_io (Err (h2_error ''edge connection timed out''))
             | Some connection \<Rightarrow> return_io connection)
      | TAuto \<Rightarrow> throw_io Panic)"

definition edge_parameters ::
  "'cb edge_options \<Rightarrow> tunnel \<Rightarrow> socket_addr \<Rightarrow> u32 \<Rightarrow> 'cb edge_run_parameters" where
  "edge_parameters options t edge att =
     \<lparr>par_edge = edge, par_tunnel = t,
      par_configuration_json = opt_configuration_json options,
      par_grace_period = opt_grace_period options, par_attempt = att,
      par_on_remote_configuration = opt_on_remote_configuration options\<rparr>"

text \<open>\<open>None\<close> in the result is the shutdown branch of \<open>select!\<close>; \<open>Inl Panic\<close> is \<open>unreachable!\<close>.\<close>

definition attempt_edge ::
  "('w, 'conn, 'cb) connector_env \<Rightarrow> 'cb edge_options \<Rightarrow> tunnel \<Rightarrow> transport \<Rightarrow> u32 \<Rightarrow> socket_addr
     \<Rightarrow> 'w \<Rightarrow> ((error fault + serve_attempt option) \<times> 'w) option" where
  "attempt_edge env options t transport att edge w =
     (case shutdown_cuts env w of
        Some w \<Rightarrow> Some (Inr None, w)
      | None \<Rightarrow>
          (case build_connection env transport edge (opt_ca_cert_pem options)
                  (opt_connect_timeout options) w of
             None \<Rightarrow> None
           | Some (Inl Panic, w) \<Rightarrow> Some (Inl Panic, w)
           | Some (Inl (Err e), w) \<Rightarrow> Some (Inr (Some (serve_attempt_failed e)), w)
           | Some (Inr connection, w) \<Rightarrow>
               map_option (\<lambda>(a, w). (Inr (Some a), w))
                 (connection_run env connection (edge_parameters options t edge att) w)))"

text \<open>\<open>registered_at.elapsed() >= grace_period\<close>, on a clock in nanoseconds.\<close>

definition healthy :: "nat option \<Rightarrow> nat \<Rightarrow> duration \<Rightarrow> bool" where
  "healthy registered now grace_period =
     (case registered of Some r \<Rightarrow> as_nanos grace_period \<le> now - r | None \<Rightarrow> False)"

text \<open>The body of \<open>for edge in &edges\<close>, with its \<open>continue\<close> and \<open>return\<close> statements.\<close>

definition edge_step ::
  "('w, 'conn, 'cb) connector_env \<Rightarrow> 'cb edge_options \<Rightarrow> tunnel \<Rightarrow> transport
     \<Rightarrow> socket_addr \<Rightarrow> u32 \<Rightarrow> bool \<Rightarrow> 'w
     \<Rightarrow> ((error fault + unit, u32 \<times> bool) control \<times> 'w) option" where
  "edge_step env options t transport edge att quic_broken w =
     (case attempt_edge env options t transport att edge w of
        None \<Rightarrow> None
      | Some (Inl p, w) \<Rightarrow> Some (Return (Inl p), w)
      | Some (Inr None, w) \<Rightarrow> Some (Return (Inr ()), w)
      | Some (Inr (Some a), w) \<Rightarrow>
          (case attempt_result a of
             Inr _ \<Rightarrow> Some (Return (Inr ()), w)
           | Inl e \<Rightarrow>
               if is_duplicate_connection e then Some (Continue (att, quic_broken), w)
               else if is_permanent e then Some (Return (Inl (Err e)), w)
               else Some (Continue
                 (if healthy (registered_at a) (clock env w) (opt_grace_period options)
                  then 0 else att,
                  quic_broken \<or> (quic_timed_out a \<and> transport = TQuic)), w)))"

fun edge_loop ::
  "('w, 'conn, 'cb) connector_env \<Rightarrow> 'cb edge_options \<Rightarrow> tunnel \<Rightarrow> transport
     \<Rightarrow> socket_addr list \<Rightarrow> u32 \<Rightarrow> bool \<Rightarrow> 'w
     \<Rightarrow> ((error fault + unit, u32 \<times> bool) control \<times> 'w) option" where
  "edge_loop env options t transport [] att quic_broken w =
     Some (Continue (att, quic_broken), w)"
| "edge_loop env options t transport (edge # edges) att quic_broken w =
     (case edge_step env options t transport edge att quic_broken w of
        None \<Rightarrow> None
      | Some (Return r, w) \<Rightarrow> Some (Return r, w)
      | Some (Continue (att, quic_broken), w) \<Rightarrow>
          edge_loop env options t transport edges att quic_broken w)"

section \<open>The reconnect loop\<close>

text \<open>Draws the delay; nothing is drawn when the bound is zero.\<close>

definition sleep_backoff ::
  "('w, 'conn, 'cb) connector_env \<Rightarrow> 'cb edge_options \<Rightarrow> u32 \<Rightarrow> 'w \<Rightarrow> bool \<times> 'w" where
  "sleep_backoff env options att w =
     (if maximum_nanos att (opt_backoff options) = 0
      then sleep_or_shutdown env (retry_delay att (opt_backoff options) 0) w
      else case random64 env w of (rand, w) \<Rightarrow>
             sleep_or_shutdown env (retry_delay att (opt_backoff options) rand) w)"

definition next_failures :: "'cb edge_options \<Rightarrow> transport \<Rightarrow> bool \<Rightarrow> u8 \<Rightarrow> u8" where
  "next_failures options transport quic_broken failures =
     (if transport = TQuic then
        (if quic_broken
         then max (saturating_add failures 1) (opt_maximum_quic_failures options)
         else saturating_add failures 1)
      else failures)"

definition effective_region :: "'cb edge_options \<Rightarrow> tunnel \<Rightarrow> string option" where
  "effective_region options t =
     (case opt_region options of Some r \<Rightarrow> Some r | None \<Rightarrow> region_override t)"

definition round_transport :: "'cb edge_options \<Rightarrow> loop_state \<Rightarrow> transport" where
  "round_transport options st =
     select_transport (opt_transport options) (quic_failures st) (opt_maximum_quic_failures options)"

definition run_round ::
  "('w, 'conn, 'cb) connector_env \<Rightarrow> 'cb edge_options \<Rightarrow> tunnel \<Rightarrow> loop_state \<Rightarrow> 'w
     \<Rightarrow> ((error fault + unit, loop_state) control \<times> 'w) option" where
  "run_round env options t st w =
     (let transport = round_transport options st in
      case discover_edges (conn_dns env) (effective_region options t) w of
        None \<Rightarrow> None
      | Some (Inl Panic, w) \<Rightarrow> Some (Return (Inl Panic), w)
      | Some (Inl (Err e), w) \<Rightarrow>
          (let att = saturating_add (attempt st) 1 in
           case sleep_backoff env options att w of
             (True, w) \<Rightarrow> Some (Return (Inr ()), w)
           | (False, w) \<Rightarrow> Some (Continue (st\<lparr>attempt := att\<rparr>), w))
      | Some (Inr edges, w) \<Rightarrow>
          (case edge_loop env options t transport edges (attempt st) False w of
             None \<Rightarrow> None
           | Some (Return r, w) \<Rightarrow> Some (Return r, w)
           | Some (Continue (att, quic_broken), w) \<Rightarrow>
               (let att = saturating_add att 1;
                    failures = next_failures options transport quic_broken (quic_failures st) in
                case sleep_backoff env options att w of
                  (True, w) \<Rightarrow> Some (Return (Inr ()), w)
                | (False, w) \<Rightarrow>
                    Some (Continue \<lparr>quic_failures = failures, attempt = att\<rparr>, w))))"

partial_function (option) run_loop ::
  "('w, 'conn, 'cb) connector_env \<Rightarrow> 'cb edge_options \<Rightarrow> tunnel \<Rightarrow> loop_state \<Rightarrow> 'w
     \<Rightarrow> ((error fault + unit) \<times> 'w) option" where
  "run_loop env options t st w =
     (case run_round env options t st w of
        None \<Rightarrow> None
      | Some (Return r, w) \<Rightarrow> Some (r, w)
      | Some (Continue st, w) \<Rightarrow> run_loop env options t st w)"

declare run_loop.simps [code]

definition initial_state :: loop_state where
  "initial_state = \<lparr>quic_failures = 0, attempt = 0\<rparr>"

definition run ::
  "('w, 'conn, 'cb) connector_env \<Rightarrow> 'cb edge_options \<Rightarrow> tunnel \<Rightarrow> 'w
     \<Rightarrow> ((error fault + unit) \<times> 'w) option" where
  "run env options t w = run_loop env options t initial_state w"

definition run_quick_tunnel ::
  "('w, 'conn, 'cb) connector_env \<Rightarrow> transport \<Rightarrow> quick_tunnel \<Rightarrow> run_options \<Rightarrow> 'w
     \<Rightarrow> ((error fault + unit) \<times> 'w) option" where
  "run_quick_tunnel env built_in t options w =
     run env (edge_options_from_run built_in options) (Quick t) w"

section \<open>How a run can end\<close>

text \<open>\<open>clean_end\<close>: shutdown (or a connection that ended without error), or a permanent error.\<close>

fun clean_end :: "error fault + unit \<Rightarrow> bool" where
  "clean_end (Inr u) = True"
| "clean_end (Inl (Err e)) = is_permanent e"
| "clean_end (Inl Panic) = False"

lemma clean_end_iff: "clean_end r \<longleftrightarrow> r = Inr () \<or> (\<exists>e. r = Inl (Err e) \<and> is_permanent e)"
  by (cases r rule: clean_end.cases) auto

lemma build_connection_not_panic:
  "transport \<noteq> TAuto \<Longrightarrow> build_connection env transport edge ca timeout w \<noteq> Some (Inl Panic, w')"
  by (cases transport)
     (auto simp: build_connection_def bind_io_eq_Inl_iff map_err_io_eq_Some_iff
        map_err_eq_Inl_iff [symmetric] split: option.splits dest!: sym [of "Inl Panic"] simp: map_err_eq_Inl_iff)

lemma attempt_edge_no_fault:
  assumes "transport \<noteq> TAuto"
  shows "attempt_edge env options t transport att edge w \<noteq> Some (Inl p, w')"
  using build_connection_not_panic [OF assms, of env edge _ _ w]
  by (fastforce simp: attempt_edge_def split: option.splits sum.splits fault.splits prod.splits)

lemma edge_step_cases:
  assumes "edge_step env options t transport edge att quic_broken w = Some (c, w')"
  obtains
    (fault) p where "attempt_edge env options t transport att edge w = Some (Inl p, w')"
      "c = Return (Inl p)"
  | (shutdown) "attempt_edge env options t transport att edge w = Some (Inr None, w')"
      "c = Return (Inr ())"
  | (ended) a where "attempt_edge env options t transport att edge w = Some (Inr (Some a), w')"
      "attempt_result a = Inr ()" "c = Return (Inr ())"
  | (duplicate) a e where
      "attempt_edge env options t transport att edge w = Some (Inr (Some a), w')"
      "attempt_result a = Inl e" "is_duplicate_connection e" "c = Continue (att, quic_broken)"
  | (permanent) a e where
      "attempt_edge env options t transport att edge w = Some (Inr (Some a), w')"
      "attempt_result a = Inl e" "is_permanent e" "c = Return (Inl (Err e))"
  | (failed) a e where
      "attempt_edge env options t transport att edge w = Some (Inr (Some a), w')"
      "attempt_result a = Inl e" "\<not> is_duplicate_connection e" "\<not> is_permanent e"
      "c = Continue
         (if healthy (registered_at a) (clock env w') (opt_grace_period options) then 0 else att,
          quic_broken \<or> (quic_timed_out a \<and> transport = TQuic))"
proof (cases "attempt_edge env options t transport att edge w")
  case None
  with assms show ?thesis by (simp add: edge_step_def)
next
  case (Some rw)
  obtain x w1 where rw: "rw = (x, w1)" by (cases rw)
  note step = assms [unfolded edge_step_def Some rw option.case prod.case]
  show ?thesis
  proof (cases x)
    case (Inl p)
    with step Some rw show ?thesis by (intro fault) auto
  next
    case (Inr r)
    show ?thesis
    proof (cases r)
      case None
      with step Some rw Inr show ?thesis by (intro shutdown) auto
    next
      case (Some a)
      show ?thesis
      proof (cases "attempt_result a")
        case (Inr u)
        then have "c = Return (Inr ())" and "w1 = w'"
          using step by (simp_all add: \<open>x = Inr r\<close> Some)
        with \<open>attempt_edge env options t transport att edge w = Some rw\<close> rw \<open>x = Inr r\<close> Some Inr
        show ?thesis by (intro ended [of a]) simp_all
      next
        case (Inl e)
        note facts = step \<open>attempt_edge env options t transport att edge w = Some rw\<close> rw
          \<open>x = Inr r\<close> Some Inl
        consider "is_duplicate_connection e" | "\<not> is_duplicate_connection e" "is_permanent e"
          | "\<not> is_duplicate_connection e" "\<not> is_permanent e" by blast
        then show ?thesis
        proof cases
          case 1 with facts show ?thesis by (intro duplicate [of a e]) auto
        next
          case 2 with facts show ?thesis by (intro permanent [of a e]) auto
        next
          case 3 with facts show ?thesis by (intro failed [of a e]) auto
        qed
      qed
    qed
  qed
qed

lemma edge_step_return:
  assumes "transport \<noteq> TAuto"
    and "edge_step env options t transport edge att quic_broken w = Some (Return r, w')"
  shows "clean_end r"
  using assms(2) by (cases rule: edge_step_cases) (simp_all add: attempt_edge_no_fault [OF assms(1)])

lemma edge_step_continue:
  assumes "edge_step env options t transport edge att quic_broken w
             = Some (Continue (att', broken'), w')"
  shows "att' \<in> {0, att} \<and> (quic_broken \<longrightarrow> broken') \<and>
         (broken' \<longrightarrow> quic_broken \<or> transport = TQuic)"
  using assms by (cases rule: edge_step_cases) simp_all

lemma edge_loop_return:
  assumes "transport \<noteq> TAuto"
  shows "edge_loop env options t transport edges att quic_broken w = Some (Return r, w') \<Longrightarrow>
    clean_end r"
proof (induction edges arbitrary: att quic_broken w)
  case (Cons edge edges)
  then show ?case
    by (auto split: option.splits prod.splits control.splits dest: edge_step_return [OF assms])
qed simp

lemma edge_loop_continue:
  "edge_loop env options t transport edges att quic_broken w = Some (Continue (att', broken'), w') \<Longrightarrow>
   att' \<in> {0, att} \<and> (quic_broken \<longrightarrow> broken') \<and> (broken' \<longrightarrow> quic_broken \<or> transport = TQuic)"
proof (induction edges arbitrary: att quic_broken w)
  case (Cons edge edges)
  then obtain a b w1 where
    step: "edge_step env options t transport edge att quic_broken w = Some (Continue (a, b), w1)"
    and rest: "edge_loop env options t transport edges a b w1 = Some (Continue (att', broken'), w')"
    by (auto split: option.splits prod.splits control.splits)
  show ?case using Cons.IH [OF rest] edge_step_continue [OF step] by auto
qed simp

lemma edge_loop_append:
  "edge_loop env options t transport (es @ es') att quic_broken w =
     (case edge_loop env options t transport es att quic_broken w of
        None \<Rightarrow> None
      | Some (Return r, w) \<Rightarrow> Some (Return r, w)
      | Some (Continue (att, quic_broken), w) \<Rightarrow>
          edge_loop env options t transport es' att quic_broken w)"
  by (induction es arbitrary: att quic_broken w)
     (simp_all split: option.split prod.split control.split)

lemma discover_edges_not_panic: "discover_edges env region w \<noteq> Some (Inl Panic, w')"
proof
  assume "discover_edges env region w = Some (Inl Panic, w')"
  then show False by (rule discover_edges_cases) (simp split: if_splits)
qed

lemma round_transport_concrete [simp]: "round_transport options st \<noteq> TAuto"
  by (simp add: round_transport_def)

lemma run_round_return:
  "run_round env options t st w = Some (Return r, w') \<Longrightarrow> clean_end r"
  by (auto simp: run_round_def Let_def discover_edges_not_panic
      split: option.splits sum.splits prod.splits fault.splits control.splits bool.splits
      dest: edge_loop_return [OF round_transport_concrete])

text \<open>What every round that returns guarantees, the loop guarantees.\<close>

lemma run_loop_returns:
  assumes "run_loop env options t st w = Some (r, w')"
    and round: "\<And>st w r w'. run_round env options t st w = Some (Return r, w') \<Longrightarrow> P r w'"
  shows "P r w'"
proof -
  have "e = env \<longrightarrow> os = options \<longrightarrow> tn = t \<longrightarrow> P (fst y) (snd y)"
    if "run_loop e os tn st w = Some y" for e os tn st w y
  proof (rule run_loop.raw_induct
      [where P = "\<lambda>e os tn st w y. e = env \<longrightarrow> os = options \<longrightarrow> tn = t \<longrightarrow> P (fst y) (snd y)", OF _ that])
    fix loop :: "('a, 'b, 'c) connector_env \<Rightarrow> 'c edge_options \<Rightarrow> tunnel \<Rightarrow> loop_state \<Rightarrow> 'a
        \<Rightarrow> ((error fault + unit) \<times> 'a) option"
      and e os tn st w y
    assume IH: "\<And>e os tn st w y. loop e os tn st w = Some y \<Longrightarrow>
        e = env \<longrightarrow> os = options \<longrightarrow> tn = t \<longrightarrow> P (fst y) (snd y)"
      and step: "(case run_round e os tn st w of
          None \<Rightarrow> None
        | Some (Return r, w) \<Rightarrow> Some (r, w)
        | Some (Continue st, w) \<Rightarrow> loop e os tn st w) = Some y"
    then show "e = env \<longrightarrow> os = options \<longrightarrow> tn = t \<longrightarrow> P (fst y) (snd y)"
      by (auto split: option.splits prod.splits control.splits dest: round)
  qed
  from this [OF assms(1)] show ?thesis by simp
qed

lemma run_loop_clean_end:
  "run_loop env options t st w = Some (r, w') \<Longrightarrow> clean_end r"
  by (erule run_loop_returns [where P = "\<lambda>r w. clean_end r"]) (rule run_round_return)

section \<open>The reconnect policy\<close>

text \<open>
  The abstract machine behind the loop: a round either found no edges, or tried them (the
  label) and ended with the QUIC transport seen broken or not. \<open>run_path\<close> is a sequence of
  rounds of the code, labelled by whether discovery succeeded, and each of its rounds is a
  step of the machine.
\<close>

inductive policy_step :: "'cb edge_options \<Rightarrow> loop_state \<Rightarrow> bool \<Rightarrow> loop_state \<Rightarrow> bool"
  for options :: "'cb edge_options" where
  undiscovered: "policy_step options st False (st\<lparr>attempt := saturating_add (attempt st) 1\<rparr>)"
| tried: "att \<in> {0, attempt st} \<Longrightarrow> (broken \<longrightarrow> round_transport options st = TQuic) \<Longrightarrow>
    policy_step options st True
      \<lparr>quic_failures = next_failures options (round_transport options st) broken (quic_failures st),
       attempt = saturating_add att 1\<rparr>"

inductive_cases policy_stepE: "policy_step options st l st'"
inductive_simps policy_step_undiscovered [simp]: "policy_step options st False st'"

definition edges_found ::
  "('w, 'conn, 'cb) connector_env \<Rightarrow> 'cb edge_options \<Rightarrow> tunnel \<Rightarrow> 'w \<Rightarrow> bool" where
  "edges_found env options t w \<longleftrightarrow>
     (case discover_edges (conn_dns env) (effective_region options t) w of
        Some (Inr _, _) \<Rightarrow> True | _ \<Rightarrow> False)"

inductive run_path ::
  "('w, 'conn, 'cb) connector_env \<Rightarrow> 'cb edge_options \<Rightarrow> tunnel \<Rightarrow> loop_state \<Rightarrow> 'w \<Rightarrow> bool list
     \<Rightarrow> loop_state \<Rightarrow> 'w \<Rightarrow> bool"
  for env :: "('w, 'conn, 'cb) connector_env" and options :: "'cb edge_options" and t :: tunnel where
  stay: "run_path env options t st w [] st w"
| step: "run_round env options t st w = Some (Continue st1, w1) \<Longrightarrow>
    run_path env options t st1 w1 ls st2 w2 \<Longrightarrow>
    run_path env options t st w (edges_found env options t w # ls) st2 w2"

lemma run_round_continue_cases:
  assumes "run_round env options t st w = Some (Continue st', w')"
  obtains
    (undiscovered) e w1 where
      "discover_edges (conn_dns env) (effective_region options t) w = Some (Inl (Err e), w1)"
      "sleep_backoff env options (saturating_add (attempt st) 1) w1 = (False, w')"
      "st' = st\<lparr>attempt := saturating_add (attempt st) 1\<rparr>"
  | (tried) edges w1 att broken w2 where
      "discover_edges (conn_dns env) (effective_region options t) w = Some (Inr edges, w1)"
      "edge_loop env options t (round_transport options st) edges (attempt st) False w1
         = Some (Continue (att, broken), w2)"
      "sleep_backoff env options (saturating_add att 1) w2 = (False, w')"
      "st' = \<lparr>quic_failures = next_failures options (round_transport options st) broken (quic_failures st),
              attempt = saturating_add att 1\<rparr>"
proof (cases "discover_edges (conn_dns env) (effective_region options t) w")
  case None
  with assms show ?thesis by (simp add: run_round_def)
next
  case (Some rw)
  obtain r w1 where rw: "rw = (r, w1)" by (cases rw)
  note round = assms [unfolded run_round_def Let_def Some rw option.case prod.case]
  show ?thesis
  proof (cases r)
    case (Inl p)
    with round Some rw show ?thesis
      by (cases p) (auto intro: undiscovered split: prod.splits bool.splits)
  next
    case (Inr edges)
    note round' = round [unfolded Inr sum.case]
    then obtain att broken w2 where loop: "edge_loop env options t (round_transport options st)
        edges (attempt st) False w1 = Some (Continue (att, broken), w2)"
      by (auto split: option.splits prod.splits control.splits)
    show ?thesis
      using round' loop Some rw Inr
      by (intro tried [of edges w1 att broken w2]) (auto split: prod.splits bool.splits)
  qed
qed

lemma run_round_policy_step:
  assumes "run_round env options t st w = Some (Continue st', w')"
  shows "policy_step options st (edges_found env options t w) st'"
  using assms
proof (cases rule: run_round_continue_cases)
  case (undiscovered e w1)
  then show ?thesis by (simp add: edges_found_def)
next
  case (tried edges w1 att broken w2)
  then show ?thesis
    using edge_loop_continue [OF tried(2)]
    by (auto simp: edges_found_def intro: policy_step.tried)
qed

lemma next_failures_mono: "failures \<le> next_failures options transport broken failures"
  using saturating_add_ge [of failures 1]
  by (auto simp: next_failures_def le_max_iff_disj)

lemma policy_step_failures_mono:
  "policy_step options st l st' \<Longrightarrow> quic_failures st \<le> quic_failures st'"
  by (auto elim!: policy_stepE simp: next_failures_mono)

lemma policy_step_attempt:
  "policy_step options st l st' \<Longrightarrow>
   attempt st' = saturating_add (attempt st) 1 \<or> attempt st' = saturating_add 0 1"
  by (auto elim!: policy_stepE)

lemma run_path_failures_mono:
  "run_path env options t st w ls st' w' \<Longrightarrow> quic_failures st \<le> quic_failures st'"
  by (induction rule: run_path.induct)
     (auto dest!: run_round_policy_step policy_step_failures_mono)

lemma policy_step_counts:
  assumes "policy_step options st l st'" and "opt_transport options = TAuto"
  shows "min (unat (opt_maximum_quic_failures options)) (unat (quic_failures st) + (if l then 1 else 0))
           \<le> unat (quic_failures st')"
  using assms
proof (cases rule: policy_step.cases)
  case (tried att broken)
  let ?m = "opt_maximum_quic_failures options" and ?q = "quic_failures st"
  show ?thesis
  proof (cases "?m \<le> ?q")
    case True
    with tried assms(2) show ?thesis
      by (simp add: round_transport_def next_failures_def word_le_nat_alt)
  next
    case False
    then have "unat (saturating_add ?q 1) = unat ?q + 1"
      using unsigned_less [of ?m, where 'a = nat]
      by (simp add: unat_saturating_add word_le_nat_alt)
    moreover have "saturating_add ?q 1 \<le> quic_failures st'"
      using tried False assms(2)
      by (simp add: round_transport_def next_failures_def)
    ultimately show ?thesis using tried by (simp add: word_le_nat_alt)
  qed
qed (use assms in simp)

lemma run_path_counts:
  assumes "run_path env options t st w ls st' w'" and "opt_transport options = TAuto"
  shows "min (unat (opt_maximum_quic_failures options))
           (unat (quic_failures st) + length (filter id ls)) \<le> unat (quic_failures st')"
  using assms(1)
proof (induction rule: run_path.induct)
  case (step st w st1 w1 ls st2 w2)
  have "min (unat (opt_maximum_quic_failures options))
      (unat (quic_failures st) + (if edges_found env options t w then 1 else 0))
        \<le> unat (quic_failures st1)"
    using policy_step_counts [OF run_round_policy_step [OF step.hyps(1)] assms(2)] by simp
  with step.IH show ?case by (auto simp: min_def split: if_splits)
qed simp

lemma edge_loop_timed_out:
  assumes "edge_loop env options t TQuic es att False w = Some (Continue (att1, b1), w1)"
    and "attempt_edge env options t TQuic att1 edge w1 = Some (Inr (Some a), w2)"
    and "attempt_result a = Inl e" "\<not> is_duplicate_connection e" "\<not> is_permanent e"
    and "quic_timed_out a"
    and "edge_loop env options t TQuic (es @ edge # es') att False w
           = Some (Continue (att', broken), w')"
  shows broken
proof -
  have step: "edge_step env options t TQuic edge att1 b1 w1 = Some (Continue
      (if healthy (registered_at a) (clock env w2) (opt_grace_period options) then 0 else att1, True), w2)"
    using assms(2-6) by (simp add: edge_step_def)
  show ?thesis
    using assms(1,7) by (auto simp: edge_loop_append step dest: edge_loop_continue)
qed

section \<open>A concrete environment\<close>

text \<open>One edge, on which every connection ends in the given attempt; no shutdown.\<close>

definition demo_tunnel :: tunnel where
  "demo_tunnel = Quick \<lparr>quick_tunnel_identifier = ''id'', quick_name = [], quick_hostname = ''h'',
     quick_account_tag = ''tag'', quick_secret = [1]\<rparr>"

definition demo_edge :: socket_addr where
  "demo_edge = \<lparr>ip = V4 1, port = 7844\<rparr>"

definition demo_env :: "serve_attempt \<Rightarrow> (unit, unit, unit) connector_env" where
  "demo_env a =
     \<lparr>conn_dns = one_host_world,
      quic_connect = (\<lambda>d e c. return_io (Some ())),
      h2_connect = (\<lambda>d e c. return_io (Some ())),
      connection_run = (\<lambda>c p w. Some (a, w)),
      shutdown_cuts = (\<lambda>w. None),
      sleep_or_shutdown = (\<lambda>d w. (False, w)),
      random64 = (\<lambda>w. (5, w)),
      clock = (\<lambda>w. 0)\<rparr>"

definition demo_options :: "transport \<Rightarrow> unit edge_options" where
  "demo_options tr = (default_edge_options tr)\<lparr>opt_maximum_quic_failures := 1\<rparr>"

definition demo_failure :: "error \<Rightarrow> bool \<Rightarrow> serve_attempt" where
  "demo_failure e timed_out =
     \<lparr>attempt_result = Inl e, registered_at = None, quic_timed_out = timed_out\<rparr>"

lemma demo_failure_simps [simp]:
  "attempt_result (demo_failure e b) = Inl e"
  "registered_at (demo_failure e b) = None"
  "quic_timed_out (demo_failure e b) = b"
  by (simp_all add: demo_failure_def)

lemma demo_options_simps [simp]:
  "opt_transport (demo_options tr) = tr"
  "opt_maximum_quic_failures (demo_options tr) = 1"
  by (simp_all add: demo_options_def default_edge_options_def)

lemma demo_discover:
  "discover_edges (conn_dns (demo_env a)) (effective_region (demo_options tr) demo_tunnel) ()
     = Some (Inr [demo_edge], ())"
  using one_host_edges
  by (simp add: demo_env_def effective_region_def demo_options_def default_edge_options_def
      demo_tunnel_def demo_edge_def)

lemma demo_attempt:
  "tr \<noteq> TAuto \<Longrightarrow> attempt_edge (demo_env a) options t tr att edge () = Some (Inr (Some a), ())"
  by (cases tr) (simp_all add: attempt_edge_def build_connection_def demo_env_def bind_io_def
      map_err_io_def)

lemma demo_sleep: "sleep_backoff (demo_env a) options att () = (False, ())"
  by (simp add: sleep_backoff_def demo_env_def)

lemma demo_round:
  assumes "\<not> is_duplicate_connection e" "\<not> is_permanent e"
  shows "run_round (demo_env (demo_failure e b)) (demo_options tr) demo_tunnel st () =
    (let transport = round_transport (demo_options tr) st in Some (Continue
      \<lparr>quic_failures = next_failures (demo_options tr) transport
         (b \<and> transport = TQuic) (quic_failures st),
       attempt = saturating_add (attempt st) 1\<rparr>, ()))"
  using assms
  by (simp add: run_round_def demo_discover edge_step_def demo_attempt demo_sleep healthy_def
      Let_def)

lemma not_duplicate [simp]:
  "\<not> is_duplicate_connection (quic_error m)" "\<not> is_duplicate_connection (h2_error m)"
  by (simp_all add: quic_error_def h2_error_def)

lemmas demo_simps = initial_state_def round_transport_def next_failures_def saturating_add_def

section \<open>The properties of the connector\<close>


lemma demo_permanent_run:
  "run (demo_env (demo_failure (registration_error (Permanent ''no'')) False)) (demo_options TAuto)
     demo_tunnel () = Some (Inl (Err (registration_error (Permanent ''no''))), ())"
  unfolding run_def
  by (subst run_loop.simps)
     (simp add: run_round_def demo_discover edge_step_def demo_attempt registration_error_def)


text \<open>A permanent failure ends the run at once: when the edges before it ended in failures
  the loop goes on from and the next attempt fails permanently, \<open>run_loop\<close> returns that error,
  and no later edge is tried and no delay is slept.\<close>

lemma permanent_failure_ends_run:
  assumes "discover_edges (conn_dns env) (effective_region options t) w
             = Some (Inr (es @ edge # es'), w1)"
    and "edge_loop env options t (round_transport options st) es (attempt st) False w1
           = Some (Continue (att, broken), w2)"
    and "attempt_edge env options t (round_transport options st) att edge w2
           = Some (Inr (Some a), w3)"
    and "attempt_result a = Inl e" and "is_permanent e"
  shows "run_loop env options t st w = Some (Inl (Err e), w3)"
proof -
  have "edge_step env options t (round_transport options st) edge att broken w2
      = Some (Return (Inl (Err e)), w3)"
    using assms(3-5) permanent_not_duplicate [OF assms(5)] by (simp add: edge_step_def)
  then have "run_round env options t st w = Some (Return (Inl (Err e)), w3)"
    using assms(1,2) by (simp add: run_round_def edge_loop_append)
  then show ?thesis by (subst run_loop.simps) simp
qed

text \<open>A duplicate connection only moves on: the next edge is tried with the same attempt
  counter and the same verdict on QUIC.\<close>

lemma duplicate_tries_next_edge:
  assumes "attempt_edge env options t transport att edge w = Some (Inr (Some a), w1)"
    and "attempt_result a = Inl e" and "is_duplicate_connection e"
  shows "edge_loop env options t transport (edge # edges) att quic_broken w =
         edge_loop env options t transport edges att quic_broken w1"
  using assms by (simp add: edge_step_def)

text \<open>C2. \<open>Auto\<close> falls back: once as many rounds as \<open>maximum_quic_failures\<close> have found edges and
  ended without a connection that holds, the next round uses HTTP/2. (Rounds whose discovery
  failed do not count against QUIC.)\<close>

theorem auto_falls_back:
  assumes "run_path env options t initial_state w ls st w'"
    and "opt_transport options = TAuto"
    and "unat (opt_maximum_quic_failures options) \<le> length (filter id ls)"
  shows "round_transport options st = TH2"
  using run_path_counts [OF assms(1,2)] assms(2,3)
  by (simp add: round_transport_def initial_state_def word_le_nat_alt)

lemma demo_path:
  "run_path (demo_env (demo_failure (quic_error ''x'') b)) (demo_options TAuto) demo_tunnel
     initial_state () [True] \<lparr>quic_failures = 1, attempt = 1\<rparr> ()"
proof -
  let ?env = "demo_env (demo_failure (quic_error ''x'') b)"
  have "run_round ?env (demo_options TAuto) demo_tunnel initial_state ()
      = Some (Continue \<lparr>quic_failures = 1, attempt = 1\<rparr>, ())"
    by (subst demo_round) (simp_all add: demo_simps Let_def)
  then have "run_path ?env (demo_options TAuto) demo_tunnel initial_state ()
      [edges_found ?env (demo_options TAuto) demo_tunnel ()] \<lparr>quic_failures = 1, attempt = 1\<rparr> ()"
    by (rule run_path.step) (rule run_path.stay)
  then show ?thesis by (simp add: edges_found_def demo_discover)
qed

theorem auto_falls_back_witness:
  "round_transport (demo_options TAuto) initial_state = TQuic \<and>
   round_transport (demo_options TAuto) \<lparr>quic_failures = 1, attempt = 1\<rparr> = TH2"
  using auto_falls_back [OF demo_path] by (simp add: round_transport_def initial_state_def)

text \<open>The fallback is final: a run that has selected HTTP/2 selects it in every later round.\<close>

lemma fallback_is_final:
  assumes "run_path env options t st w ls st' w'" and "round_transport options st = TH2"
  shows "round_transport options st' = TH2"
proof -
  have "round_transport options st \<le> round_transport options st'"
    unfolding round_transport_def by (rule select_transport_mono [OF run_path_failures_mono [OF assms(1)]])
  with assms(2) show ?thesis by simp
qed

text \<open>An idle timeout of a QUIC connection falls back at once: under \<open>Auto\<close>, if one edge of
  the round timed out, the round after it uses HTTP/2 whatever the counter was.\<close>

lemma idle_timeout_falls_back:
  assumes "opt_transport options = TAuto" and "round_transport options st = TQuic"
    and "discover_edges (conn_dns env) (effective_region options t) w
           = Some (Inr (es @ edge # es'), w1)"
    and "edge_loop env options t TQuic es (attempt st) False w1 = Some (Continue (att, broken), w2)"
    and "attempt_edge env options t TQuic att edge w2 = Some (Inr (Some a), w3)"
    and "attempt_result a = Inl e" "\<not> is_duplicate_connection e" "\<not> is_permanent e"
    and "quic_timed_out a"
    and "run_round env options t st w = Some (Continue st', w')"
  shows "round_transport options st' = TH2"
  using assms(10)
proof (cases rule: run_round_continue_cases)
  case (undiscovered e w1')
  with assms(3) show ?thesis by simp
next
  case (tried edges w1' att' broken' w2')
  with assms(2,3) have "broken'"
    using edge_loop_timed_out [OF assms(4-9)] by simp
  with tried(4) assms(1,2) show ?thesis
    by (simp add: round_transport_def next_failures_def)
qed

text \<open>Some attempt over the transport holds for the grace period before it fails.\<close>

definition some_attempt_healthy ::
  "('w, 'conn, 'cb) connector_env \<Rightarrow> 'cb edge_options \<Rightarrow> tunnel \<Rightarrow> transport \<Rightarrow> bool" where
  "some_attempt_healthy env options t transport \<longleftrightarrow>
     (\<exists>att edge w a w'. attempt_edge env options t transport att edge w = Some (Inr (Some a), w') \<and>
        healthy (registered_at a) (clock env w') (opt_grace_period options))"

lemma edge_loop_unhealthy:
  assumes "\<not> some_attempt_healthy env options t transport"
  shows "edge_loop env options t transport edges att quic_broken w
           = Some (Continue (att', broken'), w') \<Longrightarrow> att' = att"
proof (induction edges arbitrary: att quic_broken w)
  case (Cons edge edges)
  then obtain a b w1 where
    step: "edge_step env options t transport edge att quic_broken w = Some (Continue (a, b), w1)"
    and rest: "edge_loop env options t transport edges a b w1 = Some (Continue (att', broken'), w')"
    by (auto split: option.splits prod.splits control.splits)
  from step have "a = att"
  proof (cases rule: edge_step_cases)
    case (failed x e)
    with assms have "\<not> healthy (registered_at x) (clock env w1) (opt_grace_period options)"
      unfolding some_attempt_healthy_def by blast
    with failed show ?thesis by simp
  qed simp_all
  with Cons.IH [OF rest] show ?case by simp
qed simp

text \<open>The backoff counter after a round that goes on is one more than before (saturating), or
  restarts at one; it restarts only when some connection had been registered for at least the
  grace period.\<close>

lemma backoff_counter:
  assumes "run_round env options t st w = Some (Continue st', w')"
  shows "(attempt st' = saturating_add (attempt st) 1 \<or> attempt st' = 1) \<and>
    (attempt st' = saturating_add (attempt st) 1 \<or>
     some_attempt_healthy env options t (round_transport options st))"
  using assms
proof (cases rule: run_round_continue_cases)
  case (tried edges w1 att broken w2)
  have "att = attempt st \<or> att = 0"
    using edge_loop_continue [OF tried(2)] by auto
  moreover have "some_attempt_healthy env options t (round_transport options st) \<or> att = attempt st"
    using edge_loop_unhealthy [OF _ tried(2)] by auto
  ultimately show ?thesis
    using tried(4) by (auto simp: saturating_add_def)
qed simp

end
