(* ===== verification/Streams.thy ===== *)
theory Streams
  imports Errors Io
begin

text \<open>
  Byte streams. A stream of type \<open>'s\<close> offers the awaited operations of \<open>AsyncRead\<close> and
  \<open>AsyncWrite\<close>: a read into a buffer of \<open>n\<close> bytes returns the bytes read (none at the end of
  the stream), a write returns how many bytes were taken; \<open>None\<close> is an operation that never
  becomes ready. Here are \<open>read_exact\<close> and \<open>write_all\<close> of \<open>rpc/src/io.rs\<close>, and the locales
  that state what a reader and a writer promise: every provider in the development
  interprets them, and every client lemma is proved once, inside them.
\<close>

type_synonym 's reader = "nat \<Rightarrow> ('s, io_error, byte list) io"
type_synonym 's writer = "byte list \<Rightarrow> ('s, io_error, nat) io"

section \<open>Reading exactly and writing all\<close>

text \<open>
  \<open>read_exact rd n\<close> fills a buffer of \<open>n\<close> bytes; a read of nothing is \<^const>\<open>Eof\<close>.
\<close>

function read_exact :: "'s reader \<Rightarrow> nat \<Rightarrow> 's \<Rightarrow> ((rpc_error + byte list) \<times> 's) option" where
  "read_exact rd n s =
     (if n = 0 then Some (Inr [], s)
      else case rd n s of
        None \<Rightarrow> None
      | Some (Inl e, s) \<Rightarrow> Some (Inl (RpcIo e), s)
      | Some (Inr data, s) \<Rightarrow>
          (let data = take n data in
           if data = [] then Some (Inl Eof, s)
           else case read_exact rd (n - length data) s of
             Some (Inr bytes, s) \<Rightarrow> Some (Inr (data @ bytes), s)
           | r \<Rightarrow> r))"
  by pat_completeness auto
termination by (relation "measure (\<lambda>(rd, n, s). n)") auto

declare read_exact.simps [simp del]

function write_all :: "'s writer \<Rightarrow> byte list \<Rightarrow> 's \<Rightarrow> ((rpc_error + unit) \<times> 's) option" where
  "write_all wr buffer s =
     (if buffer = [] then Some (Inr (), s)
      else case wr buffer s of
        None \<Rightarrow> None
      | Some (Inl e, s) \<Rightarrow> Some (Inl (RpcIo e), s)
      | Some (Inr n, s) \<Rightarrow>
          if n = 0 then Some (Inl (Protocol ''write returned zero bytes''), s)
          else write_all wr (drop n buffer) s)"
  by pat_completeness auto
termination by (relation "measure (\<lambda>(wr, buffer, s). length buffer)") auto

declare write_all.simps [simp del]

lemma read_exact_0 [simp]: "read_exact rd 0 s = Some (Inr [], s)"
  by (simp add: read_exact.simps)

lemma write_all_Nil [simp]: "write_all wr [] s = Some (Inr (), s)"
  by (simp add: write_all.simps)

lemma length_read_exact:
  "read_exact rd n s = Some (Inr bytes, s') \<Longrightarrow> length bytes = n"
proof (induction n arbitrary: s bytes rule: less_induct)
  case (less n)
  show ?case
  proof (cases "n = 0")
    case False
    with less.prems obtain data s1 more where
      data: "take n data \<noteq> []"
      and more: "read_exact rd (n - length (take n data)) s1 = Some (Inr more, s')"
      and bytes: "bytes = take n data @ more"
      by (subst (asm) read_exact.simps)
         (auto simp: Let_def split: option.splits prod.splits sum.splits if_splits)
    have "n - length (take n data) < n" using data False by auto
    from less.IH [OF this more] bytes show ?thesis by auto
  qed (use less.prems in simp)
qed

definition write_raw :: "'s writer \<Rightarrow> byte list \<Rightarrow> ('s, rpc_error, unit) io" where
  "write_raw wr bytes = write_all wr bytes"

section \<open>Readers\<close>

text \<open>
  The contract of a reader: \<open>rest s\<close> is what the stream will still deliver, \<open>good\<close> its
  invariant. A read returns a prefix of the rest, and returns nothing only at the end.
\<close>

locale byte_reader =
  fixes rd :: "'s reader"
    and rest :: "'s \<Rightarrow> byte list"
    and good :: "'s \<Rightarrow> bool"
  assumes sread_prefix:
      "good s \<Longrightarrow> rd n s = Some (Inr data, s') \<Longrightarrow>
         length data \<le> n \<and> rest s = data @ rest s' \<and> good s'"
    and sread_end: "good s \<Longrightarrow> 0 < n \<Longrightarrow> rd n s = Some (Inr [], s') \<Longrightarrow> rest s = []"
begin

lemma read_exact_ok:
  "good s \<Longrightarrow> read_exact rd n s = Some (Inr bytes, s') \<Longrightarrow>
   length bytes = n \<and> rest s = bytes @ rest s' \<and> good s'"
proof (induction n arbitrary: s bytes rule: less_induct)
  case (less n)
  show ?case
  proof (cases "n = 0")
    case True
    with less.prems show ?thesis by simp
  next
    case False
    with less.prems(2) obtain data s1 more where
      read: "rd n s = Some (Inr data, s1)" and data: "take n data \<noteq> []"
      and more: "read_exact rd (n - length (take n data)) s1 = Some (Inr more, s')"
      and bytes: "bytes = take n data @ more"
      by (subst (asm) read_exact.simps)
         (auto simp: Let_def split: option.splits prod.splits sum.splits if_splits)
    from sread_prefix [OF less.prems(1) read] have
      p: "length data \<le> n" "rest s = data @ rest s1" "good s1" by auto
    with data have "n - length (take n data) < n" and t: "take n data = data"
      using False by auto
    from less.IH [OF this(1) p(3) more] p t bytes show ?thesis by auto
  qed
qed

lemma read_exact_take:
  "good s \<Longrightarrow> read_exact rd n s = Some (Inr bytes, s') \<Longrightarrow>
   n \<le> length (rest s) \<and> bytes = take n (rest s) \<and> rest s' = drop n (rest s)"
  using read_exact_ok [of s n bytes s'] by auto

lemma read_exact_eof:
  "good s \<Longrightarrow> read_exact rd n s = Some (Inl Eof, s') \<Longrightarrow> length (rest s) < n"
proof (induction n arbitrary: s rule: less_induct)
  case (less n)
  then have "n \<noteq> 0" by (cases "n = 0") simp_all
  show ?case
  proof (cases "rd n s")
    case None
    with less.prems \<open>n \<noteq> 0\<close> show ?thesis by (simp add: read_exact.simps)
  next
    case (Some rs)
    obtain r s1 where rs: "rs = (r, s1)" by (cases rs)
    show ?thesis
    proof (cases r)
      case (Inl e)
      with less.prems Some rs \<open>n \<noteq> 0\<close> show ?thesis by (simp add: read_exact.simps)
    next
      case (Inr data)
      have read: "rd n s = Some (Inr data, s1)" using Some rs Inr by simp
      from sread_prefix [OF less.prems(1) read] have
        p: "length data \<le> n" "rest s = data @ rest s1" "good s1" by auto
      show ?thesis
      proof (cases "data = []")
        case True
        with sread_end [OF less.prems(1) _ read [unfolded True]] \<open>n \<noteq> 0\<close> show ?thesis by simp
      next
        case False
        then have "read_exact rd (n - length data) s1 = Some (Inl Eof, s')"
          using less.prems(2) read p(1) \<open>n \<noteq> 0\<close>
          by (subst (asm) read_exact.simps)
             (auto simp: Let_def split: option.splits prod.splits sum.splits)
        moreover have "n - length data < n" using False \<open>n \<noteq> 0\<close> by auto
        ultimately have "length (rest s1) < n - length data" using less.IH p(3) by blast
        with p(2) show ?thesis by simp
      qed
    qed
  qed
qed

end

text \<open>A reader that always has an answer while bytes remain, and never fails.\<close>

locale live_reader = byte_reader rd rest good
  for rd :: "'s reader" and rest :: "'s \<Rightarrow> byte list" and good :: "'s \<Rightarrow> bool" +
  assumes sread_live:
    "good s \<Longrightarrow> 0 < n \<Longrightarrow> rest s \<noteq> [] \<Longrightarrow> \<exists>data s'. rd n s = Some (Inr data, s')"
begin

lemma read_exact_live:
  "good s \<Longrightarrow> n \<le> length (rest s) \<Longrightarrow> \<exists>s'. read_exact rd n s = Some (Inr (take n (rest s)), s')"
proof (induction n arbitrary: s rule: less_induct)
  case (less n)
  show ?case
  proof (cases "n = 0")
    case False
    then obtain data s1 where read: "rd n s = Some (Inr data, s1)"
      using sread_live [OF less.prems(1), of n] less.prems(2) by fastforce
    from sread_prefix [OF less.prems(1) read] have
      p: "length data \<le> n" "rest s = data @ rest s1" "good s1" by auto
    have "data \<noteq> []"
    proof
      assume "data = []"
      with sread_end [OF less.prems(1) _ read [unfolded \<open>data = []\<close>]] False less.prems(2)
      show False by simp
    qed
    then have smaller: "n - length data < n" using False by auto
    obtain s2 where rec:
      "read_exact rd (n - length data) s1 = Some (Inr (take (n - length data) (rest s1)), s2)"
      using less.IH [OF smaller p(3)] p(2) less.prems(2) smaller by fastforce
    show ?thesis
      using False \<open>data \<noteq> []\<close> p rec by (simp add: read_exact.simps [of rd n s] read)
  qed simp
qed

lemma read_exact_prefix:
  assumes "good s" and "rest s = bytes @ after"
  shows "\<exists>s'. read_exact rd (length bytes) s = Some (Inr bytes, s') \<and> rest s' = after \<and> good s'"
proof -
  have "length bytes \<le> length (rest s)" and "take (length bytes) (rest s) = bytes"
    using assms(2) by simp_all
  with read_exact_live [OF assms(1)] obtain s' where
    read: "read_exact rd (length bytes) s = Some (Inr bytes, s')" by metis
  from read_exact_ok [OF assms(1) read] assms(2) read show ?thesis by auto
qed

end

section \<open>Writers\<close>

text \<open>
  The contract of a writer: \<open>written s\<close> is what the peer has been sent. A write appends the
  bytes it takes, a failed write appends none.
\<close>

locale byte_writer =
  fixes wr :: "'s writer"
    and written :: "'s \<Rightarrow> byte list"
    and good :: "'s \<Rightarrow> bool"
  assumes swrite_append:
      "good s \<Longrightarrow> wr buffer s = Some (Inr n, s') \<Longrightarrow>
         n \<le> length buffer \<and> written s' = written s @ take n buffer \<and> good s'"
    and swrite_fail:
      "good s \<Longrightarrow> wr buffer s = Some (Inl e, s') \<Longrightarrow> written s' = written s \<and> good s'"
begin

lemma write_all_prefix:
  "good s \<Longrightarrow> write_all wr buffer s = Some (r, s') \<Longrightarrow>
   good s' \<and> (\<exists>k \<le> length buffer. written s' = written s @ take k buffer \<and>
                (r = Inr () \<longrightarrow> k = length buffer))"
proof (induction buffer arbitrary: s rule: length_induct)
  case (1 buffer)
  show ?case
  proof (cases "buffer = []")
    case True
    with 1 show ?thesis by simp
  next
    case False
    show ?thesis
    proof (cases "wr buffer s")
      case None
      with 1 False show ?thesis by (simp add: write_all.simps)
    next
      case (Some ws)
      obtain w s1 where ws: "ws = (w, s1)" by (cases ws)
      show ?thesis
      proof (cases w)
        case (Inl e)
        with 1 False Some ws swrite_fail [OF "1.prems"(1)] show ?thesis
          by (auto simp: write_all.simps [of wr buffer s] intro!: exI [of _ 0])
      next
        case (Inr n)
        with Some ws swrite_append [OF "1.prems"(1)] have
          p: "n \<le> length buffer" "written s1 = written s @ take n buffer" "good s1" by auto
        show ?thesis
        proof (cases "n = 0")
          case True
          with 1 False Some ws Inr p show ?thesis
            by (auto simp: write_all.simps [of wr buffer s] intro!: exI [of _ 0])
        next
          case n: False
          then have shorter: "length (drop n buffer) < length buffer" using False by simp
          have "write_all wr (drop n buffer) s1 = Some (r, s')"
            using "1.prems"(2) False Some ws Inr n by (simp add: write_all.simps [of wr buffer s])
          with "1.IH" shorter p(3) obtain k where
            k: "good s'" "k \<le> length (drop n buffer)"
              "written s' = written s1 @ take k (drop n buffer)"
              "r = Inr () \<longrightarrow> k = length (drop n buffer)" by blast
          have "take n buffer @ take k (drop n buffer) = take (n + k) buffer"
            by (simp add: take_add)
          with k p show ?thesis by (intro conjI exI [of _ "n + k"]) auto
        qed
      qed
    qed
  qed
qed

lemma write_all_ok:
  "good s \<Longrightarrow> write_all wr buffer s = Some (Inr (), s') \<Longrightarrow>
   written s' = written s @ buffer \<and> good s'"
  using write_all_prefix [of s buffer "Inr ()" s'] by auto

end

section \<open>Reading to the end\<close>

text \<open>
  Reads of up to \<open>n\<close> bytes until one returns nothing; the bytes in order, or the first error.
  \<open>None\<close> when a read never becomes ready.
\<close>

partial_function (option) read_to_eof :: "'s reader \<Rightarrow> nat \<Rightarrow> ('s, io_error, byte list) io" where
  "read_to_eof rd n s =
     bind_io (rd n) (\<lambda>data s.
       if data = [] then Some (Inr [], s)
       else bind_io (read_to_eof rd n) (\<lambda>more. return_io (data @ more)) s) s"

declare read_to_eof.simps [code]

text \<open>A reader that also reports its end once everything has been delivered.\<close>

locale ending_reader = live_reader rd rest good
  for rd :: "'s reader" and rest :: "'s \<Rightarrow> byte list" and good :: "'s \<Rightarrow> bool" +
  fixes ends :: "'s \<Rightarrow> bool"
  assumes sread_ends: "good s \<Longrightarrow> ends s \<Longrightarrow> rest s = [] \<Longrightarrow> \<exists>s'. rd n s = Some (Inr [], s')"
    and sread_keeps_ends: "good s \<Longrightarrow> ends s \<Longrightarrow> rd n s = Some (Inr data, s') \<Longrightarrow> ends s'"
begin

lemma read_to_eof_all:
  assumes "0 < n" and "good s" and "ends s"
  shows "\<exists>s'. read_to_eof rd n s = Some (Inr (rest s), s')"
  using assms(2,3)
proof (induction "length (rest s)" arbitrary: s rule: less_induct)
  case less
  show ?case
  proof (cases "rest s = []")
    case True
    with sread_ends [OF less.prems, of n] show ?thesis
      by (auto simp: read_to_eof.simps [of rd n s] bind_io_def)
  next
    case False
    from sread_live [OF less.prems(1) assms(1) False] obtain data s1 where
      read: "rd n s = Some (Inr data, s1)" by blast
    from sread_prefix [OF less.prems(1) read] have p: "rest s = data @ rest s1" "good s1" by auto
    have "data \<noteq> []" using sread_end [OF less.prems(1) assms(1)] read False by auto
    with p have "length (rest s1) < length (rest s)" by simp
    from less.hyps [OF this p(2) sread_keeps_ends [OF less.prems read]] \<open>data \<noteq> []\<close> p read
    show ?thesis by (auto simp: read_to_eof.simps [of rd n s] bind_io_def)
  qed
qed

end

section \<open>Bidirectional streams\<close>

text \<open>The two directions do not disturb each other.\<close>

locale byte_stream =
  live_reader rd rest good + byte_writer wr written good
  for rd :: "'s reader" and wr :: "'s writer" and rest :: "'s \<Rightarrow> byte list"
    and written :: "'s \<Rightarrow> byte list" and good :: "'s \<Rightarrow> bool" +
  assumes sread_written: "good s \<Longrightarrow> rd n s = Some (r, s') \<Longrightarrow> written s' = written s"
    and swrite_rest: "good s \<Longrightarrow> wr buffer s = Some (k, s') \<Longrightarrow> rest s' = rest s"
begin

lemma read_exact_written:
  "good s \<Longrightarrow> read_exact rd n s = Some (r, s') \<Longrightarrow> written s' = written s"
proof (induction n arbitrary: s r rule: less_induct)
  case (less n)
  show ?case
  proof (cases "n = 0")
    case True
    with less.prems show ?thesis by simp
  next
    case False
    with less.prems(2) obtain q s1 where read: "rd n s = Some (q, s1)"
      by (subst (asm) read_exact.simps) (auto split: option.splits)
    show ?thesis
    proof (cases "s' = s1")
      case True
      with sread_written [OF less.prems(1) read] show ?thesis by simp
    next
      case moved: False
      with less.prems(2) False read obtain data r1 where
        q: "q = Inr data" and data: "take n data \<noteq> []"
        and more: "read_exact rd (n - length (take n data)) s1 = Some (r1, s')"
        by (subst (asm) read_exact.simps)
           (auto simp: Let_def split: option.splits prod.splits sum.splits if_splits)
      have smaller: "n - length (take n data) < n" using data False by auto
      have "good s1" using sread_prefix [OF less.prems(1) read [unfolded q]] by simp
      from less.IH [OF smaller this more] sread_written [OF less.prems(1) read] show ?thesis by simp
    qed
  qed
qed

lemma write_all_rest:
  "good s \<Longrightarrow> write_all wr buffer s = Some (Inr (), s') \<Longrightarrow> rest s' = rest s"
proof (induction buffer arbitrary: s rule: length_induct)
  case (1 buffer)
  show ?case
  proof (cases "buffer = []")
    case False
    with "1.prems"(2) obtain n s1 where
      w: "wr buffer s = Some (Inr n, s1)" and n: "n \<noteq> 0"
      and more: "write_all wr (drop n buffer) s1 = Some (Inr (), s')"
      by (subst (asm) write_all.simps)
         (auto split: option.splits prod.splits sum.splits if_splits)
    have "good s1" using swrite_append [OF "1.prems"(1) w] by simp
    moreover have "length (drop n buffer) < length buffer" using False n by simp
    ultimately have "rest s' = rest s1" using "1.IH" more by blast
    with swrite_rest [OF "1.prems"(1) w] show ?thesis by simp
  qed (use 1 in simp)
qed

end

text \<open>The definitions to unfold in the evaluation of a concrete run.\<close>

lemmas run_streams = read_exact.simps write_all.simps write_raw_def Let_def

section \<open>Writing with the \<open>futures\<close> crate\<close>

text \<open>
  \<open>AsyncWriteExt::write_all\<close> over a writer, as its crate documents it: writes until nothing is
  left, a write of nothing is \<^const>\<open>WriteZero\<close>.
\<close>

function futures_write_all :: "'s writer \<Rightarrow> byte list \<Rightarrow> 's \<Rightarrow> ((io_error + unit) \<times> 's) option" where
  "futures_write_all wr buffer s =
     (if buffer = [] then Some (Inr (), s)
      else case wr buffer s of
        None \<Rightarrow> None
      | Some (Inl e, s) \<Rightarrow> Some (Inl e, s)
      | Some (Inr n, s) \<Rightarrow>
          if n = 0 then Some (Inl (io_err WriteZero ''write zero byte into writer''), s)
          else futures_write_all wr (drop n buffer) s)"
  by pat_completeness auto
termination by (relation "measure (\<lambda>(wr, buffer, s). length buffer)") auto

declare futures_write_all.simps [simp del]

context byte_writer
begin

lemma futures_write_all_prefix:
  "good s \<Longrightarrow> futures_write_all wr buffer s = Some (r, s') \<Longrightarrow>
   good s' \<and> (\<exists>k. written s' = written s @ take k buffer \<and> (r = Inr () \<longrightarrow> take k buffer = buffer))"
proof (induction buffer arbitrary: s rule: length_induct)
  case (1 buffer)
  show ?case
  proof (cases "buffer = []")
    case True
    with 1 show ?thesis by (simp add: futures_write_all.simps)
  next
    case False
    note run = "1.prems"(2) [unfolded futures_write_all.simps [of wr buffer s]]
    from False run obtain w s1 where w: "wr buffer s = Some (w, s1)" by (auto split: option.splits)
    show ?thesis
    proof (cases w)
      case (Inl e)
      with swrite_fail [OF "1.prems"(1)] w run False show ?thesis
        by (auto intro!: exI [of _ 0])
    next
      case (Inr n)
      from swrite_append [OF "1.prems"(1) w [unfolded Inr]] have
        p: "n \<le> length buffer" "written s1 = written s @ take n buffer" "good s1" by auto
      show ?thesis
      proof (cases "n = 0")
        case True
        with w Inr run False p show ?thesis by (auto intro!: exI [of _ 0])
      next
        case n: False
        have "futures_write_all wr (drop n buffer) s1 = Some (r, s')" using w Inr run False n by simp
        moreover have "length (drop n buffer) < length buffer" using False n by simp
        ultimately obtain k where k: "good s'" "written s' = written s1 @ take k (drop n buffer)"
            "r = Inr () \<longrightarrow> take k (drop n buffer) = drop n buffer"
          using "1.IH" p(3) by blast
        have split: "take (n + k) buffer = take n buffer @ take k (drop n buffer)" by (simp add: take_add)
        have "written s' = written s @ take (n + k) buffer" using k(2) p(2) split by simp
        moreover have "r = Inr () \<longrightarrow> take (n + k) buffer = buffer"
          using k(3) by (simp add: split)
        ultimately show ?thesis using k(1) by blast
      qed
    qed
  qed
qed

end

end
