(* ===== verification/Framing.thy ===== *)
theory Framing
  imports Streams
begin

text \<open>
  Cap'n Proto stream framing, \<open>read_message\<close> and \<open>write_raw\<close> of \<open>rpc/src/io.rs\<close>: a segment
  table of little-endian words, padded to eight bytes, then the segments. A message is its
  list of segments; the limits are those of the source. The word total is a natural number:
  it stays below \<open>2 ^ 42\<close>, so the saturating additions of the source never saturate.
\<close>

section \<open>Reading a message\<close>

definition MAXIMUM_TOTAL_WORDS :: nat where
  "MAXIMUM_TOTAL_WORDS = 8 * 1024 * 1024"

definition too_large :: "nat \<Rightarrow> rpc_error" where
  "too_large total_words = Protocol (''message too large: '' @ decimal total_words
     @ '' words exceeds limit of '' @ decimal MAXIMUM_TOTAL_WORDS)"

text \<open>The lengths of the segments after the first, read off the rest of the table.\<close>

fun push_segments :: "nat \<Rightarrow> byte list \<Rightarrow> nat \<Rightarrow> rpc_error + nat list" where
  "push_segments 0 sizes total_words = Inr []"
| "push_segments (Suc n) sizes total_words =
     (let len = unat (u32_from_le_bytes (take 4 sizes)); total_words = total_words + len in
      if total_words > MAXIMUM_TOTAL_WORDS then Inl (too_large total_words)
      else bind_result (push_segments n (drop 4 sizes) total_words) (\<lambda>lens. Inr (len # lens)))"

fun split_segments :: "nat list \<Rightarrow> byte list \<Rightarrow> byte list list" where
  "split_segments [] bytes = []"
| "split_segments (len # lens) bytes =
     take (8 * len) bytes # split_segments lens (drop (8 * len) bytes)"

definition read_segments ::
  "'s reader \<Rightarrow> nat list \<Rightarrow> ('s, rpc_error, byte list list) io" where
  "read_segments rd lens =
     bind_io (read_exact rd (8 * sum_list lens)) (\<lambda>bytes. return_io (split_segments lens bytes))"

text \<open>\<open>(4 + 4 * n + 7) & !7\<close> rounds the table up to a multiple of eight.\<close>

definition header_size :: "nat \<Rightarrow> nat" where
  "header_size segment_count = (4 + 4 * segment_count + 7) div 8 * 8"

definition read_message :: "'s reader \<Rightarrow> ('s, rpc_error, byte list list) io" where
  "read_message rd =
     bind_io (read_exact rd 8) (\<lambda>header.
       let segment_count = unat (u32_from_le_bytes (take 4 header) + 1) in
       if segment_count = 0 \<or> segment_count > 512
       then throw_io (Protocol (''invalid segment count '' @ decimal segment_count))
       else
         let first = unat (u32_from_le_bytes (drop 4 header)) in
         if first > MAXIMUM_TOTAL_WORDS then throw_io (too_large first)
         else if segment_count > 1 then
           bind_io (read_exact rd (header_size segment_count - 8)) (\<lambda>sizes.
           bind_io (lift_io (push_segments (segment_count - 1) sizes first)) (\<lambda>lens.
             read_segments rd (first # lens)))
         else read_segments rd [first])"

section \<open>The format\<close>

text \<open>
  The specification: a framed message is the table (count minus one, the word count of each
  segment, padding to a multiple of eight) followed by the segments.
\<close>

definition segments_wf :: "byte list list \<Rightarrow> bool" where
  "segments_wf segs \<longleftrightarrow>
     segs \<noteq> [] \<and> length segs \<le> 512 \<and> (\<forall>s \<in> set segs. 8 dvd length s) \<and>
     sum_list (map (\<lambda>s. length s div 8) segs) \<le> MAXIMUM_TOTAL_WORDS"

definition word_count :: "byte list \<Rightarrow> byte list" where
  "word_count s = u32_to_le_bytes (of_nat (length s div 8))"

definition frame :: "byte list list \<Rightarrow> byte list" where
  "frame segs =
     u32_to_le_bytes (of_nat (length segs - 1)) @ concat (map word_count segs)
     @ (if even (length segs) then [0, 0, 0, 0] else []) @ concat segs"

lemma length_word_count [simp]: "length (word_count s) = 4"
  by (simp add: word_count_def)

lemma length_concat_word_count [simp]: "length (concat (map word_count segs)) = 4 * length segs"
  by (induction segs) simp_all

lemma unat_word_count:
  assumes "length s div 8 \<le> MAXIMUM_TOTAL_WORDS"
  shows "unat (u32_from_le_bytes (word_count s)) = length s div 8"
  using assms by (simp add: word_count_def unat_of_nat MAXIMUM_TOTAL_WORDS_def)

lemma push_segments_frame:
  "tot + sum_list (map (\<lambda>s. length s div 8) segs) \<le> MAXIMUM_TOTAL_WORDS \<Longrightarrow>
   push_segments (length segs) (concat (map word_count segs) @ pad) tot =
     Inr (map (\<lambda>s. length s div 8) segs)"
proof (induction segs arbitrary: tot)
  case (Cons s segs)
  then show ?case
    using Cons.IH [of "tot + length s div 8"] unat_word_count [of s]
    by (simp add: Let_def add.assoc)
qed simp

lemma split_segments_concat:
  "\<forall>s \<in> set segs. 8 dvd length s \<Longrightarrow> split_segments (map (\<lambda>s. length s div 8) segs) (concat segs) = segs"
  by (induction segs) auto

lemma sum_words_concat:
  "\<forall>s \<in> set segs. 8 dvd length s \<Longrightarrow>
   8 * sum_list (map (\<lambda>s. length s div 8) segs) = length (concat segs)"
  by (induction segs) (auto simp: distrib_left)

lemma header_size_table:
  "header_size n = 4 + 4 * n + (if even n then 4 else 0)"
proof (cases "even n")
  case True
  then obtain k where "n = 2 * k" by (elim evenE)
  then show ?thesis by (simp add: header_size_def)
next
  case False
  then obtain k where "n = 2 * k + 1" by (elim oddE)
  then show ?thesis by (simp add: header_size_def)
qed

context live_reader
begin

lemma read_segments_live:
  assumes "good s" and "rest s = concat segs @ after" and "\<forall>x \<in> set segs. 8 dvd length x"
  shows "\<exists>s'. read_segments rd (map (\<lambda>x. length x div 8) segs) s = Some (Inr segs, s') \<and>
              rest s' = after \<and> good s'"
proof -
  obtain s' where "read_exact rd (length (concat segs)) s = Some (Inr (concat segs), s')"
    "rest s' = after" "good s'" using read_exact_prefix [OF assms(1,2)] by blast
  then show ?thesis
    by (intro exI [of _ s'])
       (simp add: read_segments_def sum_words_concat [OF assms(3)] split_segments_concat [OF assms(3)])
qed

text \<open>
  A framed message is read back, and nothing after it is touched, in whatever pieces the
  reader delivers its bytes.
\<close>

lemma read_message_frame:
  assumes good: "good s" and wf: "segments_wf segs" and rest: "rest s = frame segs @ after"
  shows "\<exists>s'. read_message rd s = Some (Inr segs, s') \<and> rest s' = after \<and> good s'"
proof -
  from wf obtain x xs where segs: "segs = x # xs" by (cases segs) (auto simp: segments_wf_def)
  let ?count = "u32_to_le_bytes (of_nat (length xs))"
  let ?pad = "if even (length segs) then [0, 0, 0, 0] else ([] :: byte list)"
  let ?head = "?count @ word_count x"
  let ?table = "concat (map word_count xs) @ ?pad"
  have len: "length xs < 512" and dvd: "\<forall>s \<in> set segs. 8 dvd length s"
    and tot: "length x div 8 + sum_list (map (\<lambda>s. length s div 8) xs) \<le> MAXIMUM_TOTAL_WORDS"
    using wf by (auto simp: segments_wf_def segs)
  have n: "unat (u32_from_le_bytes ?count + 1) = length xs + 1"
    using len by (simp add: unat_word_ariths unat_of_nat)
  have first: "unat (u32_from_le_bytes (word_count x)) = length x div 8"
    using unat_word_count tot by simp
  have split: "rest s = ?head @ ?table @ concat segs @ after"
    by (simp add: rest frame_def segs)
  have eight: "length ?head = 8" by simp
  obtain s1 where head: "read_exact rd 8 s = Some (Inr ?head, s1)"
      "rest s1 = ?table @ concat segs @ after" "good s1"
    using read_exact_prefix [OF good split] unfolding eight by blast
  show ?thesis
  proof (cases "xs = []")
    case True
    have "rest s1 = concat segs @ after" using head(2) by (simp add: True segs)
    from read_segments_live [OF head(3) this dvd] show ?thesis
      using head n first tot True
      by (simp add: read_message_def Let_def segs)
  next
    case False
    have size: "header_size (length xs + 1) - 8 = length ?table"
      using False by (cases xs) (simp_all add: header_size_table segs)
    obtain s2 where table: "read_exact rd (header_size (length xs + 1) - 8) s1 = Some (Inr ?table, s2)"
        "rest s2 = concat segs @ after" "good s2"
      using read_exact_prefix [OF head(3,2)] unfolding size by blast
    have push: "push_segments (length xs) ?table (length x div 8)
        = Inr (map (\<lambda>s. length s div 8) xs)"
      using push_segments_frame [OF tot] by blast
    from read_segments_live [OF table(3,2) dvd] show ?thesis
      using head table push n first tot False len
      by (simp add: read_message_def Let_def segs)
  qed
qed

end

section \<open>What is rejected\<close>

text \<open>
  A count of zero (the table word \<open>0xffffffff\<close>) or above 512, and any word total above the
  limit, end with a protocol error before a byte of a segment is read.
\<close>

lemma push_segments_bound:
  "push_segments n sizes tot = Inr lens \<Longrightarrow> tot \<le> MAXIMUM_TOTAL_WORDS \<Longrightarrow>
   length lens = n \<and> tot + sum_list lens \<le> MAXIMUM_TOTAL_WORDS"
proof (induction n arbitrary: sizes tot lens)
  case (Suc n)
  then obtain lens' where
    "push_segments n (drop 4 sizes) (tot + unat (u32_from_le_bytes (take 4 sizes))) = Inr lens'"
    "lens = unat (u32_from_le_bytes (take 4 sizes)) # lens'"
    "tot + unat (u32_from_le_bytes (take 4 sizes)) \<le> MAXIMUM_TOTAL_WORDS"
    by (auto simp: Let_def bind_result_eq_Inr_iff split: if_splits)
  with Suc.IH show ?case by fastforce
qed simp

lemma length_split_segments [simp]: "length (split_segments lens bytes) = length lens"
  by (induction lens bytes rule: split_segments.induct) simp_all

lemma split_segments_lengths:
  "length bytes = 8 * sum_list lens \<Longrightarrow> map length (split_segments lens bytes) = map ((*) 8) lens"
  by (induction lens bytes rule: split_segments.induct) (simp_all add: distrib_left)

lemma segments_wf_split:
  assumes "length bytes = 8 * sum_list lens" and "lens \<noteq> []" and "length lens \<le> 512"
    and "sum_list lens \<le> MAXIMUM_TOTAL_WORDS"
  shows "segments_wf (split_segments lens bytes)"
proof -
  note lengths = split_segments_lengths [OF assms(1)]
  have "8 dvd length s" if "s \<in> set (split_segments lens bytes)" for s
  proof -
    have "length s \<in> set (map length (split_segments lens bytes))" using that by simp
    then show ?thesis unfolding lengths by auto
  qed
  moreover have "map (\<lambda>s. length s div 8) (split_segments lens bytes) = lens"
    using arg_cong [OF lengths, of "map (\<lambda>k. k div 8)"] by (simp add: comp_def)
  ultimately show ?thesis
    using assms(2-4) length_split_segments [of lens bytes]
    by (auto simp: segments_wf_def simp del: length_split_segments)
qed

lemma read_message_accepts:
  assumes "read_message rd s = Some (Inr segments, s')"
  shows "\<exists>lens s1. lens \<noteq> [] \<and> length lens \<le> 512 \<and> sum_list lens \<le> MAXIMUM_TOTAL_WORDS \<and>
    read_segments rd lens s1 = Some (Inr segments, s')"
proof -
  from assms obtain header s1 where
    run: "(let segment_count = unat (u32_from_le_bytes (take 4 header) + 1) in
       if segment_count = 0 \<or> segment_count > 512
       then throw_io (Protocol (''invalid segment count '' @ decimal segment_count))
       else
         let first = unat (u32_from_le_bytes (drop 4 header)) in
         if first > MAXIMUM_TOTAL_WORDS then throw_io (too_large first)
         else if segment_count > 1 then
           bind_io (read_exact rd (header_size segment_count - 8)) (\<lambda>sizes.
           bind_io (lift_io (push_segments (segment_count - 1) sizes first)) (\<lambda>lens.
             read_segments rd (first # lens)))
         else read_segments rd [first]) s1 = Some (Inr segments, s')"
    by (auto simp: read_message_def bind_io_eq_Inr_iff)
  let ?count = "unat (u32_from_le_bytes (take 4 header) + 1)"
  let ?first = "unat (u32_from_le_bytes (drop 4 header))"
  from run have count: "?count \<noteq> 0" "?count \<le> 512" and first: "?first \<le> MAXIMUM_TOTAL_WORDS"
    by (auto simp: Let_def split: if_split_asm)
  show ?thesis
  proof (cases "?count > 1")
    case True
    with run count first obtain sizes lens s2 where
      "push_segments (?count - 1) sizes ?first = Inr lens"
      and segs: "read_segments rd (?first # lens) s2 = Some (Inr segments, s')"
      by (auto simp: Let_def bind_io_eq_Inr_iff)
    with push_segments_bound [OF this(1) first] count show ?thesis
      by (intro exI [of _ "?first # lens"] exI [of _ s2]) auto
  next
    case False
    with run count first show ?thesis
      by (intro exI [of _ "[?first]"] exI [of _ s1]) (auto simp: Let_def)
  qed
qed

text \<open>C30. The message reader accepts nothing but messages within the limits, whatever the peer
  sends and however it is delivered: a message it returns has between one and 512 segments of
  whole words, at most \<^const>\<open>MAXIMUM_TOTAL_WORDS\<close> words (64 MiB) in total.\<close>

theorem accepted_message_within_limits:
  assumes "read_message rd s = Some (Inr segments, s')"
  shows "segments_wf segments"
proof -
  from read_message_accepts [OF assms] obtain lens s1 where
    lens: "lens \<noteq> []" "length lens \<le> 512" "sum_list lens \<le> MAXIMUM_TOTAL_WORDS"
    and segments: "read_segments rd lens s1 = Some (Inr segments, s')" by blast
  from segments obtain bytes where
    "length bytes = 8 * sum_list lens" "segments = split_segments lens bytes"
    by (auto simp: read_segments_def bind_io_eq_Inr_iff dest: length_read_exact)
  with lens show ?thesis by (auto intro!: segments_wf_split)
qed

definition whole_reader :: "byte list reader" where
  "whole_reader n s = Some (Inr (take n s), drop n s)"

lemma live_whole_reader: "live_reader whole_reader id (\<lambda>_. True)"
  by unfold_locales (auto simp: whole_reader_def)

theorem accepted_message_within_limits_witness: "segments_wf [[1, 2, 3, 4, 5, 6, 7, 8]]"
  by (rule accepted_message_within_limits [of whole_reader "[0, 0, 0, 0, 1, 0, 0, 0, 1, 2, 3, 4, 5, 6, 7, 8]" _ "[]"])
     (simp add: read_message_def read_segments_def whole_reader_def read_exact.simps bind_io_def
        MAXIMUM_TOTAL_WORDS_def u32_from_le_bytes_def Let_def)

end
