(* ===== verification/Rpc.thy ===== *)
theory Rpc
  imports Framing
begin

text \<open>
  The Cap'n Proto RPC client, \<open>rpc/src/rpc.rs\<close>: bootstrap, call, finish and release over a byte
  stream. Building and decoding messages is the work of the \<open>capnp\<close> crate and of generated
  code, so it is a codec: \<open>serialize\<close> gives the framed bytes of a message the source builds,
  \<open>get_root\<close> the message in the segments read, as the source inspects it (a field that can
  fail to decode is a sum). A payload is of type \<open>'p\<close>.
\<close>

section \<open>Messages\<close>

datatype 'p outgoing =
    OBootstrap u32
  | OCall u32 u32 u64 u16 'p
  | OFinish u32 bool
  | ORelease u32 u32
  | OException u32 string
  | OBootstrapReturn u32
  | OResults u32 'p

datatype cap_kind = SenderHosted | SenderPromise | OtherCap

record 'p payload_view =
  payload_content :: 'p
  cap_table :: "rpc_error + (rpc_error + cap_kind) list"

datatype 'p return_kind =
    Results "rpc_error + 'p payload_view"
  | Exception "rpc_error + string"
  | OtherReturn

record 'p return_view =
  answer_id :: u32
  return_which :: "rpc_error + 'p return_kind"

record 'p call_view =
  call_question :: u32
  call_interface :: u64
  call_method :: u16
  call_params :: "rpc_error + 'p"

datatype 'p message_view =
    VBootstrap "rpc_error + u32"
  | VCall "rpc_error + 'p call_view"
  | VReturn "rpc_error + 'p return_view"
  | VFinish "rpc_error + u32"
  | VRelease
  | VAbort "rpc_error + string \<times> u16"
  | VOther

record 'p rpc_codec =
  serialize :: "'p outgoing \<Rightarrow> byte list"
  get_root :: "byte list list \<Rightarrow> rpc_error + 'p message_view"

section \<open>Builders and decoders\<close>

definition build_bootstrap :: "'p rpc_codec \<Rightarrow> u32 \<Rightarrow> byte list" where
  "build_bootstrap codec question = serialize codec (OBootstrap question)"

definition build_call ::
  "'p rpc_codec \<Rightarrow> u32 \<Rightarrow> u32 \<Rightarrow> u64 \<Rightarrow> u16 \<Rightarrow> 'p \<Rightarrow> byte list" where
  "build_call codec question import_identifier interface_identifier method_identifier parameters =
     serialize codec (OCall question import_identifier interface_identifier method_identifier parameters)"

definition build_finish :: "'p rpc_codec \<Rightarrow> u32 \<Rightarrow> bool \<Rightarrow> byte list" where
  "build_finish codec question release_result_caps =
     serialize codec (OFinish question release_result_caps)"

definition build_release :: "'p rpc_codec \<Rightarrow> u32 \<Rightarrow> u32 \<Rightarrow> byte list" where
  "build_release codec ident reference_count = serialize codec (ORelease ident reference_count)"

definition build_exception :: "'p rpc_codec \<Rightarrow> u32 \<Rightarrow> string \<Rightarrow> byte list" where
  "build_exception codec question reason = serialize codec (OException question reason)"

definition expect_return :: "'p message_view \<Rightarrow> u32 \<Rightarrow> rpc_error + 'p return_view" where
  "expect_return root question =
     (case root of
        VReturn ret \<Rightarrow>
          bind_result ret (\<lambda>ret.
            if answer_id ret \<noteq> question
            then Inl (Protocol (''answer id '' @ decimal (unat (answer_id ret))
                   @ '' does not match question '' @ decimal (unat question)))
            else Inr ret)
      | VAbort exc \<Rightarrow> bind_result exc (\<lambda>(reason, error_type). Inl (Abort reason error_type))
      | _ \<Rightarrow> Inl (Protocol ''expected return message''))"

datatype bootstrap_outcome =
  Capability | BootstrapException string | NoCapability | BootstrapUnexpectedKind

datatype 'a call_outcome = Value 'a | CallException string | CallUnexpectedKind

definition decode_bootstrap ::
  "'p rpc_codec \<Rightarrow> byte list list \<Rightarrow> u32 \<Rightarrow> rpc_error + bootstrap_outcome" where
  "decode_bootstrap codec segments question =
     bind_result (get_root codec segments) (\<lambda>root.
     bind_result (expect_return root question) (\<lambda>answer.
     bind_result (return_which answer) (\<lambda>kind.
       case kind of
         Results payload \<Rightarrow>
           bind_result payload (\<lambda>payload.
           bind_result (cap_table payload) (\<lambda>ctab.
             case ctab of
               [] \<Rightarrow> Inr NoCapability
             | desc # _ \<Rightarrow>
                 bind_result desc (\<lambda>kind.
                   Inr (if kind = SenderHosted \<or> kind = SenderPromise then Capability
                        else BootstrapUnexpectedKind))))
       | Exception reason \<Rightarrow> bind_result reason (\<lambda>reason. Inr (BootstrapException reason))
       | OtherReturn \<Rightarrow> Inr BootstrapUnexpectedKind)))"

definition decode_call ::
  "'p rpc_codec \<Rightarrow> byte list list \<Rightarrow> u32 \<Rightarrow> ('p payload_view \<Rightarrow> rpc_error + 'a)
     \<Rightarrow> rpc_error + 'a call_outcome" where
  "decode_call codec segments question decode =
     bind_result (get_root codec segments) (\<lambda>root.
     bind_result (expect_return root question) (\<lambda>answer.
     bind_result (return_which answer) (\<lambda>kind.
       case kind of
         Results payload \<Rightarrow>
           bind_result payload (\<lambda>payload. bind_result (decode payload) (\<lambda>v. Inr (Value v)))
       | Exception reason \<Rightarrow> bind_result reason (\<lambda>reason. Inr (CallException reason))
       | OtherReturn \<Rightarrow> Inr CallUnexpectedKind)))"

section \<open>The client\<close>

record 's rpc_client =
  stream :: 's
  next_question :: u32
  has_bootstrap :: bool

definition client_new :: "'s \<Rightarrow> 's rpc_client" where
  "client_new s = \<lparr>stream = s, next_question = 0, has_bootstrap = False\<rparr>"

definition on_stream :: "('s, 'e, 'a) io \<Rightarrow> ('s rpc_client, 'e, 'a) io" where
  "on_stream m client = map_option (\<lambda>(r, s). (r, client\<lparr>stream := s\<rparr>)) (m (stream client))"

definition send_finish ::
  "'p rpc_codec \<Rightarrow> 's writer \<Rightarrow> u32 \<Rightarrow> bool \<Rightarrow> ('s rpc_client, rpc_error, unit) io" where
  "send_finish codec wr question release_result_caps =
     on_stream (write_raw wr (build_finish codec question release_result_caps))"

text \<open>Takes the next question id (\<open>u32\<close>, wrapping).\<close>

definition take_question :: "('s rpc_client, rpc_error, u32) io" where
  "take_question client =
     Some (Inr (next_question client), client\<lparr>next_question := next_question client + 1\<rparr>)"

definition bootstrap ::
  "'p rpc_codec \<Rightarrow> 's reader \<Rightarrow> 's writer \<Rightarrow> ('s rpc_client, rpc_error, u32) io" where
  "bootstrap codec rd wr client =
     (if has_bootstrap client then Some (Inl (Protocol ''bootstrap called twice''), client)
      else bind_io take_question (\<lambda>question.
        bind_io (on_stream (write_raw wr (build_bootstrap codec question))) (\<lambda>_.
        bind_io (on_stream (read_message rd)) (\<lambda>segments.
        bind_io (lift_io (decode_bootstrap codec segments question)) (\<lambda>outcome.
          case outcome of
            Capability \<Rightarrow> (\<lambda>client.
              bind_io (send_finish codec wr question False) (\<lambda>_. return_io 0)
                (client\<lparr>has_bootstrap := True\<rparr>))
          | BootstrapException reason \<Rightarrow>
              bind_io (send_finish codec wr question True) (\<lambda>_. throw_io (RemoteCall reason))
          | NoCapability \<Rightarrow>
              bind_io (send_finish codec wr question True)
                (\<lambda>_. throw_io (Protocol ''bootstrap return carried no capability''))
          | BootstrapUnexpectedKind \<Rightarrow>
              bind_io (send_finish codec wr question True)
                (\<lambda>_. throw_io (Protocol ''bootstrap got unexpected return kind'')))))) client)"

definition rpc_call ::
  "'p rpc_codec \<Rightarrow> 's reader \<Rightarrow> 's writer \<Rightarrow> u32 \<Rightarrow> u64 \<Rightarrow> u16 \<Rightarrow> 'p
     \<Rightarrow> ('p payload_view \<Rightarrow> rpc_error + 'a) \<Rightarrow> ('s rpc_client, rpc_error, 'a) io" where
  "rpc_call codec rd wr import_identifier interface_identifier method_identifier parameters decode client =
     (if \<not> has_bootstrap client then Some (Inl (Protocol ''call before bootstrap''), client)
      else bind_io take_question (\<lambda>question.
        bind_io (on_stream (write_raw wr
          (build_call codec question import_identifier interface_identifier method_identifier parameters))) (\<lambda>_.
        bind_io (on_stream (read_message rd)) (\<lambda>segments.
        bind_io (lift_io (decode_call codec segments question decode)) (\<lambda>outcome.
          case outcome of
            Value v \<Rightarrow> bind_io (send_finish codec wr question False) (\<lambda>_. return_io v)
          | CallException reason \<Rightarrow>
              bind_io (send_finish codec wr question True) (\<lambda>_. throw_io (RemoteCall reason))
          | CallUnexpectedKind \<Rightarrow>
              bind_io (send_finish codec wr question True)
                (\<lambda>_. throw_io (Protocol ''call got unexpected return kind'')))))) client)"

definition close_client :: "'p rpc_codec \<Rightarrow> 's writer \<Rightarrow> 's rpc_client \<Rightarrow> ((rpc_error + unit) \<times> 's rpc_client) option" where
  "close_client codec wr client =
     (if has_bootstrap client
      then bind_io (on_stream (write_raw wr (build_release codec 0 1)))
             (\<lambda>_ client. Some (Inr (), client\<lparr>has_bootstrap := False\<rparr>)) client
      else Some (Inr (), client))"

section \<open>Incoming messages\<close>

datatype incoming =
    InBootstrap u32
  | InCall u32 u64 u16
  | InFinish u32
  | InRelease
  | InOther

definition classify_incoming :: "'p message_view \<Rightarrow> rpc_error + incoming" where
  "classify_incoming root =
     (case root of
        VBootstrap b \<Rightarrow> bind_result b (\<lambda>q. Inr (InBootstrap q))
      | VCall c \<Rightarrow> bind_result c (\<lambda>c. Inr (InCall (call_question c) (call_interface c) (call_method c)))
      | VFinish f \<Rightarrow> bind_result f (\<lambda>q. Inr (InFinish q))
      | VRelease \<Rightarrow> Inr InRelease
      | _ \<Rightarrow> Inr InOther)"

definition read_incoming :: "'p rpc_codec \<Rightarrow> 's reader \<Rightarrow> ('s, rpc_error, incoming option) io" where
  "read_incoming codec rd =
     catch_io (read_message rd) (\<lambda>r. case r of
        Inl Eof \<Rightarrow> return_io None
      | Inl e \<Rightarrow> throw_io e
      | Inr segments \<Rightarrow>
          lift_io (bind_result (get_root codec segments) (\<lambda>root.
            bind_result (classify_incoming root) (\<lambda>m. Inr (Some m)))))"

definition send_exception ::
  "'p rpc_codec \<Rightarrow> 's writer \<Rightarrow> u32 \<Rightarrow> string \<Rightarrow> ('s, rpc_error, unit) io" where
  "send_exception codec wr question reason = write_raw wr (build_exception codec question reason)"

section \<open>What the client writes\<close>

lemma on_stream_Some:
  "on_stream m client = Some (r, client') \<longleftrightarrow>
     (\<exists>s. m (stream client) = Some (r, s) \<and> client' = client\<lparr>stream := s\<rparr>)"
  by (auto simp: on_stream_def)

context byte_stream
begin

lemma write_raw_ok:
  "good s \<Longrightarrow> write_raw wr bytes s = Some (Inr (), s') \<Longrightarrow>
   good s' \<and> written s' = written s @ bytes \<and> rest s' = rest s"
  using write_all_ok write_all_rest by (auto simp: write_raw_def)

lemma read_exact_keeps:
  "good s \<Longrightarrow> read_exact rd n s = Some (Inr bytes, s') \<Longrightarrow> good s' \<and> written s' = written s"
  using read_exact_ok read_exact_written by blast

lemma read_message_keeps:
  assumes "good s" and "read_message rd s = Some (Inr segments, s')"
  shows "good s' \<and> written s' = written s"
  using assms unfolding read_message_def read_segments_def Let_def
  by (auto simp: bind_io_eq_Inr_iff split: if_split_asm dest!: read_exact_keeps [rotated])

lemma read_message_written:
  assumes "good s" and "read_message rd s = Some (r, s')"
  shows "written s' = written s"
proof (cases r)
  case (Inr segments)
  with assms read_message_keeps show ?thesis by simp
next
  case (Inl e)
  with assms show ?thesis
    unfolding read_message_def read_segments_def Let_def
    by (auto simp: bind_io_eq_Inl_iff split: if_split_asm
        dest!: read_exact_keeps [rotated] dest: read_exact_written [rotated])
qed

lemma on_stream_write:
  assumes "good (stream c)" and "on_stream (write_raw wr bytes) c = Some (Inr u, c')"
  shows "good (stream c') \<and> written (stream c') = written (stream c) @ bytes \<and>
    next_question c' = next_question c \<and> has_bootstrap c' = has_bootstrap c"
  using assms write_raw_ok [OF assms(1)] by (auto simp: on_stream_Some)

lemma on_stream_read:
  assumes "good (stream c)" and "on_stream (read_message rd) c = Some (Inr segments, c')"
  shows "good (stream c') \<and> written (stream c') = written (stream c) \<and>
    next_question c' = next_question c \<and> has_bootstrap c' = has_bootstrap c"
  using assms read_message_keeps [OF assms(1)] by (auto simp: on_stream_Some)

lemma bootstrap_ok:
  assumes good: "good (stream c)" and run: "bootstrap codec rd wr c = Some (Inr i, c')"
  shows "i = 0 \<and> \<not> has_bootstrap c \<and> has_bootstrap c' \<and> next_question c' = next_question c + 1 \<and>
    good (stream c') \<and>
    written (stream c') = written (stream c) @ serialize codec (OBootstrap (next_question c))
      @ serialize codec (OFinish (next_question c) False)"
proof -
  let ?c0 = "c\<lparr>next_question := next_question c + 1\<rparr>"
  from run obtain c1 segments c2 u where
      fresh: "\<not> has_bootstrap c"
    and w: "on_stream (write_raw wr (build_bootstrap codec (next_question c))) ?c0 = Some (Inr (), c1)"
    and r: "on_stream (read_message rd) c1 = Some (Inr segments, c2)"
    and f: "send_finish codec wr (next_question c) False (c2\<lparr>has_bootstrap := True\<rparr>) = Some (Inr u, c')"
    and i: "i = 0"
    by (auto simp: bootstrap_def take_question_def bind_io_eq_Inr_iff
        split: if_split_asm bootstrap_outcome.split_asm) (metis bootstrap_outcome.exhaust)
  have "good (stream ?c0)" using good by simp
  note w' = on_stream_write [OF this w]
  note r' = on_stream_read [OF conjunct1 [OF w'] r]
  have "good (stream (c2\<lparr>has_bootstrap := True\<rparr>))" using r' by simp
  note f' = on_stream_write [OF this f [unfolded send_finish_def]]
  show ?thesis using fresh i w' r' f' by (simp add: build_bootstrap_def build_finish_def)
qed

lemma rpc_call_ok:
  assumes good: "good (stream c)"
    and run: "rpc_call codec rd wr import interface m params decode c = Some (Inr v, c')"
  shows "has_bootstrap c \<and> has_bootstrap c' \<and> next_question c' = next_question c + 1 \<and>
    good (stream c') \<and>
    written (stream c') = written (stream c)
      @ serialize codec (OCall (next_question c) import interface m params)
      @ serialize codec (OFinish (next_question c) False)"
proof -
  let ?c0 = "c\<lparr>next_question := next_question c + 1\<rparr>"
  from run obtain c1 segments c2 u where
      ready: "has_bootstrap c"
    and w: "on_stream (write_raw wr (build_call codec (next_question c) import interface m params)) ?c0
          = Some (Inr (), c1)"
    and r: "on_stream (read_message rd) c1 = Some (Inr segments, c2)"
    and f: "send_finish codec wr (next_question c) False c2 = Some (Inr u, c')"
    by (auto simp: rpc_call_def take_question_def bind_io_eq_Inr_iff
        split: if_split_asm call_outcome.split_asm) (metis call_outcome.exhaust)
  have "good (stream ?c0)" using good by simp
  note w' = on_stream_write [OF this w]
  note r' = on_stream_read [OF conjunct1 [OF w'] r]
  note f' = on_stream_write [OF conjunct1 [OF r'] f [unfolded send_finish_def]]
  show ?thesis using ready w' r' f' by (simp add: build_call_def build_finish_def)
qed

lemma close_client_ok:
  assumes "good (stream c)" and "close_client codec wr c = Some (Inr u, c')"
  shows "\<not> has_bootstrap c' \<and> good (stream c') \<and> written (stream c') = written (stream c)
    @ (if has_bootstrap c then serialize codec (ORelease 0 1) else [])"
  using assms on_stream_write [OF assms(1)]
  by (auto simp: close_client_def build_release_def bind_io_eq_Inr_iff split: if_splits)

end

lemmas run_rpc = bootstrap_def take_question_def on_stream_def client_new_def send_finish_def
  build_bootstrap_def build_finish_def build_call_def build_release_def decode_bootstrap_def
  decode_call_def expect_return_def rpc_call_def close_client_def

end
