(* ===== verification/H2_Stream.thy ===== *)
theory H2_Stream
  imports Framing
begin

text \<open>
  The adapters of \<open>src/edge/h2/stream.rs\<close>. The receive and send halves of the \<open>h2\<close> crate are
  scripts: what \<open>poll_data\<close> and \<open>poll_capacity\<close> will answer, in order, with any number of
  \<open>Pending\<close> in between (an exhausted script is pending for ever), and which calls of
  \<open>release_capacity\<close> and \<open>send_data\<close> fail. The adapters are translated poll by poll; awaiting
  polls again after every \<open>Pending\<close>. They interpret the locales of the theory \<open>Streams\<close>, so
  that the framing lemmas hold of them.
\<close>

section \<open>Reading the request body\<close>

datatype recv_event = RData "byte list" | RError string | REnd | RPending

record receive_stream_reader =
  receive :: "recv_event list"
  chunk :: "byte list option"
  position :: nat
  eof :: bool
  released :: nat
  release_error :: "nat \<Rightarrow> string option"

definition reader_new :: "recv_event list \<Rightarrow> (nat \<Rightarrow> string option) \<Rightarrow> receive_stream_reader" where
  "reader_new events errors =
     \<lparr>receive = events, chunk = None, position = 0, eof = False, released = 0,
      release_error = errors\<rparr>"

text \<open>Delivers from a chunk that still has bytes; the last byte of a chunk releases its capacity.\<close>

definition deliver ::
  "nat \<Rightarrow> byte list \<Rightarrow> receive_stream_reader \<Rightarrow> (io_error + byte list) poll \<times> receive_stream_reader" where
  "deliver n c st =
     (let k = min (length c - position st) n;
          data = take k (drop (position st) c);
          position' = position st + k in
      if position' < length c
      then (Ready (Inr data), st\<lparr>chunk := Some c, position := position'\<rparr>)
      else case release_error st (released st) of
        Some e \<Rightarrow> (Ready (Inl (io_err OtherKind e)), st\<lparr>chunk := None, position := position'\<rparr>)
      | None \<Rightarrow> (Ready (Inr data),
                  st\<lparr>chunk := None, position := 0, released := released st + length c\<rparr>))"

function reader_poll ::
  "nat \<Rightarrow> receive_stream_reader \<Rightarrow> (io_error + byte list) poll \<times> receive_stream_reader" where
  "reader_poll n st =
     (if eof st then (Ready (Inr []), st)
      else case chunk st of
        Some c \<Rightarrow>
          if position st < length c then deliver n c st
          else reader_poll n (st\<lparr>chunk := None, position := 0\<rparr>)
      | None \<Rightarrow>
          (case receive st of
             RData c # events \<Rightarrow> reader_poll n (st\<lparr>receive := events, chunk := Some c\<rparr>)
           | RError e # events \<Rightarrow>
               (Ready (Inl (io_err OtherKind e)), st\<lparr>receive := events\<rparr>)
           | REnd # events \<Rightarrow> (Ready (Inr []), st\<lparr>receive := events, eof := True\<rparr>)
           | RPending # events \<Rightarrow> (Pending, st\<lparr>receive := events\<rparr>)
           | [] \<Rightarrow> (Pending, st)))"
  by pat_completeness auto
termination
  by (relation "measure (\<lambda>(n, st). 2 * length (receive st) + (if chunk st = None then 0 else 1))") auto

declare reader_poll.simps [simp del]

lemma deliver_receive [simp]:
  "receive (snd (deliver n c st)) = receive st" "deliver n c st \<noteq> (Pending, st')"
  by (simp_all add: deliver_def Let_def split: option.split)

lemmas reader_splits = if_splits option.splits list.splits recv_event.splits

lemma reader_poll_receive:
  "reader_poll n st = (r, st') \<Longrightarrow>
   length (receive st') \<le> length (receive st) \<and>
   (r = Pending \<longrightarrow> receive st \<noteq> [] \<longrightarrow> length (receive st') < length (receive st))"
proof (induction n st rule: reader_poll.induct)
  case (1 n st)
  show ?case
    using 1 reader_poll.simps [of n st] deliver_receive [of n _ st]
    by (auto split: reader_splits dest: le_SucI) (metis deliver_receive(1) order_refl snd_conv)+
qed

text \<open>Awaiting a read polls until it is ready; on an exhausted script that is never.\<close>

function reader_read :: "receive_stream_reader reader" where
  "reader_read n st =
     (case reader_poll n st of
        (Ready r, st') \<Rightarrow> Some (r, st')
      | (Pending, st') \<Rightarrow> if receive st = [] then None else reader_read n st')"
  by pat_completeness auto
termination
  by (relation "measure (\<lambda>(n, st). length (receive st))") (auto dest: reader_poll_receive [OF sym])

declare reader_read.simps [simp del]

section \<open>The contract of the reader\<close>

fun events_data :: "recv_event list \<Rightarrow> byte list" where
  "events_data (RData c # events) = c @ events_data events"
| "events_data (RPending # events) = events_data events"
| "events_data (RError e # events) = []"
| "events_data (REnd # events) = []"
| "events_data [] = []"

fun no_error :: "recv_event list \<Rightarrow> bool" where
  "no_error (RData c # events) = no_error events"
| "no_error (RPending # events) = no_error events"
| "no_error (RError e # events) = False"
| "no_error (REnd # events) = True"
| "no_error [] = True"

definition reader_rest :: "receive_stream_reader \<Rightarrow> byte list" where
  "reader_rest st =
     (if eof st then []
      else (case chunk st of Some c \<Rightarrow> drop (position st) c | None \<Rightarrow> []) @ events_data (receive st))"

definition reader_good :: "receive_stream_reader \<Rightarrow> bool" where
  "reader_good st \<longleftrightarrow>
     (eof st \<or> no_error (receive st)) \<and> release_error st = (\<lambda>_. None) \<and> (chunk st = None \<longrightarrow> position st = 0)"

lemma deliver_contract:
  assumes "reader_good st" "\<not> eof st" "chunk st = Some c" "position st < length c"
  shows "\<exists>data st'. deliver n c st = (Ready (Inr data), st') \<and> length data \<le> n \<and>
    reader_rest st = data @ reader_rest st' \<and> reader_good st' \<and> (0 < n \<longrightarrow> data \<noteq> [])"
proof -
  let ?k = "min (length c - position st) n"
  have "drop (position st) c = take ?k (drop (position st) c) @ drop (position st + ?k) c"
    by (metis append_take_drop_id drop_drop add.commute)
  then show ?thesis
    using assms by (auto simp: deliver_def Let_def reader_good_def reader_rest_def)
qed

lemma reader_poll_contract:
  "reader_good st \<Longrightarrow>
   (case reader_poll n st of
      (Ready (Inr data), st') \<Rightarrow>
        length data \<le> n \<and> reader_rest st = data @ reader_rest st' \<and> reader_good st' \<and>
        (0 < n \<longrightarrow> data = [] \<longrightarrow> reader_rest st = [])
    | (Ready (Inl e), st') \<Rightarrow> False
    | (Pending, st') \<Rightarrow>
        reader_rest st' = reader_rest st \<and> reader_good st' \<and>
        (receive st = [] \<longrightarrow> reader_rest st = []))"
proof (induction n st rule: reader_poll.induct)
  case (1 n st)
  show ?case
  proof (cases "eof st")
    case True
    with 1 show ?thesis by (simp add: reader_poll.simps [of n st] reader_rest_def)
  next
    case live: False
    show ?thesis
    proof (cases "chunk st")
      case (Some c)
      show ?thesis
      proof (cases "position st < length c")
        case True
        with deliver_contract [OF 1(3) live Some True, of n] show ?thesis
          by (auto simp: reader_poll.simps [of n st] live Some)
      next
        case False
        let ?st = "st\<lparr>chunk := None, position := 0\<rparr>"
        have "reader_good ?st" "reader_rest ?st = reader_rest st"
          using 1(3) live Some False by (simp_all add: reader_good_def reader_rest_def)
        with "1.IH"(2) [OF live Some False] show ?thesis
          by (auto simp: reader_poll.simps [of n st] live Some False
              split: prod.splits poll.splits sum.splits)
      qed
    next
      case None
      show ?thesis
      proof (cases "receive st")
        case Nil
        with 1(3) live None show ?thesis
          by (simp add: reader_poll.simps [of n st] reader_rest_def)
      next
        case (Cons ev events)
        show ?thesis
        proof (cases ev)
          case (RData c)
          let ?st = "st\<lparr>receive := events, chunk := Some c\<rparr>"
          have "reader_good ?st" "reader_rest ?st = reader_rest st"
            using 1(3) live None Cons RData by (simp_all add: reader_good_def reader_rest_def)
          with "1.IH"(1) [OF live None Cons RData] show ?thesis
            by (auto simp: reader_poll.simps [of n st] live None Cons RData
                split: prod.splits poll.splits sum.splits)
        qed (use 1(3) live None Cons in
            \<open>auto simp: reader_poll.simps [of n st] reader_good_def reader_rest_def\<close>)
      qed
    qed
  qed
qed

lemma reader_read_contract:
  "reader_good st \<Longrightarrow> reader_read n st = Some (r, st') \<Longrightarrow>
   \<exists>data. r = Inr data \<and> length data \<le> n \<and> reader_rest st = data @ reader_rest st' \<and>
     reader_good st' \<and> (0 < n \<longrightarrow> data = [] \<longrightarrow> reader_rest st = [])"
proof (induction n st rule: reader_read.induct)
  case (1 n st)
  note poll = reader_poll_contract [OF "1.prems"(1), of n]
  obtain p st1 where p: "reader_poll n st = (p, st1)" by (cases "reader_poll n st")
  show ?case
  proof (cases p)
    case (Ready r1)
    with "1.prems"(2) p poll show ?thesis
      by (cases r1) (auto simp: reader_read.simps [of n st])
  next
    case Pending
    with "1.prems"(2) p have "receive st \<noteq> []" and "reader_read n st1 = Some (r, st')"
      by (auto simp: reader_read.simps [of n st] split: if_splits)
    with "1.IH" [OF p [symmetric] Pending] poll p Pending show ?thesis by auto
  qed
qed

lemma reader_read_live:
  "reader_good st \<Longrightarrow> reader_rest st \<noteq> [] \<Longrightarrow> \<exists>data st'. reader_read n st = Some (Inr data, st')"
proof (induction n st rule: reader_read.induct)
  case (1 n st)
  note poll = reader_poll_contract [OF "1.prems"(1), of n]
  obtain p st1 where p: "reader_poll n st = (p, st1)" by (cases "reader_poll n st")
  show ?case
  proof (cases p)
    case (Ready r1)
    with p poll show ?thesis by (cases r1) (auto simp: reader_read.simps [of n st])
  next
    case Pending
    with p poll "1.prems" have "receive st \<noteq> []" "reader_good st1" "reader_rest st1 \<noteq> []" by auto
    with "1.IH" [OF p [symmetric] Pending] p Pending show ?thesis
      by (auto simp: reader_read.simps [of n st])
  qed
qed

interpretation h2_read: live_reader reader_read reader_rest reader_good
proof
  fix n st data st'
  assume "reader_good st" "reader_read n st = Some (Inr data, st')"
  from reader_read_contract [OF this]
  show "length data \<le> n \<and> reader_rest st = data @ reader_rest st' \<and> reader_good st'" by auto
next
  fix n st st'
  assume "reader_good st" "0 < n" "reader_read n st = Some (Inr [], st')"
  with reader_read_contract [OF this(1,3)] show "reader_rest st = []" by auto
next
  fix n st
  assume "reader_good st" "reader_rest st \<noteq> []"
  then show "\<exists>data st'. reader_read n st = Some (Inr data, st')" by (rule reader_read_live)
qed

text \<open>A body whose script comes to an end reports it.\<close>

fun has_end :: "recv_event list \<Rightarrow> bool" where
  "has_end (REnd # events) = True"
| "has_end (ev # events) = has_end events"
| "has_end [] = False"

definition reader_ends :: "receive_stream_reader \<Rightarrow> bool" where
  "reader_ends st \<longleftrightarrow> eof st \<or> has_end (receive st)"

lemma deliver_ends [simp]: "reader_ends (snd (deliver n c st)) = reader_ends st"
  by (simp add: deliver_def reader_ends_def Let_def split: option.split)

lemma reader_poll_ends:
  "reader_ends st \<Longrightarrow> reader_poll n st = (r, st') \<Longrightarrow>
   reader_ends st' \<and> (r = Pending \<longrightarrow> receive st \<noteq> [])"
proof (induction n st rule: reader_poll.induct)
  case (1 n st)
  show ?case
    using 1 reader_poll.simps [of n st] deliver_ends [of n _ st]
    by (auto simp: reader_ends_def split: reader_splits) (metis (no_types) snd_conv deliver_ends reader_ends_def)+
qed

lemma reader_read_ends:
  "reader_ends st \<Longrightarrow> \<exists>r st'. reader_read n st = Some (r, st') \<and> reader_ends st'"
proof (induction n st rule: reader_read.induct)
  case (1 n st)
  obtain p st1 where p: "reader_poll n st = (p, st1)" by (cases "reader_poll n st")
  note poll = reader_poll_ends [OF "1.prems" p]
  show ?case
  proof (cases p)
    case Pending
    with poll "1.IH" [OF p [symmetric] Pending] p show ?thesis
      by (auto simp: reader_read.simps [of n st])
  qed (use p poll in \<open>simp add: reader_read.simps [of n st]\<close>)
qed

interpretation h2_body: ending_reader reader_read reader_rest reader_good reader_ends
proof
  fix st n
  assume st: "reader_good st" "reader_ends st" "reader_rest st = []"
  from reader_read_ends [OF st(2)] obtain r st' where read: "reader_read n st = Some (r, st')" by blast
  from reader_read_contract [OF st(1) read] st(3) read show "\<exists>st'. reader_read n st = Some (Inr [], st')"
    by auto
next
  fix st n data st'
  assume "reader_good st" "reader_ends st" "reader_read n st = Some (Inr data, st')"
  then show "reader_ends st'" using reader_read_ends [of st n] by auto
qed

section \<open>Writing the response body\<close>

datatype capacity_event = CapOk nat | CapNone | CapError string | CapPending

record send_stream_writer =
  capacity :: nat
  capacity_events :: "capacity_event list"
  sent :: "byte list"
  ended :: bool
  send_error :: "nat \<Rightarrow> string option"
  closed :: bool

definition writer_new ::
  "nat \<Rightarrow> capacity_event list \<Rightarrow> (nat \<Rightarrow> string option) \<Rightarrow> send_stream_writer" where
  "writer_new cap events errors =
     \<lparr>capacity = cap, capacity_events = events, sent = [], ended = False, send_error = errors,
      closed = False\<rparr>"

text \<open>\<open>send_data\<close> of the crate: it fails, or takes the bytes and uses up capacity.\<close>

definition send_data :: "byte list \<Rightarrow> bool \<Rightarrow> send_stream_writer \<Rightarrow> (string + unit) \<times> send_stream_writer" where
  "send_data bytes end_stream st =
     (case send_error st (length (sent st)) of
        Some e \<Rightarrow> (Inl e, st)
      | None \<Rightarrow> (Inr (), st\<lparr>sent := sent st @ bytes, capacity := capacity st - length bytes,
                            ended := ended st \<or> end_stream\<rparr>))"

definition writer_send :: "byte list \<Rightarrow> send_stream_writer \<Rightarrow> (io_error + nat) poll \<times> send_stream_writer" where
  "writer_send buffer st =
     (let n = min (length buffer) (capacity st) in
      case send_data (take n buffer) False st of
        (Inr _, st) \<Rightarrow> (Ready (Inr n), st)
      | (Inl e, st) \<Rightarrow> (Ready (Inl (io_err OtherKind e)), st))"

definition writer_poll :: "byte list \<Rightarrow> send_stream_writer \<Rightarrow> (io_error + nat) poll \<times> send_stream_writer" where
  "writer_poll buffer st =
     (if closed st then (Ready (Inl (io_err BrokenPipe ''stream already closed'')), st)
      else if buffer = [] then (Ready (Inr 0), st)
      else if capacity st = 0 then
        (case capacity_events st of
           CapOk c # events \<Rightarrow> writer_send buffer (st\<lparr>capacity := c, capacity_events := events\<rparr>)
         | CapNone # events \<Rightarrow>
             (Ready (Inl (io_err ConnectionReset ''stream reset by peer'')), st\<lparr>capacity_events := events\<rparr>)
         | CapError e # events \<Rightarrow>
             (Ready (Inl (io_err OtherKind e)), st\<lparr>capacity_events := events\<rparr>)
         | CapPending # events \<Rightarrow> (Pending, st\<lparr>capacity_events := events\<rparr>)
         | [] \<Rightarrow> (Pending, st))
      else writer_send buffer st)"

lemma writer_send_not_pending [simp]: "writer_send buffer st \<noteq> (Pending, st')"
  by (simp add: writer_send_def Let_def split: prod.split sum.split)

lemma writer_poll_pending:
  "writer_poll buffer st = (Pending, st') \<Longrightarrow> capacity_events st \<noteq> [] \<Longrightarrow>
   length (capacity_events st') < length (capacity_events st)"
  by (auto simp: writer_poll_def split: if_splits list.splits capacity_event.splits)

function writer_write :: "send_stream_writer writer" where
  "writer_write buffer st =
     (case writer_poll buffer st of
        (Ready r, st') \<Rightarrow> Some (r, st')
      | (Pending, st') \<Rightarrow> if capacity_events st = [] then None else writer_write buffer st')"
  by pat_completeness auto
termination
  by (relation "measure (\<lambda>(buffer, st). length (capacity_events st))")
     (auto dest: writer_poll_pending [OF sym])

declare writer_write.simps [simp del]

definition writer_flush :: "send_stream_writer \<Rightarrow> ((io_error + unit) \<times> send_stream_writer) option" where
  "writer_flush st = Some (Inr (), st)"

text \<open>Closing sends the end of the stream once and ignores whether that succeeds.\<close>

definition writer_close :: "send_stream_writer \<Rightarrow> ((io_error + unit) \<times> send_stream_writer) option" where
  "writer_close st =
     (if \<not> closed st then Some (Inr (), snd (send_data [] True (st\<lparr>closed := True\<rparr>)))
      else Some (Inr (), st))"

lemma writer_send_contract:
  "writer_send buffer st = (Ready r, st') \<Longrightarrow>
   (case r of
      Inr n \<Rightarrow> n \<le> length buffer \<and> sent st' = sent st @ take n buffer
    | Inl e \<Rightarrow> sent st' = sent st)"
  by (auto simp: writer_send_def send_data_def Let_def split: option.splits)

lemma writer_poll_contract:
  assumes "writer_poll buffer st = (p, st')"
  shows "case p of
      Ready (Inr n) \<Rightarrow> n \<le> length buffer \<and> sent st' = sent st @ take n buffer
    | Ready (Inl e) \<Rightarrow> sent st' = sent st
    | Pending \<Rightarrow> sent st' = sent st"
proof (cases p)
  case (Ready r)
  show ?thesis
    using assms Ready writer_send_contract [of buffer _ r st']
    by (cases r; fastforce simp: writer_poll_def split: if_splits list.splits capacity_event.splits)
next
  case Pending
  with assms show ?thesis
    by (auto simp: writer_poll_def split: if_splits list.splits capacity_event.splits)
qed

lemma writer_write_contract:
  "writer_write buffer st = Some (r, st') \<Longrightarrow>
   (case r of
      Inr n \<Rightarrow> n \<le> length buffer \<and> sent st' = sent st @ take n buffer
    | Inl e \<Rightarrow> sent st' = sent st)"
proof (induction buffer st rule: writer_write.induct)
  case (1 buffer st)
  obtain p st1 where p: "writer_poll buffer st = (p, st1)" by (cases "writer_poll buffer st")
  note poll = writer_poll_contract [OF p]
  show ?case
  proof (cases p)
    case (Ready r1)
    with "1.prems" p poll show ?thesis
      by (cases r1) (auto simp: writer_write.simps [of buffer st])
  next
    case Pending
    with "1.prems" p have "capacity_events st \<noteq> []" and "writer_write buffer st1 = Some (r, st')"
      by (auto simp: writer_write.simps [of buffer st] split: if_splits)
    with "1.IH" [OF p [symmetric] Pending] poll Pending show ?thesis
      by (auto split: sum.splits)
  qed
qed

interpretation h2_write: byte_writer writer_write sent "\<lambda>_. True"
proof
  fix st buffer n st'
  assume "writer_write buffer st = Some (Inr n, st')"
  from writer_write_contract [OF this]
  show "n \<le> length buffer \<and> sent st' = sent st @ take n buffer \<and> True" by simp
next
  fix st buffer e st'
  assume "writer_write buffer st = Some (Inl e, st')"
  from writer_write_contract [OF this] show "sent st' = sent st \<and> True" by simp
qed

section \<open>Both directions\<close>

record h2_bidirectional =
  bidi_read :: receive_stream_reader
  bidi_write :: send_stream_writer

definition bidi_new ::
  "receive_stream_reader \<Rightarrow> send_stream_writer \<Rightarrow> h2_bidirectional" where
  "bidi_new r w = \<lparr>bidi_read = r, bidi_write = w\<rparr>"

definition bidi_sread :: "h2_bidirectional reader" where
  "bidi_sread n st =
     map_option (\<lambda>(r, rd). (r, st\<lparr>bidi_read := rd\<rparr>)) (reader_read n (bidi_read st))"

definition bidi_swrite :: "h2_bidirectional writer" where
  "bidi_swrite buffer st =
     map_option (\<lambda>(r, wr). (r, st\<lparr>bidi_write := wr\<rparr>)) (writer_write buffer (bidi_write st))"

definition bidi_close :: "h2_bidirectional \<Rightarrow> ((io_error + unit) \<times> h2_bidirectional) option" where
  "bidi_close st =
     map_option (\<lambda>(r, wr). (r, st\<lparr>bidi_write := wr\<rparr>)) (writer_close (bidi_write st))"

interpretation h2_bidi: byte_stream bidi_sread bidi_swrite
  "\<lambda>st. reader_rest (bidi_read st)" "\<lambda>st. sent (bidi_write st)" "\<lambda>st. reader_good (bidi_read st)"
proof
  fix st n data st'
  assume "reader_good (bidi_read st)" "bidi_sread n st = Some (Inr data, st')"
  then show "length data \<le> n \<and> reader_rest (bidi_read st) = data @ reader_rest (bidi_read st')
      \<and> reader_good (bidi_read st')"
    by (auto simp: bidi_sread_def dest: h2_read.sread_prefix)
next
  fix st n st'
  assume "reader_good (bidi_read st)" "0 < n" "bidi_sread n st = Some (Inr [], st')"
  then show "reader_rest (bidi_read st) = []"
    by (auto simp: bidi_sread_def dest: h2_read.sread_end)
next
  fix st :: h2_bidirectional and n :: nat
  assume "reader_good (bidi_read st)" "0 < n" "reader_rest (bidi_read st) \<noteq> []"
  then show "\<exists>data st'. bidi_sread n st = Some (Inr data, st')"
    using h2_read.sread_live [of "bidi_read st" n] by (auto simp: bidi_sread_def)
next
  fix st buffer n st'
  assume "reader_good (bidi_read st)" "bidi_swrite buffer st = Some (Inr n, st')"
  then show "n \<le> length buffer \<and> sent (bidi_write st') = sent (bidi_write st) @ take n buffer
      \<and> reader_good (bidi_read st')"
    by (auto simp: bidi_swrite_def dest: h2_write.swrite_append [OF TrueI])
next
  fix st buffer e st'
  assume "reader_good (bidi_read st)" "bidi_swrite buffer st = Some (Inl e, st')"
  then show "sent (bidi_write st') = sent (bidi_write st) \<and> reader_good (bidi_read st')"
    by (auto simp: bidi_swrite_def dest: h2_write.swrite_fail [OF TrueI])
next
  fix st n r st'
  assume "reader_good (bidi_read st)" "bidi_sread n st = Some (r, st')"
  then show "sent (bidi_write st') = sent (bidi_write st)" by (auto simp: bidi_sread_def)
next
  fix st buffer k st'
  assume "reader_good (bidi_read st)" "bidi_swrite buffer st = Some (k, st')"
  then show "reader_rest (bidi_read st') = reader_rest (bidi_read st)"
    by (auto simp: bidi_swrite_def)
qed

section \<open>Messages over an HTTP/2 stream\<close>

definition quiet :: "nat \<Rightarrow> string option" where
  "quiet n = None"

lemma reader_new_good [simp]:
  "reader_good (reader_new events quiet) \<longleftrightarrow> no_error events"
  "reader_rest (reader_new events quiet) = events_data events"
  by (simp_all add: reader_good_def reader_rest_def reader_new_def quiet_def fun_eq_iff)

text \<open>C17. A message framed by the peer is read back whole over HTTP/2, however its bytes are cut
  into DATA frames and whatever delays come between them, and the bytes after it stay unread.\<close>

theorem h2_reads_framed_message:
  assumes "segments_wf segments" and "no_error events"
    and "events_data events = frame segments @ after"
  shows "\<exists>st. read_message reader_read (reader_new events quiet) = Some (Inr segments, st) \<and>
    reader_rest st = after"
  using h2_read.read_message_frame [of "reader_new events quiet" segments after] assms by auto

theorem h2_reads_framed_message_witness:
  "\<exists>st. read_message reader_read
      (reader_new [RData [0, 0, 0], RPending, RData [0, 1, 0, 0, 0, 1], RPending, RPending,
                   RData [2, 3, 4, 5, 6, 7, 8, 9]] quiet)
    = Some (Inr [[1, 2, 3, 4, 5, 6, 7, 8]], st) \<and> reader_rest st = [9]"
  by (rule h2_reads_framed_message)
     (simp_all add: dvd_eq_mod_eq_0 segments_wf_def MAXIMUM_TOTAL_WORDS_def frame_def word_count_def
        u32_to_le_bytes_def)

text \<open>C28. Writing a message over HTTP/2 sends a prefix of it under any flow-control answers and
  any failures, and the whole of it when the write returns \<open>Ok\<close>; nothing is sent twice or out
  of order.\<close>

theorem h2_writes_prefix:
  assumes "write_raw writer_write bytes st = Some (r, st')"
  shows "\<exists>k \<le> length bytes. sent st' = sent st @ take k bytes \<and> (r = Inr () \<longrightarrow> k = length bytes)"
  using h2_write.write_all_prefix [OF TrueI, of bytes st r st'] assms by (simp add: write_raw_def)

theorem h2_writes_prefix_witness:
  "\<exists>k \<le> length [1, 2, 3 :: byte].
     sent (writer_new 0 [] quiet \<lparr>sent := [1, 2]\<rparr>) = sent (writer_new 2 [CapNone] quiet) @ take k [1, 2, 3] \<and>
     (Inl (RpcIo (io_err ConnectionReset ''stream reset by peer'')) = Inr () \<longrightarrow>
        k = length [1, 2, 3 :: byte])"
  by (rule h2_writes_prefix)
     (simp add: write_raw_def write_all.simps writer_write.simps writer_poll_def writer_send_def
        send_data_def writer_new_def quiet_def Let_def)

lemmas run_h2 = run_streams read_message_def read_segments_def bidi_new_def bidi_sread_def
  bidi_swrite_def reader_new_def reader_read.simps reader_poll.simps deliver_def writer_new_def
  writer_write.simps writer_poll_def writer_send_def send_data_def quiet_def MAXIMUM_TOTAL_WORDS_def
  u32_from_le_bytes_def

end
