(* ===== verification/Control.thy ===== *)
theory Control
  imports Rpc Tunnel H2_Stream
begin

text \<open>
  Registration: the typed client of \<open>rpc/src/tunnel.rs\<close> over the RPC client, and the control
  stream of \<open>src/edge/control.rs\<close> (register, push the local configuration, unregister). The
  payload structs of the registration interface are built and read by generated code, so the
  codec of the theory \<open>Rpc\<close> is extended by their constructors and by the reader of the
  registration result.
\<close>

section \<open>The registration interface\<close>

definition REGISTRATION_SERVER_INTERFACE_ID :: u64 where
  "REGISTRATION_SERVER_INTERFACE_ID = 0xf71695ec7fe85497"
definition METHOD_REGISTER_CONNECTION :: u16 where "METHOD_REGISTER_CONNECTION = 0"
definition METHOD_UNREGISTER_CONNECTION :: u16 where "METHOD_UNREGISTER_CONNECTION = 1"
definition METHOD_UPDATE_LOCAL_CONFIGURATION :: u16 where "METHOD_UPDATE_LOCAL_CONFIGURATION = 2"

record client_information =
  client_identifier :: "byte list"
  features :: "string list"
  version :: string
  arch :: string

record connection_options =
  client :: client_information
  origin_local_ip :: "byte list"
  replace_existing :: bool
  compression_quality :: u8
  number_previous_attempts :: u8

record tunnel_auth =
  auth_account_tag :: string
  auth_tunnel_secret :: "byte list"

record connection_error =
  cause :: string
  retry_after :: i64
  should_retry :: bool

record connection_details =
  uuid :: "byte list"
  location_name :: string
  tunnel_is_remotely_managed :: bool

datatype connection_response =
    ResponseError connection_error
  | ResponseDetails connection_details

definition registration_failure_from :: "connection_error \<Rightarrow> registration_failure" where
  "registration_failure_from e =
     (if should_retry e then Retryable (cause e) (retry_after e) else Permanent (cause e))"

fun into_result :: "connection_response \<Rightarrow> registration_failure + connection_details" where
  "into_result (ResponseDetails d) = Inr d"
| "into_result (ResponseError e) = Inl (registration_failure_from e)"

record 'p registration_codec = "'p rpc_codec" +
  register_connection_params ::
    "tunnel_auth \<Rightarrow> byte list \<Rightarrow> u8 \<Rightarrow> connection_options \<Rightarrow> 'p"
  unregister_connection_params :: 'p
  update_local_configuration_params :: "byte list \<Rightarrow> 'p"
  register_connection_results :: "'p payload_view \<Rightarrow> rpc_error + connection_response"

abbreviation rpc_part :: "'p registration_codec \<Rightarrow> 'p rpc_codec" where
  "rpc_part codec \<equiv> rpc_codec.truncate codec"

section \<open>The typed client\<close>

definition client_bootstrap ::
  "'p registration_codec \<Rightarrow> 's reader \<Rightarrow> 's writer \<Rightarrow> ('s rpc_client, rpc_error, unit) io" where
  "client_bootstrap codec rd wr =
     bind_io (bootstrap (rpc_part codec) rd wr) (\<lambda>_. return_io ())"

definition register_connection ::
  "'p registration_codec \<Rightarrow> 's reader \<Rightarrow> 's writer \<Rightarrow> tunnel_auth \<Rightarrow> byte list \<Rightarrow> u8
     \<Rightarrow> connection_options \<Rightarrow> ('s rpc_client, rpc_error, connection_response) io" where
  "register_connection codec rd wr auth ident connection_index options =
     rpc_call (rpc_part codec) rd wr 0 REGISTRATION_SERVER_INTERFACE_ID METHOD_REGISTER_CONNECTION
       (register_connection_params codec auth ident connection_index options)
       (register_connection_results codec)"

definition unregister_connection ::
  "'p registration_codec \<Rightarrow> 's reader \<Rightarrow> 's writer \<Rightarrow> ('s rpc_client, rpc_error, unit) io" where
  "unregister_connection codec rd wr =
     rpc_call (rpc_part codec) rd wr 0 REGISTRATION_SERVER_INTERFACE_ID METHOD_UNREGISTER_CONNECTION
       (unregister_connection_params codec) (\<lambda>_. Inr ())"

definition update_local_configuration ::
  "'p registration_codec \<Rightarrow> 's reader \<Rightarrow> 's writer \<Rightarrow> byte list
     \<Rightarrow> ('s rpc_client, rpc_error, unit) io" where
  "update_local_configuration codec rd wr configuration =
     rpc_call (rpc_part codec) rd wr 0 REGISTRATION_SERVER_INTERFACE_ID
       METHOD_UPDATE_LOCAL_CONFIGURATION
       (update_local_configuration_params codec configuration) (\<lambda>_. Inr ())"

section \<open>The control stream\<close>

definition DUPLICATE_CONNECTION_CAUSE :: string where
  "DUPLICATE_CONNECTION_CAUSE = ''EDUPCONN''"

definition RPC_TIMEOUT :: duration where
  "RPC_TIMEOUT = from_secs 5"

definition DEFAULT_FEATURES :: "string list" where
  "DEFAULT_FEATURES =
     [''allow_remote_config'', ''serialized_headers'', ''support_datagram_v2'',
      ''support_quic_eof'', ''management_logs'']"

record registration_options =
  reg_features :: "string list"
  reg_number_previous_attempts :: u8
  reg_origin_local_ip :: "byte list"

definition default_registration_options :: registration_options where
  "default_registration_options =
     \<lparr>reg_features = DEFAULT_FEATURES, reg_number_previous_attempts = 0, reg_origin_local_ip = []\<rparr>"

text \<open>
  What the process contributes: the connector's random id, drawn once, and the operating
  system and architecture names.
\<close>

record process_info =
  connector_client_identifier :: "byte list"
  os_name :: string
  arch_name :: string

definition build_connection_options ::
  "process_info \<Rightarrow> registration_options \<Rightarrow> connection_options" where
  "build_connection_options process options =
     \<lparr>client = \<lparr>client_identifier = connector_client_identifier process,
                features = reg_features options,
                version = CARGO_PKG_VERSION,
                arch = os_name process @ ''/'' @ arch_name process\<rparr>,
      origin_local_ip = reg_origin_local_ip options,
      replace_existing = False,
      compression_quality = 0,
      number_previous_attempts = reg_number_previous_attempts options\<rparr>"

definition peer_ip_bytes :: "socket_addr \<Rightarrow> byte list" where
  "peer_ip_bytes address = octets (ip address)"

text \<open>The error of a rejected registration.\<close>

definition rejection :: "connection_error \<Rightarrow> error" where
  "rejection e =
     (if cause e = DUPLICATE_CONNECTION_CAUSE then duplicate_connection (cause e)
      else registration_error (registration_failure_from e))"

text \<open>
  \<open>register_on_stream\<close> from a client over the fresh stream; the client it returns stays open
  when registration succeeds and is dropped otherwise.
\<close>

definition register_on_stream ::
  "'p registration_codec \<Rightarrow> tunnel_codecs \<Rightarrow> process_info \<Rightarrow> 's reader \<Rightarrow> 's writer
     \<Rightarrow> tunnel \<Rightarrow> registration_options \<Rightarrow> byte list
     \<Rightarrow> 's \<Rightarrow> ((error + connection_details) \<times> 's rpc_client) option" where
  "register_on_stream codec codecs process rd wr t options configuration_json s =
     bind_io (map_err_io error_from_rpc (client_bootstrap codec rd wr)) (\<lambda>_.
     bind_io (lift_io (tunnel_identifier_bytes codecs t)) (\<lambda>ident.
     let auth = \<lparr>auth_account_tag = account_tag t, auth_tunnel_secret = tunnel_secret t\<rparr> in
     bind_io (map_err_io error_from_rpc
       (register_connection codec rd wr auth ident 0 (build_connection_options process options))) (\<lambda>response.
     bind_io
       (case response of
          ResponseDetails details \<Rightarrow> return_io details
        | ResponseError e \<Rightarrow>
            catch_io (close_client (rpc_part codec) wr) (\<lambda>_. throw_io (rejection e)))
       (\<lambda>details.
         if \<not> tunnel_is_remotely_managed details
         then catch_io (update_local_configuration codec rd wr configuration_json)
                (\<lambda>_. return_io details)
         else return_io details)))) (client_new s)"

text \<open>
  \<open>unregister\<close> with its bound: \<open>elapses c = Some c'\<close> says that the grace period elapses while the
  exchange started in \<open>c\<close> is in progress; an exchange that never completes is cut as well.
  The result is always \<open>Ok\<close>; the state is the client's when the exchange completed.
\<close>

definition unregister_exchange ::
  "'p registration_codec \<Rightarrow> 's reader \<Rightarrow> 's writer \<Rightarrow> ('s rpc_client, rpc_error, unit) io" where
  "unregister_exchange codec rd wr =
     catch_io (unregister_connection codec rd wr) (\<lambda>_.
       catch_io (close_client (rpc_part codec) wr) (\<lambda>_. return_io ()))"

definition unregister ::
  "'p registration_codec \<Rightarrow> 's reader \<Rightarrow> 's writer \<Rightarrow> ('s rpc_client \<Rightarrow> 's rpc_client option)
     \<Rightarrow> 's rpc_client \<Rightarrow> (error + unit) \<times> 's rpc_client option" where
  "unregister codec rd wr elapses c =
     (case elapses c of
        Some c' \<Rightarrow> (Inr (), Some c')
      | None \<Rightarrow>
          (case unregister_exchange codec rd wr c of
             None \<Rightarrow> (Inr (), None)
           | Some (_, c') \<Rightarrow> (Inr (), Some c')))"

section \<open>What is registered\<close>

lemma registration_trace_serialize [simp]: "serialize (rpc_part codec) = serialize codec"
  by (simp add: rpc_codec.truncate_def)

lemma rejection_permanent:
  "is_permanent (rejection e) \<longleftrightarrow> cause e \<noteq> DUPLICATE_CONNECTION_CAUSE \<and> \<not> should_retry e"
  by (simp add: rejection_def registration_failure_from_def duplicate_connection_def
      registration_error_def)

lemma rejection_duplicate:
  "is_duplicate_connection (rejection e) \<longleftrightarrow> cause e = DUPLICATE_CONNECTION_CAUSE"
  by (simp add: rejection_def duplicate_connection_def registration_error_def)

definition registration_trace ::
  "'p registration_codec \<Rightarrow> process_info \<Rightarrow> tunnel \<Rightarrow> registration_options \<Rightarrow> byte list \<Rightarrow> byte list" where
  "registration_trace codec process t options ident =
     serialize codec (OBootstrap 0) @ serialize codec (OFinish 0 False)
     @ serialize codec (OCall 1 0 REGISTRATION_SERVER_INTERFACE_ID METHOD_REGISTER_CONNECTION
         (register_connection_params codec
            \<lparr>auth_account_tag = account_tag t, auth_tunnel_secret = tunnel_secret t\<rparr>
            ident 0 (build_connection_options process options)))
     @ serialize codec (OFinish 1 False)"

definition update_trace :: "'p registration_codec \<Rightarrow> byte list \<Rightarrow> byte list" where
  "update_trace codec configuration =
     serialize codec (OCall 2 0 REGISTRATION_SERVER_INTERFACE_ID METHOD_UPDATE_LOCAL_CONFIGURATION
       (update_local_configuration_params codec configuration))
     @ serialize codec (OFinish 2 False)"

context byte_stream
begin

lemma register_on_stream_ok:
  assumes good: "good s"
    and run: "register_on_stream codec codecs process rd wr t options cfg s = Some (Inr details, c)"
  shows "\<exists>ident c1. tunnel_identifier_bytes codecs t = Inr ident \<and> good (stream c1) \<and>
    next_question c1 = 2 \<and> has_bootstrap c1 \<and>
    written (stream c1) = written s @ registration_trace codec process t options ident \<and>
    (if tunnel_is_remotely_managed details then c = c1
     else \<exists>r. update_local_configuration codec rd wr cfg c1 = Some (r, c))"
proof -
  from run obtain c0 i ident response c1 where
      b: "bootstrap (rpc_part codec) rd wr (client_new s) = Some (Inr i, c0)"
    and ident: "tunnel_identifier_bytes codecs t = Inr ident"
    and r: "register_connection codec rd wr
        \<lparr>auth_account_tag = account_tag t, auth_tunnel_secret = tunnel_secret t\<rparr> ident 0
        (build_connection_options process options) c0 = Some (Inr (ResponseDetails details), c1)"
    and rest: "if tunnel_is_remotely_managed details then c = c1
        else \<exists>r. update_local_configuration codec rd wr cfg c1 = Some (r, c)"
    by (auto simp: register_on_stream_def client_bootstrap_def bind_io_eq_Inr_iff Let_def
        catch_io_eq_Some_iff
        split: if_split_asm connection_response.split_asm)
  have "good (stream (client_new s))" using good by (simp add: client_new_def)
  note b' = bootstrap_ok [OF this b]
  then have "good (stream c0)" by simp
  note r' = rpc_call_ok [OF this r [unfolded register_connection_def]]
  show ?thesis
    using ident rest b' r' by (intro exI [of _ ident] exI [of _ c1])
      (simp add: registration_trace_def client_new_def)
qed

lemma update_local_configuration_ok:
  assumes "good (stream c1)" and "next_question c1 = 2"
    and "update_local_configuration codec rd wr cfg c1 = Some (Inr u, c)"
  shows "written (stream c) = written (stream c1) @ update_trace codec cfg"
  using rpc_call_ok [OF assms(1) assms(3) [unfolded update_local_configuration_def]] assms(2)
  by (simp add: update_trace_def)

end

section \<open>Registration over HTTP/2\<close>

text \<open>C11. A registration over the HTTP/2 control stream that succeeds has sent exactly the
  sequence bootstrap, finish, \<open>registerConnection\<close>, finish, with consecutive question ids; for a
  locally managed tunnel the \<open>updateLocalConfiguration\<close> call follows, and when that call
  succeeds it is on the wire with its finish. Whatever the chunking and the delays of the
  answers.\<close>

theorem registration_wire_sequence:
  assumes "no_error events"
    and "register_on_stream codec codecs process bidi_sread bidi_swrite t options cfg
           (bidi_new (reader_new events quiet) out) = Some (Inr details, c)"
  shows "\<exists>ident c1. tunnel_identifier_bytes codecs t = Inr ident \<and>
    sent (bidi_write (stream c1)) = sent out @ registration_trace codec process t options ident \<and>
    next_question c1 = 2 \<and> has_bootstrap c1 \<and>
    (if tunnel_is_remotely_managed details then c = c1
     else \<exists>r. update_local_configuration codec bidi_sread bidi_swrite cfg c1 = Some (r, c) \<and>
            (r = Inr () \<longrightarrow> sent (bidi_write (stream c))
                             = sent (bidi_write (stream c1)) @ update_trace codec cfg))"
proof -
  let ?s = "bidi_new (reader_new events quiet) out"
  have "reader_good (bidi_read ?s)" using assms(1) by (simp add: bidi_new_def)
  from h2_bidi.register_on_stream_ok [OF this assms(2)] obtain ident c1 where
    *: "tunnel_identifier_bytes codecs t = Inr ident" "reader_good (bidi_read (stream c1))"
      "next_question c1 = 2" "has_bootstrap c1"
      "sent (bidi_write (stream c1)) = sent out @ registration_trace codec process t options ident"
      "if tunnel_is_remotely_managed details then c = c1
       else \<exists>r. update_local_configuration codec bidi_sread bidi_swrite cfg c1 = Some (r, c)"
    by (auto simp: bidi_new_def)
  then show ?thesis
    using h2_bidi.update_local_configuration_ok [OF *(2,3)]
    by (intro exI [of _ ident] exI [of _ c1]) (auto split: if_splits)
qed

text \<open>A concrete edge: it answers the bootstrap with a capability and the registration with
  \<open>response\<close>.\<close>

fun demo_serialize :: "unit outgoing \<Rightarrow> byte list" where
  "demo_serialize (OBootstrap q) = [1, ucast q]"
| "demo_serialize (OCall q i iface m p) = [2, ucast q, ucast m]"
| "demo_serialize (OFinish q b) = [3, ucast q]"
| "demo_serialize (ORelease q n) = [4, ucast q]"
| "demo_serialize m = [0]"

definition demo_root :: "byte list list \<Rightarrow> rpc_error + unit message_view" where
  "demo_root segments =
     Inr (VReturn (Inr
       \<lparr>answer_id = ucast (hd (concat segments)),
        return_which = Inr (Results (Inr \<lparr>payload_content = (), cap_table = Inr [Inr SenderHosted]\<rparr>))\<rparr>))"

definition demo_registration :: "connection_response \<Rightarrow> unit registration_codec" where
  "demo_registration response =
     \<lparr>serialize = demo_serialize, get_root = demo_root,
      register_connection_params = (\<lambda>_ _ _ _. ()), unregister_connection_params = (),
      update_local_configuration_params = (\<lambda>_. ()),
      register_connection_results = (\<lambda>_. Inr response)\<rparr>"

definition demo_codecs :: tunnel_codecs where
  "demo_codecs =
     \<lparr>base64_decode = (\<lambda>_. Inr []), uuid_parse_str = (\<lambda>_. Inr [7]),
      json_named_tunnel = (\<lambda>_ _. Inl []), json_token_payload = (\<lambda>_. Inl []),
      json_quick_response = (\<lambda>_ _. Inl [])\<rparr>"

definition demo_named :: tunnel where
  "demo_named = Named \<lparr>named_account_tag = ''a'', named_tunnel_secret = [1],
     named_tunnel_identifier = ''t'', named_endpoint = None\<rparr>"

definition demo_process :: process_info where
  "demo_process = \<lparr>connector_client_identifier = [9], os_name = ''linux'', arch_name = ''x86''\<rparr>"

definition demo_answers :: "recv_event list" where
  "demo_answers =
     [RData [0, 0, 0, 0, 1, 0, 0, 0, 0, 0], RPending, RData [0, 0, 0, 0, 0, 0],
      RData [0, 0, 0, 0, 1, 0, 0, 0, 1, 0, 0, 0, 0, 0, 0, 0]]"

definition demo_details :: "bool \<Rightarrow> connection_details" where
  "demo_details managed =
     \<lparr>uuid = [5], location_name = ''sfo'', tunnel_is_remotely_managed = managed\<rparr>"

definition demo_register ::
  "connection_response \<Rightarrow> ((error + connection_details) \<times> h2_bidirectional rpc_client) option" where
  "demo_register response =
     register_on_stream (demo_registration response) demo_codecs demo_process bidi_sread bidi_swrite
       demo_named default_registration_options [] 
       (bidi_new (reader_new demo_answers quiet) (writer_new 100 [] quiet))"

lemmas run_registration = returns_def demo_register_def register_on_stream_def client_bootstrap_def
  register_connection_def tunnel_identifier_bytes_def parse_tunnel_identifier_def
  demo_codecs_def demo_registration_def demo_root_def demo_answers_def rpc_codec.defs
  run_rpc run_h2 run_io

lemma demo_registered: "returns (demo_register (ResponseDetails (demo_details True))) (Inr (demo_details True))"
  by (simp add: run_registration demo_details_def cong: run_io_congs)

theorem registration_wire_sequence_witness:
  "let c = snd (the (demo_register (ResponseDetails (demo_details True)))) in
   \<exists>ident c1. tunnel_identifier_bytes demo_codecs demo_named = Inr ident \<and>
    sent (bidi_write (stream c1)) = [] @ registration_trace
      (demo_registration (ResponseDetails (demo_details True))) demo_process demo_named
      default_registration_options ident \<and>
    next_question c1 = 2 \<and> has_bootstrap c1 \<and> c = c1"
  using registration_wire_sequence [OF _ demo_registered [THEN returnsD, unfolded demo_register_def]]
  by (simp add: demo_answers_def demo_details_def writer_new_def demo_register_def)

text \<open>C13. A registration fails permanently only when the edge says so: the error that ends the
  whole run comes from a registration response with \<open>should_retry\<close> false and a cause other than
  the duplicate-connection marker. No transport, framing or RPC error is permanent.\<close>

theorem permanent_only_when_told:
  assumes "register_on_stream codec codecs process rd wr t options cfg s = Some (Inl err, c)"
    and "is_permanent err"
  shows "\<exists>auth ident c0 e c1.
    register_connection codec rd wr auth ident 0 (build_connection_options process options) c0
      = Some (Inr (ResponseError e), c1) \<and>
    err = rejection e \<and> \<not> should_retry e \<and> cause e \<noteq> DUPLICATE_CONNECTION_CAUSE"
  using assms
  by (auto simp: register_on_stream_def bind_io_eq_Inl_iff bind_io_eq_Inr_iff Let_def
      catch_io_eq_Some_iff map_err_io_eq_Some_iff map_err_eq_Inl_iff rejection_permanent
      tunnel_identifier_bytes_def parse_tunnel_identifier_def
      dest!: sym [of "Inl err"] split: if_split_asm connection_response.split_asm)
    (metis connection_response.exhaust rejection_permanent)

definition demo_refusal :: connection_error where
  "demo_refusal = \<lparr>cause = ''bad secret'', retry_after = 0, should_retry = False\<rparr>"

lemma demo_refused: "returns (demo_register (ResponseError demo_refusal)) (Inl (rejection demo_refusal))"
  by (simp add: run_registration cong: run_io_congs)

theorem permanent_only_when_told_witness:
  "\<exists>auth ident c0 e c1.
    register_connection (demo_registration (ResponseError demo_refusal)) bidi_sread bidi_swrite
      auth ident 0 (build_connection_options demo_process default_registration_options) c0
      = Some (Inr (ResponseError e), c1) \<and>
    rejection demo_refusal = rejection e \<and> \<not> should_retry e \<and> cause e \<noteq> DUPLICATE_CONNECTION_CAUSE"
  by (rule permanent_only_when_told [OF demo_refused [THEN returnsD, unfolded demo_register_def]])
     (simp add: rejection_permanent demo_refusal_def DUPLICATE_CONNECTION_CAUSE_def)

end
