(* ===== verification/Runtime.thy ===== *)
theory Runtime
  imports Connector Control
begin

text \<open>
  One attempt on an established connection, \<open>src/edge/connector/runtime.rs\<close>, and the event it
  waits for, \<open>src/edge/event.rs\<close>. What an attempt waits for is recorded as its outcome; what it
  does is a list of actions, in order.
\<close>

section \<open>Events\<close>

text \<open>
  \<open>tokio::sync::Notify\<close>: a wait is a future with a number; \<open>nf_issued\<close> are the futures created.
\<close>

record 'n notify_crate =
  nf_new :: 'n
  nf_wait :: "'n \<Rightarrow> nat \<times> 'n"
  nf_notify_waiters :: "'n \<Rightarrow> 'n"
  nf_ready :: "nat \<Rightarrow> 'n \<Rightarrow> bool"
  nf_issued :: "'n \<Rightarrow> nat set"

record 'n event =
  fired :: bool
  event_notify :: 'n

definition event_new :: "'n notify_crate \<Rightarrow> 'n event" where
  "event_new nf = \<lparr>fired = False, event_notify = nf_new nf\<rparr>"

definition fire :: "'n notify_crate \<Rightarrow> 'n event \<Rightarrow> 'n event" where
  "fire nf ev = \<lparr>fired = True, event_notify = nf_notify_waiters nf (event_notify ev)\<rparr>"

definition is_fired :: "'n event \<Rightarrow> bool" where "is_fired ev = fired ev"

definition notified :: "'n notify_crate \<Rightarrow> 'n event \<Rightarrow> nat \<times> 'n event" where
  "notified nf ev = (case nf_wait nf (event_notify ev) of (t, n) \<Rightarrow> (t, ev\<lparr>event_notify := n\<rparr>))"

text \<open>
  Documented behaviour: a new future is not ready and leaves the others as they are;
  \<open>notify_waiters\<close> makes the futures that exist ready and stores nothing for later ones.
\<close>

definition notify_laws :: "'n notify_crate \<Rightarrow> bool" where
  "notify_laws nf \<longleftrightarrow>
     (\<forall>n t n'. nf_wait nf n = (t, n') \<longrightarrow>
        t \<notin> nf_issued nf n \<and> nf_issued nf n' = insert t (nf_issued nf n) \<and> \<not> nf_ready nf t n' \<and>
        (\<forall>other. other \<noteq> t \<longrightarrow> nf_ready nf other n' = nf_ready nf other n)) \<and>
     (\<forall>n t. nf_ready nf t (nf_notify_waiters nf n) \<longleftrightarrow> nf_ready nf t n \<or> t \<in> nf_issued nf n) \<and>
     (\<forall>n. nf_issued nf (nf_notify_waiters nf n) = nf_issued nf n)"

text \<open>Later waits, \<open>k\<close> of them.\<close>

fun later_waits :: "'n notify_crate \<Rightarrow> nat \<Rightarrow> 'n event \<Rightarrow> 'n event" where
  "later_waits nf 0 ev = ev"
| "later_waits nf (Suc k) ev = later_waits nf k (snd (notified nf ev))"

lemma notifiedD:
  assumes "notify_laws nf" and "notified nf ev = (t, ev')"
  shows "t \<notin> nf_issued nf (event_notify ev)"
    and "nf_issued nf (event_notify ev') = insert t (nf_issued nf (event_notify ev))"
    and "\<not> nf_ready nf t (event_notify ev')"
    and "other \<noteq> t \<Longrightarrow> nf_ready nf other (event_notify ev') = nf_ready nf other (event_notify ev)"
    and "fired ev' = fired ev"
proof -
  from assms(2) obtain n where n: "nf_wait nf (event_notify ev) = (t, n)" "ev' = ev\<lparr>event_notify := n\<rparr>"
    by (auto simp: notified_def split: prod.splits)
  from assms(1) n(1) have "t \<notin> nf_issued nf (event_notify ev) \<and>
      nf_issued nf n = insert t (nf_issued nf (event_notify ev)) \<and> \<not> nf_ready nf t n \<and>
      (\<forall>other. other \<noteq> t \<longrightarrow> nf_ready nf other n = nf_ready nf other (event_notify ev))"
    unfolding notify_laws_def by blast
  then show "t \<notin> nf_issued nf (event_notify ev)"
    "nf_issued nf (event_notify ev') = insert t (nf_issued nf (event_notify ev))"
    "\<not> nf_ready nf t (event_notify ev')"
    "other \<noteq> t \<Longrightarrow> nf_ready nf other (event_notify ev') = nf_ready nf other (event_notify ev)"
    "fired ev' = fired ev"
    by (simp_all add: n(2))
qed

lemma later_waits_keep:
  assumes "notify_laws nf"
  shows "t \<in> nf_issued nf (event_notify ev) \<Longrightarrow>
    nf_ready nf t (event_notify (later_waits nf k ev)) = nf_ready nf t (event_notify ev) \<and>
    fired (later_waits nf k ev) = fired ev"
proof (induction k arbitrary: ev)
  case (Suc k)
  obtain u ev1 where n: "notified nf ev = (u, ev1)" by fastforce
  note d = notifiedD [OF assms n]
  have "t \<in> nf_issued nf (event_notify ev1)" and "t \<noteq> u" using Suc.prems d(1,2) by auto
  with Suc.IH d n show ?case by simp
qed simp

text \<open>C39. Firing an event completes every wait that has begun, and only those: a wait that begins
  after the event has fired is still not complete after any number of further waits, although
  the event reports that it has fired.\<close>

theorem event_wakes_earlier_waits_only:
  assumes "notify_laws nf" and "notified nf ev = (early, ev1)"
    and "notified nf (fire nf (later_waits nf j ev1)) = (late, ev2)"
  shows "nf_ready nf early (event_notify (later_waits nf k ev2)) \<and>
    \<not> nf_ready nf late (event_notify (later_waits nf k ev2)) \<and> is_fired (later_waits nf k ev2)"
proof -
  let ?f = "fire nf (later_waits nf j ev1)"
  have issued: "early \<in> nf_issued nf (event_notify (later_waits nf i ev))"
    if "early \<in> nf_issued nf (event_notify ev)" for i and ev :: "'a event"
    using that
  proof (induction i arbitrary: ev)
    case (Suc i)
    obtain u ev1 where n: "notified nf ev = (u, ev1)" by fastforce
    with notifiedD(2) [OF assms(1) n] Suc show ?case by simp
  qed simp
  have "early \<in> nf_issued nf (event_notify ev1)" using notifiedD(2) [OF assms(1,2)] by simp
  then have f: "early \<in> nf_issued nf (event_notify ?f)" "nf_ready nf early (event_notify ?f)"
    using issued assms(1) by (auto simp: fire_def notify_laws_def)
  note l = notifiedD [OF assms(1,3)]
  have "early \<noteq> late" using f(1) l(1) by blast
  then have "nf_ready nf early (event_notify ev2)" "early \<in> nf_issued nf (event_notify ev2)"
    "late \<in> nf_issued nf (event_notify ev2)" "fired ev2"
    using f l by (auto simp: fire_def)
  with later_waits_keep [OF assms(1)] l(3) show ?thesis by (simp add: is_fired_def)
qed

text \<open>Futures numbered in order; a set of those that are ready.\<close>

definition counting_notify :: "(nat \<times> nat set) notify_crate" where
  "counting_notify =
     \<lparr>nf_new = (0, {}), nf_wait = (\<lambda>(n, r). (n, (Suc n, r - {n}))),
      nf_notify_waiters = (\<lambda>(n, r). (n, r \<union> {..<n})), nf_ready = (\<lambda>t (n, r). t \<in> r),
      nf_issued = (\<lambda>(n, r). {..<n})\<rparr>"

lemma counting_notify_laws: "notify_laws counting_notify"
  by (auto simp: notify_laws_def counting_notify_def)

theorem event_wakes_earlier_waits_only_witness:
  "let nf = counting_notify; ev1 = snd (notified nf (event_new nf));
       ev2 = snd (notified nf (fire nf ev1)) in
   nf_ready nf 0 (event_notify ev2) \<and> \<not> nf_ready nf 1 (event_notify ev2) \<and> is_fired ev2"
proof -
  let ?nf = counting_notify
  have early: "notified ?nf (event_new ?nf) = (0, \<lparr>fired = False, event_notify = (1, {})\<rparr>)"
    by (simp add: notified_def event_new_def counting_notify_def)
  have late: "notified ?nf (fire ?nf (later_waits ?nf 0 \<lparr>fired = False, event_notify = (1, {})\<rparr>))
      = (1, \<lparr>fired = True, event_notify = (2, {0})\<rparr>)"
    by (simp add: notified_def fire_def counting_notify_def eval_nat_numeral) auto
  from event_wakes_earlier_waits_only [OF counting_notify_laws early late, of 0] early late
  show ?thesis by (simp add: Let_def)
qed

section \<open>Attempts\<close>

text \<open>A wait with a timeout, and the result of a spawned task.\<close>

datatype 'a timed = InTime 'a | Elapsed
datatype join_result = TaskResult "error + unit" | TaskFailed string

datatype run_action =
    Registers registration_options
  | SpawnsServe
  | Unregisters duration
  | Sleeps duration
  | Closes
  | AbortsServe

definition attempt_options :: "byte list \<Rightarrow> u32 \<Rightarrow> registration_options" where
  "attempt_options local_ip att =
     default_registration_options\<lparr>reg_origin_local_ip := local_ip,
       reg_number_previous_attempts := ucast (min att 255)\<rparr>"

lemma attempt_options_saturate:
  "unat (reg_number_previous_attempts (attempt_options local_ip att)) = min (unat att) 255"
proof -
  have "unat (ucast (min att 255) :: u8) = unat (min att 255)"
    by (simp add: unsigned_ucast_eq take_bit_nat_eq_self min_def word_le_nat_alt)
  then show ?thesis by (simp add: attempt_options_def min_def word_le_nat_alt)
qed

section \<open>QUIC\<close>

text \<open>
  \<open>qr_serve = None\<close>: the shutdown notification came before the serve task ended. \<open>qr_fired\<close> is
  whether shutdown has fired once the connection is unregistered.
\<close>

record quic_run =
  qr_register :: "(error + connection_details) timed"
  qr_registered_now :: nat
  qr_serve :: "join_result option"
  qr_fired :: bool
  qr_timed_out :: bool

definition run_quic :: "quic_run \<Rightarrow> 'cb edge_run_parameters \<Rightarrow> serve_attempt \<times> run_action list" where
  "run_quic q par =
     (let options = attempt_options (peer_ip_bytes (par_edge par)) (par_attempt par);
          grace = par_grace_period par in
      case qr_register q of
        InTime (Inl e) \<Rightarrow> (serve_attempt_failed e, [Registers options])
      | Elapsed \<Rightarrow> (serve_attempt_failed (quic_error ''registration timed out''), [Registers options])
      | InTime (Inr details) \<Rightarrow>
          (\<lparr>attempt_result =
              (case qr_serve q of
                 None \<Rightarrow> Inr ()
               | Some (TaskResult (Inr _)) \<Rightarrow> Inl (quic_error ''serve loop ended unexpectedly'')
               | Some (TaskResult (Inl e)) \<Rightarrow> Inl e
               | Some (TaskFailed m) \<Rightarrow> Inl (quic_error (''serve task failed: '' @ m))),
            registered_at = Some (qr_registered_now q), quic_timed_out = qr_timed_out q\<rparr>,
           [Registers options, SpawnsServe, Unregisters grace]
           @ (if qr_fired q then [Sleeps grace] else [])
           @ [Closes] @ (if qr_fired q then [] else [AbortsServe])))"

section \<open>HTTP/2\<close>

text \<open>
  The branch of \<open>select!\<close> that comes first: shutdown, and then what the serve task does within
  the grace period (\<open>None\<close> when it does not end), or the end of the serve task.
\<close>

datatype h2_branch = ShutdownFirst "join_result option" | ServeFirst join_result

record h2_run =
  hr_local_ip :: "byte list"
  hr_registered :: "nat timed"
  hr_branch :: h2_branch
  hr_fired :: bool

definition run_h2 :: "h2_run \<Rightarrow> 'cb edge_run_parameters \<Rightarrow> serve_attempt \<times> run_action list" where
  "run_h2 h par =
     (let options = attempt_options (hr_local_ip h) (par_attempt par);
          attempt = (\<lambda>r. \<lparr>attempt_result = r,
            registered_at = (case hr_registered h of InTime now \<Rightarrow> Some now | Elapsed \<Rightarrow> None),
            quic_timed_out = False\<rparr>) in
      case hr_branch h of
        ShutdownFirst (Some (TaskResult (Inr _))) \<Rightarrow> (attempt (Inr ()), [Registers options, SpawnsServe])
      | ShutdownFirst (Some (TaskResult (Inl e))) \<Rightarrow> (attempt (Inl e), [Registers options, SpawnsServe])
      | ShutdownFirst (Some (TaskFailed m)) \<Rightarrow>
          (attempt (Inl (h2_error (''serve task failed: '' @ m))), [Registers options, SpawnsServe])
      | ShutdownFirst None \<Rightarrow> (attempt (Inr ()), [Registers options, SpawnsServe, AbortsServe])
      | ServeFirst (TaskResult (Inr _)) \<Rightarrow>
          (attempt (if hr_fired h then Inr () else Inl (h2_error ''edge closed the connection'')),
           [Registers options, SpawnsServe])
      | ServeFirst (TaskResult (Inl e)) \<Rightarrow> (attempt (Inl e), [Registers options, SpawnsServe])
      | ServeFirst (TaskFailed m) \<Rightarrow>
          (attempt (Inl (h2_error (''serve task failed: '' @ m))), [Registers options, SpawnsServe]))"

text \<open>The notification of shutdown comes after the event's flag is set.\<close>

definition quic_run_wf :: "quic_run \<Rightarrow> bool" where
  "quic_run_wf q \<longleftrightarrow> (qr_serve q = None \<longrightarrow> qr_fired q)"

definition h2_run_wf :: "h2_run \<Rightarrow> bool" where
  "h2_run_wf h \<longleftrightarrow> (\<forall>r. hr_branch h = ShutdownFirst r \<longrightarrow> hr_fired h)"

lemma attempt_succeeds_only_on_shutdown:
  "quic_run_wf q \<Longrightarrow> attempt_result (fst (run_quic q par)) = Inr () \<Longrightarrow> qr_fired q"
  "h2_run_wf h \<Longrightarrow> attempt_result (fst (run_h2 h par)) = Inr () \<Longrightarrow> hr_fired h"
  by (auto simp: run_quic_def run_h2_def quic_run_wf_def h2_run_wf_def serve_attempt_failed_def Let_def
      split: timed.splits sum.splits option.splits join_result.splits h2_branch.splits if_splits)

section \<open>The connector on these attempts\<close>

text \<open>
  \<open>shut\<close> says of a world that shutdown has fired. The environment's notification and its
  interruptible sleep are sound for it, and its connections run as above.
\<close>

definition shutdown_sound :: "('w, 'conn, 'cb) connector_env \<Rightarrow> ('w \<Rightarrow> bool) \<Rightarrow> bool" where
  "shutdown_sound env shut \<longleftrightarrow>
     (\<forall>w w'. shutdown_cuts env w = Some w' \<longrightarrow> shut w') \<and>
     (\<forall>d w w'. sleep_or_shutdown env d w = (True, w') \<longrightarrow> shut w')"

definition runs_attempts :: "('w, 'conn, 'cb) connector_env \<Rightarrow> ('w \<Rightarrow> bool) \<Rightarrow> bool" where
  "runs_attempts env shut \<longleftrightarrow>
     (\<forall>conn par w a w'. connection_run env conn par w = Some (a, w') \<longrightarrow>
        (\<exists>q. quic_run_wf q \<and> a = fst (run_quic q par) \<and> (qr_fired q \<longrightarrow> shut w')) \<or>
        (\<exists>h. h2_run_wf h \<and> a = fst (run_h2 h par) \<and> (hr_fired h \<longrightarrow> shut w')))"

lemma connection_run_ok:
  assumes "runs_attempts env shut" and "connection_run env conn par w = Some (a, w')"
    and "attempt_result a = Inr ()"
  shows "shut w'"
  using assms attempt_succeeds_only_on_shutdown unfolding runs_attempts_def by blast

lemma attempt_edge_shutdown:
  assumes "shutdown_sound env shut"
    and "attempt_edge env options t transport att edge w = Some (Inr None, w')"
  shows "shut w'"
  using assms
  by (auto simp: attempt_edge_def shutdown_sound_def split: option.splits prod.splits sum.splits fault.splits)

lemma attempt_edge_ok:
  assumes "runs_attempts env shut"
    and "attempt_edge env options t transport att edge w = Some (Inr (Some a), w')"
    and "attempt_result a = Inr ()"
  shows "shut w'"
  using assms(2,3)
  by (auto simp: attempt_edge_def serve_attempt_failed_def intro: connection_run_ok [OF assms(1)]
      split: option.splits prod.splits sum.splits fault.splits)

lemma edge_loop_ok:
  assumes "shutdown_sound env shut" and "runs_attempts env shut"
  shows "edge_loop env options t transport edges att quic_broken w = Some (Return (Inr ()), w') \<Longrightarrow> shut w'"
proof (induction edges arbitrary: att quic_broken w)
  case (Cons edge edges)
  then obtain c w1 where step: "edge_step env options t transport edge att quic_broken w = Some (c, w1)"
    by (auto split: option.splits)
  show ?case
  proof (cases c)
    case (Return r)
    with Cons.prems step have "edge_step env options t transport edge att quic_broken w
        = Some (Return (Inr ()), w')" by simp
    then show ?thesis
      by (cases rule: edge_step_cases)
         (auto intro: attempt_edge_shutdown [OF assms(1)] attempt_edge_ok [OF assms(2)])
  next
    case (Continue st)
    with Cons step show ?thesis by (cases st) simp
  qed
qed simp

lemma sleep_backoff_shutdown:
  "shutdown_sound env shut \<Longrightarrow> sleep_backoff env options att w = (True, w') \<Longrightarrow> shut w'"
  by (auto simp: sleep_backoff_def shutdown_sound_def split: if_splits prod.splits)

lemma run_round_ok:
  assumes "shutdown_sound env shut" and "runs_attempts env shut"
    and "run_round env options t st w = Some (Return r, w')"
  shows "r = Inr () \<longrightarrow> shut w'"
  using assms(3)
  by (auto simp: run_round_def Let_def intro: edge_loop_ok [OF assms(1,2)] sleep_backoff_shutdown [OF assms(1)]
      split: option.splits sum.splits prod.splits fault.splits control.splits bool.splits)

text \<open>C3. The connector returns \<open>Ok\<close> only because of a shutdown: an edge that closes its connection,
  a serve loop that ends, and a task that panics make an attempt fail and the connector try
  again, on both transports.\<close>

theorem run_ok_only_on_shutdown:
  assumes "shutdown_sound env shut" and "runs_attempts env shut"
    and "run env options t w = Some (Inr (), w')"
  shows "shut w'"
proof -
  have "Inr () = (Inr () :: error fault + unit) \<longrightarrow> shut w'"
    by (rule run_loop_returns [OF assms(3) [unfolded run_def], where P = "\<lambda>r w. r = Inr () \<longrightarrow> shut w"])
       (rule run_round_ok [OF assms(1,2)])
  then show ?thesis by simp
qed

text \<open>An environment whose QUIC connection is shut down while it serves.\<close>

definition demo_quic_run_record :: quic_run where
  "demo_quic_run_record =
     \<lparr>qr_register = InTime (Inr \<lparr>uuid = [], location_name = ''x'', tunnel_is_remotely_managed = True\<rparr>),
      qr_registered_now = 5, qr_serve = None, qr_fired = True, qr_timed_out = False\<rparr>"

definition demo_shutdown_attempt :: serve_attempt where
  "demo_shutdown_attempt =
     \<lparr>attempt_result = Inr (), registered_at = Some 5, quic_timed_out = False\<rparr>"

lemma demo_run_quic: "fst (run_quic demo_quic_run_record par) = demo_shutdown_attempt"
  by (simp add: run_quic_def demo_quic_run_record_def demo_shutdown_attempt_def Let_def)

theorem run_ok_only_on_shutdown_witness:
  "run (demo_env demo_shutdown_attempt) (demo_options TQuic) demo_tunnel () = Some (Inr (), ()) \<and>
   (\<lambda>w. w = ()) ()"
proof -
  have run: "run (demo_env demo_shutdown_attempt) (demo_options TQuic) demo_tunnel () = Some (Inr (), ())"
    unfolding run_def
    by (subst run_loop.simps)
       (simp add: run_round_def demo_discover edge_step_def demo_attempt demo_shutdown_attempt_def)
  have "shutdown_sound (demo_env demo_shutdown_attempt) (\<lambda>w. w = ())"
    by (simp add: shutdown_sound_def)
  moreover have "runs_attempts (demo_env demo_shutdown_attempt) (\<lambda>w. w = ())"
  proof -
    have "quic_run_wf demo_quic_run_record" by (simp add: quic_run_wf_def demo_quic_run_record_def)
    then show ?thesis
      by (auto simp: runs_attempts_def demo_env_def demo_run_quic intro!: exI [of _ demo_quic_run_record])
  qed
  ultimately show ?thesis using run_ok_only_on_shutdown run by blast
qed

end
