(* ===== verification/Origin.thy ===== *)
theory Origin
  imports H2_Stream
begin

text \<open>
  The origin side, \<open>src/origin/\<close>: bodies, requests and responses (\<open>http/body.rs\<close>), the
  responders the transports hand to handlers (\<open>responder.rs\<close>), the streams of a connection
  (\<open>stream/mod.rs\<close>) and the handler set (\<open>mod.rs\<close>). The types of the \<open>http\<close> crate are type
  variables (\<open>'m\<close> methods, \<open>'u\<close> URIs, \<open>'h\<close> header maps); a body may be backed by a reader of
  type \<open>'r\<close>.
\<close>

section \<open>Bodies\<close>

datatype 'r body_inner = BEmpty | BBytes "byte list" nat | BReader 'r

record 'r body =
  inner :: "'r body_inner"
  body_size_hint :: "u64 option"

definition body_empty :: "'r body" where
  "body_empty = \<lparr>inner = BEmpty, body_size_hint = Some 0\<rparr>"

definition body_from_bytes :: "byte list \<Rightarrow> 'r body" where
  "body_from_bytes bytes =
     \<lparr>inner = BBytes bytes 0, body_size_hint = Some (of_nat (length bytes))\<rparr>"

definition body_from_reader :: "'r \<Rightarrow> 'r body" where
  "body_from_reader r = \<lparr>inner = BReader r, body_size_hint = None\<rparr>"

text \<open>\<open>poll_read\<close>, awaited: a cursor advances over its bytes, a reader is read.\<close>

definition body_read :: "'r reader \<Rightarrow> 'r body reader" where
  "body_read rd n b =
     (case inner b of
        BEmpty \<Rightarrow> Some (Inr [], b)
      | BBytes bytes pos \<Rightarrow>
          (let data = take n (drop pos bytes) in
           Some (Inr data, b\<lparr>inner := BBytes bytes (pos + length data)\<rparr>))
      | BReader r \<Rightarrow> map_option (\<lambda>(x, r). (x, b\<lparr>inner := BReader r\<rparr>)) (rd n r))"

text \<open>\<open>Body::collect\<close> copies the body into a vector; \<open>n\<close> is the size of the copy's buffer.\<close>

definition body_collect :: "'r reader \<Rightarrow> nat \<Rightarrow> ('r body, io_error, byte list) io" where
  "body_collect rd n = read_to_eof (body_read rd) n"

fun body_rest :: "('r \<Rightarrow> byte list) \<Rightarrow> 'r body_inner \<Rightarrow> byte list" where
  "body_rest rest BEmpty = []"
| "body_rest rest (BBytes bytes pos) = drop pos bytes"
| "body_rest rest (BReader r) = rest r"

fun body_holds :: "('r \<Rightarrow> bool) \<Rightarrow> 'r body_inner \<Rightarrow> bool" where
  "body_holds P (BReader r) = P r"
| "body_holds P b = True"

text \<open>A body keeps the contract of the reader behind it.\<close>

context ending_reader
begin

lemma body_read_contract:
  assumes "body_holds good (inner b)" and "body_read rd n b = Some (Inr data, b')"
  shows "length data \<le> n \<and> body_rest rest (inner b) = data @ body_rest rest (inner b') \<and>
    body_holds good (inner b')"
proof (cases "inner b")
  case (BBytes bytes pos)
  define x where "x = drop pos bytes"
  have data: "data = take n x" and b': "inner b' = BBytes bytes (pos + length data)"
    using BBytes assms(2) by (auto simp: body_read_def Let_def x_def)
  have "drop (pos + length data) bytes = drop (length data) x" by (simp add: x_def add.commute)
  moreover have "x = data @ drop (length data) x"
    unfolding data by (cases "n \<le> length x") simp_all
  ultimately show ?thesis using BBytes b' by (simp add: data flip: x_def)
qed (use assms sread_prefix in \<open>auto simp: body_read_def\<close>)

lemma body_is_ending_reader:
  "ending_reader (body_read rd) (\<lambda>b. body_rest rest (inner b)) (\<lambda>b. body_holds good (inner b))
     (\<lambda>b. body_holds ends (inner b))"
proof (unfold_locales, goal_cases)
  case (1 s n data s')
  then show ?case by (rule body_read_contract)
next
  case (2 s n s')
  then show ?case
    by (cases "inner s") (auto simp: body_read_def Let_def dest: sread_end)
next
  case (3 s n)
  then show ?case
    using sread_live by (cases "inner s") (fastforce simp: body_read_def Let_def)+
next
  case (4 s n)
  then show ?case
    using sread_ends by (cases "inner s") (fastforce simp: body_read_def Let_def)+
next
  case (5 s n data s')
  then show ?case
    by (cases "inner s") (auto simp: body_read_def Let_def dest: sread_keeps_ends)
qed

end

interpretation h2_request_body:
  ending_reader "body_read reader_read" "\<lambda>b. body_rest reader_rest (inner b)"
    "\<lambda>b. body_holds reader_good (inner b)" "\<lambda>b. body_holds reader_ends (inner b)"
  by (rule h2_body.body_is_ending_reader)

section \<open>Requests and responses\<close>

record ('m, 'u, 'h, 'r) request =
  req_method :: 'm
  req_uri :: 'u
  req_headers :: 'h
  req_body :: "'r body"

record ('h, 'r) response =
  res_status :: u16
  res_headers :: 'h
  res_body :: "'r body"

definition request_new :: "'m \<Rightarrow> 'u \<Rightarrow> 'h \<Rightarrow> 'r body \<Rightarrow> ('m, 'u, 'h, 'r) request" where
  "request_new m u h b = \<lparr>req_method = m, req_uri = u, req_headers = h, req_body = b\<rparr>"

definition response_new :: "u16 \<Rightarrow> 'h \<Rightarrow> 'r body \<Rightarrow> ('h, 'r) response" where
  "response_new s h b = \<lparr>res_status = s, res_headers = h, res_body = b\<rparr>"

section \<open>Responders\<close>

text \<open>
  What the receiving half of a one-shot channel gets: nothing for ever, the sent outcome, or
  the end of a channel whose sender was dropped.
\<close>

datatype 'a receiver = Silent | Received "string + 'a" | SenderDropped

definition responder_send :: "'a \<Rightarrow> 'a receiver" where
  "responder_send x = Received (Inr x)"

definition responder_fail :: "string \<Rightarrow> 'a receiver" where
  "responder_fail message = Received (Inl message)"

text \<open>The responders of websocket and TCP handlers, over the same channel.\<close>

definition websocket_upgrade :: "'c \<Rightarrow> 'c receiver" where "websocket_upgrade = responder_send"
definition websocket_fail :: "string \<Rightarrow> 'c receiver" where "websocket_fail = responder_fail"
definition tcp_stream :: "'c \<Rightarrow> 'c receiver" where "tcp_stream = responder_send"
definition tcp_fail :: "string \<Rightarrow> 'c receiver" where "tcp_fail = responder_fail"

fun wait_outcome :: "'a receiver \<Rightarrow> (string + 'a) option" where
  "wait_outcome Silent = None"
| "wait_outcome (Received (Inr x)) = Some (Inr x)"
| "wait_outcome (Received (Inl message)) = Some (Inl message)"
| "wait_outcome SenderDropped = Some (Inl ''origin handler produced no response'')"

section \<open>Streams and handlers\<close>

record 'io origin_stream =
  half_read :: 'io
  half_write :: 'io

definition stream_new :: "'io \<Rightarrow> 'io \<Rightarrow> 'io origin_stream" where
  "stream_new r w = \<lparr>half_read = r, half_write = w\<rparr>"

definition stream_from_io :: "('s \<Rightarrow> 'io \<times> 'io) \<Rightarrow> 's \<Rightarrow> 'io origin_stream" where
  "stream_from_io split io = (case split io of (r, w) \<Rightarrow> \<lparr>half_read = r, half_write = w\<rparr>)"

definition stream_into_parts :: "'io origin_stream \<Rightarrow> 'io \<times> 'io" where
  "stream_into_parts s = (half_read s, half_write s)"

text \<open>Reads go to one half and writes to the other, so the two directions are independent.\<close>

definition stream_read :: "'io reader \<Rightarrow> 'io origin_stream reader" where
  "stream_read rd n s = map_option (\<lambda>(x, r). (x, s\<lparr>half_read := r\<rparr>)) (rd n (half_read s))"

definition stream_write :: "'io writer \<Rightarrow> 'io origin_stream writer" where
  "stream_write wr buffer s = map_option (\<lambda>(x, w). (x, s\<lparr>half_write := w\<rparr>)) (wr buffer (half_write s))"

lemma origin_stream_is_byte_stream:
  assumes "live_reader rd rest good_read" and "byte_writer wr written good_write"
  shows "byte_stream (stream_read rd) (stream_write wr) (\<lambda>s. rest (half_read s))
    (\<lambda>s. written (half_write s)) (\<lambda>s. good_read (half_read s) \<and> good_write (half_write s))"
proof (unfold_locales, goal_cases)
  case (1 s n data s')
  then show ?case
    using byte_reader.sread_prefix [OF live_reader.axioms(1) [OF assms(1)]] by (fastforce simp: stream_read_def)
next
  case (2 s n s')
  then show ?case
    using byte_reader.sread_end [OF live_reader.axioms(1) [OF assms(1)]] by (fastforce simp: stream_read_def)
next
  case (3 s n)
  then show ?case using live_reader.sread_live [OF assms(1)] by (fastforce simp: stream_read_def)
next
  case (4 s buffer n s')
  then show ?case using byte_writer.swrite_append [OF assms(2)] by (fastforce simp: stream_write_def)
next
  case (5 s buffer e s')
  then show ?case using byte_writer.swrite_fail [OF assms(2)] by (fastforce simp: stream_write_def)
qed (auto simp: stream_read_def stream_write_def)

record ('h, 'r, 'io) websocket_connection =
  ws_response :: "('h, 'r) response"
  ws_origin :: "'io origin_stream"

text \<open>
  A handler is user code: it takes the request, acts on the world \<open>'w\<close> and leaves an outcome in
  the responder.
\<close>

record ('m, 'u, 'h, 'r, 'io, 'w) origin =
  origin_http :: "('m, 'u, 'h, 'r) request \<Rightarrow> 'w \<Rightarrow> ('h, 'r) response receiver \<times> 'w"
  origin_websocket ::
    "(('m, 'u, 'h, 'r) request \<Rightarrow> 'w \<Rightarrow> ('h, 'r, 'io) websocket_connection receiver \<times> 'w) option"
  origin_tcp :: "(('m, 'u, 'h, 'r) request \<Rightarrow> 'w \<Rightarrow> 'io origin_stream receiver \<times> 'w) option"

definition origin_new ::
  "(('m, 'u, 'h, 'r) request \<Rightarrow> 'w \<Rightarrow> ('h, 'r) response receiver \<times> 'w)
     \<Rightarrow> ('m, 'u, 'h, 'r, 'io, 'w) origin" where
  "origin_new h = \<lparr>origin_http = h, origin_websocket = None, origin_tcp = None\<rparr>"

definition with_websocket ::
  "(('m, 'u, 'h, 'r) request \<Rightarrow> 'w \<Rightarrow> ('h, 'r, 'io) websocket_connection receiver \<times> 'w)
     \<Rightarrow> ('m, 'u, 'h, 'r, 'io, 'w) origin \<Rightarrow> ('m, 'u, 'h, 'r, 'io, 'w) origin" where
  "with_websocket h o1 = o1\<lparr>origin_websocket := Some h\<rparr>"

definition with_tcp ::
  "(('m, 'u, 'h, 'r) request \<Rightarrow> 'w \<Rightarrow> 'io origin_stream receiver \<times> 'w)
     \<Rightarrow> ('m, 'u, 'h, 'r, 'io, 'w) origin \<Rightarrow> ('m, 'u, 'h, 'r, 'io, 'w) origin" where
  "with_tcp h o1 = o1\<lparr>origin_tcp := Some h\<rparr>"

lemma wait_outcome_eq_None_iff [simp]: "wait_outcome r = None \<longleftrightarrow> r = Silent"
  by (cases r rule: wait_outcome.cases) simp_all

section \<open>Collecting a body\<close>

text \<open>A request body streamed over HTTP/2 is collected whole: every byte of every DATA frame
  in order, whatever the frame sizes (empty frames included), the delays, and the size of the
  buffer that is read into.\<close>

lemma collects_whole_request_body:
  assumes "no_error events" and "has_end events" and "0 < n"
  shows "\<exists>b. body_collect reader_read n (body_from_reader (reader_new events quiet))
    = Some (Inr (events_data events), b)"
proof -
  have "reader_ends (reader_new events quiet)"
    using assms(2) by (simp add: reader_ends_def reader_new_def)
  with h2_request_body.read_to_eof_all [OF assms(3), of "body_from_reader (reader_new events quiet)"]
    assms(1) show ?thesis by (simp add: body_collect_def body_from_reader_def)
qed

end
