(* ===== verification/Http_Crate.thy ===== *)
theory Http_Crate
  imports Origin
begin

text \<open>
  The interface of the \<open>http\<close> crate that the transports use: header maps (\<open>'h\<close>), header values
  (\<open>'v\<close>), methods (\<open>'m\<close>) and URIs (\<open>'u\<close>). Header names are strings in lower case, the form the
  crate keeps them in. The crate is a record of operations; what the code relies on is
  \<open>http_laws\<close>, documented behaviour of the crate that the lemmas assume where they need it.
\<close>

record ('m, 'u, 'v, 'h) http_crate =
  hm_new :: 'h
  hm_iter :: "'h \<Rightarrow> (string \<times> 'v) list"
  hm_get :: "string \<Rightarrow> 'h \<Rightarrow> 'v option"
  hm_insert :: "string \<Rightarrow> 'v \<Rightarrow> 'h \<Rightarrow> 'h"
  hm_append :: "string \<Rightarrow> 'v \<Rightarrow> 'h \<Rightarrow> 'h"
  hm_remove :: "string \<Rightarrow> 'h \<Rightarrow> 'h"
  hv_from_str :: "string \<Rightarrow> 'v option"
  hv_to_str :: "'v \<Rightarrow> string option"
  header_name_from_bytes :: "byte list \<Rightarrow> string option"
  method_from_bytes :: "byte list \<Rightarrow> 'm option"
  method_get :: 'm
  uri_try_from :: "string \<Rightarrow> string + 'u"
  uri_default :: 'u
  uri_host :: "'u \<Rightarrow> string option"

definition visible_ascii :: "string \<Rightarrow> bool" where
  "visible_ascii s \<longleftrightarrow> (\<forall>c \<in> set s. 32 \<le> (of_char c :: nat) \<and> (of_char c :: nat) < 127)"

lemma visible_ascii_simps [simp]:
  "visible_ascii []"
  "visible_ascii (c # s) \<longleftrightarrow> 32 \<le> (of_char c :: nat) \<and> (of_char c :: nat) < 127 \<and> visible_ascii s"
  "visible_ascii (s @ t) \<longleftrightarrow> visible_ascii s \<and> visible_ascii t"
  by (auto simp: visible_ascii_def)

lemma visible_ascii_decimal [simp]: "visible_ascii (decimal n)"
proof (induction n rule: decimal.induct)
  case (1 n)
  have "n mod 10 < 10" by simp
  with 1 show ?case by (subst decimal.simps) (auto simp: of_char_of)
qed

text \<open>
  \<open>HeaderMap\<close>: \<open>get\<close> is the first value of a name, \<open>insert\<close> replaces the values of a name,
  \<open>append\<close> adds one after them. \<open>HeaderValue\<close>: text of visible ASCII characters is accepted and
  read back, and what \<open>to_str\<close> gives is accepted again.
\<close>

definition http_laws :: "('m, 'u, 'v, 'h) http_crate \<Rightarrow> bool" where
  "http_laws http \<longleftrightarrow>
     (\<forall>k. hm_get http k (hm_new http) = None) \<and>
     (\<forall>k k' v h. hm_get http k (hm_insert http k' v h) = (if k = k' then Some v else hm_get http k h)) \<and>
     (\<forall>k k' v h. hm_get http k (hm_append http k' v h)
        = (if k = k' \<and> hm_get http k h = None then Some v else hm_get http k h)) \<and>
     (\<forall>k k' h. hm_get http k (hm_remove http k' h) = (if k = k' then None else hm_get http k h)) \<and>
     (\<forall>s. visible_ascii s \<longrightarrow> (\<exists>v. hv_from_str http s = Some v \<and> hv_to_str http v = Some s)) \<and>
     (\<forall>v s. hv_to_str http v = Some s \<longrightarrow> hv_from_str http s \<noteq> None)"

lemma http_lawsD:
  assumes "http_laws http"
  shows "hm_get http k (hm_new http) = None"
    and "hm_get http k (hm_insert http k' v h) = (if k = k' then Some v else hm_get http k h)"
    and "hm_get http k (hm_append http k' v h)
        = (if k = k' \<and> hm_get http k h = None then Some v else hm_get http k h)"
    and "hm_get http k (hm_remove http k' h) = (if k = k' then None else hm_get http k h)"
    and "visible_ascii s \<Longrightarrow> \<exists>v. hv_from_str http s = Some v \<and> hv_to_str http v = Some s"
    and "hv_to_str http v = Some s \<Longrightarrow> hv_from_str http s \<noteq> None"
  using assms by (simp_all add: http_laws_def)

definition header_text :: "('m, 'u, 'v, 'h) http_crate \<Rightarrow> 'v \<Rightarrow> string" where
  "header_text http v = (case hv_to_str http v of Some s \<Rightarrow> s | None \<Rightarrow> [])"

lemma header_text_accepted:
  assumes "http_laws http"
  shows "\<exists>v'. hv_from_str http (header_text http v) = Some v'"
proof (cases "hv_to_str http v")
  case None
  with http_lawsD(5) [OF assms, of "[]"] show ?thesis by (auto simp: header_text_def)
next
  case (Some s)
  with http_lawsD(6) [OF assms] show ?thesis by (auto simp: header_text_def)
qed

text \<open>\<open>Request::tcp\<close> of \<open>src/origin/http/body.rs\<close>.\<close>

definition request_tcp :: "('m, 'u, 'v, 'h) http_crate \<Rightarrow> string \<Rightarrow> ('m, 'u, 'h, 'r) request" where
  "request_tcp http host =
     request_new (method_get http)
       (case uri_try_from http (''http://'' @ host) of Inr uri \<Rightarrow> uri | Inl _ \<Rightarrow> uri_default http)
       (hm_new http) body_empty"

section \<open>A concrete instance\<close>

text \<open>Header maps as lists of name and value; it shows that the laws can hold.\<close>

definition list_http :: "(string, string, string, (string \<times> string) list) http_crate" where
  "list_http =
     \<lparr>hm_new = [], hm_iter = (\<lambda>h. h), hm_get = (\<lambda>k h. map_of h k),
      hm_insert = (\<lambda>k v h. filter (\<lambda>e. fst e \<noteq> k) h @ [(k, v)]),
      hm_append = (\<lambda>k v h. h @ [(k, v)]),
      hm_remove = (\<lambda>k h. filter (\<lambda>e. fst e \<noteq> k) h),
      hv_from_str = (\<lambda>s. if visible_ascii s then Some s else None),
      hv_to_str = (\<lambda>v. if visible_ascii v then Some v else None),
      header_name_from_bytes = (\<lambda>bs. Some (to_ascii_lowercase (string_of_bytes bs))),
      method_from_bytes = (\<lambda>bs. if bs = [] then None else Some (string_of_bytes bs)),
      method_get = ''GET'',
      uri_try_from = (\<lambda>s. if s = [] then Inl ''empty string'' else Inr s),
      uri_default = ''/'', uri_host = (\<lambda>u. None)\<rparr>"

lemma list_http_laws: "http_laws list_http"
proof -
  have get: "map_of (filter (\<lambda>e. fst e \<noteq> k') h) k = (if k = k' then None else map_of h k)"
    for k k' and h :: "(string \<times> string) list"
    by (induction h) auto
  show ?thesis
    by (auto simp: http_laws_def list_http_def get map_add_def split: option.split)
qed

end
