(* ===== verification/H2_Headers.thy ===== *)
theory H2_Headers
  imports Http_Crate
begin

text \<open>
  Header handling of the HTTP/2 transport: \<open>src/edge/h2/headers.rs\<close>, the classification of
  edge streams in \<open>src/edge/h2/mod.rs\<close> and the status remapping of \<open>src/edge/h2/streams.rs\<close>.
  Base64 (the standard alphabet without padding) is a codec of the \<open>base64\<close> crate; what is
  assumed of it is \<open>base64_laws\<close>.
\<close>

section \<open>Serialized headers\<close>

record base64_codec =
  b64_encode :: "byte list \<Rightarrow> string"
  b64_decode :: "string \<Rightarrow> byte list option"

definition base64_laws :: "base64_codec \<Rightarrow> bool" where
  "base64_laws b64 \<longleftrightarrow>
     (\<forall>bytes. b64_decode b64 (b64_encode b64 bytes) = Some bytes \<and>
        visible_ascii (b64_encode b64 bytes) \<and>
        CHR '':'' \<notin> set (b64_encode b64 bytes) \<and> CHR '';'' \<notin> set (b64_encode b64 bytes))"

definition encode_base64 :: "base64_codec \<Rightarrow> string \<Rightarrow> string" where
  "encode_base64 b64 input = b64_encode b64 (as_bytes input)"

definition decode_base64 :: "base64_codec \<Rightarrow> string \<Rightarrow> string option" where
  "decode_base64 b64 input = map_option string_from_utf8_lossy (b64_decode b64 input)"

fun push_headers :: "base64_codec \<Rightarrow> string \<Rightarrow> (string \<times> string) list \<Rightarrow> string" where
  "push_headers b64 out [] = out"
| "push_headers b64 out ((name, v) # headers) =
     push_headers b64
       ((if out \<noteq> [] then out @ '';'' else out) @ encode_base64 b64 name @ '':'' @ encode_base64 b64 v)
       headers"

definition serialize_headers :: "base64_codec \<Rightarrow> (string \<times> string) list \<Rightarrow> string" where
  "serialize_headers b64 headers = push_headers b64 [] headers"

fun deserialize_pair :: "base64_codec \<Rightarrow> string \<Rightarrow> (string \<times> string) list" where
  "deserialize_pair b64 pair =
     (if pair = [] then []
      else case split_once (CHR '':'') pair of
        None \<Rightarrow> []
      | Some (name, v) \<Rightarrow>
          (case decode_base64 b64 name of
             None \<Rightarrow> []
           | Some name \<Rightarrow>
               (case decode_base64 b64 v of None \<Rightarrow> [] | Some v \<Rightarrow> [(name, v)])))"

definition deserialize_headers :: "base64_codec \<Rightarrow> string \<Rightarrow> (string \<times> string) list" where
  "deserialize_headers b64 serialized =
     concat (map (deserialize_pair b64) (split_char (CHR '';'') serialized))"

lemma push_headers_join:
  "push_headers b64 out hs =
     (if hs = [] then out
      else (if out \<noteq> [] then out @ '';'' else out)
        @ join (CHR '';'') (map (\<lambda>(name, v). encode_base64 b64 name @ '':'' @ encode_base64 b64 v) hs))"
proof (induction hs arbitrary: out)
  case (Cons h hs)
  obtain name v where h: "h = (name, v)" by fastforce
  show ?case by (cases "hs = []") (auto simp: h Cons.IH join_Cons)
qed simp

lemma serialize_headers_join:
  "serialize_headers b64 hs =
     join (CHR '';'') (map (\<lambda>(name, v). encode_base64 b64 name @ '':'' @ encode_base64 b64 v) hs)"
  by (simp add: serialize_headers_def push_headers_join)

lemma deserialize_encoded:
  assumes "base64_laws b64" and "utf8_valid (as_bytes name)" and "utf8_valid (as_bytes v)"
  shows "deserialize_pair b64 (encode_base64 b64 name @ '':'' @ encode_base64 b64 v) = [(name, v)]"
proof -
  have no_colon: "CHR '':'' \<notin> set (encode_base64 b64 name)"
    using assms(1) by (simp add: base64_laws_def encode_base64_def)
  then have "takeWhile (\<lambda>x. x \<noteq> CHR '':'') (encode_base64 b64 name @ CHR '':'' # encode_base64 b64 v)
      = encode_base64 b64 name"
    "dropWhile (\<lambda>x. x \<noteq> CHR '':'') (encode_base64 b64 name @ CHR '':'' # encode_base64 b64 v)
      = CHR '':'' # encode_base64 b64 v"
    by (auto simp: takeWhile_append dropWhile_append takeWhile_tail)
  with assms show ?thesis
    by (simp add: split_once_def decode_base64_def encode_base64_def base64_laws_def
        string_from_utf8_lossy_def from_utf8_lossy_valid)
qed

text \<open>Names and values in order and with duplicates, including the empty list.\<close>

lemma headers_roundtrip:
  assumes "base64_laws b64"
    and "\<And>name v. (name, v) \<in> set headers \<Longrightarrow> utf8_valid (as_bytes name) \<and> utf8_valid (as_bytes v)"
  shows "deserialize_headers b64 (serialize_headers b64 headers) = headers"
proof (cases "headers = []")
  case True
  then show ?thesis by (simp add: deserialize_headers_def serialize_headers_join)
next
  case False
  let ?enc = "\<lambda>(name, v). encode_base64 b64 name @ '':'' @ encode_base64 b64 v"
  have "split_char (CHR '';'') (join (CHR '';'') (map ?enc headers)) = map ?enc headers"
    using assms(1) False
    by (intro split_char_join) (auto simp: encode_base64_def base64_laws_def)
  moreover have "map (deserialize_pair b64) (map ?enc headers) = map (\<lambda>h. [h]) headers"
    using deserialize_encoded [OF assms(1)] assms(2) by (auto simp: simp del: deserialize_pair.simps)
  moreover have "concat (map (\<lambda>h. [h]) headers) = headers" by (induction headers) simp_all
  ultimately show ?thesis
    by (simp only: deserialize_headers_def serialize_headers_join)
qed

text \<open>A codec with the laws: two letters for each byte.\<close>

definition nibble_char :: "nat \<Rightarrow> char" where
  "nibble_char n = char_of (65 + n)"

definition char_nibble :: "char \<Rightarrow> nat" where
  "char_nibble c = of_char c - 65"

fun pairs_encode :: "byte list \<Rightarrow> string" where
  "pairs_encode [] = []"
| "pairs_encode (b # bs) =
     nibble_char (unat b div 16) # nibble_char (unat b mod 16) # pairs_encode bs"

fun pairs_decode :: "string \<Rightarrow> byte list option" where
  "pairs_decode [] = Some []"
| "pairs_decode [c] = None"
| "pairs_decode (c # d # s) =
     map_option ((#) (of_nat (16 * char_nibble c + char_nibble d))) (pairs_decode s)"

definition pairs_codec :: base64_codec where
  "pairs_codec = \<lparr>b64_encode = pairs_encode, b64_decode = pairs_decode\<rparr>"

lemma char_nibble [simp]: "n < 16 \<Longrightarrow> char_nibble (nibble_char n) = n"
  by (simp add: char_nibble_def nibble_char_def of_char_of)

lemma nibble_char_range: "n < 16 \<Longrightarrow> 65 \<le> (of_char (nibble_char n) :: nat) \<and> (of_char (nibble_char n) :: nat) < 81"
  by (simp add: nibble_char_def of_char_of)

lemma pairs_codec_laws: "base64_laws pairs_codec"
proof -
  have small: "unat b div 16 < 16" for b :: byte
    using unsigned_less [of b, where 'a = nat] by simp
  have decode: "pairs_decode (pairs_encode bs) = Some bs" for bs
    by (induction bs) (simp_all add: small)
  have range: "c \<in> set (pairs_encode bs) \<Longrightarrow> 65 \<le> (of_char c :: nat) \<and> (of_char c :: nat) < 81" for c bs
  proof (induction bs)
    case (Cons b bs)
    then show ?case
      using nibble_char_range [OF small, of b] nibble_char_range [of "unat b mod 16"] by auto
  qed simp
  have "CHR '':'' \<notin> set (pairs_encode bs)" "CHR '';'' \<notin> set (pairs_encode bs)" for bs
    using range [of "CHR '':''" bs] range [of "CHR '';''" bs] by auto
  moreover have "visible_ascii (pairs_encode bs)" for bs
    using range by (fastforce simp: visible_ascii_def)
  ultimately show ?thesis by (simp add: base64_laws_def pairs_codec_def decode)
qed

section \<open>Response headers\<close>

definition RESPONSE_USER_HEADERS :: string where
  "RESPONSE_USER_HEADERS = ''cf-cloudflared-response-headers''"
definition RESPONSE_METADATA_HEADER :: string where
  "RESPONSE_METADATA_HEADER = ''cf-cloudflared-response-meta''"
definition RESPONSE_METADATA_ORIGIN :: string where
  "RESPONSE_METADATA_ORIGIN = [CHR ''{'', CHR 0x22] @ ''src'' @ [CHR 0x22, CHR '':'', CHR 0x22] @ ''origin'' @ [CHR 0x22, CHR ''}'']"
definition TRACING_INTERNAL_HEADER :: string where
  "TRACING_INTERNAL_HEADER = ''cf-int-cloudflared-tracing''"

definition is_control_response_header :: "string \<Rightarrow> bool" where
  "is_control_response_header name \<longleftrightarrow>
     strip_prefix '':'' name \<noteq> None \<or> strip_prefix ''cf-int-'' name \<noteq> None \<or>
     strip_prefix ''cf-cloudflared-'' name \<noteq> None \<or> strip_prefix ''cf-proxy-'' name \<noteq> None"

definition is_websocket_client_header :: "string \<Rightarrow> bool" where
  "is_websocket_client_header name \<longleftrightarrow>
     name \<in> {''sec-websocket-accept'', ''connection'', ''upgrade''}"

text \<open>
  One turn of the loop over the origin's headers, on the headers built so far and the user
  headers collected so far. \<open>None\<close> is a panic of an \<open>unwrap\<close>.
\<close>

definition encode_step ::
  "('m, 'u, 'v, 'h) http_crate \<Rightarrow> string \<times> 'v \<Rightarrow> 'h \<times> (string \<times> string) list
     \<Rightarrow> ('h \<times> (string \<times> string) list) option" where
  "encode_step http = (\<lambda>(name, hv) (headers, user).
     let val = header_text http hv; lower = to_ascii_lowercase name in
     (case (if lower = ''content-length''
            then map_option (\<lambda>v. hm_append http name v headers) (hv_from_str http val)
            else Some headers) of
        None \<Rightarrow> None
      | Some headers \<Rightarrow>
          if lower = TRACING_INTERNAL_HEADER
          then map_option (\<lambda>v. (hm_insert http (to_ascii_lowercase ''Cf-Int-Cloudflared-Tracing'') v headers, user))
                 (hv_from_str http val)
          else if \<not> is_control_response_header lower \<or> is_websocket_client_header lower
          then Some (headers, user @ [(name, val)])
          else Some (headers, user)))"

fun encode_loop ::
  "('m, 'u, 'v, 'h) http_crate \<Rightarrow> (string \<times> 'v) list \<Rightarrow> 'h \<times> (string \<times> string) list
     \<Rightarrow> ('h \<times> (string \<times> string) list) option" where
  "encode_loop http [] st = Some st"
| "encode_loop http (e # es) st =
     (case encode_step http e st of None \<Rightarrow> None | Some st \<Rightarrow> encode_loop http es st)"

text \<open>\<open>HeaderValue::from_static\<close> on a constant of visible characters is \<open>from_str\<close>.\<close>

definition encode_response_headers ::
  "('m, 'u, 'v, 'h) http_crate \<Rightarrow> base64_codec \<Rightarrow> ('h, 'r) response \<Rightarrow> 'h option" where
  "encode_response_headers http b64 response =
     (case encode_loop http (hm_iter http (res_headers response)) (hm_new http, []) of
        None \<Rightarrow> None
      | Some (headers, user_headers) \<Rightarrow>
          (case (if user_headers \<noteq> []
                 then map_option (\<lambda>v. hm_insert http RESPONSE_USER_HEADERS v headers)
                        (hv_from_str http (serialize_headers b64 user_headers))
                 else Some headers) of
             None \<Rightarrow> None
           | Some headers \<Rightarrow>
               map_option (\<lambda>v. hm_insert http RESPONSE_METADATA_HEADER v headers)
                 (hv_from_str http RESPONSE_METADATA_ORIGIN)))"

text \<open>
  What the edge is to be given, told without the code's own predicates: the client sees a header
  unless its name, in lower case, starts with \<open>:\<close>, \<open>cf-int-\<close>, \<open>cf-cloudflared-\<close> or \<open>cf-proxy-\<close>;
  the three headers of a websocket handshake are always seen. A value that is text is given as
  that text, and a value that is not (\<open>to_str\<close> fails) as the empty text. \<open>passed_on\<close> says the same
  of a header that is copied as it is.
\<close>

definition reaches_client :: "string \<Rightarrow> bool" where
  "reaches_client name \<longleftrightarrow>
     (let lower = to_ascii_lowercase name in
      lower \<in> {''connection'', ''upgrade'', ''sec-websocket-accept''} \<or>
      \<not> (\<exists>rest. lower = '':'' @ rest \<or> lower = ''cf-int-'' @ rest \<or> lower = ''cf-cloudflared-'' @ rest \<or>
               lower = ''cf-proxy-'' @ rest))"

definition value_text :: "('m, 'u, 'v, 'h) http_crate \<Rightarrow> 'v \<Rightarrow> string \<Rightarrow> bool" where
  "value_text http hv s \<longleftrightarrow> hv_to_str http hv = Some s \<or> hv_to_str http hv = None \<and> s = []"

definition given_as :: "('m, 'u, 'v, 'h) http_crate \<Rightarrow> string \<times> 'v \<Rightarrow> string \<times> string \<Rightarrow> bool" where
  "given_as http e u \<longleftrightarrow> fst u = fst e \<and> value_text http (snd e) (snd u)"

definition passed_on :: "('m, 'u, 'v, 'h) http_crate \<Rightarrow> 'v option \<Rightarrow> 'v option \<Rightarrow> bool" where
  "passed_on http given passed \<longleftrightarrow>
     (case given of
        None \<Rightarrow> passed = None
      | Some hv \<Rightarrow> \<exists>s v. value_text http hv s \<and> hv_from_str http s = Some v \<and> passed = Some v)"

definition tracing_value :: "(string \<times> 'v) list \<Rightarrow> 'v option" where
  "tracing_value es = map_of (rev (map (\<lambda>(name, hv). (to_ascii_lowercase name, hv)) es)) ''cf-int-cloudflared-tracing''"

text \<open>The list the loop collects.\<close>

definition user_headers_of ::
  "('m, 'u, 'v, 'h) http_crate \<Rightarrow> (string \<times> 'v) list \<Rightarrow> (string \<times> string) list" where
  "user_headers_of http es = map (\<lambda>e. (fst e, header_text http (snd e))) (filter (\<lambda>e. reaches_client (fst e)) es)"

lemma collected_iff_reaches_client:
  "reaches_client name \<longleftrightarrow> to_ascii_lowercase name \<noteq> TRACING_INTERNAL_HEADER \<and>
     (\<not> is_control_response_header (to_ascii_lowercase name) \<or>
      is_websocket_client_header (to_ascii_lowercase name))"
proof -
  have "\<exists>rest. TRACING_INTERNAL_HEADER = ''cf-int-'' @ rest"
    by (simp add: TRACING_INTERNAL_HEADER_def)
  then have "is_control_response_header TRACING_INTERNAL_HEADER"
    "\<not> is_websocket_client_header TRACING_INTERNAL_HEADER"
    by (auto simp: is_control_response_header_def is_websocket_client_header_def strip_prefix_Some TRACING_INTERNAL_HEADER_def)
  then show ?thesis
    unfolding reaches_client_def Let_def
    by (auto simp: is_control_response_header_def is_websocket_client_header_def strip_prefix_Some
        simp del: append_Cons)
qed

lemma value_text_header_text [simp]: "value_text http hv (header_text http hv)"
  by (simp add: value_text_def header_text_def split: option.split)

lemma user_headers_given:
  "list_all2 (given_as http) (filter (\<lambda>e. reaches_client (fst e)) es) (user_headers_of http es)"
  by (simp add: user_headers_of_def list_all2_map2 given_as_def list_all2_same)

lemma encode_step_ok:
  assumes "http_laws http"
  shows "\<exists>headers'. encode_step http (name, hv) (headers, user) = Some (headers',
     user @ user_headers_of http [(name, hv)])"
  using header_text_accepted [OF assms, of hv]
  by (auto simp: encode_step_def Let_def user_headers_of_def collected_iff_reaches_client
      TRACING_INTERNAL_HEADER_def)

lemma user_headers_of_Cons:
  "user_headers_of http (e # es) = user_headers_of http [e] @ user_headers_of http es"
  by (simp add: user_headers_of_def)

lemma encode_loop_ok:
  assumes "http_laws http"
  shows "\<exists>headers'. encode_loop http es (headers, user) = Some (headers', user @ user_headers_of http es)"
proof (induction es arbitrary: headers user)
  case (Cons e es)
  obtain name hv where e: "e = (name, hv)" by fastforce
  obtain headers1 where "encode_step http (name, hv) (headers, user)
      = Some (headers1, user @ user_headers_of http [(name, hv)])"
    using encode_step_ok [OF assms] by blast
  with Cons.IH [of headers1 "user @ user_headers_of http [(name, hv)]"] show ?case
    by (simp add: e user_headers_of_Cons [of http _ es])
qed (simp add: user_headers_of_def)

lemma visible_join:
  "\<forall>w \<in> set ws. visible_ascii w \<Longrightarrow> visible_ascii [c] \<Longrightarrow> visible_ascii (join c ws)"
  by (induction c ws rule: join.induct) auto

lemma visible_serialized:
  "base64_laws b64 \<Longrightarrow> visible_ascii (serialize_headers b64 hs)"
  unfolding serialize_headers_join
  by (rule visible_join) (auto simp: base64_laws_def encode_base64_def)

lemma encode_response_headers_some:
  assumes "http_laws http" and "base64_laws b64"
  shows "\<exists>headers. encode_response_headers http b64 response = Some headers"
proof -
  obtain headers user where loop: "encode_loop http (hm_iter http (res_headers response)) (hm_new http, [])
      = Some (headers, user)"
    using encode_loop_ok [OF assms(1), of _ "hm_new http" "[]"] by blast
  have "visible_ascii RESPONSE_METADATA_ORIGIN" by (simp add: RESPONSE_METADATA_ORIGIN_def)
  from http_lawsD(5) [OF assms(1) this] obtain meta where
    "hv_from_str http RESPONSE_METADATA_ORIGIN = Some meta" by blast
  moreover obtain s where "hv_from_str http (serialize_headers b64 user) = Some s"
    using http_lawsD(5) [OF assms(1) visible_serialized [OF assms(2)]] by blast
  ultimately show ?thesis using loop by (simp add: encode_response_headers_def)
qed

text \<open>The headers the loop has set.\<close>

lemma encode_step_get:
  assumes "http_laws http" and "encode_step http (name, hv) (headers, user) = Some (headers', user')"
  shows "hm_get http k headers' =
    (if k = TRACING_INTERNAL_HEADER
     then (if to_ascii_lowercase name = k then hv_from_str http (header_text http hv) else hm_get http k headers)
     else if to_ascii_lowercase name = ''content-length'' \<and> k = name \<and> hm_get http k headers = None
     then hv_from_str http (header_text http hv)
     else hm_get http k headers)"
proof -
  have lower: "to_ascii_lowercase ''Cf-Int-Cloudflared-Tracing'' = TRACING_INTERNAL_HEADER"
    by code_simp
  have "to_ascii_lowercase TRACING_INTERNAL_HEADER \<noteq> ''content-length''"
       "TRACING_INTERNAL_HEADER \<noteq> ''content-length''"
    by (simp_all add: TRACING_INTERNAL_HEADER_def to_ascii_lowercase_def)
  with assms(2) show ?thesis
    by (auto simp: encode_step_def Let_def lower http_lawsD [OF assms(1)] split: if_splits option.splits)
qed


lemma encode_loop_get:
  assumes "http_laws http" and "encode_loop http es (headers, user) = Some (headers', user')"
  shows "hm_get http k headers' =
    (if k = TRACING_INTERNAL_HEADER
     then (case tracing_value es of Some hv \<Rightarrow> hv_from_str http (header_text http hv) | None \<Rightarrow> hm_get http k headers)
     else if to_ascii_lowercase k = ''content-length'' \<and> hm_get http k headers = None
     then (case map_of es k of Some hv \<Rightarrow> hv_from_str http (header_text http hv) | None \<Rightarrow> None)
     else hm_get http k headers)"
  using assms(2)
proof (induction es arbitrary: headers user)
  case Nil
  then show ?case by (simp add: tracing_value_def)
next
  case (Cons e es)
  obtain name hv where e: "e = (name, hv)" by fastforce
  from Cons.prems obtain h1 u1 where
    step: "encode_step http (name, hv) (headers, user) = Some (h1, u1)" and
    rest: "encode_loop http es (h1, u1) = Some (headers', user')"
    by (auto simp: e split: option.splits)
  obtain v where v: "hv_from_str http (header_text http hv) = Some v"
    using header_text_accepted [OF assms(1)] by blast
  show ?case
    unfolding Cons.IH [OF rest] encode_step_get [OF assms(1) step]
    by (auto simp: e v tracing_value_def TRACING_INTERNAL_HEADER_def map_add_def split: option.splits)
qed


lemma passed_on_header_text:
  assumes "http_laws http"
  shows "passed_on http given
    (case given of Some hv \<Rightarrow> hv_from_str http (header_text http hv) | None \<Rightarrow> None)"
proof (cases given)
  case (Some hv)
  with header_text_accepted [OF assms, of hv] show ?thesis
    by (auto simp: passed_on_def intro: value_text_header_text)
qed (simp add: passed_on_def)

text \<open>The whole map: the loop's headers with the list and the meta header inserted.\<close>

lemma encode_response_headers_get:
  assumes "http_laws http" and "base64_laws b64"
    and loop: "encode_loop http (hm_iter http (res_headers response)) (hm_new http, []) = Some (base, user)"
  obtains headers meta s where
    "encode_response_headers http b64 response = Some headers"
    "hv_to_str http meta = Some RESPONSE_METADATA_ORIGIN"
    "hv_to_str http s = Some (serialize_headers b64 user)"
    "\<And>k. hm_get http k headers =
      (if k = RESPONSE_METADATA_HEADER then Some meta
       else if k = RESPONSE_USER_HEADERS then (if user \<noteq> [] then Some s else None)
       else hm_get http k base)"
proof -
  note get = encode_loop_get [OF assms(1) loop] http_lawsD(1) [OF assms(1)]
  have "visible_ascii RESPONSE_METADATA_ORIGIN" by (simp add: RESPONSE_METADATA_ORIGIN_def)
  then obtain meta where meta: "hv_from_str http RESPONSE_METADATA_ORIGIN = Some meta"
      "hv_to_str http meta = Some RESPONSE_METADATA_ORIGIN"
    using http_lawsD(5) [OF assms(1)] by blast
  obtain s where s: "hv_from_str http (serialize_headers b64 user) = Some s"
      "hv_to_str http s = Some (serialize_headers b64 user)"
    using http_lawsD(5) [OF assms(1) visible_serialized [OF assms(2)]] by blast
  let ?with_user = "if user \<noteq> [] then hm_insert http RESPONSE_USER_HEADERS s base else base"
  let ?headers = "hm_insert http RESPONSE_METADATA_HEADER meta ?with_user"
  have "to_ascii_lowercase RESPONSE_USER_HEADERS \<noteq> ''content-length''" by code_simp
  then have "hm_get http RESPONSE_USER_HEADERS base = None"
    by (simp add: get RESPONSE_USER_HEADERS_def TRACING_INTERNAL_HEADER_def)
  moreover have "encode_response_headers http b64 response = Some ?headers"
    using loop meta(1) s(1) by (simp add: encode_response_headers_def)
  ultimately show ?thesis
    using that [of ?headers meta s] meta(2) s(2) by (simp add: http_lawsD(2) [OF assms(1)])
qed

text \<open>C26. Encoding the headers of any origin response never panics. The edge reads back, in order,
  the names and values of the origin's headers that the client is to see; a value that is not
  text comes back empty, and the header that carries them is absent when there are none. The
  first content-length and the last tracing header are passed on, the meta header names the
  origin, and no other header is sent.\<close>

theorem response_headers_encoded:
  assumes "http_laws http" and "base64_laws b64"
    and utf8: "\<And>name hv. (name, hv) \<in> set (hm_iter http (res_headers response)) \<Longrightarrow>
      utf8_valid (as_bytes name) \<and> (\<forall>s. hv_to_str http hv = Some s \<longrightarrow> utf8_valid (as_bytes s))"
  shows "\<exists>headers user. encode_response_headers http b64 response = Some headers \<and>
    list_all2 (given_as http)
      (filter (\<lambda>e. reaches_client (fst e)) (hm_iter http (res_headers response))) user \<and>
    (case hm_get http ''cf-cloudflared-response-headers'' headers of
       None \<Rightarrow> user = []
     | Some hv \<Rightarrow> user \<noteq> [] \<and> (\<exists>s. hv_to_str http hv = Some s \<and> deserialize_headers b64 s = user)) \<and>
    (\<exists>meta. hm_get http ''cf-cloudflared-response-meta'' headers = Some meta \<and>
       hv_to_str http meta = Some RESPONSE_METADATA_ORIGIN) \<and>
    passed_on http (map_of (hm_iter http (res_headers response)) ''content-length'')
      (hm_get http ''content-length'' headers) \<and>
    passed_on http (tracing_value (hm_iter http (res_headers response)))
      (hm_get http ''cf-int-cloudflared-tracing'' headers) \<and>
    (\<forall>k. hm_get http k headers \<noteq> None \<longrightarrow>
       to_ascii_lowercase k = ''content-length'' \<or>
       k \<in> {''cf-cloudflared-response-headers'', ''cf-cloudflared-response-meta'',
            ''cf-int-cloudflared-tracing''})"
proof -
  let ?es = "hm_iter http (res_headers response)"
  let ?user = "user_headers_of http ?es"
  obtain base where loop: "encode_loop http ?es (hm_new http, []) = Some (base, ?user)"
    using encode_loop_ok [OF assms(1), of ?es "hm_new http" "[]"] by auto
  obtain headers meta s where encoded: "encode_response_headers http b64 response = Some headers"
    and texts: "hv_to_str http meta = Some RESPONSE_METADATA_ORIGIN"
      "hv_to_str http s = Some (serialize_headers b64 ?user)"
    and headers_get: "\<And>k. hm_get http k headers =
      (if k = RESPONSE_METADATA_HEADER then Some meta
       else if k = RESPONSE_USER_HEADERS then (if ?user \<noteq> [] then Some s else None)
       else hm_get http k base)"
    using encode_response_headers_get [OF assms(1,2) loop] by blast
  have read: "deserialize_headers b64 (serialize_headers b64 ?user) = ?user"
    by (rule headers_roundtrip [OF assms(2)])
       (use utf8 in \<open>fastforce simp: user_headers_of_def header_text_def split: option.splits\<close>)
  note get = headers_get encode_loop_get [OF assms(1) loop] http_lawsD(1) [OF assms(1)]
    RESPONSE_METADATA_HEADER_def RESPONSE_USER_HEADERS_def TRACING_INTERNAL_HEADER_def
  have lower: "to_ascii_lowercase ''content-length'' = ''content-length''" by code_simp
  show ?thesis
    apply (rule exI [of _ headers], rule exI [of _ ?user])
    apply (intro conjI)
    subgoal by (rule encoded)
    subgoal by (rule user_headers_given)
    subgoal using texts read by (simp add: get)
    subgoal using texts by (simp add: get)
    subgoal using passed_on_header_text [OF assms(1)] lower by (simp add: get)
    subgoal using passed_on_header_text [OF assms(1)] by (simp add: get cong: option.case_cong)
    subgoal by (auto simp: get split: if_splits)
    done
qed

text \<open>A response with a handshake header, two control headers and a value that is not text.\<close>

definition demo_headers :: "(string \<times> string) list" where
  "demo_headers =
     [(''upgrade'', ''websocket''), (''cf-proxy-y'', ''1''), (''content-length'', ''0''),
      (''x-name'', [CHR 0xC8]), (''cf-int-x'', ''2'')]"

lemma demo_headers_seen:
  "filter (\<lambda>e. reaches_client (fst e)) demo_headers =
     [(''upgrade'', ''websocket''), (''content-length'', ''0''), (''x-name'', [CHR 0xC8])]"
proof -
  have "reaches_client ''upgrade''" "reaches_client ''content-length''" "reaches_client ''x-name''"
    "\<not> reaches_client ''cf-proxy-y''" "\<not> reaches_client ''cf-int-x''"
    unfolding collected_iff_reaches_client by code_simp+
  then show ?thesis by (simp add: demo_headers_def)
qed

theorem response_headers_encoded_witness:
  "\<exists>headers hv s. encode_response_headers list_http pairs_codec
      (response_new 101 demo_headers (body_empty :: unit body)) = Some headers \<and>
    hm_get list_http ''cf-cloudflared-response-headers'' headers = Some hv \<and>
    hv_to_str list_http hv = Some s \<and>
    deserialize_headers pairs_codec s = [(''upgrade'', ''websocket''), (''content-length'', ''0''), (''x-name'', [])]"
proof -
  let ?r = "response_new 101 demo_headers (body_empty :: unit body)"
  have iter: "hm_iter list_http (res_headers ?r) = demo_headers"
    by (simp add: list_http_def response_new_def)
  have utf8: "utf8_valid (as_bytes name) \<and> (\<forall>s. hv_to_str list_http hv = Some s \<longrightarrow> utf8_valid (as_bytes s))"
    if "(name, hv) \<in> set (hm_iter list_http (res_headers ?r))" for name hv
    using that unfolding iter
    by (auto simp: demo_headers_def list_http_def intro!: utf8_valid_ascii split: if_splits)
  have only: "user = [(''upgrade'', ''websocket''), (''content-length'', ''0''), (''x-name'', [])]"
    if "list_all2 (given_as list_http)
      [(''upgrade'', ''websocket''), (''content-length'', ''0''), (''x-name'', [CHR 0xC8])] user" for user
    using that
    by (auto simp: list_all2_Cons1 given_as_def value_text_def list_http_def)
  from response_headers_encoded [where response = ?r, OF list_http_laws pairs_codec_laws utf8]
  show ?thesis unfolding iter demo_headers_seen by (auto dest!: only split: option.splits)
qed

section \<open>Stream classification and status\<close>

datatype stream_type = StreamHttp | StreamWebsocket | StreamTcp | StreamControl | StreamConfiguration

definition INTERNAL_UPGRADE_HEADER :: string where
  "INTERNAL_UPGRADE_HEADER = ''cf-cloudflared-proxy-connection-upgrade''"
definition INTERNAL_TCP_SRC_HEADER :: string where
  "INTERNAL_TCP_SRC_HEADER = ''cf-cloudflared-proxy-src''"
definition WEBSOCKET_UPGRADE :: string where "WEBSOCKET_UPGRADE = ''websocket''"
definition CONTROL_STREAM_UPGRADE :: string where "CONTROL_STREAM_UPGRADE = ''control-stream''"
definition CONFIGURATION_UPDATE :: string where "CONFIGURATION_UPDATE = ''update-configuration''"

definition classify_stream :: "('m, 'u, 'v, 'h) http_crate \<Rightarrow> 'h \<Rightarrow> stream_type" where
  "classify_stream http headers =
     (let upgrade = (case hm_get http INTERNAL_UPGRADE_HEADER headers of
                       Some v \<Rightarrow> header_text http v | None \<Rightarrow> []) in
      if upgrade = CONFIGURATION_UPDATE then StreamConfiguration
      else if upgrade = WEBSOCKET_UPGRADE then StreamWebsocket
      else if hm_get http INTERNAL_TCP_SRC_HEADER headers \<noteq> None then StreamTcp
      else if upgrade = CONTROL_STREAM_UPGRADE then StreamControl
      else StreamHttp)"

definition remap_status :: "u16 \<Rightarrow> u16" where
  "remap_status status = (if status = 101 then 200 else status)"

lemma remap_status_not_101 [simp]: "remap_status s \<noteq> 101"
  by (simp add: remap_status_def)

end
