(* ===== verification/Pump.thy ===== *)
theory Pump
  imports Origin
begin

text \<open>
  The bidirectional pump of \<open>src/origin/pump.rs\<close>. One state \<open>'e\<close> holds the edge's read and
  write sides, one state \<open>'o\<close> the origin's. The loop selects the read that completes first, which
  is not determined: it is a relation, and a run follows any interleaving. What follows the read in
  its branch, writing all of the data or closing, is awaited before the next \<open>select!\<close>: while a
  branch is in the middle of that, neither side is read. \<open>write_all\<close> of the \<open>futures\<close> crate writes
  until nothing is left.
\<close>

record 's pump_peer =
  peer_read :: "'s reader"
  peer_write :: "'s writer"
  peer_close :: "'s \<Rightarrow> ((io_error + unit) \<times> 's) option"

text \<open>What a branch still has to do after its read.\<close>

datatype transfer = Writing "byte list" | Closing

datatype pump_phase = Selecting | FromEdge transfer | FromOrigin transfer

record ('e, 'o) pump_state =
  pump_edge :: 'e
  pump_origin :: 'o
  edge_done :: bool
  origin_done :: bool
  pump_phase :: pump_phase

definition pump_start :: "'e \<Rightarrow> 'o \<Rightarrow> ('e, 'o) pump_state" where
  "pump_start e oo =
     \<lparr>pump_edge = e, pump_origin = oo, edge_done = False, origin_done = False, pump_phase = Selecting\<rparr>"

definition PUMP_BUFFER :: nat where "PUMP_BUFFER = 8192"

text \<open>
  A completed read of a branch: what is left to do in the branch, whether the direction is done,
  and the source after it; \<open>None\<close> while the read is pending.
\<close>

definition read_branch :: "'s pump_peer \<Rightarrow> 's \<Rightarrow> (transfer option \<times> bool \<times> 's) option" where
  "read_branch src s =
     (case peer_read src PUMP_BUFFER s of
        None \<Rightarrow> None
      | Some (Inl e, s) \<Rightarrow> Some (None, True, s)
      | Some (Inr data, s) \<Rightarrow>
          if data = [] then Some (Some Closing, True, s) else Some (Some (Writing data), False, s))"

text \<open>One completed write or close of the destination; \<open>None\<close> while it is pending.\<close>

definition transfer_part :: "'d pump_peer \<Rightarrow> transfer \<Rightarrow> 'd \<Rightarrow> (transfer option \<times> bool \<times> 'd) option" where
  "transfer_part dst t d =
     (case t of
        Closing \<Rightarrow> map_option (\<lambda>(r, d). (None, True, d)) (peer_close dst d)
      | Writing data \<Rightarrow>
          (case peer_write dst data d of
             None \<Rightarrow> None
           | Some (Inl e, d) \<Rightarrow> Some (None, True, d)
           | Some (Inr n, d) \<Rightarrow>
               if drop n data = [] then Some (None, False, d)
               else if n = 0 then Some (None, True, d)
               else Some (Some (Writing (drop n data)), False, d)))"

definition next_phase :: "(transfer \<Rightarrow> pump_phase) \<Rightarrow> transfer option \<Rightarrow> pump_phase" where
  "next_phase f t = (case t of None \<Rightarrow> Selecting | Some t \<Rightarrow> f t)"

inductive pump_step ::
  "'e pump_peer \<Rightarrow> 'o pump_peer \<Rightarrow> ('e, 'o) pump_state \<Rightarrow> ('e, 'o) pump_state \<Rightarrow> bool"
  for edge :: "'e pump_peer" and origin :: "'o pump_peer" where
  edge_read:
    "pump_phase st = Selecting \<Longrightarrow> \<not> edge_done st \<Longrightarrow>
     read_branch edge (pump_edge st) = Some (t, d, e) \<Longrightarrow>
     pump_step edge origin st
       (st\<lparr>pump_edge := e, edge_done := d, pump_phase := next_phase FromEdge t\<rparr>)"
| edge_transfer:
    "pump_phase st = FromEdge t \<Longrightarrow>
     transfer_part origin t (pump_origin st) = Some (t', d, oo) \<Longrightarrow>
     pump_step edge origin st
       (st\<lparr>pump_origin := oo, edge_done := d, pump_phase := next_phase FromEdge t'\<rparr>)"
| origin_read:
    "pump_phase st = Selecting \<Longrightarrow> \<not> origin_done st \<Longrightarrow>
     read_branch origin (pump_origin st) = Some (t, d, oo) \<Longrightarrow>
     pump_step edge origin st
       (st\<lparr>pump_origin := oo, origin_done := d, pump_phase := next_phase FromOrigin t\<rparr>)"
| origin_transfer:
    "pump_phase st = FromOrigin t \<Longrightarrow>
     transfer_part edge t (pump_edge st) = Some (t', d, e) \<Longrightarrow>
     pump_step edge origin st
       (st\<lparr>pump_edge := e, origin_done := d, pump_phase := next_phase FromOrigin t'\<rparr>)"

inductive pump_run ::
  "'e pump_peer \<Rightarrow> 'o pump_peer \<Rightarrow> ('e, 'o) pump_state \<Rightarrow> ('e, 'o) pump_state \<Rightarrow> bool"
  for edge :: "'e pump_peer" and origin :: "'o pump_peer" where
  run_start: "pump_run edge origin st st"
| run_step: "pump_run edge origin st st1 \<Longrightarrow> pump_step edge origin st1 st2 \<Longrightarrow> pump_run edge origin st st2"

inductive_cases pump_stepE: "pump_step edge origin st st'"
inductive_simps pump_step_iff: "pump_step edge origin st st'"

text \<open>The loop is left when both directions are done; \<open>pump\<close> then returns \<open>Ok\<close>.\<close>

definition pump_finished :: "('e, 'o) pump_state \<Rightarrow> bool" where
  "pump_finished st \<longleftrightarrow> pump_phase st = Selecting \<and> edge_done st \<and> origin_done st"

section \<open>Peers that look alike\<close>

text \<open>
  When the operations of one peer are those of another, seen through \<open>f\<close>, pumping with the one is
  pumping with the other: the view of the state is a bisimulation.
\<close>

definition peer_view :: "('s \<Rightarrow> 't) \<Rightarrow> 's pump_peer \<Rightarrow> 't pump_peer \<Rightarrow> bool" where
  "peer_view f p q \<longleftrightarrow>
     (\<forall>n s. peer_read q n (f s) = map_option (map_prod id f) (peer_read p n s)) \<and>
     (\<forall>data s. peer_write q data (f s) = map_option (map_prod id f) (peer_write p data s)) \<and>
     (\<forall>s. peer_close q (f s) = map_option (map_prod id f) (peer_close p s))"

definition pump_view :: "('o \<Rightarrow> 'v) \<Rightarrow> ('e, 'o) pump_state \<Rightarrow> ('e, 'v) pump_state" where
  "pump_view f st =
     \<lparr>pump_edge = pump_edge st, pump_origin = f (pump_origin st), edge_done = edge_done st,
      origin_done = origin_done st, pump_phase = pump_phase st\<rparr>"

lemma pump_view_fields [simp]:
  "pump_edge (pump_view f st) = pump_edge st" "pump_origin (pump_view f st) = f (pump_origin st)"
  "edge_done (pump_view f st) = edge_done st" "origin_done (pump_view f st) = origin_done st"
  "pump_phase (pump_view f st) = pump_phase st" "pump_finished (pump_view f st) = pump_finished st"
  by (simp_all add: pump_view_def pump_finished_def)

lemma pump_view_updates [simp]:
  "(pump_view f st)\<lparr>pump_origin := f x\<rparr> = pump_view f (st\<lparr>pump_origin := x\<rparr>)"
  "(pump_view f st)\<lparr>pump_edge := e\<rparr> = pump_view f (st\<lparr>pump_edge := e\<rparr>)"
  "(pump_view f st)\<lparr>edge_done := d\<rparr> = pump_view f (st\<lparr>edge_done := d\<rparr>)"
  "(pump_view f st)\<lparr>origin_done := d\<rparr> = pump_view f (st\<lparr>origin_done := d\<rparr>)"
  "(pump_view f st)\<lparr>pump_phase := ph\<rparr> = pump_view f (st\<lparr>pump_phase := ph\<rparr>)"
  by (simp_all add: pump_view_def)

lemma read_branch_view:
  "peer_view f p q \<Longrightarrow>
     read_branch q (f s) = map_option (map_prod id (map_prod id f)) (read_branch p s)"
  by (auto simp: peer_view_def read_branch_def split: option.split sum.split)

lemma transfer_part_view:
  "peer_view f p q \<Longrightarrow>
     transfer_part q t (f s) = map_option (map_prod id (map_prod id f)) (transfer_part p t s)"
  by (auto simp: peer_view_def transfer_part_def option.map_comp
      split: transfer.split option.split sum.split intro!: option.map_cong)

lemma pump_step_view:
  assumes "peer_view f origin origin'" and "pump_step edge origin st st'"
  shows "pump_step edge origin' (pump_view f st) (pump_view f st')"
  using assms(2) by (auto simp: pump_step_iff read_branch_view [OF assms(1)] transfer_part_view [OF assms(1)])

lemma pump_step_lift:
  assumes "peer_view f origin origin'" and "pump_step edge origin' (pump_view f st) b"
  shows "\<exists>st'. pump_step edge origin st st' \<and> pump_view f st' = b"
  using assms(2)
  by (auto simp: pump_step_iff read_branch_view [OF assms(1)] transfer_part_view [OF assms(1)])

section \<open>The contract of a peer\<close>

text \<open>What is read and not yet written, in a branch and in a phase of the pump.\<close>

fun unwritten :: "transfer option \<Rightarrow> byte list" where
  "unwritten (Some (Writing data)) = data"
| "unwritten t = []"

definition edge_unwritten :: "pump_phase \<Rightarrow> byte list" where
  "edge_unwritten p = (case p of FromEdge t \<Rightarrow> unwritten (Some t) | _ \<Rightarrow> [])"

definition origin_unwritten :: "pump_phase \<Rightarrow> byte list" where
  "origin_unwritten p = (case p of FromOrigin t \<Rightarrow> unwritten (Some t) | _ \<Rightarrow> [])"

lemma unwritten_phase [simp]:
  "edge_unwritten Selecting = []" "origin_unwritten Selecting = []"
  "edge_unwritten (FromEdge t) = unwritten (Some t)" "origin_unwritten (FromEdge t) = []"
  "edge_unwritten (FromOrigin t) = []" "origin_unwritten (FromOrigin t) = unwritten (Some t)"
  "edge_unwritten (next_phase FromEdge t') = unwritten t'" "origin_unwritten (next_phase FromEdge t') = []"
  "edge_unwritten (next_phase FromOrigin t') = []" "origin_unwritten (next_phase FromOrigin t') = unwritten t'"
  by (cases t'; simp add: edge_unwritten_def origin_unwritten_def next_phase_def)+

text \<open>A branch that writes has something to write and its direction is open; one that closes is done.\<close>

fun branch_ok :: "bool \<Rightarrow> transfer option \<Rightarrow> bool" where
  "branch_ok d None \<longleftrightarrow> True"
| "branch_ok d (Some (Writing data)) \<longleftrightarrow> data \<noteq> [] \<and> \<not> d"
| "branch_ok d (Some Closing) \<longleftrightarrow> d"

definition phase_ok :: "('e, 'o) pump_state \<Rightarrow> bool" where
  "phase_ok st \<longleftrightarrow>
     (case pump_phase st of
        Selecting \<Rightarrow> True
      | FromEdge t \<Rightarrow> branch_ok (edge_done st) (Some t)
      | FromOrigin t \<Rightarrow> branch_ok (origin_done st) (Some t))"

lemma branch_ok_read: "read_branch src s = Some (t, d, s') \<Longrightarrow> branch_ok d t"
  by (auto simp: read_branch_def split: option.splits sum.splits if_splits)

lemma branch_ok_transfer: "transfer_part dst t s = Some (t', d, s') \<Longrightarrow> branch_ok d t'"
  by (auto simp: transfer_part_def split: transfer.splits option.splits sum.splits if_splits)

lemma closing_is_done: "transfer_part dst t s = Some (t', d, s') \<Longrightarrow> unwritten (Some t) = [] \<Longrightarrow>
    branch_ok b (Some t) \<Longrightarrow> d"
  by (cases t) (auto simp: transfer_part_def)

lemma phase_ok_step: "pump_step edge origin st st' \<Longrightarrow> phase_ok st'"
  by (erule pump_step.cases)
     (auto simp: phase_ok_def next_phase_def split: option.split dest: branch_ok_read branch_ok_transfer)

text \<open>
  A pumped peer: reads deliver a prefix of what it will still send, a write appends what it
  accepted, and neither direction disturbs the other.
\<close>

locale pumped_peer =
  fixes peer :: "'s pump_peer"
    and sending :: "'s \<Rightarrow> byte list"
    and received :: "'s \<Rightarrow> byte list"
    and valid :: "'s \<Rightarrow> bool"
  assumes peer_reads: "valid s \<Longrightarrow> peer_read peer n s = Some (Inr data, s') \<Longrightarrow>
      sending s = data @ sending s' \<and> received s' = received s \<and> valid s'"
    and peer_read_end: "valid s \<Longrightarrow> 0 < n \<Longrightarrow> peer_read peer n s = Some (Inr [], s') \<Longrightarrow> sending s = []"
    and peer_read_fails: "valid s \<Longrightarrow> peer_read peer n s = Some (Inl e, s') \<Longrightarrow>
      received s' = received s \<and> valid s'"
    and peer_writes: "valid s \<Longrightarrow> peer_write peer data s = Some (Inr k, s') \<Longrightarrow>
      received s' = received s @ take k data \<and> sending s' = sending s \<and> valid s'"
    and peer_write_fails: "valid s \<Longrightarrow> peer_write peer data s = Some (Inl e, s') \<Longrightarrow>
      received s' = received s \<and> sending s' = sending s \<and> valid s'"
    and peer_closes: "valid s \<Longrightarrow> peer_close peer s = Some (r, s') \<Longrightarrow>
      received s' = received s \<and> sending s' = sending s \<and> valid s'"
begin

lemma read_branch_bytes:
  assumes "valid s" and "read_branch peer s = Some (t, d, s')"
  shows "valid s' \<and> received s' = received s \<and> (d \<longrightarrow> unwritten t = []) \<and>
    (\<not> d \<longrightarrow> sending s = unwritten t @ sending s')"
proof -
  from assms(2) obtain r s1 where read: "peer_read peer PUMP_BUFFER s = Some (r, s1)"
    by (auto simp: read_branch_def split: option.splits)
  show ?thesis
  proof (cases r)
    case (Inl e)
    with read assms peer_read_fails [OF assms(1) read [unfolded Inl]] show ?thesis
      by (auto simp: read_branch_def)
  next
    case (Inr data)
    with read assms peer_reads [OF assms(1) read [unfolded Inr]] show ?thesis
      by (auto simp: read_branch_def split: if_splits)
  qed
qed

lemma transfer_part_bytes:
  assumes "valid s" and "transfer_part peer t s = Some (t', d, s')"
  shows "valid s' \<and> sending s' = sending s \<and> (d \<longrightarrow> unwritten t' = []) \<and>
    (\<exists>k. received s' = received s @ take k (unwritten (Some t)) \<and>
       (\<not> d \<longrightarrow> unwritten (Some t) = take k (unwritten (Some t)) @ unwritten t'))"
proof (cases t)
  case Closing
  with assms peer_closes [OF assms(1)] show ?thesis by (auto simp: transfer_part_def)
next
  case (Writing data)
  with assms(2) obtain r s1 where w: "peer_write peer data s = Some (r, s1)"
    by (auto simp: transfer_part_def split: option.splits)
  show ?thesis
  proof (cases r)
    case (Inl e)
    with w assms Writing peer_write_fails [OF assms(1) w [unfolded Inl]] show ?thesis
      by (auto simp: transfer_part_def intro!: exI [of _ 0])
  next
    case (Inr n)
    with w assms Writing peer_writes [OF assms(1) w [unfolded Inr]] show ?thesis
      by (auto simp: transfer_part_def split: if_splits intro!: exI [of _ n])
  qed
qed

end

text \<open>
  One direction in terms of bytes: the destination receives a prefix of what the source sent,
  all of it as long as the direction is open, up to what is read and not yet written;
  whatever the source still sends is untouched.
\<close>

definition forwarded :: "byte list \<Rightarrow> byte list \<Rightarrow> byte list \<Rightarrow> byte list \<Rightarrow> bool \<Rightarrow> bool" where
  "forwarded sent0 got0 still got is_done \<longleftrightarrow>
     (\<exists>p q. sent0 = p @ q \<and> got = got0 @ p \<and> (\<not> is_done \<longrightarrow> q = still))"

lemma forwarded_start: "forwarded sent0 got0 sent0 got0 False"
  by (simp add: forwarded_def)

lemma forwarded_stop: "forwarded sent0 got0 still got d \<Longrightarrow> forwarded sent0 got0 still' got True"
  by (auto simp: forwarded_def)

lemma forwarded_more:
  assumes "forwarded sent0 got0 (data @ still) got False"
  shows "data = take k data @ rest \<Longrightarrow> forwarded sent0 got0 (rest @ still) (got @ take k data) False"
    and "forwarded sent0 got0 still' (got @ take k data) True"
proof -
  from assms obtain p where p: "sent0 = p @ data @ still" "got = got0 @ p"
    by (auto simp: forwarded_def)
  from p have "sent0 = (p @ take k data) @ (drop k data @ still)" by simp
  with p show "forwarded sent0 got0 still' (got @ take k data) True"
    unfolding forwarded_def by (intro exI [of _ "p @ take k data"] exI) auto
  show "forwarded sent0 got0 (rest @ still) (got @ take k data) False" if "data = take k data @ rest"
    using p that unfolding forwarded_def
    by (intro exI [of _ "p @ take k data"] exI [of _ "rest @ still"]) (metis append.assoc)
qed

text \<open>The same for the two halves of a branch.\<close>

lemma forwarded_read:
  assumes "pumped_peer src sending received valid" and "valid s"
    and "read_branch src s = Some (t, d, s')" and "forwarded sent0 got0 (sending s) got False"
  shows "forwarded sent0 got0 (unwritten t @ sending s') got d"
  using pumped_peer.read_branch_bytes [OF assms(1-3)] assms(4) forwarded_stop [OF assms(4)]
  by (cases d) auto

lemma forwarded_transfer:
  assumes "got' = got @ take k u" and "\<not> d \<longrightarrow> u = take k u @ rest"
    and "forwarded sent0 got0 (u @ still) got was_done"
    and "u \<noteq> [] \<longrightarrow> \<not> was_done" and "u = [] \<longrightarrow> d"
  shows "forwarded sent0 got0 (rest @ still) got' d"
proof (cases "u = []")
  case True
  with assms(1,5) forwarded_stop [OF assms(3)] show ?thesis by simp
next
  case False
  with assms(3,4) have o: "forwarded sent0 got0 (u @ still) got False" by simp
  with assms(1,2) forwarded_more [OF o] show ?thesis by (cases d) auto
qed

locale pump_session =
  edge: pumped_peer edge e_sending e_received e_valid
  + origin: pumped_peer origin o_sending o_received o_valid
  for edge :: "'e pump_peer" and e_sending e_received e_valid
    and origin :: "'o pump_peer" and o_sending o_received o_valid
begin

definition pump_inv :: "'e \<Rightarrow> 'o \<Rightarrow> ('e, 'o) pump_state \<Rightarrow> bool" where
  "pump_inv e0 o0 st \<longleftrightarrow>
     e_valid (pump_edge st) \<and> o_valid (pump_origin st) \<and> phase_ok st \<and>
     forwarded (e_sending e0) (o_received o0)
       (edge_unwritten (pump_phase st) @ e_sending (pump_edge st)) (o_received (pump_origin st))
       (edge_done st) \<and>
     forwarded (o_sending o0) (e_received e0)
       (origin_unwritten (pump_phase st) @ o_sending (pump_origin st)) (e_received (pump_edge st))
       (origin_done st)"

lemma pump_inv_step:
  assumes "pump_step edge origin st st'" and "pump_inv e0 o0 st"
  shows "pump_inv e0 o0 st'"
  using assms(1)
proof (cases rule: pump_step.cases)
  case (edge_read t d e)
  with assms(2) forwarded_read [OF edge.pumped_peer_axioms _ edge_read(4)]
    edge.read_branch_bytes [OF _ edge_read(4)] phase_ok_step [OF assms(1)]
  show ?thesis by (auto simp: pump_inv_def)
next
  case (edge_transfer t t' d oo)
  with assms(2) have ok: "branch_ok (edge_done st) (Some t)" by (simp add: pump_inv_def phase_ok_def)
  then have now: "unwritten (Some t) \<noteq> [] \<longrightarrow> \<not> edge_done st" "unwritten (Some t) = [] \<longrightarrow> d"
    using closing_is_done [OF edge_transfer(3)] by (cases t; auto)+
  from assms(2) have "o_valid (pump_origin st)" by (simp add: pump_inv_def)
  from origin.transfer_part_bytes [OF this edge_transfer(3)] obtain k where k:
    "o_received oo = o_received (pump_origin st) @ take k (unwritten (Some t))"
    "\<not> d \<longrightarrow> unwritten (Some t) = take k (unwritten (Some t)) @ unwritten t'"
    and "o_valid oo" "o_sending oo = o_sending (pump_origin st)" by blast
  with edge_transfer assms(2) forwarded_transfer [OF k _ now] phase_ok_step [OF assms(1)]
  show ?thesis by (auto simp: pump_inv_def)
next
  case (origin_read t d oo)
  with assms(2) forwarded_read [OF origin.pumped_peer_axioms _ origin_read(4)]
    origin.read_branch_bytes [OF _ origin_read(4)] phase_ok_step [OF assms(1)]
  show ?thesis by (auto simp: pump_inv_def)
next
  case (origin_transfer t t' d e)
  with assms(2) have ok: "branch_ok (origin_done st) (Some t)" by (simp add: pump_inv_def phase_ok_def)
  then have now: "unwritten (Some t) \<noteq> [] \<longrightarrow> \<not> origin_done st" "unwritten (Some t) = [] \<longrightarrow> d"
    using closing_is_done [OF origin_transfer(3)] by (cases t; auto)+
  from assms(2) have "e_valid (pump_edge st)" by (simp add: pump_inv_def)
  from edge.transfer_part_bytes [OF this origin_transfer(3)] obtain k where k:
    "e_received e = e_received (pump_edge st) @ take k (unwritten (Some t))"
    "\<not> d \<longrightarrow> unwritten (Some t) = take k (unwritten (Some t)) @ unwritten t'"
    and "e_valid e" "e_sending e = e_sending (pump_edge st)" by blast
  with origin_transfer assms(2) forwarded_transfer [OF k _ now] phase_ok_step [OF assms(1)]
  show ?thesis by (auto simp: pump_inv_def)
qed

lemma pump_run_inv:
  assumes "pump_run edge origin (pump_start e0 o0) st" and "e_valid e0" and "o_valid o0"
  shows "pump_inv e0 o0 st"
  using assms(1)
proof (induction "pump_start e0 o0" st rule: pump_run.induct)
  case run_start
  with assms(2,3) show ?case by (simp add: pump_inv_def pump_start_def phase_ok_def forwarded_start)
next
  case (run_step st1 st2)
  then show ?case by (blast intro: pump_inv_step)
qed

end

lemma read_branch_pending: "read_branch p s = None \<longleftrightarrow> peer_read p PUMP_BUFFER s = None"
  by (auto simp: read_branch_def split: option.splits sum.splits)

lemma not_Some_triple: "(\<And>a b c. x \<noteq> Some (a, b, c)) \<Longrightarrow> x = None"
  by (cases x) auto

text \<open>When the pump cannot go on and has not ended, it waits: for the read of every open direction
  between two branches, or inside a branch for its destination alone.\<close>

lemma pump_waits:
  assumes "\<And>st'. \<not> pump_step edge origin st st'" and "\<not> pump_finished st"
  shows "(case pump_phase st of
      Selecting \<Rightarrow> (edge_done st \<or> peer_read edge PUMP_BUFFER (pump_edge st) = None) \<and>
        (origin_done st \<or> peer_read origin PUMP_BUFFER (pump_origin st) = None)
    | FromEdge (Writing data) \<Rightarrow> peer_write origin data (pump_origin st) = None
    | FromEdge Closing \<Rightarrow> peer_close origin (pump_origin st) = None
    | FromOrigin (Writing data) \<Rightarrow> peer_write edge data (pump_edge st) = None
    | FromOrigin Closing \<Rightarrow> peer_close edge (pump_edge st) = None)"
proof -
  show ?thesis
  proof (cases "pump_phase st")
    case Selecting
    have "\<not> edge_done st \<longrightarrow> read_branch edge (pump_edge st) = None"
      by (intro impI not_Some_triple) (use assms(1) edge_read [OF Selecting] in blast)
    moreover have "\<not> origin_done st \<longrightarrow> read_branch origin (pump_origin st) = None"
      by (intro impI not_Some_triple) (use assms(1) origin_read [OF Selecting] in blast)
    ultimately show ?thesis using Selecting by (auto simp: read_branch_pending)
  next
    case (FromEdge t)
    have "transfer_part origin t (pump_origin st) = None"
      by (rule not_Some_triple) (use assms(1) edge_transfer [OF FromEdge] in blast)
    with FromEdge show ?thesis
      by (auto simp: transfer_part_def split: transfer.splits option.splits sum.splits if_splits)
  next
    case (FromOrigin t)
    have "transfer_part edge t (pump_edge st) = None"
      by (rule not_Some_triple) (use assms(1) origin_transfer [OF FromOrigin] in blast)
    with FromOrigin show ?thesis
      by (auto simp: transfer_part_def split: transfer.splits option.splits sum.splits if_splits)
  qed
qed

section \<open>The HTTP/2 peer\<close>

definition h2_peer :: "h2_bidirectional pump_peer" where
  "h2_peer = \<lparr>peer_read = bidi_sread, peer_write = bidi_swrite, peer_close = bidi_close\<rparr>"

lemma bidi_close_keeps:
  "bidi_close st = Some (r, st') \<Longrightarrow>
     sent (bidi_write st') = sent (bidi_write st) \<and> bidi_read st' = bidi_read st"
  by (auto simp: bidi_close_def writer_close_def send_data_def split: option.splits if_splits)

interpretation h2_pumped: pumped_peer h2_peer "\<lambda>st. reader_rest (bidi_read st)"
  "\<lambda>st. sent (bidi_write st)" "\<lambda>st. reader_good (bidi_read st)"
proof (unfold_locales, goal_cases)
  case (1 s n data s')
  with h2_bidi.sread_prefix [of s n data s'] h2_bidi.sread_written [of s n "Inr data" s'] show ?case
    by (simp add: h2_peer_def)
next
  case (2 s n s')
  with h2_bidi.sread_end [of s n s'] show ?case by (simp add: h2_peer_def)
next
  case (3 s n e s')
  then have "reader_read n (bidi_read s) = Some (Inl e, bidi_read s')"
    by (auto simp: h2_peer_def bidi_sread_def)
  with reader_read_contract [OF 3(1)] show ?case by blast
next
  case (4 s data k s')
  with h2_bidi.swrite_append [of s data k s'] h2_bidi.swrite_rest [of s data "Inr k" s'] show ?case
    by (simp add: h2_peer_def)
next
  case (5 s data e s')
  with h2_bidi.swrite_fail [of s data e s'] h2_bidi.swrite_rest [of s data "Inl e" s'] show ?case
    by (simp add: h2_peer_def)
next
  case (6 s r s')
  with bidi_close_keeps [of s r s'] show ?case by (simp add: h2_peer_def)
qed

text \<open>C18. While a websocket or TCP stream is pumped over HTTP/2, in every interleaving of the two
  directions and at every moment, the origin has received a prefix of the edge's bytes and the
  edge a prefix of the origin's: nothing is lost in the middle, duplicated or reordered. What a
  direction that is still open has not forwarded is what it has just read and is writing, and
  what its source has yet to send.\<close>

theorem pump_forwards_in_order:
  assumes "pumped_peer origin sending received valid" and "valid o0" and "no_error events"
    and "pump_run h2_peer origin (pump_start (bidi_new (reader_new events quiet) out) o0) st"
  shows "(\<exists>p q. events_data events = p @ q \<and> received (pump_origin st) = received o0 @ p \<and>
      (\<not> edge_done st \<longrightarrow> q = edge_unwritten (pump_phase st) @ reader_rest (bidi_read (pump_edge st)))) \<and>
    (\<exists>p q. sending o0 = p @ q \<and> sent (bidi_write (pump_edge st)) = sent out @ p \<and>
      (\<not> origin_done st \<longrightarrow> q = origin_unwritten (pump_phase st) @ sending (pump_origin st)))"
proof -
  let ?e = "bidi_new (reader_new events quiet) out"
  have session: "pump_session h2_peer (\<lambda>st. reader_rest (bidi_read st)) (\<lambda>st. sent (bidi_write st))
      (\<lambda>st. reader_good (bidi_read st)) origin sending received valid"
    using assms(1) h2_pumped.pumped_peer_axioms
    by (simp add: pump_session_def)
  have "reader_good (bidi_read ?e)" using assms(3) by (simp add: bidi_new_def)
  from pump_session.pump_run_inv [OF session assms(4) this assms(2)] show ?thesis
    by (simp add: pump_session.pump_inv_def [OF session] forwarded_def bidi_new_def)
qed

text \<open>A peer with its bytes in memory.\<close>

definition memory_peer :: "(byte list \<times> byte list) pump_peer" where
  "memory_peer =
     \<lparr>peer_read = (\<lambda>n (s, r). Some (Inr (take n s), (drop n s, r))),
      peer_write = (\<lambda>data (s, r). Some (Inr (length data), (s, r @ data))),
      peer_close = (\<lambda>s. Some (Inr (), s))\<rparr>"

lemma memory_pumped: "pumped_peer memory_peer fst snd (\<lambda>_. True)"
  by unfold_locales (auto simp: memory_peer_def split: prod.splits)

definition demo_h2 :: "byte list \<Rightarrow> h2_bidirectional" where
  "demo_h2 written = bidi_new (reader_new [RData [1, 2], REnd] quiet)
     (writer_new (9 - length written) [] quiet\<lparr>sent := written\<rparr>)"

lemma demo_pump_run:
  "pump_run h2_peer memory_peer
     (pump_start (bidi_new (reader_new [RData [1, 2], REnd] quiet) (writer_new 9 [] quiet)) ([7], []))
     (pump_start (demo_h2 [7]) ([], []))"
proof (intro pump_run.run_step [OF pump_run.run_step, OF pump_run.run_start])
  let ?st = "pump_start (demo_h2 []) ([], [])\<lparr>pump_phase := FromOrigin (Writing [7])\<rparr>"
  show "pump_step h2_peer memory_peer (pump_start (bidi_new (reader_new [RData [1, 2], REnd] quiet)
      (writer_new 9 [] quiet)) ([7], [])) ?st"
    by (rule origin_read [where t = "Some (Writing [7])" and d = False and oo = "([], [])", THEN back_subst [where P = "pump_step h2_peer memory_peer _"]])
       (simp_all add: pump_start_def read_branch_def memory_peer_def PUMP_BUFFER_def demo_h2_def
          next_phase_def writer_new_def)
  show "pump_step h2_peer memory_peer ?st (pump_start (demo_h2 [7]) ([], []))"
    by (rule origin_transfer [where t = "Writing [7]" and t' = None and d = False and e = "demo_h2 [7]",
        THEN back_subst [where P = "pump_step h2_peer memory_peer _"]])
       (simp_all add: pump_start_def transfer_part_def h2_peer_def bidi_swrite_def demo_h2_def
          bidi_new_def writer_write.simps writer_poll_def writer_send_def send_data_def writer_new_def
          quiet_def next_phase_def Let_def)
qed

theorem pump_forwards_in_order_witness:
  "let st = pump_start (demo_h2 [7]) ([] :: byte list, [] :: byte list) in
   (\<exists>p q. events_data [RData [1, 2], REnd] = p @ q \<and> snd (pump_origin st) = snd ([7 :: byte], []) @ p \<and>
      (\<not> edge_done st \<longrightarrow> q = edge_unwritten (pump_phase st) @ reader_rest (bidi_read (pump_edge st)))) \<and>
   (\<exists>p q. fst ([7 :: byte], [] :: byte list) = p @ q \<and>
      sent (bidi_write (pump_edge st)) = sent (writer_new 9 [] quiet) @ p \<and>
      (\<not> origin_done st \<longrightarrow> q = origin_unwritten (pump_phase st) @ fst (pump_origin st)))"
  unfolding Let_def
  by (rule pump_forwards_in_order [OF memory_pumped TrueI _ demo_pump_run]) simp

end
