(* ===== verification/Cloudflared.thy ===== *)
theory Cloudflared
  imports Rpc H2_Stream
begin

text \<open>
  The RPC server of the connector, \<open>rpc/src/cloudflared.rs\<close>: classification of a call by its
  interface and method, the reply to each message, and the loop that serves an edge-initiated
  stream until it ends. The handler is the trait \<open>CloudflaredHandler\<close>; its \<open>&self\<close> methods
  may change state behind it, which is passed explicitly.
\<close>

section \<open>Interfaces\<close>

definition CLOUDFLARED_SERVER_INTERFACE_ID :: u64 where
  "CLOUDFLARED_SERVER_INTERFACE_ID = 0xf548cef9dea2a4a1"
definition SESSION_MANAGER_INTERFACE_ID :: u64 where
  "SESSION_MANAGER_INTERFACE_ID = 0x839445a59fb01686"
definition CONFIGURATION_MANAGER_INTERFACE_ID :: u64 where
  "CONFIGURATION_MANAGER_INTERFACE_ID = 0xb48edfbdaa25db04"

record update_configuration_response =
  latest_applied_version :: i32
  update_error :: string

record register_udp_session_response =
  udp_error :: string
  udp_spans :: "byte list"

record 'h cloudflared_handler =
  update_configuration :: "i32 \<Rightarrow> byte list \<Rightarrow> 'h \<Rightarrow> update_configuration_response \<times> 'h"
  register_udp_session ::
    "byte list \<Rightarrow> byte list \<Rightarrow> u16 \<Rightarrow> 'h \<Rightarrow> register_udp_session_response \<times> 'h"
  unregister_udp_session :: "byte list \<Rightarrow> string \<Rightarrow> 'h \<Rightarrow> 'h"

text \<open>The default methods of the trait.\<close>

definition default_register_udp_session ::
  "byte list \<Rightarrow> byte list \<Rightarrow> u16 \<Rightarrow> 'h \<Rightarrow> register_udp_session_response \<times> 'h" where
  "default_register_udp_session session destination_ip destination_port h =
     (\<lparr>udp_error = ''UDP sessions are not supported'', udp_spans = []\<rparr>, h)"

definition default_unregister_udp_session :: "byte list \<Rightarrow> string \<Rightarrow> 'h \<Rightarrow> 'h" where
  "default_unregister_udp_session session message h = h"

datatype cloudflared_method =
  UpdateConfiguration | RegisterUdpSession | UnregisterUdpSession | UnknownMethod

definition classify_method :: "u64 \<Rightarrow> u16 \<Rightarrow> cloudflared_method" where
  "classify_method iface m =
     (if iface = CONFIGURATION_MANAGER_INTERFACE_ID \<and> m = 0 \<or>
         iface = CLOUDFLARED_SERVER_INTERFACE_ID \<and> m = 2
      then UpdateConfiguration
      else if iface = SESSION_MANAGER_INTERFACE_ID \<and> m = 0 \<or>
              iface = CLOUDFLARED_SERVER_INTERFACE_ID \<and> m = 0
      then RegisterUdpSession
      else if iface = SESSION_MANAGER_INTERFACE_ID \<and> m = 1 \<or>
              iface = CLOUDFLARED_SERVER_INTERFACE_ID \<and> m = 1
      then UnregisterUdpSession
      else UnknownMethod)"

definition session_identifier_bytes :: "byte list \<Rightarrow> byte list" where
  "session_identifier_bytes data =
     (let n = min (length data) 16 in take n data @ replicate (16 - n) 0)"

section \<open>Replies\<close>

record 'p server_codec = "'p rpc_codec" +
  update_configuration_params :: "'p \<Rightarrow> rpc_error + i32 \<times> byte list"
  register_udp_session_params :: "'p \<Rightarrow> rpc_error + byte list \<times> byte list \<times> u16"
  update_configuration_results :: "update_configuration_response \<Rightarrow> 'p"
  register_udp_session_results :: "register_udp_session_response \<Rightarrow> 'p"
  unregister_udp_session_results :: 'p

definition build_bootstrap_return :: "'p server_codec \<Rightarrow> u32 \<Rightarrow> byte list" where
  "build_bootstrap_return codec question = serialize codec (OBootstrapReturn question)"

definition build_update_configuration_return ::
  "'p server_codec \<Rightarrow> u32 \<Rightarrow> update_configuration_response \<Rightarrow> byte list" where
  "build_update_configuration_return codec question response =
     serialize codec (OResults question (update_configuration_results codec response))"

definition build_register_udp_session_return ::
  "'p server_codec \<Rightarrow> u32 \<Rightarrow> register_udp_session_response \<Rightarrow> byte list" where
  "build_register_udp_session_return codec question response =
     serialize codec (OResults question (register_udp_session_results codec response))"

definition build_unregister_udp_session_return :: "'p server_codec \<Rightarrow> u32 \<Rightarrow> byte list" where
  "build_unregister_udp_session_return codec question =
     serialize codec (OResults question (unregister_udp_session_results codec))"

definition answer_call ::
  "'p server_codec \<Rightarrow> 'h cloudflared_handler \<Rightarrow> 'p call_view \<Rightarrow> 'h
     \<Rightarrow> (rpc_error + byte list) \<times> 'h" where
  "answer_call codec handler call h =
     (let question = call_question call in
      case classify_method (call_interface call) (call_method call) of
        UpdateConfiguration \<Rightarrow>
          (case bind_result (call_params call) (update_configuration_params codec) of
             Inl e \<Rightarrow> (Inl e, h)
           | Inr (version, config) \<Rightarrow>
               (case update_configuration handler version config h of (response, h) \<Rightarrow>
                  (Inr (build_update_configuration_return codec question response), h)))
      | RegisterUdpSession \<Rightarrow>
          (case bind_result (call_params call) (register_udp_session_params codec) of
             Inl e \<Rightarrow> (Inl e, h)
           | Inr (session, destination_ip, destination_port) \<Rightarrow>
               (case register_udp_session handler (session_identifier_bytes session)
                       destination_ip destination_port h of (response, h) \<Rightarrow>
                  (Inr (build_register_udp_session_return codec question response), h)))
      | UnregisterUdpSession \<Rightarrow> (Inr (build_unregister_udp_session_return codec question), h)
      | UnknownMethod \<Rightarrow> (Inr (serialize codec (OException question ''unimplemented'')), h))"

definition reply_to ::
  "'p server_codec \<Rightarrow> 'h cloudflared_handler \<Rightarrow> byte list list \<Rightarrow> 'h
     \<Rightarrow> (rpc_error + byte list option) \<times> 'h" where
  "reply_to codec handler segments h =
     (case get_root codec segments of
        Inl e \<Rightarrow> (Inl e, h)
      | Inr (VBootstrap b) \<Rightarrow>
          (bind_result b (\<lambda>question. Inr (Some (build_bootstrap_return codec question))), h)
      | Inr (VCall c) \<Rightarrow>
          (case c of
             Inl e \<Rightarrow> (Inl e, h)
           | Inr call \<Rightarrow>
               (case answer_call codec handler call h of
                  (r, h) \<Rightarrow> (bind_result r (\<lambda>bytes. Inr (Some bytes)), h)))
      | Inr _ \<Rightarrow> (Inr None, h))"

section \<open>The loop\<close>

text \<open>One iteration: \<open>True\<close> goes round again, \<open>False\<close> is the end of the stream.\<close>

definition serve_step ::
  "'p server_codec \<Rightarrow> 'h cloudflared_handler \<Rightarrow> 's reader \<Rightarrow> 's writer \<Rightarrow> 's \<Rightarrow> 'h
     \<Rightarrow> ((rpc_error + bool) \<times> 's \<times> 'h) option" where
  "serve_step codec handler rd wr s h =
     (case read_message rd s of
        None \<Rightarrow> None
      | Some (Inl Eof, s) \<Rightarrow> Some (Inr False, s, h)
      | Some (Inl e, s) \<Rightarrow> Some (Inl e, s, h)
      | Some (Inr segments, s) \<Rightarrow>
          (case reply_to codec handler segments h of
             (Inl e, h) \<Rightarrow> Some (Inl e, s, h)
           | (Inr None, h) \<Rightarrow> Some (Inr True, s, h)
           | (Inr (Some bytes), h) \<Rightarrow>
               (case write_raw wr bytes s of
                  None \<Rightarrow> None
                | Some (Inl e, s) \<Rightarrow> Some (Inl e, s, h)
                | Some (Inr _, s) \<Rightarrow> Some (Inr True, s, h))))"

partial_function (option) serve_cloudflared ::
  "'p server_codec \<Rightarrow> 'h cloudflared_handler \<Rightarrow> 's reader \<Rightarrow> 's writer \<Rightarrow> 's \<Rightarrow> 'h
     \<Rightarrow> ((rpc_error + unit) \<times> 's \<times> 'h) option" where
  "serve_cloudflared codec handler rd wr s h =
     (case serve_step codec handler rd wr s h of
        None \<Rightarrow> None
      | Some (Inl e, s, h) \<Rightarrow> Some (Inl e, s, h)
      | Some (Inr go, s, h) \<Rightarrow>
          if go then serve_cloudflared codec handler rd wr s h else Some (Inr (), s, h))"

declare serve_cloudflared.simps [code]

section \<open>What the server replies\<close>

lemma length_session_identifier_bytes [simp]: "length (session_identifier_bytes data) = 16"
  by (simp add: session_identifier_bytes_def Let_def)

lemma interface_ids_distinct:
  "CLOUDFLARED_SERVER_INTERFACE_ID \<noteq> SESSION_MANAGER_INTERFACE_ID"
  "CLOUDFLARED_SERVER_INTERFACE_ID \<noteq> CONFIGURATION_MANAGER_INTERFACE_ID"
  "SESSION_MANAGER_INTERFACE_ID \<noteq> CONFIGURATION_MANAGER_INTERFACE_ID"
  by (simp_all add: CLOUDFLARED_SERVER_INTERFACE_ID_def SESSION_MANAGER_INTERFACE_ID_def
      CONFIGURATION_MANAGER_INTERFACE_ID_def)

text \<open>The abstract server: the replies to a list of messages, and the handler after them.\<close>

fun replies ::
  "'p server_codec \<Rightarrow> 'h cloudflared_handler \<Rightarrow> byte list list list \<Rightarrow> 'h
     \<Rightarrow> (rpc_error + byte list) \<times> 'h" where
  "replies codec handler [] h = (Inr [], h)"
| "replies codec handler (m # ms) h =
     (case reply_to codec handler m h of
        (Inl e, h) \<Rightarrow> (Inl e, h)
      | (Inr reply, h) \<Rightarrow>
          (case replies codec handler ms h of
             (Inl e, h) \<Rightarrow> (Inl e, h)
           | (Inr bytes, h) \<Rightarrow> (Inr ((case reply of Some b \<Rightarrow> b | None \<Rightarrow> []) @ bytes), h)))"

context byte_stream
begin

lemma read_message_at_end:
  assumes "good s" and "rest s = []" and "read_message rd s = Some (Inr segments, s')"
  shows False
proof -
  from assms(3) obtain header s1 where "read_exact rd 8 s = Some (Inr header, s1)"
    by (auto simp: read_message_def bind_io_eq_Inr_iff)
  with read_exact_take [OF assms(1) this] assms(2) show False by simp
qed

text \<open>
  If the stream carries framed messages and the server returns normally, then it has answered
  each of them in turn: what it wrote is the concatenation of the replies.
\<close>

lemma serve_cloudflared_replies:
  assumes "good s" and "rest s = concat (map frame ms)" and "\<forall>m \<in> set ms. segments_wf m"
    and "serve_cloudflared codec handler rd wr s h = Some (Inr (), s', h')"
  shows "\<exists>bytes. replies codec handler ms h = (Inr bytes, h') \<and> written s' = written s @ bytes"
  using assms
proof (induction ms arbitrary: s h)
  case Nil
  have no_message: "read_message rd s \<noteq> Some (Inr segs, s1)" for segs s1
    using read_message_at_end Nil.prems(1,2) by fastforce
  then have "read_message rd s = Some (Inl Eof, s') \<and> h' = h"
    using Nil.prems(4)
    by (subst (asm) serve_cloudflared.simps)
       (auto simp: serve_step_def split: option.splits prod.splits sum.splits rpc_error.splits)
  with read_message_written [OF Nil.prems(1)] show ?case by simp
next
  case (Cons m ms)
  obtain s1 where read: "read_message rd s = Some (Inr m, s1)"
    and s1: "rest s1 = concat (map frame ms)" "good s1"
    using read_message_frame [OF Cons.prems(1), of m "concat (map frame ms)"] Cons.prems(2,3) by auto
  have w1: "written s1 = written s" by (rule read_message_written [OF Cons.prems(1) read])
  obtain r h1 where reply: "reply_to codec handler m h = (r, h1)" by fastforce
  show ?case
  proof (cases r)
    case (Inl e)
    with Cons.prems(4) read reply show ?thesis
      by (subst (asm) serve_cloudflared.simps) (simp add: serve_step_def)
  next
    case (Inr reply')
    show ?thesis
    proof (cases reply')
      case None
      with Cons.prems(4) read reply Inr
      have "serve_cloudflared codec handler rd wr s1 h1 = Some (Inr (), s', h')"
        by (subst (asm) serve_cloudflared.simps) (simp add: serve_step_def)
      from Cons.IH [OF s1(2,1) _ this] Cons.prems(3) show ?thesis
        using reply Inr None w1 by auto
    next
      case (Some b)
      with Cons.prems(4) read reply Inr obtain s2 where
        w: "write_raw wr b s1 = Some (Inr (), s2)"
        and run: "serve_cloudflared codec handler rd wr s2 h1 = Some (Inr (), s', h')"
        by (subst (asm) serve_cloudflared.simps)
           (auto simp: serve_step_def split: option.splits prod.splits sum.splits)
      from write_raw_ok [OF s1(2) w] have
        s2: "good s2" "written s2 = written s1 @ b" "rest s2 = rest s1" by auto
      from Cons.IH [OF s2(1) _ _ run] Cons.prems(3) s1 s2(3) obtain bytes where
        "replies codec handler ms h1 = (Inr bytes, h')" "written s' = written s2 @ bytes" by auto
      then show ?thesis using reply Inr Some w1 s2 by auto
    qed
  qed
qed

end

end
