(* ===== verification/Configuration.thy ===== *)
theory Configuration
  imports Cloudflared
begin

text \<open>
  Remotely managed configuration, \<open>src/edge/configuration.rs\<close>: the parser of a push and the
  handler both transports share. The JSON reader of \<open>serde_json\<close> is a parameter that gives the
  ingress rules of a document (a missing field is the empty string) or its error text. The
  consumer's callback changes a state of type \<open>'c\<close>.
\<close>

section \<open>Parsing a push\<close>

record ingress_rule =
  rule_hostname :: string
  rule_service :: string

record remote_configuration =
  remote_version :: i32
  remote_hostnames :: "string list"
  remote_services :: "string list"

type_synonym ingress_parser = "byte list \<Rightarrow> string + ingress_rule list"

fun push_rules :: "ingress_rule list \<Rightarrow> string list \<times> string list \<Rightarrow> string list \<times> string list" where
  "push_rules [] acc = acc"
| "push_rules (rule # rules) (hostnames, services) =
     (if rule_hostname rule \<noteq> []
      then push_rules rules (hostnames @ [rule_hostname rule], services @ [rule_service rule])
      else push_rules rules (hostnames, services))"

definition parse_remote_configuration ::
  "ingress_parser \<Rightarrow> i32 \<Rightarrow> byte list \<Rightarrow> string + remote_configuration" where
  "parse_remote_configuration json version configuration =
     bind_result (map_err (\<lambda>e. ''config is not valid JSON: '' @ e) (json configuration)) (\<lambda>parsed.
       case push_rules parsed ([], []) of (hostnames, services) \<Rightarrow>
         Inr \<lparr>remote_version = version, remote_hostnames = hostnames, remote_services = services\<rparr>)"

section \<open>The handler\<close>

record 'c edge_configuration_handler =
  on_configuration :: "(remote_configuration \<Rightarrow> 'c \<Rightarrow> 'c) option"
  applied :: i32
  consumer :: 'c

definition edge_configuration_handler_new ::
  "(remote_configuration \<Rightarrow> 'c \<Rightarrow> 'c) option \<Rightarrow> 'c \<Rightarrow> 'c edge_configuration_handler" where
  "edge_configuration_handler_new callback c =
     \<lparr>on_configuration = callback, applied = - 1, consumer = c\<rparr>"

definition apply_configuration ::
  "ingress_parser \<Rightarrow> i32 \<Rightarrow> byte list \<Rightarrow> 'c edge_configuration_handler
     \<Rightarrow> update_configuration_response \<times> 'c edge_configuration_handler" where
  "apply_configuration json version configuration h =
     (case parse_remote_configuration json version configuration of
        Inr remote \<Rightarrow>
          let h = h\<lparr>applied := version\<rparr>;
              h = (case on_configuration h of
                     Some callback \<Rightarrow> h\<lparr>consumer := callback remote (consumer h)\<rparr>
                   | None \<Rightarrow> h) in
          (\<lparr>latest_applied_version = version, update_error = []\<rparr>, h)
      | Inl e \<Rightarrow> (\<lparr>latest_applied_version = applied h, update_error = e\<rparr>, h))"

definition edge_handler :: "ingress_parser \<Rightarrow> 'c edge_configuration_handler cloudflared_handler" where
  "edge_handler json =
     \<lparr>update_configuration = apply_configuration json,
      register_udp_session = default_register_udp_session,
      unregister_udp_session = default_unregister_udp_session\<rparr>"

section \<open>What a push does\<close>

lemma push_rules_filter:
  "push_rules rules (hs, ss) =
     (hs @ map rule_hostname (filter (\<lambda>r. rule_hostname r \<noteq> []) rules),
      ss @ map rule_service (filter (\<lambda>r. rule_hostname r \<noteq> []) rules))"
  by (induction rules arbitrary: hs ss) simp_all

lemma parse_remote_configuration_ok_iff:
  "parse_remote_configuration json version configuration = Inr remote \<longleftrightarrow>
     (\<exists>rules. json configuration = Inr rules \<and>
        remote = \<lparr>remote_version = version,
          remote_hostnames = map rule_hostname (filter (\<lambda>r. rule_hostname r \<noteq> []) rules),
          remote_services = map rule_service (filter (\<lambda>r. rule_hostname r \<noteq> []) rules)\<rparr>)"
  by (auto simp: parse_remote_configuration_def push_rules_filter bind_result_eq_Inr_iff)

text \<open>The configuration handed to the consumer lists exactly the rules with a hostname, in
  the order of the push, each hostname with its own service; no hostname is empty.\<close>

lemma remote_configuration_rules:
  assumes "parse_remote_configuration json version configuration = Inr remote"
  shows "remote_version remote = version \<and>
    length (remote_hostnames remote) = length (remote_services remote) \<and>
    [] \<notin> set (remote_hostnames remote) \<and>
    (\<exists>rules. json configuration = Inr rules \<and>
       zip (remote_hostnames remote) (remote_services remote)
         = [(rule_hostname r, rule_service r). r \<leftarrow> rules, rule_hostname r \<noteq> []])"
proof -
  have pairs: "zip (map rule_hostname rs) (map rule_service rs) = map (\<lambda>r. (rule_hostname r, rule_service r)) rs"
    for rs by (induction rs) simp_all
  have comp: "[(rule_hostname r, rule_service r). r \<leftarrow> rules, rule_hostname r \<noteq> []]
      = map (\<lambda>r. (rule_hostname r, rule_service r)) (filter (\<lambda>r. rule_hostname r \<noteq> []) rules)" for rules
    by (induction rules) simp_all
  show ?thesis
    using assms by (auto simp: parse_remote_configuration_ok_iff pairs comp)
qed

section \<open>Sequences of pushes\<close>

text \<open>The pushes of a connection, in the order they arrive, with the replies they get.\<close>

fun push_all ::
  "ingress_parser \<Rightarrow> (i32 \<times> byte list) list \<Rightarrow> 'c edge_configuration_handler
     \<Rightarrow> update_configuration_response list \<times> 'c edge_configuration_handler" where
  "push_all json [] h = ([], h)"
| "push_all json ((version, configuration) # pushes) h =
     (case update_configuration (edge_handler json) version configuration h of
        (response, h) \<Rightarrow>
          (case push_all json pushes h of (responses, h) \<Rightarrow> (response # responses, h)))"

text \<open>The abstract handler: the configurations accepted so far.\<close>

fun accepted_pushes :: "ingress_parser \<Rightarrow> (i32 \<times> byte list) list \<Rightarrow> remote_configuration list" where
  "accepted_pushes json [] = []"
| "accepted_pushes json ((v, c) # pushes) =
     (case parse_remote_configuration json v c of Inr remote \<Rightarrow> [remote] | Inl _ \<Rightarrow> [])
     @ accepted_pushes json pushes"

lemma snd_push_all_Cons [simp]:
  "snd (push_all json ((v, c) # pushes) h)
     = snd (push_all json pushes (snd (update_configuration (edge_handler json) v c h)))"
  by (simp split: prod.split)

lemma apply_configuration_cases:
  "apply_configuration json v c h =
     (case parse_remote_configuration json v c of
        Inr remote \<Rightarrow>
          (\<lparr>latest_applied_version = v, update_error = []\<rparr>,
           h\<lparr>applied := v,
             consumer := (case on_configuration h of Some f \<Rightarrow> f remote (consumer h) | None \<Rightarrow> consumer h)\<rparr>)
      | Inl e \<Rightarrow> (\<lparr>latest_applied_version = applied h, update_error = e\<rparr>, h))"
  by (simp add: apply_configuration_def Let_def split: sum.split option.split)

lemma push_all_handler:
  "snd (push_all json pushes h) =
     h\<lparr>applied := (case rev (accepted_pushes json pushes) of [] \<Rightarrow> applied h | r # _ \<Rightarrow> remote_version r),
       consumer := (case on_configuration h of
          Some f \<Rightarrow> fold f (accepted_pushes json pushes) (consumer h) | None \<Rightarrow> consumer h)\<rparr>"
proof (induction pushes arbitrary: h)
  case (Cons push pushes)
  obtain v c where push: "push = (v, c)" by fastforce
  show ?case
  proof (cases "parse_remote_configuration json v c")
    case (Inl e)
    then show ?thesis
      by (simp add: push edge_handler_def apply_configuration_cases
          Cons.IH [unfolded edge_handler_def] del: push_all.simps split: option.split)
  next
    case (Inr remote)
    then have version: "remote_version remote = v"
      by (auto simp: parse_remote_configuration_ok_iff)
    show ?thesis
      using Inr version
      by (auto simp: push edge_handler_def apply_configuration_cases Cons.IH [unfolded edge_handler_def]
          simp del: push_all.simps split: list.split option.split)
  qed
qed (simp split: option.split)

text \<open>C34. Whatever the edge pushes, the consumer sees every configuration that parses exactly
  once and in order, and nothing else; the handler remembers the version of the last one
  (\<open>-1\<close> before the first), and a push that does not parse is answered with that version and the
  parser's error while the handler stays as it was.\<close>

theorem configuration_pushes:
  fixes json :: ingress_parser and c :: 'c
  defines "h \<equiv> \<lambda>pushes callback. snd (push_all json pushes (edge_configuration_handler_new callback c))"
  shows "applied (h pushes callback) =
      (case rev (accepted_pushes json pushes) of [] \<Rightarrow> - 1 | r # _ \<Rightarrow> remote_version r) \<and>
    consumer (h pushes (Some f)) = fold f (accepted_pushes json pushes) c \<and>
    consumer (h pushes None) = c \<and>
    (parse_remote_configuration json version configuration = Inl e \<longrightarrow>
       update_configuration (edge_handler json) version configuration (h pushes callback)
         = (\<lparr>latest_applied_version = applied (h pushes callback), update_error = e\<rparr>, h pushes callback))"
  unfolding h_def push_all_handler
  by (auto simp: edge_configuration_handler_new_def edge_handler_def apply_configuration_cases
      split: option.split list.split)

theorem configuration_pushes_witness:
  "let json = (\<lambda>bytes. if bytes = [] then Inl ''eof'' else Inr [\<lparr>rule_hostname = ''h'', rule_service = ''s''\<rparr>]);
       r = \<lparr>remote_version = 3, remote_hostnames = [''h''], remote_services = [''s'']\<rparr>;
       h = snd (push_all json [(3, [1]), (4, [])] (edge_configuration_handler_new (Some (\<lambda>r rs. rs @ [r])) []))
   in applied h = 3 \<and> consumer h = [r] \<and>
      update_configuration (edge_handler json) 5 [] h
        = (\<lparr>latest_applied_version = 3, update_error = ''config is not valid JSON: eof''\<rparr>, h)"
proof -
  let ?json = "\<lambda>bytes :: byte list. if bytes = [] then Inl ''eof''
      else Inr [\<lparr>rule_hostname = ''h'', rule_service = ''s''\<rparr>]"
  have accepted: "accepted_pushes ?json [(3, [1]), (4, [])]
      = [\<lparr>remote_version = 3, remote_hostnames = [''h''], remote_services = [''s'']\<rparr>]"
    by (simp add: parse_remote_configuration_def)
  show ?thesis
    using configuration_pushes [where json = ?json and c = "[]" and pushes = "[(3, [1]), (4, [])]"
        and callback = "Some (\<lambda>r rs. rs @ [r])" and f = "\<lambda>r rs. rs @ [r]" and version = 5
        and configuration = "[]" and e = "''config is not valid JSON: eof''"]
    unfolding accepted by (simp add: Let_def parse_remote_configuration_def)
qed

end
