(* ===== verification/H2_Streams.thy ===== *)
theory H2_Streams
  imports H2_Headers Pump Configuration
begin

text \<open>
  Request streams of the HTTP/2 transport, \<open>src/edge/h2/streams.rs\<close>: the handlers for HTTP,
  websocket, TCP and configuration streams. The state of a stream is its exchange (response
  heads sent, request body, response body), the world the origin handlers act on and the
  shared configuration handler. Crate operations the handlers call are in \<open>h2_env\<close>.
\<close>

section \<open>The exchange\<close>

text \<open>\<open>head_error\<close> is what \<open>SendResponse::send_response\<close> fails with, if it does.\<close>

record 'h h2_exchange =
  heads :: "(u16 \<times> 'h \<times> bool) list"
  head_error :: "string option"
  exchange_body :: receive_stream_reader
  exchange_send :: send_stream_writer

record ('h, 'w, 'c) h2_stream_state =
  exchange :: "'h h2_exchange"
  world :: 'w
  configuration_handler :: "'c edge_configuration_handler"

record ('m, 'u, 'h) h2_request =
  hq_method :: 'm
  hq_uri :: 'u
  hq_headers :: 'h

text \<open>
  \<open>env_copy\<close> is \<open>futures_util::io::copy\<close> into the response body, \<open>env_read_to_end\<close> is
  \<open>read_to_end\<close> of the request body, \<open>env_pump\<close> the outcome of the pump on the streams,
  \<open>env_body\<close> makes a request body of the stream's reader. The JSON operations are those of
  \<open>serde_json\<close>.
\<close>

record ('m, 'u, 'v, 'h, 'r, 'io, 'j) h2_env =
  env_http :: "('m, 'u, 'v, 'h) http_crate"
  env_b64 :: base64_codec
  env_sha1_base64 :: "byte list \<Rightarrow> string"
  env_body :: "receive_stream_reader \<Rightarrow> 'r"
  env_copy :: "'r body \<Rightarrow> send_stream_writer \<Rightarrow> ((io_error + unit) \<times> send_stream_writer) option"
  env_read_to_end :: "receive_stream_reader \<Rightarrow> ((io_error + byte list) \<times> receive_stream_reader) option"
  env_pump :: "'io origin_stream \<Rightarrow> receive_stream_reader \<times> send_stream_writer
     \<Rightarrow> (receive_stream_reader \<times> send_stream_writer) option"
  env_update_json :: "byte list \<Rightarrow> string + i32 \<times> 'j"
  env_json_to_vec :: "'j \<Rightarrow> string + byte list"
  env_reply_json :: "i32 \<Rightarrow> string \<Rightarrow> string + string"
  env_ingress :: ingress_parser

type_synonym ('h, 'w, 'c) h2_handler = "(('h, 'w, 'c) h2_stream_state, error fault, unit) io"

definition send_response ::
  "u16 \<Rightarrow> 'h \<Rightarrow> bool \<Rightarrow> (('h, 'w, 'c) h2_stream_state, string, unit) io" where
  "send_response status headers end_of_stream st =
     (case head_error (exchange st) of
        Some e \<Rightarrow> Some (Inl e, st)
      | None \<Rightarrow> Some (Inr (),
          st\<lparr>exchange := exchange st\<lparr>heads := heads (exchange st) @ [(status, headers, end_of_stream)]\<rparr>\<rparr>))"

definition on_send ::
  "(send_stream_writer \<Rightarrow> ((io_error + 'a) \<times> send_stream_writer) option)
     \<Rightarrow> (('h, 'w, 'c) h2_stream_state, error fault, 'a) io" where
  "on_send m st =
     map_option (\<lambda>(r, s). (map_err (\<lambda>e. Err (error_from_io e)) r,
                           st\<lparr>exchange := exchange st\<lparr>exchange_send := s\<rparr>\<rparr>))
       (m (exchange_send (exchange st)))"

text \<open>\<open>respond.send_response(..)?\<close> and a panic of an \<open>unwrap\<close>.\<close>

definition send_response_or :: "(string \<Rightarrow> error) \<Rightarrow> u16 \<Rightarrow> 'h option \<Rightarrow> bool \<Rightarrow> ('h, 'w, 'c) h2_handler" where
  "send_response_or err status headers end_of_stream =
     (case headers of
        None \<Rightarrow> throw_io Panic
      | Some hs \<Rightarrow> map_err_io (\<lambda>e. Err (err e)) (send_response status hs end_of_stream))"

section \<open>Writing responses\<close>

definition write_h2_headers ::
  "('m, 'u, 'v, 'h, 'r, 'io, 'j) h2_env \<Rightarrow> ('h, 'r) response \<Rightarrow> ('h, 'w, 'c) h2_handler" where
  "write_h2_headers env response =
     send_response_or (\<lambda>e. h2_error (''failed to send response headers: '' @ e))
       (remap_status (res_status response))
       (encode_response_headers (env_http env) (env_b64 env) response) False"

definition write_h2_response ::
  "('m, 'u, 'v, 'h, 'r, 'io, 'j) h2_env \<Rightarrow> ('h, 'r) response \<Rightarrow> ('h, 'w, 'c) h2_handler" where
  "write_h2_response env response =
     (if body_size_hint (res_body response) = Some 0
      then send_response_or error_from_h2 (remap_status (res_status response))
             (encode_response_headers (env_http env) (env_b64 env) response) True
      else bind_io (write_h2_headers env response) (\<lambda>_.
           bind_io (on_send (env_copy env (res_body response))) (\<lambda>_.
             on_send writer_close)))"

definition write_h2_error ::
  "('m, 'u, 'v, 'h, 'r, 'io, 'j) h2_env \<Rightarrow> string \<Rightarrow> ('h, 'w, 'c) h2_handler" where
  "write_h2_error env message =
     (let http = env_http env in
      case (hv_from_str http ''text/plain'', hv_from_str http (decimal (length message))) of
        (Some plain, Some len) \<Rightarrow>
          write_h2_response env
            (response_new 502
               (hm_insert http ''content-length'' len (hm_insert http ''content-type'' plain (hm_new http)))
               (body_from_bytes (as_bytes message)))
      | _ \<Rightarrow> throw_io Panic)"

section \<open>The handlers\<close>

text \<open>Calls a handler on the world and awaits its outcome; \<open>None\<close> when it never answers.\<close>

definition call_origin ::
  "('w \<Rightarrow> 'a receiver \<times> 'w) \<Rightarrow> (('h, 'w, 'c) h2_stream_state, string, 'a) io" where
  "call_origin handler st =
     (case handler (world st) of
        (receiver, w) \<Rightarrow> map_option (\<lambda>r. (r, st\<lparr>world := w\<rparr>)) (wait_outcome receiver))"

definition pump_exchange ::
  "('m, 'u, 'v, 'h, 'r, 'io, 'j) h2_env \<Rightarrow> 'io origin_stream \<Rightarrow> ('h, 'w, 'c) h2_handler" where
  "pump_exchange env io st =
     map_option (\<lambda>(r, s). (Inr (), st\<lparr>exchange := exchange st\<lparr>exchange_body := r, exchange_send := s\<rparr>\<rparr>))
       (env_pump env io (exchange_body (exchange st), exchange_send (exchange st)))"

definition handle_h2_http ::
  "('m, 'u, 'v, 'h, 'r, 'io, 'j) h2_env \<Rightarrow> ('m, 'u, 'h, 'r, 'io, 'w) origin \<Rightarrow> ('m, 'u, 'h) h2_request
     \<Rightarrow> ('h, 'w, 'c) h2_handler" where
  "handle_h2_http env origin req st =
     (let headers = hm_remove (env_http env) INTERNAL_UPGRADE_HEADER (hq_headers req);
          request = request_new (hq_method req) (hq_uri req) headers
                      (body_from_reader (env_body env (exchange_body (exchange st)))) in
      catch_io (call_origin (origin_http origin request)) (\<lambda>outcome.
        case outcome of
          Inr response \<Rightarrow> write_h2_response env response
        | Inl message \<Rightarrow> write_h2_error env message) st)"

definition handle_h2_websocket ::
  "('m, 'u, 'v, 'h, 'r, 'io, 'j) h2_env \<Rightarrow> ('m, 'u, 'h, 'r, 'io, 'w) origin \<Rightarrow> ('m, 'u, 'h) h2_request
     \<Rightarrow> ('h, 'w, 'c) h2_handler" where
  "handle_h2_websocket env origin req =
     (case origin_websocket origin of
        None \<Rightarrow> write_h2_error env ''no websocket origin handler''
      | Some websocket \<Rightarrow>
          (let headers = hm_remove (env_http env) INTERNAL_UPGRADE_HEADER (hq_headers req);
               request = request_new (hq_method req) (hq_uri req) headers body_empty in
           catch_io (call_origin (websocket request)) (\<lambda>outcome.
             case outcome of
               Inr connection \<Rightarrow>
                 bind_io (write_h2_headers env (ws_response connection))
                   (\<lambda>_. pump_exchange env (ws_origin connection))
             | Inl message \<Rightarrow> write_h2_error env message)))"

definition request_host :: "('m, 'u, 'v, 'h) http_crate \<Rightarrow> ('m, 'u, 'h) h2_request \<Rightarrow> string" where
  "request_host http req =
     (case hm_get http ''host'' (hq_headers req) of
        Some host \<Rightarrow> header_text http host
      | None \<Rightarrow> (case uri_host http (hq_uri req) of Some host \<Rightarrow> host | None \<Rightarrow> []))"

definition websocket_accept :: "(byte list \<Rightarrow> string) \<Rightarrow> string \<Rightarrow> string" where
  "websocket_accept sha1_base64 challenge_key =
     sha1_base64 (as_bytes challenge_key @ as_bytes ''258EAFA5-E914-47DA-95CA-C5AB0DC85B11'')"

text \<open>The headers of the acknowledgement; \<open>None\<close> is a panic of an \<open>unwrap\<close>.\<close>

definition tcp_ack_headers ::
  "('m, 'u, 'v, 'h, 'r, 'io, 'j) h2_env \<Rightarrow> ('m, 'u, 'h) h2_request \<Rightarrow> 'h option" where
  "tcp_ack_headers env req =
     (let http = env_http env in
      case (case hm_get http ''sec-websocket-key'' (hq_headers req) of
              Some key \<Rightarrow> hv_to_str http key | None \<Rightarrow> None) of
        None \<Rightarrow> Some (hm_new http)
      | Some key \<Rightarrow>
          (case (hv_from_str http ''Upgrade'', hv_from_str http ''websocket'',
                 hv_from_str http (websocket_accept (env_sha1_base64 env) key)) of
             (Some up, Some ws, Some accept) \<Rightarrow>
               Some (hm_insert http ''sec-websocket-accept'' accept
                 (hm_insert http ''upgrade'' ws (hm_insert http ''connection'' up (hm_new http))))
           | _ \<Rightarrow> None))"

definition handle_h2_tcp ::
  "('m, 'u, 'v, 'h, 'r, 'io, 'j) h2_env \<Rightarrow> ('m, 'u, 'h, 'r, 'io, 'w) origin \<Rightarrow> ('m, 'u, 'h) h2_request
     \<Rightarrow> ('h, 'w, 'c) h2_handler" where
  "handle_h2_tcp env origin req =
     (case origin_tcp origin of
        None \<Rightarrow> write_h2_error env ''no tcp origin handler''
      | Some tcp \<Rightarrow>
          catch_io (call_origin (tcp (request_tcp (env_http env) (request_host (env_http env) req)))) (\<lambda>outcome.
            case outcome of
              Inl message \<Rightarrow> write_h2_error env message
            | Inr io \<Rightarrow>
                (case tcp_ack_headers env req of
                   None \<Rightarrow> throw_io Panic
                 | Some ack_headers \<Rightarrow>
                     bind_io (write_h2_headers env (response_new 101 ack_headers body_empty))
                       (\<lambda>_. pump_exchange env io))))"

definition read_request_body ::
  "('m, 'u, 'v, 'h, 'r, 'io, 'j) h2_env \<Rightarrow> (('h, 'w, 'c) h2_stream_state, error fault, byte list) io" where
  "read_request_body env st =
     map_option (\<lambda>(r, b). (map_err (\<lambda>e. Err (error_from_io e)) r,
                           st\<lparr>exchange := exchange st\<lparr>exchange_body := b\<rparr>\<rparr>))
       (env_read_to_end env (exchange_body (exchange st)))"

text \<open>The reply to a configuration body, and the handler after it.\<close>

definition configuration_response ::
  "('m, 'u, 'v, 'h, 'r, 'io, 'j) h2_env \<Rightarrow> byte list
     \<Rightarrow> (('h, 'w, 'c) h2_stream_state, error fault, update_configuration_response) io" where
  "configuration_response env data st =
     (case env_update_json env data of
        Inr (version, configuration) \<Rightarrow>
          (case env_json_to_vec env configuration of
             Inl e \<Rightarrow> Some (Inl (Err (h2_error e)), st)
           | Inr bytes \<Rightarrow>
               (case update_configuration (edge_handler (env_ingress env)) version bytes
                       (configuration_handler st) of
                  (response, h) \<Rightarrow> Some (Inr response, st\<lparr>configuration_handler := h\<rparr>)))
      | Inl e \<Rightarrow>
          Some (Inr \<lparr>latest_applied_version = - 1,
                     update_error = ''config update body is not valid JSON: '' @ e\<rparr>, st))"

definition handle_h2_configuration ::
  "('m, 'u, 'v, 'h, 'r, 'io, 'j) h2_env \<Rightarrow> ('h, 'w, 'c) h2_handler" where
  "handle_h2_configuration env =
     bind_io (read_request_body env) (\<lambda>data.
     bind_io (configuration_response env data) (\<lambda>response.
     bind_io (lift_io (map_err (\<lambda>e. Err (h2_error e))
       (env_reply_json env (latest_applied_version response) (update_error response)))) (\<lambda>reply.
     bind_io (send_response_or error_from_h2 200 (Some (hm_new (env_http env))) False) (\<lambda>_.
     bind_io (on_send (futures_write_all writer_write (as_bytes reply))) (\<lambda>_.
       on_send writer_close)))))"

definition handle_stream ::
  "('m, 'u, 'v, 'h, 'r, 'io, 'j) h2_env \<Rightarrow> ('m, 'u, 'h, 'r, 'io, 'w) origin \<Rightarrow> ('m, 'u, 'h) h2_request
     \<Rightarrow> ('h, 'w, 'c) h2_handler" where
  "handle_stream env origin req =
     (case classify_stream (env_http env) (hq_headers req) of
        StreamHttp \<Rightarrow> handle_h2_http env origin req
      | StreamWebsocket \<Rightarrow> handle_h2_websocket env origin req
      | StreamTcp \<Rightarrow> handle_h2_tcp env origin req
      | StreamConfiguration \<Rightarrow> handle_h2_configuration env
      | StreamControl \<Rightarrow> return_io ())"

section \<open>One response per stream\<close>

text \<open>\<open>n\<close> response heads have been sent, none with status 101.\<close>

definition answered :: "nat \<Rightarrow> ('h, 'w, 'c) h2_stream_state \<Rightarrow> bool" where
  "answered n st \<longleftrightarrow>
     length (heads (exchange st)) = n \<and>
     (\<forall>h \<in> set (heads (exchange st)). fst h \<noteq> 101)"

text \<open>The same on a stream where \<open>send_response\<close> fails with \<open>f\<close>, or does not when that is \<open>None\<close>.\<close>

definition unanswered :: "string option \<Rightarrow> ('h, 'w, 'c) h2_stream_state \<Rightarrow> bool" where
  "unanswered f st \<longleftrightarrow> answered 0 st \<and> head_error (exchange st) = f"

definition responded :: "string option \<Rightarrow> ('h, 'w, 'c) h2_stream_state \<Rightarrow> bool" where
  "responded f st \<longleftrightarrow> answered 1 st \<and> head_error (exchange st) = f \<and> f = None"

lemmas states_def = unanswered_def responded_def answered_def

definition broken_off :: "string option \<Rightarrow> error fault \<Rightarrow> ('h, 'w, 'c) h2_stream_state \<Rightarrow> bool" where
  "broken_off f e st \<longleftrightarrow> e \<noteq> Panic \<and> (unanswered f st \<or> responded f st)"

definition env_laws :: "('m, 'u, 'v, 'h, 'r, 'io, 'j) h2_env \<Rightarrow> bool" where
  "env_laws env \<longleftrightarrow>
     http_laws (env_http env) \<and> base64_laws (env_b64 env) \<and>
     (\<forall>bytes. visible_ascii (env_sha1_base64 env bytes))"

lemma ensures_send_response_or [ensures]:
  "status \<noteq> 101 \<Longrightarrow>
   ensures_io (unanswered f) (send_response_or err status (Some hs) eos) (\<lambda>_. responded f) (broken_off f)"
  by (auto simp: ensures_io_def send_response_or_def send_response_def states_def broken_off_def
      map_err_io_def split: option.splits)

lemma ensures_on_send [ensures]:
  "ensures_io (responded f) (on_send m) (\<lambda>_. responded f) (broken_off f)"
  by (auto simp: ensures_io_def on_send_def states_def broken_off_def map_err_eq_Inl_iff
      split: sum.splits)

lemma ensures_pump_exchange [ensures]:
  "ensures_io (responded f) (pump_exchange env io) (\<lambda>_. responded f) (broken_off f)"
  by (auto simp: ensures_io_def pump_exchange_def states_def split: sum.splits)

lemma ensures_call_origin [ensures]:
  "ensures_io (unanswered f) (call_origin handler) (\<lambda>_. unanswered f) (\<lambda>_. unanswered f)"
  by (auto simp: ensures_io_def call_origin_def states_def split: sum.splits prod.splits)

lemma ensures_write_h2_headers [ensures]:
  assumes "env_laws env"
  shows "ensures_io (unanswered f) (write_h2_headers env response) (\<lambda>_. responded f) (broken_off f)"
proof -
  from assms encode_response_headers_some obtain hs where
    "encode_response_headers (env_http env) (env_b64 env) response = Some hs"
    by (metis env_laws_def)
  then show ?thesis by (simp add: write_h2_headers_def ensures_send_response_or)
qed

lemma ensures_write_h2_response [ensures]:
  assumes "env_laws env"
  shows "ensures_io (unanswered f) (write_h2_response env response) (\<lambda>_. responded f) (broken_off f)"
proof -
  from assms encode_response_headers_some obtain hs where
    "encode_response_headers (env_http env) (env_b64 env) response = Some hs"
    by (metis env_laws_def)
  then show ?thesis
    by (auto simp: write_h2_response_def intro!: ensures assms)
qed

lemma ensures_write_h2_error [ensures]:
  assumes "env_laws env"
  shows "ensures_io (unanswered f) (write_h2_error env message) (\<lambda>_. responded f) (broken_off f)"
proof -
  have http: "http_laws (env_http env)" using assms by (simp add: env_laws_def)
  obtain plain where "hv_from_str (env_http env) ''text/plain'' = Some plain"
    using http_lawsD(5) [OF http, of "''text/plain''"] by auto
  moreover obtain len where "hv_from_str (env_http env) (decimal (length message)) = Some len"
    using http_lawsD(5) [OF http visible_ascii_decimal] by blast
  ultimately show ?thesis
    by (simp add: write_h2_error_def Let_def ensures_write_h2_response [OF assms])
qed

lemma tcp_ack_headers_some:
  assumes "env_laws env"
  shows "\<exists>hs. tcp_ack_headers env req = Some hs"
proof -
  have http: "http_laws (env_http env)" and sha: "visible_ascii (env_sha1_base64 env bytes)" for bytes
    using assms by (simp_all add: env_laws_def)
  obtain up ws where "hv_from_str (env_http env) ''Upgrade'' = Some up"
      "hv_from_str (env_http env) ''websocket'' = Some ws"
    using http_lawsD(5) [OF http, of "''Upgrade''"] http_lawsD(5) [OF http, of "''websocket''"] by auto
  moreover have "\<exists>v. hv_from_str (env_http env) (env_sha1_base64 env bytes) = Some v" for bytes
    using http_lawsD(5) [OF http sha] by blast
  ultimately show ?thesis
    by (simp add: tcp_ack_headers_def Let_def websocket_accept_def split: option.split) (metis option.distinct(1))
qed

lemma ensures_handle_h2_http:
  assumes "env_laws env"
  shows "ensures_io (unanswered f) (handle_h2_http env origin req) (\<lambda>_. responded f) (broken_off f)"
proof -
  have run: "ensures_io (unanswered f)
      (catch_io (call_origin handler) (\<lambda>outcome. case outcome of
          Inr response \<Rightarrow> write_h2_response env response | Inl message \<Rightarrow> write_h2_error env message))
      (\<lambda>_. responded f) (broken_off f)" for handler
    by (auto intro!: ensures assms)
  show ?thesis
    by (rule ensures_ioI; unfold handle_h2_http_def Let_def)
       (blast intro: ensures_io_Ok [OF run] ensures_io_Err [OF run])+
qed

lemma ensures_handle_h2_websocket:
  assumes "env_laws env"
  shows "ensures_io (unanswered f) (handle_h2_websocket env origin req) (\<lambda>_. responded f) (broken_off f)"
  by (auto simp: handle_h2_websocket_def Let_def intro!: ensures assms split: option.split)

lemma ensures_handle_h2_tcp:
  assumes "env_laws env"
  shows "ensures_io (unanswered f) (handle_h2_tcp env origin req) (\<lambda>_. responded f) (broken_off f)"
proof -
  obtain hs where "tcp_ack_headers env req = Some hs" using tcp_ack_headers_some [OF assms] by blast
  then show ?thesis
    by (auto simp: handle_h2_tcp_def Let_def intro!: ensures assms split: option.split)
qed

lemma ensures_read_request_body [ensures]:
  "ensures_io (unanswered f) (read_request_body env) (\<lambda>_. unanswered f) (broken_off f)"
  by (auto simp: ensures_io_def read_request_body_def states_def broken_off_def map_err_eq_Inl_iff
      split: sum.splits)

lemma ensures_configuration_response [ensures]:
  "ensures_io (unanswered f) (configuration_response env data) (\<lambda>_. unanswered f) (broken_off f)"
  by (auto simp: ensures_io_def configuration_response_def states_def broken_off_def
      split: sum.splits prod.splits)

lemma ensures_lift_protocol [ensures]:
  "ensures_io (unanswered f) (lift_io (map_err (\<lambda>e. Err (g e)) r)) (\<lambda>_. unanswered f) (broken_off f)"
  by (auto simp: ensures_io_def broken_off_def map_err_eq_Inl_iff split: sum.splits)

lemma ensures_handle_h2_configuration:
  "ensures_io (unanswered f) (handle_h2_configuration env) (\<lambda>_. responded f) (broken_off f)"
  by (auto simp: handle_h2_configuration_def intro!: ensures)

text \<open>C14. Whatever the origin does and however the crates fail, \<open>send_response\<close> included, a request
  stream is answered with at most one response head; a handler that finishes normally has sent
  exactly one; when the head cannot be sent there is none and the handler ends with an error;
  HTTP/2 never sees status 101; and no handler panics. (The control stream is not handled here.)\<close>

theorem one_response_per_stream:
  assumes "env_laws env" and "answered 0 st"
    and "classify_stream (env_http env) (hq_headers req) \<noteq> StreamControl"
    and "handle_stream env origin req st = Some (r, st')"
  shows "r \<noteq> Inl Panic \<and> (r = Inr () \<longrightarrow> answered 1 st') \<and> (answered 0 st' \<or> answered 1 st') \<and>
    (head_error (exchange st) \<noteq> None \<longrightarrow> r \<noteq> Inr () \<and> answered 0 st')"
proof -
  let ?f = "head_error (exchange st)"
  have "ensures_io (unanswered ?f) (handle_stream env origin req) (\<lambda>_. responded ?f) (broken_off ?f)"
    using assms(3)
    by (cases "classify_stream (env_http env) (hq_headers req)")
       (simp_all add: handle_stream_def ensures_handle_h2_http [OF assms(1)]
          ensures_handle_h2_websocket [OF assms(1)] ensures_handle_h2_tcp [OF assms(1)]
          ensures_handle_h2_configuration)
  moreover have "unanswered ?f st" using assms(2) by (simp add: unanswered_def)
  ultimately have "case r of Inl e \<Rightarrow> broken_off ?f e st' | Inr x \<Rightarrow> responded ?f st'"
    using assms(4) by (rule ensures_ioD)
  then show ?thesis
    by (auto simp: broken_off_def unanswered_def responded_def split: sum.splits)
qed

text \<open>A concrete stream: an HTTP request to an origin that answers 101 with an empty body.\<close>

definition demo_h2_env ::
  "(string, string, string, (string \<times> string) list, receive_stream_reader, unit, unit) h2_env" where
  "demo_h2_env =
     \<lparr>env_http = list_http, env_b64 = pairs_codec, env_sha1_base64 = (\<lambda>_. ''key''),
      env_body = id, env_copy = (\<lambda>b s. Some (Inr (), s)), env_read_to_end = (\<lambda>r. Some (Inr [], r)),
      env_pump = (\<lambda>_ s. Some s), env_update_json = (\<lambda>_. Inl ''bad''), env_json_to_vec = (\<lambda>_. Inr []),
      env_reply_json = (\<lambda>_ _. Inr ''{}''), env_ingress = (\<lambda>_. Inr [])\<rparr>"

lemma demo_h2_env_laws: "env_laws demo_h2_env"
  by (simp add: env_laws_def demo_h2_env_def list_http_laws pairs_codec_laws)

definition demo_h2_origin ::
  "(string, string, (string \<times> string) list, receive_stream_reader, unit, nat) origin" where
  "demo_h2_origin = origin_new (\<lambda>req w. (responder_send (response_new 101 [] body_empty), Suc w))"

definition demo_h2_request :: "(string, string, (string \<times> string) list) h2_request" where
  "demo_h2_request = \<lparr>hq_method = ''GET'', hq_uri = ''/'', hq_headers = []\<rparr>"

definition demo_h2_state :: "((string \<times> string) list, nat, unit) h2_stream_state" where
  "demo_h2_state =
     \<lparr>exchange = \<lparr>heads = [], head_error = None, exchange_body = reader_new [REnd] quiet,
                  exchange_send = writer_new 9 [] quiet\<rparr>,
      world = 0, configuration_handler = edge_configuration_handler_new None ()\<rparr>"

lemma demo_h2_run:
  "handle_stream demo_h2_env demo_h2_origin demo_h2_request demo_h2_state
    = Some (Inr (), demo_h2_state\<lparr>world := 1,
        exchange := exchange demo_h2_state\<lparr>heads :=
          [(200, [(RESPONSE_METADATA_HEADER, RESPONSE_METADATA_ORIGIN)], True)]\<rparr>\<rparr>)"
  by (simp add: handle_stream_def classify_stream_def handle_h2_http_def write_h2_response_def
      send_response_or_def send_response_def call_origin_def demo_h2_env_def demo_h2_origin_def
      demo_h2_request_def demo_h2_state_def list_http_def origin_new_def responder_send_def
      response_new_def body_empty_def encode_response_headers_def RESPONSE_METADATA_ORIGIN_def
      CONFIGURATION_UPDATE_def WEBSOCKET_UPGRADE_def CONTROL_STREAM_UPGRADE_def Let_def
      remap_status_def run_io cong: run_io_congs)

text \<open>The same request on a stream that has been reset.\<close>

definition demo_h2_reset :: "((string \<times> string) list, nat, unit) h2_stream_state" where
  "demo_h2_reset =
     demo_h2_state\<lparr>exchange := exchange demo_h2_state\<lparr>head_error := Some ''reset''\<rparr>\<rparr>"

lemma demo_h2_reset_run:
  "handle_stream demo_h2_env demo_h2_origin demo_h2_request demo_h2_reset
    = Some (Inl (Err (error_from_h2 ''reset'')), demo_h2_reset\<lparr>world := 1\<rparr>)"
  by (simp add: handle_stream_def classify_stream_def handle_h2_http_def write_h2_response_def
      send_response_or_def send_response_def call_origin_def demo_h2_env_def demo_h2_origin_def
      demo_h2_request_def demo_h2_state_def demo_h2_reset_def list_http_def origin_new_def
      responder_send_def response_new_def body_empty_def encode_response_headers_def
      RESPONSE_METADATA_ORIGIN_def CONFIGURATION_UPDATE_def WEBSOCKET_UPGRADE_def
      CONTROL_STREAM_UPGRADE_def Let_def remap_status_def map_err_io_def run_io cong: run_io_congs)

theorem one_response_per_stream_witness:
  "answered 1 (demo_h2_state\<lparr>world := 1, exchange := exchange demo_h2_state\<lparr>heads :=
        [(200, [(RESPONSE_METADATA_HEADER, RESPONSE_METADATA_ORIGIN)], True)]\<rparr>\<rparr>) \<and>
   answered 0 (demo_h2_reset\<lparr>world := 1\<rparr>)"
proof -
  have request: "classify_stream (env_http demo_h2_env) (hq_headers demo_h2_request) \<noteq> StreamControl"
    by (simp add: classify_stream_def demo_h2_env_def demo_h2_request_def list_http_def
        CONFIGURATION_UPDATE_def WEBSOCKET_UPGRADE_def CONTROL_STREAM_UPGRADE_def Let_def)
  have start: "answered 0 demo_h2_state" "answered 0 demo_h2_reset"
    by (simp_all add: answered_def demo_h2_state_def demo_h2_reset_def)
  show ?thesis
    using one_response_per_stream [OF demo_h2_env_laws start(1) request demo_h2_run]
      one_response_per_stream [OF demo_h2_env_laws start(2) request demo_h2_reset_run]
    by (simp add: demo_h2_reset_def)
qed

end
