(* ===== verification/Roots.thy ===== *)
theory Roots
  imports Rust_Std
begin

text \<open>
  Trust stores, \<open>src/edge/roots.rs\<close> and the certificate loops of \<open>src/edge/h2/tls.rs\<close> and
  \<open>src/edge/quic/quinn.rs\<close>. Reading a file is a parameter, as are the bundled PEM file
  (\<open>include_bytes!\<close>), the PEM parser (an item of a bundle can fail to parse) and the store of
  the TLS crate, which can refuse a certificate.
\<close>

text \<open>The server name and protocol of a QUIC dial, \<open>src/edge/quic/mod.rs\<close>.\<close>

definition EDGE_SNI :: string where "EDGE_SNI = ''quic.cftunnel.com''"
definition EDGE_ALPN :: "byte list" where "EDGE_ALPN = as_bytes ''argotunnel''"

definition SYSTEM_CA_PATHS :: "string list" where
  "SYSTEM_CA_PATHS =
     [''/etc/ssl/certs/ca-certificates.crt'', ''/etc/pki/tls/certs/ca-bundle.crt'', ''/etc/ssl/cert.pem'']"

text \<open>The first readable bundle.\<close>

fun system_pem :: "(string \<Rightarrow> io_error + byte list) \<Rightarrow> string list \<Rightarrow> byte list option" where
  "system_pem read [] = None"
| "system_pem read (path # paths) =
     (case read path of Inr bytes \<Rightarrow> Some bytes | Inl _ \<Rightarrow> system_pem read paths)"

definition root_pems ::
  "(string \<Rightarrow> io_error + byte list) \<Rightarrow> byte list \<Rightarrow> byte list option \<Rightarrow> byte list list" where
  "root_pems read bundled ca_cert_pem =
     (case system_pem read SYSTEM_CA_PATHS of Some bytes \<Rightarrow> [bytes] | None \<Rightarrow> [])
     @ [bundled]
     @ (case ca_cert_pem of Some custom \<Rightarrow> [custom] | None \<Rightarrow> [])"

text \<open>Every certificate that parses is offered to the store; failures are skipped.\<close>

definition root_store ::
  "(byte list \<Rightarrow> (string + 'cert) list) \<Rightarrow> ('cert \<Rightarrow> 'store \<Rightarrow> string + 'store) \<Rightarrow> 'store
     \<Rightarrow> byte list list \<Rightarrow> 'store" where
  "root_store pem_items add empty_store pems =
     fold (\<lambda>cert store. case add cert store of Inr store' \<Rightarrow> store' | Inl _ \<Rightarrow> store)
       (concat (map (\<lambda>pem. concat (map (\<lambda>i. case i of Inr c \<Rightarrow> [c] | Inl _ \<Rightarrow> []) (pem_items pem))) pems))
       empty_store"

text \<open>
  The quiche backend is strict: a bundle that does not parse, or a certificate the store
  refuses, is an error (\<open>client_config\<close> and \<open>add_pem_certs\<close> of \<open>src/edge/quic/quiche/tls.rs\<close>).
\<close>

fun add_certs :: "('cert \<Rightarrow> 'store \<Rightarrow> 'e + 'store) \<Rightarrow> 'cert list \<Rightarrow> 'store \<Rightarrow> 'e + 'store" where
  "add_certs add_cert [] store = Inr store"
| "add_certs add_cert (cert # certs) store = bind_result (add_cert cert store) (add_certs add_cert certs)"

definition add_pem_certs ::
  "(byte list \<Rightarrow> 'e + 'cert list) \<Rightarrow> ('cert \<Rightarrow> 'store \<Rightarrow> 'e + 'store) \<Rightarrow> byte list \<Rightarrow> 'store \<Rightarrow> 'e + 'store" where
  "add_pem_certs stack_from_pem add_cert pem store =
     bind_result (stack_from_pem pem) (\<lambda>certs. add_certs add_cert certs store)"

fun quiche_root_store ::
  "(byte list \<Rightarrow> 'e + 'cert list) \<Rightarrow> ('cert \<Rightarrow> 'store \<Rightarrow> 'e + 'store) \<Rightarrow> byte list list \<Rightarrow> 'store
     \<Rightarrow> 'e + 'store" where
  "quiche_root_store stack_from_pem add_cert [] store = Inr store"
| "quiche_root_store stack_from_pem add_cert (pem # pems) store =
     bind_result (add_pem_certs stack_from_pem add_cert pem store)
       (quiche_root_store stack_from_pem add_cert pems)"

text \<open>The store is extended by a user CA, never replaced, and always holds the bundled roots.\<close>

lemma root_pems_custom: "root_pems read bundled (Some custom) = root_pems read bundled None @ [custom]"
  by (simp add: root_pems_def)

lemma bundled_in_root_pems: "bundled \<in> set (root_pems read bundled ca)"
  by (simp add: root_pems_def)

end
