(* ===== verification/H2_Serve.thy ===== *)
theory H2_Serve
  imports H2_Streams Control Roots
begin

text \<open>
  The HTTP/2 connection, \<open>src/edge/h2/mod.rs\<close> and \<open>src/edge/h2/register.rs\<close>: dialling, the serve
  loop with its registration deadline, and the task of the control stream. A turn of the loop
  is the branch of \<open>select!\<close> that completes: an event, with the time the turn waited for it. A
  stream is known by a value of type \<open>'q\<close>.
\<close>

section \<open>Dialling\<close>

definition EDGE_H2_SNI :: string where "EDGE_H2_SNI = ''h2.cftunnel.com''"

text \<open>The network and the TLS and HTTP/2 crates; the handshakes fail with a text.\<close>

record ('w, 'store, 'tcp, 'tls, 'conn) h2_dialer =
  dial_read_file :: "string \<Rightarrow> io_error + byte list"
  dial_bundled :: "byte list"
  dial_store :: "byte list list \<Rightarrow> 'store"
  dial_tcp :: "socket_addr \<Rightarrow> ('w, io_error, 'tcp) io"
  dial_local_addr :: "'tcp \<Rightarrow> ('w, io_error, socket_addr) io"
  dial_server_name :: "string \<Rightarrow> string + string"
  dial_tls :: "'store \<Rightarrow> string \<Rightarrow> 'tcp \<Rightarrow> ('w, string, 'tls) io"
  dial_handshake :: "nat \<Rightarrow> 'tls \<Rightarrow> ('w, string, 'conn) io"

definition h2_dial ::
  "('w, 'store, 'tcp, 'tls, 'conn) h2_dialer \<Rightarrow> socket_addr \<Rightarrow> byte list option
     \<Rightarrow> ('w, error, 'conn \<times> byte list) io" where
  "h2_dial d peer ca_cert_pem =
     (let store = dial_store d (root_pems (dial_read_file d) (dial_bundled d) ca_cert_pem) in
      bind_io (map_err_io error_from_io (dial_tcp d peer)) (\<lambda>tcp.
      bind_io (map_err_io error_from_io (dial_local_addr d tcp)) (\<lambda>local_addr.
      bind_io (lift_io (map_err (\<lambda>e. h2_error (''invalid edge sni: '' @ e)) (dial_server_name d EDGE_H2_SNI))) (\<lambda>server_name.
      bind_io (map_err_io (\<lambda>e. h2_error (''tls handshake failed: '' @ e)) (dial_tls d store server_name tcp)) (\<lambda>tls.
      bind_io (map_err_io (\<lambda>e. h2_error (''http2 handshake failed: '' @ e)) (dial_handshake d (2 ^ 32 - 1) tls)) (\<lambda>conn.
        return_io (conn, peer_ip_bytes local_addr)))))))"

section \<open>The serve loop\<close>

text \<open>\<open>EvRegistration None\<close>: the control task ended without a registration outcome.\<close>

datatype 'q h2_event =
    EvStream 'q stream_type
  | EvAcceptError string
  | EvAcceptNone
  | EvRegistration "(error + unit) option"
  | EvTimeout
  | EvShutdown

text \<open>
  \<open>registration_tx\<close> is whether the sender is still there to be taken; \<open>control_task\<close> the stream
  the control task was spawned for; \<open>refused\<close> the further control streams, answered 400.
\<close>

record 'q h2_loop =
  registration_tx :: bool
  control_task :: "'q option"
  registration_done :: bool
  stream_tasks :: "'q list"
  refused :: "'q list"

definition h2_loop_start :: "'q h2_loop" where
  "h2_loop_start =
     \<lparr>registration_tx = True, control_task = None, registration_done = False, stream_tasks = [],
      refused = []\<rparr>"

datatype h2_action = NotifyControl | AbortStreams | DrainStreams duration | AwaitControl duration

datatype 'q h2_loop_turn =
    Running "'q h2_loop"
  | Ended "error + unit" "h2_action list" "'q h2_loop"
  | LoopPanicked

text \<open>The branches that are enabled; the sleep is created anew in every turn.\<close>

definition enabled :: "'q h2_loop \<Rightarrow> nat \<times> 'q h2_event \<Rightarrow> bool" where
  "enabled st ev =
     (case ev of
        (waited, EvTimeout) \<Rightarrow> \<not> registration_done st \<and> waited = as_nanos RPC_TIMEOUT
      | (waited, EvRegistration r) \<Rightarrow> \<not> registration_done st \<and> waited \<le> as_nanos RPC_TIMEOUT
      | (waited, e) \<Rightarrow> registration_done st \<or> waited \<le> as_nanos RPC_TIMEOUT)"

definition graceful_actions :: "duration \<Rightarrow> 'q h2_loop \<Rightarrow> h2_action list" where
  "graceful_actions grace st =
     [NotifyControl, DrainStreams grace] @ (if control_task st \<noteq> None then [AwaitControl grace] else [])"

fun h2_turn :: "duration \<Rightarrow> 'q h2_loop \<Rightarrow> 'q h2_event \<Rightarrow> 'q h2_loop_turn" where
  "h2_turn grace st (EvStream q t) =
     (if t = StreamControl then
        (if control_task st = None then
           (if registration_tx st
            then Running (st\<lparr>registration_tx := False, control_task := Some q\<rparr>)
            else LoopPanicked)
         else Running (st\<lparr>refused := refused st @ [q]\<rparr>))
      else Running (st\<lparr>stream_tasks := stream_tasks st @ [q]\<rparr>))"
| "h2_turn grace st (EvAcceptError e) =
     Ended (Inl (h2_error (''connection error: '' @ e))) [NotifyControl, AbortStreams] st"
| "h2_turn grace st EvAcceptNone = Ended (Inr ()) [NotifyControl, AbortStreams] st"
| "h2_turn grace st (EvRegistration r) =
     (let st = st\<lparr>registration_done := True\<rparr> in
      case r of
        Some (Inr _) \<Rightarrow> Running st
      | Some (Inl e) \<Rightarrow> Ended (Inl e) [NotifyControl, AbortStreams] st
      | None \<Rightarrow> Ended (Inl (h2_error ''control stream ended before registration''))
                  [NotifyControl, AbortStreams] st)"
| "h2_turn grace st EvTimeout =
     Ended (Inl (h2_error ''registration timed out'')) [NotifyControl, AbortStreams] st"
| "h2_turn grace st EvShutdown = Ended (Inr ()) (graceful_actions grace st) st"

text \<open>A run over events; \<open>None\<close> for a sequence that cannot occur.\<close>

fun h2_serve :: "duration \<Rightarrow> 'q h2_loop \<Rightarrow> (nat \<times> 'q h2_event) list \<Rightarrow> 'q h2_loop_turn option" where
  "h2_serve grace st [] = Some (Running st)"
| "h2_serve grace st (ev # evs) =
     (if \<not> enabled st ev then None
      else case h2_turn grace st (snd ev) of
        Running st \<Rightarrow> h2_serve grace st evs
      | out \<Rightarrow> if evs = [] then Some out else None)"

section \<open>What the loop does\<close>

definition control_streams :: "(nat \<times> 'q h2_event) list \<Rightarrow> 'q list" where
  "control_streams evs = [q. (w, EvStream q t) \<leftarrow> evs, t = StreamControl]"

definition request_streams :: "(nat \<times> 'q h2_event) list \<Rightarrow> 'q list" where
  "request_streams evs = [q. (w, EvStream q t) \<leftarrow> evs, t \<noteq> StreamControl]"

definition turn_loop :: "'q h2_loop_turn \<Rightarrow> 'q h2_loop option" where
  "turn_loop out = (case out of Running st \<Rightarrow> Some st | Ended r as st \<Rightarrow> Some st | LoopPanicked \<Rightarrow> None)"

text \<open>
  The state in terms of the streams accepted: requests in order, the first control stream and
  the rest of them.
\<close>

definition loop_tracks :: "'q list \<Rightarrow> 'q list \<Rightarrow> 'q h2_loop \<Rightarrow> bool" where
  "loop_tracks requests controls st \<longleftrightarrow>
     stream_tasks st = requests \<and>
     control_task st = (case controls of [] \<Rightarrow> None | q # _ \<Rightarrow> Some q) \<and>
     refused st = tl controls \<and> registration_tx st = (controls = [])"

lemma loop_tracks_start: "loop_tracks [] [] h2_loop_start"
  by (simp add: loop_tracks_def h2_loop_start_def)

lemma h2_turn_tracks:
  assumes "loop_tracks rs cs st"
  shows "\<exists>st'. turn_loop (h2_turn grace st e) = Some st' \<and>
    loop_tracks (rs @ request_streams [(w, e)]) (cs @ control_streams [(w, e)]) st'"
  using assms
  by (cases e; cases cs)
     (auto simp: turn_loop_def loop_tracks_def request_streams_def control_streams_def Let_def
        split: option.split sum.split)

lemma streams_Cons:
  "request_streams (ev # evs) = request_streams [ev] @ request_streams evs"
  "control_streams (ev # evs) = control_streams [ev] @ control_streams evs"
  by (simp_all add: request_streams_def control_streams_def)

lemma h2_serve_tracks:
  "loop_tracks rs cs st \<Longrightarrow> h2_serve grace st evs = Some out \<Longrightarrow>
   \<exists>st'. turn_loop out = Some st' \<and>
     loop_tracks (rs @ request_streams evs) (cs @ control_streams evs) st'"
proof (induction evs arbitrary: rs cs st)
  case Nil
  then show ?case by (auto simp: turn_loop_def request_streams_def control_streams_def)
next
  case (Cons ev evs)
  obtain w e where ev: "ev = (w, e)" by fastforce
  obtain st1 where turn: "turn_loop (h2_turn grace st e) = Some st1"
    and tracks: "loop_tracks (rs @ request_streams [ev]) (cs @ control_streams [ev]) st1"
    using h2_turn_tracks [OF Cons.prems(1)] ev by blast
  from Cons.prems(2) consider
      "h2_turn grace st e = Running st1" "h2_serve grace st1 evs = Some out"
    | "out = h2_turn grace st e" "evs = []"
    using turn by (auto simp: ev turn_loop_def split: if_splits h2_loop_turn.splits)
  then show ?case
  proof cases
    case 1
    from Cons.IH [OF tracks 1(2)] show ?thesis by (simp add: streams_Cons [of ev evs])
  next
    case 2
    with turn tracks show ?thesis by simp
  qed
qed

text \<open>C12. Whatever the edge sends and in whatever order, the serve loop never panics (the sender
  of the registration outcome is taken once), it starts one task for each request stream, in
  order, it runs the registration on the first control stream only, and answers every further
  control stream with an error.\<close>

theorem h2_serve_dispatches_each_stream:
  assumes "h2_serve grace h2_loop_start evs = Some out"
  shows "\<exists>st. turn_loop out = Some st \<and> stream_tasks st = request_streams evs \<and>
    control_task st = (case control_streams evs of [] \<Rightarrow> None | q # _ \<Rightarrow> Some q) \<and>
    refused st = tl (control_streams evs)"
  using h2_serve_tracks [OF loop_tracks_start assms] by (auto simp: loop_tracks_def)

theorem h2_serve_dispatches_each_stream_witness:
  "let evs = [(0, EvStream 1 StreamHttp), (5, EvStream 2 StreamControl), (0, EvStream (3 :: nat) StreamControl),
              (7, EvRegistration (Some (Inr ()))), (10 ^ 11, EvStream 4 StreamTcp), (0, EvShutdown)];
       st = \<lparr>registration_tx = False, control_task = Some 2, registration_done = True,
             stream_tasks = [1, 4], refused = [3]\<rparr>;
       out = Ended (Inr ()) [NotifyControl, DrainStreams (from_secs 30), AwaitControl (from_secs 30)] st in
   h2_serve (from_secs 30) h2_loop_start evs = Some out \<and>
   (\<exists>st. turn_loop out = Some st \<and> stream_tasks st = request_streams evs \<and>
     control_task st = (case control_streams evs of [] \<Rightarrow> None | q # _ \<Rightarrow> Some q) \<and>
     refused st = tl (control_streams evs))"
proof -
  let ?evs = "[(0, EvStream 1 StreamHttp), (5, EvStream 2 StreamControl), (0, EvStream (3 :: nat) StreamControl),
              (7, EvRegistration (Some (Inr ()))), (10 ^ 11, EvStream 4 StreamTcp), (0, EvShutdown)]"
  let ?out = "Ended (Inr ()) [NotifyControl, DrainStreams (from_secs 30), AwaitControl (from_secs 30)]
    \<lparr>registration_tx = False, control_task = Some 2, registration_done = True,
     stream_tasks = [1, 4], refused = [3]\<rparr>"
  have run: "h2_serve (from_secs 30) h2_loop_start ?evs = Some ?out"
    by (simp add: h2_loop_start_def enabled_def RPC_TIMEOUT_def from_secs_def as_nanos_def
        graceful_actions_def)
  from h2_serve_dispatches_each_stream [OF run] run show ?thesis by (simp add: Let_def)
qed

text \<open>C33. The loop ends with \<open>Ok\<close> exactly on shutdown or when the edge closes the connection. A
  permanent error comes out only as the error the registration itself reported: no connection
  error and no timeout stops the supervisor for good. Every end notifies the control task, so
  that it unregisters.\<close>

theorem h2_serve_end:
  assumes "h2_serve grace h2_loop_start evs = Some (Ended r actions st)"
  shows "NotifyControl \<in> set actions \<and>
    (r = Inr () \<longleftrightarrow> snd (last evs) = EvShutdown \<or> snd (last evs) = EvAcceptNone) \<and>
    (\<forall>e. r = Inl e \<longrightarrow> is_permanent e \<longrightarrow> snd (last evs) = EvRegistration (Some (Inl e)))"
proof -
  have "NotifyControl \<in> set actions \<and>
    (r = Inr () \<longleftrightarrow> snd (last evs) = EvShutdown \<or> snd (last evs) = EvAcceptNone) \<and>
    (\<forall>e. r = Inl e \<longrightarrow> is_permanent e \<longrightarrow> snd (last evs) = EvRegistration (Some (Inl e)))"
    if "h2_serve grace st0 evs = Some (Ended r actions st)" for st0
    using that
  proof (induction evs arbitrary: st0)
    case (Cons ev evs)
    obtain w e where ev: "ev = (w, e)" by fastforce
    from Cons.prems consider st1 where "h2_serve grace st1 evs = Some (Ended r actions st)" "evs \<noteq> []"
      | "h2_turn grace st0 e = Ended r actions st" "evs = []"
      by (cases "evs = []") (auto simp: ev split: if_splits h2_loop_turn.splits)
    then show ?case
    proof cases
      case 1
      from 1(2) Cons.IH [OF 1(1)] show ?thesis by (metis last_ConsR)
    next
      case 2
      then show ?thesis
        by (cases e) (auto simp: ev graceful_actions_def Let_def split: if_splits option.splits sum.splits)
    qed
  qed simp
  then show ?thesis using assms .
qed

theorem h2_serve_end_witness:
  "let evs = [(0, EvStream (2 :: nat) StreamControl), (7, EvRegistration (Some (Inl (registration_error (Permanent ''no'')))))];
       st = \<lparr>registration_tx = False, control_task = Some 2, registration_done = True,
             stream_tasks = [], refused = []\<rparr>;
       r = Inl (registration_error (Permanent ''no'')) in
   h2_serve (from_secs 30) h2_loop_start evs = Some (Ended r [NotifyControl, AbortStreams] st) \<and>
   NotifyControl \<in> set [NotifyControl, AbortStreams] \<and>
   (r = Inr () \<longleftrightarrow> snd (last evs) = EvShutdown \<or> snd (last evs) = EvAcceptNone) \<and>
   (\<forall>e. r = Inl e \<longrightarrow> is_permanent e \<longrightarrow> snd (last evs) = EvRegistration (Some (Inl e)))"
proof -
  let ?evs = "[(0, EvStream (2 :: nat) StreamControl), (7, EvRegistration (Some (Inl (registration_error (Permanent ''no'')))))]"
  have run: "h2_serve (from_secs 30) h2_loop_start ?evs
      = Some (Ended (Inl (registration_error (Permanent ''no''))) [NotifyControl, AbortStreams]
          \<lparr>registration_tx = False, control_task = Some 2, registration_done = True,
           stream_tasks = [], refused = []\<rparr>)"
    by (simp add: h2_loop_start_def enabled_def RPC_TIMEOUT_def from_secs_def as_nanos_def)
  from h2_serve_end [OF run] run show ?thesis by (simp add: Let_def)
qed

text \<open>C35. The registration deadline is not a deadline: the sleep starts again in every turn, so
  an edge that opens a stream every four seconds keeps an unregistered connection going for as
  long as it likes.\<close>

theorem registration_deadline_restarts:
  "\<exists>(evs :: (nat \<times> 'q h2_event) list) st.
     h2_serve grace h2_loop_start evs = Some (Running st) \<and> \<not> registration_done st \<and>
     sum_list (map fst evs) \<ge> n * as_nanos RPC_TIMEOUT"
proof -
  let ?evs = "\<lambda>k. replicate k (4 * 10 ^ 9, EvStream (undefined :: 'q) StreamHttp)"
  have "\<exists>st'. h2_serve grace st (?evs k) = Some (Running st') \<and> \<not> registration_done st'"
    if "\<not> registration_done st" for k and st :: "'q h2_loop"
    using that
    by (induction k arbitrary: st) (auto simp: enabled_def RPC_TIMEOUT_def from_secs_def as_nanos_def)
  from this [of h2_loop_start "2 * n"] obtain st' where
    "h2_serve grace h2_loop_start (?evs (2 * n)) = Some (Running st')" "\<not> registration_done st'"
    by (auto simp: h2_loop_start_def)
  moreover have "sum_list (map fst (?evs (2 * n))) \<ge> n * as_nanos RPC_TIMEOUT"
    by (simp add: map_replicate sum_list_replicate RPC_TIMEOUT_def from_secs_def as_nanos_def)
  ultimately show ?thesis by blast
qed

section \<open>The control stream task\<close>

record 's control_outcome =
  registration_message :: "error + unit"
  registered_fired :: bool
  control_client :: "'s rpc_client option"

text \<open>
  \<open>head_error\<close> is the failure of the response head; \<open>None\<close> is a registration that never
  returns. After a registration the task waits for \<open>control_shutdown\<close> and unregisters.
\<close>

definition handle_control_stream ::
  "'p registration_codec \<Rightarrow> tunnel_codecs \<Rightarrow> process_info \<Rightarrow> tunnel \<Rightarrow> registration_options \<Rightarrow> byte list
     \<Rightarrow> (h2_bidirectional rpc_client \<Rightarrow> h2_bidirectional rpc_client option)
     \<Rightarrow> string option \<Rightarrow> h2_bidirectional \<Rightarrow> h2_bidirectional control_outcome option" where
  "handle_control_stream codec codecs process t options cfg grace_elapses head_failure bidi =
     (case head_failure of
        Some e \<Rightarrow>
          Some \<lparr>registration_message = Inl (h2_error (''control stream response failed: '' @ e)),
                registered_fired = False, control_client = None\<rparr>
      | None \<Rightarrow>
          (case register_on_stream codec codecs process bidi_sread bidi_swrite t options cfg bidi of
             None \<Rightarrow> None
           | Some (Inl e, c) \<Rightarrow>
               Some \<lparr>registration_message = Inl e, registered_fired = False, control_client = None\<rparr>
           | Some (Inr details, c) \<Rightarrow>
               Some \<lparr>registration_message = Inr (), registered_fired = True,
                     control_client = snd (unregister codec bidi_sread bidi_swrite grace_elapses c)\<rparr>))"

lemma control_message_iff_fired:
  "handle_control_stream codec codecs process t options cfg g h bidi = Some out \<Longrightarrow>
   registered_fired out \<longleftrightarrow> registration_message out = Inr ()"
  by (auto simp: handle_control_stream_def split: option.splits prod.splits sum.splits)

end
