(* ===== verification/Axum.thy ===== *)
theory Axum
  imports Http_Crate
begin

text \<open>
  The axum adapter, \<open>src/origin/axum/mod.rs\<close>: the request body as a stream of chunks and the
  response body stream as a reader. The data stream of the response is a script, as for the
  HTTP/2 adapters; the router is a parameter.
\<close>

section \<open>The request body as a stream\<close>

record 'r body_read_stream =
  brs_body :: "'r body"
  brs_buffer :: "byte list"
  brs_length :: nat

definition body_read_stream_new :: "'r body \<Rightarrow> 'r body_read_stream" where
  "body_read_stream_new b = \<lparr>brs_body = b, brs_buffer = replicate 8192 0, brs_length = 0\<rparr>"

text \<open>The next item, awaited: \<open>None\<close> is the end of the stream, \<open>Inl\<close> an error item.\<close>

definition body_stream_next ::
  "'r reader \<Rightarrow> 'r body_read_stream \<Rightarrow> ((io_error + byte list) option \<times> 'r body_read_stream) option" where
  "body_stream_next rd st =
     (let emit = (\<lambda>st. (Some (Inr (take (brs_length st) (brs_buffer st))), st\<lparr>brs_length := 0\<rparr>)) in
      if brs_length st = 0 then
        (case body_read rd 8192 (brs_body st) of
           None \<Rightarrow> None
         | Some (Inr data, b) \<Rightarrow>
             if data = [] then Some (None, st\<lparr>brs_body := b\<rparr>)
             else Some (emit (st\<lparr>brs_body := b, brs_length := length data,
                                 brs_buffer := data @ drop (length data) (brs_buffer st)\<rparr>))
         | Some (Inl e, b) \<Rightarrow> Some (Some (Inl e), st\<lparr>brs_body := b\<rparr>))
      else Some (emit st))"

lemma body_stream_next_new:
  "brs_length st = 0 \<Longrightarrow>
   body_stream_next rd st = Some (Some (Inr data), st') \<Longrightarrow>
   \<exists>b. body_read rd 8192 (brs_body st) = Some (Inr data, b) \<and> data \<noteq> [] \<and>
     brs_body st' = b \<and> brs_length st' = 0"
  by (auto simp: body_stream_next_def Let_def split: option.splits prod.splits sum.splits if_splits)

section \<open>The response stream as a reader\<close>

record axum_body_reader =
  ax_stream :: "recv_event list"
  ax_chunk :: "byte list option"
  ax_position :: nat
  ax_eof :: bool

definition axum_body_reader_new :: "recv_event list \<Rightarrow> axum_body_reader" where
  "axum_body_reader_new events =
     \<lparr>ax_stream = events, ax_chunk = None, ax_position = 0, ax_eof = False\<rparr>"

definition axum_deliver ::
  "nat \<Rightarrow> byte list \<Rightarrow> axum_body_reader \<Rightarrow> (io_error + byte list) poll \<times> axum_body_reader" where
  "axum_deliver n c st =
     (let k = min (length c - ax_position st) n;
          data = take k (drop (ax_position st) c);
          position' = ax_position st + k in
      (Ready (Inr data),
       st\<lparr>ax_chunk := (if position' < length c then Some c else None), ax_position := position'\<rparr>))"

function axum_poll ::
  "nat \<Rightarrow> axum_body_reader \<Rightarrow> (io_error + byte list) poll \<times> axum_body_reader" where
  "axum_poll n st =
     (if ax_eof st then (Ready (Inr []), st)
      else case ax_chunk st of
        Some c \<Rightarrow>
          if ax_position st < length c then axum_deliver n c st
          else axum_poll n (st\<lparr>ax_chunk := None, ax_position := 0\<rparr>)
      | None \<Rightarrow>
          (case ax_stream st of
             RData c # events \<Rightarrow> axum_poll n (st\<lparr>ax_stream := events, ax_chunk := Some c\<rparr>)
           | RError e # events \<Rightarrow> (Ready (Inl (io_err OtherKind e)), st\<lparr>ax_stream := events\<rparr>)
           | REnd # events \<Rightarrow> (Ready (Inr []), st\<lparr>ax_stream := events, ax_eof := True\<rparr>)
           | RPending # events \<Rightarrow> (Pending, st\<lparr>ax_stream := events\<rparr>)
           | [] \<Rightarrow> (Pending, st)))"
  by pat_completeness auto
termination
  by (relation "measure (\<lambda>(n, st). 2 * length (ax_stream st) + (if ax_chunk st = None then 0 else 1))") auto

declare axum_poll.simps [simp del]

text \<open>
  What the reader still delivers of a stream, when the position left over from the previous
  chunk is \<open>p\<close>.
\<close>

fun axum_events :: "nat \<Rightarrow> recv_event list \<Rightarrow> byte list" where
  "axum_events p (RData c # events) =
     (if p < length c then drop p c @ axum_events (length c) events else axum_events 0 events)"
| "axum_events p (RPending # events) = axum_events p events"
| "axum_events p (RError e # events) = []"
| "axum_events p (REnd # events) = []"
| "axum_events p [] = []"

definition axum_rest :: "axum_body_reader \<Rightarrow> byte list" where
  "axum_rest st =
     (if ax_eof st then []
      else case ax_chunk st of
        Some c \<Rightarrow> if ax_position st < length c
                  then drop (ax_position st) c @ axum_events (length c) (ax_stream st)
                  else axum_events 0 (ax_stream st)
      | None \<Rightarrow> axum_events (ax_position st) (ax_stream st))"

definition axum_good :: "axum_body_reader \<Rightarrow> bool" where
  "axum_good st \<longleftrightarrow> ax_eof st \<or> no_error (ax_stream st)"

definition axum_ends :: "axum_body_reader \<Rightarrow> bool" where
  "axum_ends st \<longleftrightarrow> ax_eof st \<or> has_end (ax_stream st)"

lemma axum_deliver_contract:
  assumes "axum_good st" "\<not> ax_eof st" "ax_chunk st = Some c" "ax_position st < length c"
  shows "\<exists>data st'. axum_deliver n c st = (Ready (Inr data), st') \<and> length data \<le> n \<and>
    axum_rest st = data @ axum_rest st' \<and> axum_good st' \<and> (axum_ends st \<longrightarrow> axum_ends st') \<and>
    (0 < n \<longrightarrow> data \<noteq> [])"
proof -
  let ?p = "ax_position st"
  let ?k = "min (length c - ?p) n"
  have "drop ?p c = take ?k (drop ?p c) @ drop (?p + ?k) c"
    by (metis append_take_drop_id drop_drop add.commute)
  moreover have "?p + ?k = length c" if "\<not> ?p + ?k < length c" using that assms(4) by simp
  ultimately show ?thesis
    using assms by (auto simp: axum_deliver_def Let_def axum_good_def axum_rest_def axum_ends_def)
qed

lemma axum_poll_contract:
  "axum_good st \<Longrightarrow>
   (case axum_poll n st of
      (Ready (Inr data), st') \<Rightarrow>
        length data \<le> n \<and> axum_rest st = data @ axum_rest st' \<and> axum_good st' \<and>
        (axum_ends st \<longrightarrow> axum_ends st') \<and> (0 < n \<longrightarrow> data = [] \<longrightarrow> axum_rest st = [])
    | (Ready (Inl e), st') \<Rightarrow> False
    | (Pending, st') \<Rightarrow>
        axum_rest st' = axum_rest st \<and> axum_good st' \<and> (axum_ends st \<longrightarrow> axum_ends st') \<and>
        (ax_stream st = [] \<longrightarrow> axum_rest st = [] \<and> \<not> axum_ends st))"
proof (induction n st rule: axum_poll.induct)
  case (1 n st)
  show ?case
  proof (cases "ax_eof st")
    case True
    with 1 show ?thesis by (simp add: axum_poll.simps [of n st] axum_rest_def)
  next
    case live: False
    show ?thesis
    proof (cases "ax_chunk st")
      case (Some c)
      show ?thesis
      proof (cases "ax_position st < length c")
        case True
        with axum_deliver_contract [OF 1(3) live Some True, of n] show ?thesis
          by (auto simp: axum_poll.simps [of n st] live Some)
      next
        case False
        let ?st = "st\<lparr>ax_chunk := None, ax_position := 0\<rparr>"
        have "axum_good ?st" "axum_rest ?st = axum_rest st" "axum_ends ?st = axum_ends st"
          using 1(3) live Some False by (simp_all add: axum_good_def axum_rest_def axum_ends_def)
        with "1.IH"(2) [OF live Some False] show ?thesis
          by (auto simp: axum_poll.simps [of n st] live Some False
              split: prod.splits poll.splits sum.splits if_splits)
      qed
    next
      case None
      show ?thesis
      proof (cases "ax_stream st")
        case Nil
        with 1(3) live None show ?thesis
          by (simp add: axum_poll.simps [of n st] axum_rest_def axum_ends_def)
      next
        case (Cons ev events)
        show ?thesis
        proof (cases ev)
          case (RData c)
          let ?st = "st\<lparr>ax_stream := events, ax_chunk := Some c\<rparr>"
          have "axum_good ?st" "axum_rest ?st = axum_rest st" "axum_ends ?st = axum_ends st"
            using 1(3) live None Cons RData by (simp_all add: axum_good_def axum_rest_def axum_ends_def)
          with "1.IH"(1) [OF live None Cons RData] show ?thesis
            by (auto simp: axum_poll.simps [of n st] live None Cons RData
                split: prod.splits poll.splits sum.splits if_splits)
        qed (use 1(3) live None Cons in
            \<open>auto simp: axum_poll.simps [of n st] axum_good_def axum_rest_def axum_ends_def\<close>)
      qed
    qed
  qed
qed

lemma axum_deliver_stream [simp]:
  "ax_stream (snd (axum_deliver n c st)) = ax_stream st" "axum_deliver n c st \<noteq> (Pending, st')"
  by (simp_all add: axum_deliver_def Let_def)

lemma axum_poll_stream:
  "axum_poll n st = (r, st') \<Longrightarrow>
   length (ax_stream st') \<le> length (ax_stream st) \<and>
   (r = Pending \<longrightarrow> ax_stream st \<noteq> [] \<longrightarrow> length (ax_stream st') < length (ax_stream st))"
proof (induction n st rule: axum_poll.induct)
  case (1 n st)
  show ?case
    using 1 axum_poll.simps [of n st] axum_deliver_stream [of n _ st]
    by (auto split: reader_splits dest: le_SucI) (metis axum_deliver_stream(1) order_refl snd_conv)+
qed

function axum_read :: "axum_body_reader reader" where
  "axum_read n st =
     (case axum_poll n st of
        (Ready r, st') \<Rightarrow> Some (r, st')
      | (Pending, st') \<Rightarrow> if ax_stream st = [] then None else axum_read n st')"
  by pat_completeness auto
termination
  by (relation "measure (\<lambda>(n, st). length (ax_stream st))") (auto dest: axum_poll_stream [OF sym])

declare axum_read.simps [simp del]

lemma axum_read_contract:
  "axum_good st \<Longrightarrow> axum_read n st = Some (r, st') \<Longrightarrow>
   \<exists>data. r = Inr data \<and> length data \<le> n \<and> axum_rest st = data @ axum_rest st' \<and>
     axum_good st' \<and> (axum_ends st \<longrightarrow> axum_ends st') \<and> (0 < n \<longrightarrow> data = [] \<longrightarrow> axum_rest st = [])"
proof (induction n st rule: axum_read.induct)
  case (1 n st)
  note poll = axum_poll_contract [OF "1.prems"(1), of n]
  obtain p st1 where p: "axum_poll n st = (p, st1)" by (cases "axum_poll n st")
  show ?case
  proof (cases p)
    case (Ready r1)
    with "1.prems"(2) p poll show ?thesis
      by (cases r1) (auto simp: axum_read.simps [of n st])
  next
    case Pending
    with "1.prems"(2) p have "ax_stream st \<noteq> []" and "axum_read n st1 = Some (r, st')"
      by (auto simp: axum_read.simps [of n st] split: if_splits)
    with "1.IH" [OF p [symmetric] Pending] poll p Pending show ?thesis by auto
  qed
qed

lemma axum_read_live:
  "axum_good st \<Longrightarrow> axum_rest st \<noteq> [] \<or> axum_ends st \<Longrightarrow> \<exists>r st'. axum_read n st = Some (r, st')"
proof (induction n st rule: axum_read.induct)
  case (1 n st)
  note poll = axum_poll_contract [OF "1.prems"(1), of n]
  obtain p st1 where p: "axum_poll n st = (p, st1)" by (cases "axum_poll n st")
  show ?case
  proof (cases p)
    case Pending
    with p poll "1.prems" have "ax_stream st \<noteq> []" "axum_good st1" "axum_rest st1 \<noteq> [] \<or> axum_ends st1"
      by auto
    with "1.IH" [OF p [symmetric] Pending] p Pending show ?thesis
      by (auto simp: axum_read.simps [of n st])
  qed (use p in \<open>simp add: axum_read.simps [of n st]\<close>)
qed

interpretation axum: ending_reader axum_read axum_rest axum_good axum_ends
proof (unfold_locales, goal_cases)
  case (1 s n data s')
  from axum_read_contract [OF this] show ?case by auto
next
  case (2 s n s')
  from axum_read_contract [OF this(1,3)] 2 show ?case by auto
next
  case (3 s n)
  with axum_read_live [of s n] axum_read_contract [of s n] show ?case by blast
next
  case (4 s n)
  with axum_read_live [of s n] obtain r s' where read: "axum_read n s = Some (r, s')" by auto
  from axum_read_contract [OF 4(1) read] 4(3) read show ?case by auto
next
  case (5 s n data s')
  from axum_read_contract [OF 5(1,3)] 5(2) show ?case by auto
qed

interpretation axum_response_body:
  ending_reader "body_read axum_read" "\<lambda>b. body_rest axum_rest (inner b)"
    "\<lambda>b. body_holds axum_good (inner b)" "\<lambda>b. body_holds axum_ends (inner b)"
  by (rule axum.body_is_ending_reader)

lemma axum_events_single: "axum_events 0 [RData c, REnd] = c"
  by simp

text \<open>C24. The reader over an axum response loses bytes: the position is not set back when a chunk
  has been delivered, so a following chunk that is no longer than it is dropped whole. Of a
  response streamed in two such chunks the edge receives only the first, and the read ends
  without an error, for every size of buffer.\<close>

theorem axum_reader_drops_chunk:
  assumes "0 < n" and "length second \<le> length first"
  shows "\<exists>b. body_collect axum_read n
      (body_from_reader (axum_body_reader_new [RData first, RData second, REnd]))
    = Some (Inr first, b)"
proof -
  let ?b = "body_from_reader (axum_body_reader_new [RData first, RData second, REnd])"
  have "body_rest axum_rest (inner ?b) = first"
    using assms(2) by (auto simp: body_from_reader_def axum_rest_def axum_body_reader_new_def)
  with axum_response_body.read_to_eof_all [OF assms(1), of ?b] show ?thesis
    by (simp add: body_collect_def body_from_reader_def axum_good_def axum_ends_def
        axum_body_reader_new_def)
qed

theorem axum_reader_drops_chunk_witness:
  "\<exists>b. body_collect axum_read 8
      (body_from_reader (axum_body_reader_new [RData [1, 2, 3], RData [4, 5], REnd]))
    = Some (Inr [1, 2, 3], b)"
  by (rule axum_reader_drops_chunk) simp_all

section \<open>Serving a request through the router\<close>

text \<open>
  The router is a parameter: it takes the request, whose body is the stream above, and answers
  with a status, headers and a data stream, or fails (its error text). The
  request builder is given a valid method and URI, on which it does not fail.
\<close>

record ('m, 'u, 'h, 'r) axum_request =
  axq_method :: 'm
  axq_uri :: 'u
  axq_headers :: 'h
  axq_body :: "'r body_read_stream"

definition serve_router ::
  "('m, 'u, 'v, 'h) http_crate
     \<Rightarrow> (('m, 'u, 'h, 'r) axum_request \<Rightarrow> string + u16 \<times> 'h \<times> recv_event list)
     \<Rightarrow> ('m, 'u, 'h, 'r) request \<Rightarrow> error + ('h, axum_body_reader) response" where
  "serve_router http router req =
     bind_result
       (case body_size_hint (req_body req) of
          Some hint \<Rightarrow>
            (case hv_from_str http (decimal (unat hint)) of
               Some v \<Rightarrow> Inr (hm_insert http ''content-length'' v (req_headers req))
             | None \<Rightarrow> Inl (origin_handler ''bad content length: failed to parse header value''))
        | None \<Rightarrow> Inr (req_headers req))
       (\<lambda>headers.
          let request = \<lparr>axq_method = req_method req, axq_uri = req_uri req, axq_headers = headers,
                         axq_body = body_read_stream_new (req_body req)\<rparr> in
          bind_result (map_err (\<lambda>e. origin_handler (''axum router failed: '' @ e)) (router request))
            (\<lambda>(status, hs, data).
               Inr (response_new status hs (body_from_reader (axum_body_reader_new data)))))"

text \<open>\<open>HttpOrigin::handle\<close> of the adapter: the outcome of the spawned task.\<close>

definition axum_handle ::
  "('m, 'u, 'v, 'h) http_crate
     \<Rightarrow> (('m, 'u, 'h, 'r) axum_request \<Rightarrow> string + u16 \<times> 'h \<times> recv_event list)
     \<Rightarrow> ('m, 'u, 'h, 'r) request \<Rightarrow> ('h, axum_body_reader) response receiver" where
  "axum_handle http router req =
     (case serve_router http router req of
        Inr response \<Rightarrow> responder_send response
      | Inl e \<Rightarrow> responder_fail (display_error e))"

end
