(* ===== verification/Echo_Origin.thy ===== *)
theory Echo_Origin
  imports Pump
begin

text \<open>
  The echoing TCP origin of \<open>examples/origin_ws_tcp.rs\<close> under the pump: an in-process stream pair
  (\<open>tokio::io::duplex\<close>), a task that writes back what it reads, and the pump between the edge and
  the other end of the pair. It is the smallest complete tunnel of bytes; here, that it neither
  loses nor reorders them. When they all come back, and when not, is in \<open>Echo_Liveness\<close>.

  The stream pair is a parameter: a direction of it is a state \<open>'p\<close> with the operations
  \<open>duplex_ops\<close>. Its documentation says what they do, and \<open>duplex_laws\<close> states it: seen through
  \<open>view\<close>, a direction is a buffer of bounded size. A write takes what there is room for and
  is pending without room, a read is pending on an empty buffer, and after an end is shut
  down or dropped reads report the end and writes fail.
\<close>

section \<open>The stream pair\<close>

record 'p duplex_ops =
  pair_new :: "nat \<Rightarrow> 'p"
  pair_read :: "nat \<Rightarrow> 'p \<Rightarrow> (byte list \<times> 'p) option"
  pair_write :: "byte list \<Rightarrow> 'p \<Rightarrow> ((io_error + nat) \<times> 'p) option"
  pair_seal :: "'p \<Rightarrow> 'p"

record pipe =
  buffered :: "byte list"
  sealed :: bool

definition pipe_read :: "nat \<Rightarrow> pipe \<Rightarrow> (byte list \<times> pipe) option" where
  "pipe_read n p =
     (if buffered p \<noteq> [] then Some (take n (buffered p), p\<lparr>buffered := drop n (buffered p)\<rparr>)
      else if sealed p then Some ([], p)
      else None)"

definition pipe_write :: "nat \<Rightarrow> byte list \<Rightarrow> pipe \<Rightarrow> ((io_error + nat) \<times> pipe) option" where
  "pipe_write cap data p =
     (let room = cap - length (buffered p) in
      if sealed p then Some (Inl (io_err BrokenPipe ''broken pipe''), p)
      else if room = 0 then None
      else Some (Inr (min room (length data)), p\<lparr>buffered := buffered p @ take room data\<rparr>))"

definition pipe_ops :: "nat \<Rightarrow> pipe duplex_ops" where
  "pipe_ops cap =
     \<lparr>pair_new = (\<lambda>_. \<lparr>buffered = [], sealed = False\<rparr>), pair_read = pipe_read,
      pair_write = pipe_write cap, pair_seal = (\<lambda>p. p\<lparr>sealed := True\<rparr>)\<rparr>"

definition duplex_laws :: "nat \<Rightarrow> 'p duplex_ops \<Rightarrow> ('p \<Rightarrow> pipe) \<Rightarrow> bool" where
  "duplex_laws cap dx view \<longleftrightarrow>
     view (pair_new dx cap) = \<lparr>buffered = [], sealed = False\<rparr> \<and>
     (\<forall>n p. map_option (map_prod id view) (pair_read dx n p) = pipe_read n (view p)) \<and>
     (\<forall>data p. map_option (map_prod id view) (pair_write dx data p) = pipe_write cap data (view p)) \<and>
     (\<forall>p. view (pair_seal dx p) = (view p)\<lparr>sealed := True\<rparr>)"

lemma pipe_ops_fields [simp]:
  "pair_new (pipe_ops cap) n = \<lparr>buffered = [], sealed = False\<rparr>"
  "pair_read (pipe_ops cap) = pipe_read" "pair_write (pipe_ops cap) = pipe_write cap"
  "pair_seal (pipe_ops cap) p = p\<lparr>sealed := True\<rparr>"
  by (simp_all add: pipe_ops_def)

lemma pipe_ops_laws: "duplex_laws cap (pipe_ops cap) id"
  by (simp add: duplex_laws_def prod.map_id0 option.map_id0)

section \<open>The origin and the pump\<close>

definition DUPLEX_SIZE :: nat where "DUPLEX_SIZE = 64 * 1024"
definition APP_BUFFER :: nat where "APP_BUFFER = 8192"

text \<open>The task of the origin: it reads, it writes what it has read, or it has ended and dropped its
  end of the pair.\<close>

datatype app = AppReading | AppWriting "byte list" | AppGone

record 'p duplex =
  inbound :: 'p
  outbound :: 'p
  app :: app

definition duplex_new :: "'p duplex_ops \<Rightarrow> 'p duplex" where
  "duplex_new dx =
     \<lparr>inbound = pair_new dx DUPLEX_SIZE, outbound = pair_new dx DUPLEX_SIZE, app = AppReading\<rparr>"

definition virtual_echo_connect :: "'p duplex_ops \<Rightarrow> 'req \<Rightarrow> 'p duplex receiver" where
  "virtual_echo_connect dx request = tcp_stream (duplex_new dx)"

definition app_gone :: "'p duplex_ops \<Rightarrow> 'p duplex \<Rightarrow> 'p duplex" where
  "app_gone dx d =
     d\<lparr>inbound := pair_seal dx (inbound d), outbound := pair_seal dx (outbound d), app := AppGone\<rparr>"

definition app_step :: "'p duplex_ops \<Rightarrow> 'p duplex \<Rightarrow> 'p duplex option" where
  "app_step dx d =
     (case app d of
        AppReading \<Rightarrow>
          map_option (\<lambda>(data, p).
              if data = [] then app_gone dx (d\<lparr>inbound := p\<rparr>)
              else d\<lparr>inbound := p, app := AppWriting data\<rparr>)
            (pair_read dx APP_BUFFER (inbound d))
      | AppWriting data \<Rightarrow>
          (case pair_write dx data (outbound d) of
             None \<Rightarrow> None
           | Some (Inl e, p) \<Rightarrow> Some (app_gone dx (d\<lparr>outbound := p\<rparr>))
           | Some (Inr n, p) \<Rightarrow>
               if drop n data = [] then Some (d\<lparr>outbound := p, app := AppReading\<rparr>)
               else if n = 0 then Some (app_gone dx (d\<lparr>outbound := p\<rparr>))
               else Some (d\<lparr>outbound := p, app := AppWriting (drop n data)\<rparr>))
      | AppGone \<Rightarrow> None)"

text \<open>The end of the pair that the library pumps.\<close>

definition libcfd_end :: "'p duplex_ops \<Rightarrow> 'p duplex pump_peer" where
  "libcfd_end dx =
     \<lparr>peer_read = (\<lambda>n d. map_option (\<lambda>(data, p). (Inr data, d\<lparr>outbound := p\<rparr>)) (pair_read dx n (outbound d))),
      peer_write = (\<lambda>data d. map_option (\<lambda>(r, p). (r, d\<lparr>inbound := p\<rparr>)) (pair_write dx data (inbound d))),
      peer_close = (\<lambda>d. Some (Inr (), d\<lparr>inbound := pair_seal dx (inbound d)\<rparr>))\<rparr>"

text \<open>Pump and origin run concurrently.\<close>

inductive echo_step ::
  "'p duplex_ops \<Rightarrow> 'e pump_peer \<Rightarrow> ('e, 'p duplex) pump_state \<Rightarrow> ('e, 'p duplex) pump_state \<Rightarrow> bool"
  for dx :: "'p duplex_ops" and edge :: "'e pump_peer" where
  pump_moves: "pump_step edge (libcfd_end dx) st st' \<Longrightarrow> echo_step dx edge st st'"
| app_moves: "app_step dx (pump_origin st) = Some d \<Longrightarrow> echo_step dx edge st (st\<lparr>pump_origin := d\<rparr>)"

text \<open>The pair of the specification, over which the properties are proved first.\<close>

abbreviation pipes where "pipes \<equiv> pipe_ops DUPLEX_SIZE"

section \<open>What goes in comes out\<close>

text \<open>The bytes inside the origin, the oldest first.\<close>

definition app_holding :: "pipe duplex \<Rightarrow> byte list" where
  "app_holding d = (case app d of AppWriting data \<Rightarrow> data | _ \<Rightarrow> [])"

definition in_origin :: "pipe duplex \<Rightarrow> byte list" where
  "in_origin d = buffered (outbound d) @ app_holding d @ buffered (inbound d)"

definition duplex_ok :: "pipe duplex \<Rightarrow> bool" where
  "duplex_ok d \<longleftrightarrow>
     (case app d of
        AppReading \<Rightarrow> \<not> sealed (outbound d)
      | AppWriting data \<Rightarrow> \<not> sealed (outbound d) \<and> data \<noteq> []
      | AppGone \<Rightarrow> sealed (outbound d) \<and> sealed (inbound d) \<and> buffered (inbound d) = []) \<and>
     length (buffered (inbound d)) \<le> DUPLEX_SIZE \<and> length (buffered (outbound d)) \<le> DUPLEX_SIZE"

lemma duplex_new_ok [simp]: "duplex_ok (duplex_new pipes)" "in_origin (duplex_new pipes) = []"
  by (simp_all add: duplex_ok_def duplex_new_def in_origin_def app_holding_def)

lemma sizes [simp]: "0 < DUPLEX_SIZE" "0 < APP_BUFFER" "0 < PUMP_BUFFER"
  by (simp_all add: DUPLEX_SIZE_def APP_BUFFER_def PUMP_BUFFER_def)

lemma sizes_not_0 [simp]: "DUPLEX_SIZE \<noteq> 0" "APP_BUFFER \<noteq> 0" "PUMP_BUFFER \<noteq> 0"
  by (simp_all add: DUPLEX_SIZE_def APP_BUFFER_def PUMP_BUFFER_def)

lemma pipe_read_bytes:
  "pipe_read n p = Some (data, p') \<Longrightarrow> 0 < n \<Longrightarrow>
     buffered p = data @ buffered p' \<and> sealed p' = sealed p \<and>
     (data = [] \<longrightarrow> buffered p = [] \<and> sealed p) \<and> length (buffered p') \<le> length (buffered p)"
  by (auto simp: pipe_read_def split: if_splits)

lemma pipe_write_bytes:
  "pipe_write DUPLEX_SIZE data p = Some (Inr n, p') \<Longrightarrow> length (buffered p) \<le> DUPLEX_SIZE \<Longrightarrow>
     buffered p' = buffered p @ take n data \<and> sealed p' = sealed p \<and> \<not> sealed p \<and>
     length (buffered p') \<le> DUPLEX_SIZE \<and> (data \<noteq> [] \<longrightarrow> 0 < n)"
  by (auto simp: pipe_write_def Let_def min_def split: if_splits)

lemma pipe_write_fails:
  "pipe_write DUPLEX_SIZE data p = Some (Inl e, p') \<Longrightarrow> p' = p \<and> sealed p"
  by (auto simp: pipe_write_def Let_def split: if_splits)

text \<open>A step of the task takes bytes, gives bytes, or ends it; it keeps the bytes and their order.\<close>

lemma app_step_cases:
  assumes "app_step pipes d = Some d'" and "duplex_ok d"
  obtains
    (took) data where "app d = AppReading" "data \<noteq> []"
      "buffered (inbound d) = data @ buffered (inbound d')" "sealed (inbound d') = sealed (inbound d)"
      "outbound d' = outbound d" "app d' = AppWriting data"
  | (ended) "app d = AppReading" "buffered (inbound d) = []" "sealed (inbound d)" "d' = app_gone pipes d"
  | (gave) data n where "app d = AppWriting data" "0 < n"
      "buffered (outbound d') = buffered (outbound d) @ take n data" "\<not> sealed (outbound d')"
      "length (buffered (outbound d')) \<le> DUPLEX_SIZE" "inbound d' = inbound d"
      "app d' = (if drop n data = [] then AppReading else AppWriting (drop n data))"
proof (cases "app d")
  case AppReading
  with assms(1) obtain data p where r: "pipe_read APP_BUFFER (inbound d) = Some (data, p)"
    by (auto simp: app_step_def)
  note bytes = pipe_read_bytes [OF r sizes(2)]
  show thesis
  proof (cases "data = []")
    case True
    with r bytes have "p = inbound d" by (auto simp: pipe_read_def split: if_splits)
    with AppReading assms(1) r True bytes show thesis by (intro ended) (auto simp: app_step_def)
  next
    case False
    with AppReading assms(1) r bytes show thesis by (intro took) (auto simp: app_step_def)
  qed
next
  case (AppWriting data)
  with assms obtain n p where w: "pipe_write DUPLEX_SIZE data (outbound d) = Some (Inr n, p)"
    by (auto simp: app_step_def duplex_ok_def dest: pipe_write_fails split: option.splits sum.splits)
  have "length (buffered (outbound d)) \<le> DUPLEX_SIZE" using assms(2) by (simp add: duplex_ok_def)
  with AppWriting assms w pipe_write_bytes [OF w] show thesis
    by (intro gave) (auto simp: app_step_def duplex_ok_def split: if_splits)
qed (use assms in \<open>simp add: app_step_def\<close>)

lemma app_step_keeps:
  assumes "app_step pipes d = Some d'" and "duplex_ok d"
  shows "duplex_ok d'" and "in_origin d' = in_origin d"
    and "sealed (inbound d') = sealed (inbound d)" and "app d \<noteq> AppGone"
  using assms(2)
  by (cases rule: app_step_cases [OF assms];
      force simp: duplex_ok_def in_origin_def app_holding_def app_gone_def)+

text \<open>The library's end gives the oldest bytes and takes new ones behind the others.\<close>

lemma libcfd_read_bytes:
  assumes "read_branch (libcfd_end pipes) d = Some (t, dn, d')" and "duplex_ok d"
  shows "duplex_ok d'" and "unwritten t @ in_origin d' = in_origin d"
    and "dn \<Longrightarrow> in_origin d' = [] \<and> app d' = AppGone"
proof -
  from assms(1) obtain data p where r: "pipe_read PUMP_BUFFER (outbound d) = Some (data, p)"
    by (auto simp: read_branch_def libcfd_end_def split: option.splits)
  note facts = assms r pipe_read_bytes [OF r]
  show "duplex_ok d'" and "unwritten t @ in_origin d' = in_origin d"
    using facts by (cases "app d"; auto simp: read_branch_def libcfd_end_def duplex_ok_def in_origin_def
        app_holding_def split: if_splits)+
  show "in_origin d' = [] \<and> app d' = AppGone" if dn
    using facts that by (cases "app d"; auto simp: read_branch_def libcfd_end_def duplex_ok_def
        in_origin_def app_holding_def pipe_read_def split: if_splits)
qed

lemma libcfd_transfer_bytes:
  assumes "transfer_part (libcfd_end pipes) t d = Some (t', dn, d')" and "duplex_ok d"
  shows "duplex_ok d' \<and>
    (\<exists>k. in_origin d' = in_origin d @ take k (unwritten (Some t)) \<and>
       (\<not> dn \<longrightarrow> unwritten (Some t) = take k (unwritten (Some t)) @ unwritten t'))"
proof (cases t)
  case Closing
  with assms show ?thesis
    by (cases "app d")
       (auto simp: transfer_part_def libcfd_end_def duplex_ok_def in_origin_def app_holding_def)
next
  case (Writing data)
  with assms(1) obtain r p where w: "pipe_write DUPLEX_SIZE data (inbound d) = Some (r, p)"
    by (auto simp: transfer_part_def libcfd_end_def split: option.splits)
  have len: "length (buffered (inbound d)) \<le> DUPLEX_SIZE" using assms(2) by (simp add: duplex_ok_def)
  show ?thesis
  proof (cases r)
    case (Inl e)
    with pipe_write_fails [OF w [unfolded Inl]] w Writing assms show ?thesis
      by (auto simp: transfer_part_def libcfd_end_def intro!: exI [of _ 0])
  next
    case (Inr n)
    from pipe_write_bytes [OF w [unfolded Inr] len] w Inr Writing assms show ?thesis
      by (cases "app d")
         (auto simp: transfer_part_def libcfd_end_def duplex_ok_def in_origin_def app_holding_def
            split: if_splits intro!: exI [of _ n])
  qed
qed

text \<open>Two stretches in a row: from the edge into the origin, and from the origin back to the edge.\<close>

lemma forwarded_refill: "forwarded bytes got0 still got d \<Longrightarrow> forwarded (bytes @ extra) got0 (still @ extra) got d"
  unfolding forwarded_def by force

definition echo_inv ::
  "('e \<Rightarrow> byte list) \<Rightarrow> ('e \<Rightarrow> byte list) \<Rightarrow> ('e \<Rightarrow> bool) \<Rightarrow> 'e \<Rightarrow> ('e, pipe duplex) pump_state \<Rightarrow> bool" where
  "echo_inv sending received valid e0 st \<longleftrightarrow>
     valid (pump_edge st) \<and> duplex_ok (pump_origin st) \<and> phase_ok st \<and>
     (\<exists>entered.
        forwarded (sending e0) [] (edge_unwritten (pump_phase st) @ sending (pump_edge st)) entered
          (edge_done st) \<and>
        forwarded entered (received e0) (origin_unwritten (pump_phase st) @ in_origin (pump_origin st))
          (received (pump_edge st)) (origin_done st))"

lemma branch_of_phase:
  assumes "branch_ok was_done (Some t)" and "transfer_part dst t s = Some (t', d, s')"
  shows "unwritten (Some t) \<noteq> [] \<longrightarrow> \<not> was_done" and "unwritten (Some t) = [] \<longrightarrow> d"
  using assms closing_is_done [OF assms(2)] by (cases t; auto)+

lemma phase_ok_origin [simp]: "phase_ok (st\<lparr>pump_origin := d\<rparr>) \<longleftrightarrow> phase_ok st"
  by (cases "pump_phase st") (simp_all add: phase_ok_def)

lemma echo_inv_step:
  assumes edge: "pumped_peer edge sending received valid"
    and step: "echo_step pipes edge st st'" and inv: "echo_inv sending received valid e0 st"
  shows "echo_inv sending received valid e0 st'"
proof -
  from inv obtain entered where ok: "valid (pump_edge st)" "duplex_ok (pump_origin st)" "phase_ok st"
    and first: "forwarded (sending e0) [] (edge_unwritten (pump_phase st) @ sending (pump_edge st)) entered
        (edge_done st)"
    and second: "forwarded entered (received e0)
        (origin_unwritten (pump_phase st) @ in_origin (pump_origin st)) (received (pump_edge st))
        (origin_done st)"
    by (auto simp: echo_inv_def)
  from step show ?thesis
  proof cases
    case (app_moves d)
    with app_step_keeps [OF app_moves(2) ok(2)] inv show ?thesis
      by (auto simp: echo_inv_def)
  next
    case pump_moves
    note phase = phase_ok_step [OF pump_moves]
    from pump_moves show ?thesis
    proof (cases rule: pump_step.cases)
      case (edge_read t d e)
      with ok first second phase forwarded_read [OF edge ok(1) edge_read(4)]
        pumped_peer.read_branch_bytes [OF edge ok(1) edge_read(4)]
      show ?thesis by (auto simp: echo_inv_def)
    next
      case (edge_transfer t t' d oo)
      have b: "branch_ok (edge_done st) (Some t)" using ok(3) edge_transfer(2) by (simp add: phase_ok_def)
      from libcfd_transfer_bytes [OF edge_transfer(3) ok(2)] obtain k where
        k: "in_origin oo = in_origin (pump_origin st) @ take k (unwritten (Some t))"
          "\<not> d \<longrightarrow> unwritten (Some t) = take k (unwritten (Some t)) @ unwritten t'" and "duplex_ok oo"
        by blast
      let ?entered = "entered @ take k (unwritten (Some t))"
      have "forwarded (sending e0) [] (unwritten (Some t) @ sending (pump_edge st)) entered (edge_done st)"
        using first edge_transfer(2) by simp
      from forwarded_transfer [OF refl k(2) this branch_of_phase [OF b edge_transfer(3)]]
      have "forwarded (sending e0) [] (unwritten t' @ sending (pump_edge st)) ?entered d" .
      moreover from forwarded_refill [OF second] k(1) edge_transfer(2)
      have "forwarded ?entered (received e0) (in_origin oo) (received (pump_edge st)) (origin_done st)"
        by simp
      ultimately show ?thesis
        using edge_transfer(1) ok(1) \<open>duplex_ok oo\<close> phase
        by (auto simp: echo_inv_def)
    next
      case (origin_read t d oo)
      note got = libcfd_read_bytes [OF origin_read(4) ok(2)]
      have "forwarded entered (received e0) (in_origin (pump_origin st)) (received (pump_edge st)) False"
        using second origin_read(2,3) by simp
      then have "forwarded entered (received e0) (unwritten t @ in_origin oo) (received (pump_edge st)) False"
        unfolding got(2) .
      then have "forwarded entered (received e0) (unwritten t @ in_origin oo) (received (pump_edge st)) d"
        by (cases d) (auto intro: forwarded_stop)
      with origin_read(1,2) ok(1) first phase got(1) show ?thesis
        by (auto simp: echo_inv_def)
    next
      case (origin_transfer t t' d e)
      have b: "branch_ok (origin_done st) (Some t)" using ok(3) origin_transfer(2) by (simp add: phase_ok_def)
      from pumped_peer.transfer_part_bytes [OF edge ok(1) origin_transfer(3)] obtain k where
        k: "received e = received (pump_edge st) @ take k (unwritten (Some t))"
          "\<not> d \<longrightarrow> unwritten (Some t) = take k (unwritten (Some t)) @ unwritten t'"
        and e: "valid e" "sending e = sending (pump_edge st)" by blast
      have "forwarded entered (received e0) (unwritten (Some t) @ in_origin (pump_origin st))
          (received (pump_edge st)) (origin_done st)"
        using second origin_transfer(2) by simp
      from forwarded_transfer [OF k this branch_of_phase [OF b origin_transfer(3)]]
      have "forwarded entered (received e0) (unwritten t' @ in_origin (pump_origin st)) (received e) d" .
      with origin_transfer ok first phase e show ?thesis by (auto simp: echo_inv_def)
    qed
  qed
qed

text \<open>An edge with its bytes in memory, which takes every write at once.\<close>

definition echo_start :: "byte list \<Rightarrow> (byte list \<times> byte list, pipe duplex) pump_state" where
  "echo_start bytes = pump_start (bytes, []) (duplex_new pipes)"

text \<open>A run in which one byte goes through, and the edge then ends.\<close>

definition echo_state ::
  "byte list \<Rightarrow> byte list \<Rightarrow> pipe \<Rightarrow> pipe \<Rightarrow> app \<Rightarrow> bool \<Rightarrow> bool \<Rightarrow> pump_phase
     \<Rightarrow> (byte list \<times> byte list, pipe duplex) pump_state" where
  "echo_state xs ys i oo a ed od ph =
     \<lparr>pump_edge = (xs, ys), pump_origin = \<lparr>inbound = i, outbound = oo, app = a\<rparr>,
      edge_done = ed, origin_done = od, pump_phase = ph\<rparr>"

inductive_simps echo_step_iff: "echo_step dx edge st st'"

lemmas run_echo = echo_step_iff pump_step_iff echo_state_def read_branch_def transfer_part_def
  memory_peer_def libcfd_end_def pipe_read_def pipe_write_def app_step_def app_gone_def next_phase_def
  DUPLEX_SIZE_def PUMP_BUFFER_def APP_BUFFER_def echo_start_def pump_start_def duplex_new_def Let_def

abbreviation empty_pipe where "empty_pipe \<equiv> \<lparr>buffered = [], sealed = False\<rparr>"
abbreviation sealed_pipe where "sealed_pipe \<equiv> \<lparr>buffered = [], sealed = True\<rparr>"
abbreviation full_pipe where "full_pipe \<equiv> \<lparr>buffered = [7], sealed = False\<rparr>"

lemma demo_echo:
  "echo_step pipes memory_peer (echo_start [7]) (echo_state [] [] empty_pipe empty_pipe AppReading False False (FromEdge (Writing [7])))"
  "echo_step pipes memory_peer (echo_state [] [] empty_pipe empty_pipe AppReading False False (FromEdge (Writing [7])))
     (echo_state [] [] full_pipe empty_pipe AppReading False False Selecting)"
  "echo_step pipes memory_peer (echo_state [] [] full_pipe empty_pipe AppReading False False Selecting)
     (echo_state [] [] empty_pipe empty_pipe (AppWriting [7]) False False Selecting)"
  "echo_step pipes memory_peer (echo_state [] [] empty_pipe empty_pipe (AppWriting [7]) False False Selecting)
     (echo_state [] [] empty_pipe full_pipe AppReading False False Selecting)"
  "echo_step pipes memory_peer (echo_state [] [] empty_pipe full_pipe AppReading False False Selecting)
     (echo_state [] [] empty_pipe empty_pipe AppReading False False (FromOrigin (Writing [7])))"
  "echo_step pipes memory_peer (echo_state [] [] empty_pipe empty_pipe AppReading False False (FromOrigin (Writing [7])))
     (echo_state [] [7] empty_pipe empty_pipe AppReading False False Selecting)"
  "echo_step pipes memory_peer (echo_state [] [7] empty_pipe empty_pipe AppReading False False Selecting)
     (echo_state [] [7] empty_pipe empty_pipe AppReading True False (FromEdge Closing))"
  "echo_step pipes memory_peer (echo_state [] [7] empty_pipe empty_pipe AppReading True False (FromEdge Closing))
     (echo_state [] [7] sealed_pipe empty_pipe AppReading True False Selecting)"
  "echo_step pipes memory_peer (echo_state [] [7] sealed_pipe empty_pipe AppReading True False Selecting)
     (echo_state [] [7] sealed_pipe sealed_pipe AppGone True False Selecting)"
  "echo_step pipes memory_peer (echo_state [] [7] sealed_pipe sealed_pipe AppGone True False Selecting)
     (echo_state [] [7] sealed_pipe sealed_pipe AppGone True True (FromOrigin Closing))"
  "echo_step pipes memory_peer (echo_state [] [7] sealed_pipe sealed_pipe AppGone True True (FromOrigin Closing))
     (echo_state [] [7] sealed_pipe sealed_pipe AppGone True True Selecting)"
  by (simp_all add: run_echo ex_bool_eq)

lemma demo_echo_back:
  "(echo_step pipes memory_peer)\<^sup>*\<^sup>* (echo_start [7]) (echo_state [] [7] empty_pipe empty_pipe AppReading False False Selecting)"
  by (rule converse_rtranclp_into_rtranclp, rule demo_echo(1),
      rule converse_rtranclp_into_rtranclp, rule demo_echo(2),
      rule converse_rtranclp_into_rtranclp, rule demo_echo(3),
      rule converse_rtranclp_into_rtranclp, rule demo_echo(4),
      rule converse_rtranclp_into_rtranclp, rule demo_echo(5),
      rule converse_rtranclp_into_rtranclp, rule demo_echo(6), rule rtranclp.rtrancl_refl)

lemma pipes_return_prefix:
  assumes "pumped_peer edge sending received valid" and "valid e0"
    and "(echo_step pipes edge)\<^sup>*\<^sup>* (pump_start e0 (duplex_new pipes)) st"
  shows "\<exists>p q. sending e0 = p @ q \<and> received (pump_edge st) = received e0 @ p"
proof -
  from assms(3) have "echo_inv sending received valid e0 st"
  proof (induction rule: rtranclp_induct)
    case base
    have "forwarded (sending e0) [] (sending e0) [] False" by (rule forwarded_start)
    then show ?case
      using assms(2) forwarded_start [of "[]" "received e0"]
      by (auto simp: echo_inv_def pump_start_def phase_ok_def)
  next
    case (step st1 st2)
    then show ?case by (blast intro: echo_inv_step [OF assms(1)])
  qed
  then show ?thesis unfolding echo_inv_def forwarded_def by force
qed

section \<open>Any stream pair\<close>

text \<open>
  A pair that obeys its laws moves like the specification: the view of a state is a bisimulation.
\<close>

definition duplex_view :: "('p \<Rightarrow> pipe) \<Rightarrow> 'p duplex \<Rightarrow> pipe duplex" where
  "duplex_view view d = \<lparr>inbound = view (inbound d), outbound = view (outbound d), app = app d\<rparr>"

abbreviation echo_view where "echo_view view \<equiv> pump_view (duplex_view view)"

lemma duplex_view_fields [simp]:
  "inbound (duplex_view view d) = view (inbound d)" "outbound (duplex_view view d) = view (outbound d)"
  "app (duplex_view view d) = app d"
  "(duplex_view view d)\<lparr>inbound := view i\<rparr> = duplex_view view (d\<lparr>inbound := i\<rparr>)"
  "(duplex_view view d)\<lparr>outbound := view i\<rparr> = duplex_view view (d\<lparr>outbound := i\<rparr>)"
  "(duplex_view view d)\<lparr>app := a\<rparr> = duplex_view view (d\<lparr>app := a\<rparr>)"
  by (simp_all add: duplex_view_def)

lemma duplex_new_view: "duplex_laws DUPLEX_SIZE dx view \<Longrightarrow> duplex_view view (duplex_new dx) = duplex_new pipes"
  by (simp add: duplex_laws_def duplex_new_def duplex_view_def)

lemma duplex_ops_view:
  assumes "duplex_laws DUPLEX_SIZE dx view"
  shows "pipe_read n (view p) = map_option (map_prod id view) (pair_read dx n p)"
    and "pipe_write DUPLEX_SIZE data (view p) = map_option (map_prod id view) (pair_write dx data p)"
    and "(view p)\<lparr>sealed := True\<rparr> = view (pair_seal dx p)"
  using assms by (simp_all add: duplex_laws_def)

lemma app_gone_view:
  "duplex_laws DUPLEX_SIZE dx view \<Longrightarrow> app_gone pipes (duplex_view view d) = duplex_view view (app_gone dx d)"
  by (simp add: app_gone_def duplex_view_def duplex_ops_view)

lemma app_step_view:
  assumes "duplex_laws DUPLEX_SIZE dx view"
  shows "app_step pipes (duplex_view view d) = map_option (duplex_view view) (app_step dx d)"
  by (cases "app d")
     (auto simp: app_step_def duplex_ops_view [OF assms] app_gone_view [OF assms] option.map_comp
        split: option.split sum.split intro!: option.map_cong)

lemma libcfd_end_view:
  assumes "duplex_laws DUPLEX_SIZE dx view"
  shows "peer_view (duplex_view view) (libcfd_end dx) (libcfd_end pipes)"
  by (auto simp: peer_view_def libcfd_end_def duplex_ops_view [OF assms] option.map_comp
      intro!: option.map_cong)

lemma echo_step_view:
  assumes "duplex_laws DUPLEX_SIZE dx view" and "echo_step dx edge st st'"
  shows "echo_step pipes edge (echo_view view st) (echo_view view st')"
  using assms(2)
proof cases
  case pump_moves
  then show ?thesis by (intro echo_step.pump_moves pump_step_view [OF libcfd_end_view [OF assms(1)]])
next
  case (app_moves d)
  have "app_step pipes (pump_origin (echo_view view st)) = Some (duplex_view view d)"
    using app_moves(2) by (simp add: app_step_view [OF assms(1)])
  from echo_step.app_moves [OF this] app_moves(1) show ?thesis by simp
qed

lemma echo_step_lift:
  assumes "duplex_laws DUPLEX_SIZE dx view" and "echo_step pipes edge (echo_view view st) b"
  obtains st' where "echo_step dx edge st st'" "echo_view view st' = b"
  using assms(2)
proof cases
  case pump_moves
  from pump_step_lift [OF libcfd_end_view [OF assms(1)] this] show thesis
    by (metis that echo_step.pump_moves)
next
  case (app_moves d)
  then obtain d' where "app_step dx (pump_origin st) = Some d'" "d = duplex_view view d'"
    by (auto simp: app_step_view [OF assms(1)])
  with app_moves(1) show thesis by (intro that [OF echo_step.app_moves]) auto
qed

lemma echo_run_view:
  assumes "duplex_laws DUPLEX_SIZE dx view" and "(echo_step dx edge)\<^sup>*\<^sup>* st st'"
  shows "(echo_step pipes edge)\<^sup>*\<^sup>* (echo_view view st) (echo_view view st')"
  using assms(2)
  by induction (auto intro: rtranclp.rtrancl_into_rtrancl echo_step_view [OF assms(1)])

lemma echo_run_lift:
  assumes "duplex_laws DUPLEX_SIZE dx view" and "(echo_step pipes edge)\<^sup>*\<^sup>* (echo_view view st) b"
  shows "\<exists>st'. (echo_step dx edge)\<^sup>*\<^sup>* st st' \<and> echo_view view st' = b"
  using assms(2)
proof induction
  case (step b c)
  then show ?case by (metis echo_step_lift [OF assms(1)] rtranclp.rtrancl_into_rtrancl)
qed blast

lemma pump_start_view:
  "duplex_laws DUPLEX_SIZE dx view \<Longrightarrow>
     echo_view view (pump_start e0 (duplex_new dx)) = pump_start e0 (duplex_new pipes)"
  by (simp add: pump_start_def pump_view_def duplex_new_view)

text \<open>C19. Whatever the edge sends to an echoing TCP origin, and however the pump, the task of the
  origin, short writes, failures and delays interleave: at every moment the edge has got back a
  prefix of what it has sent. Nothing is invented, lost in the middle, duplicated or reordered on
  the way through the pump, the stream pair and back.\<close>

theorem echo_returns_prefix:
  assumes "pumped_peer edge sending received valid" and "valid e0"
    and "duplex_laws DUPLEX_SIZE dx view"
    and "(echo_step dx edge)\<^sup>*\<^sup>* (pump_start e0 (duplex_new dx)) st"
  shows "\<exists>p q. sending e0 = p @ q \<and> received (pump_edge st) = received e0 @ p"
  using pipes_return_prefix [OF assms(1,2), of "echo_view view st"] echo_run_view [OF assms(3,4)]
  by (simp add: pump_start_view [OF assms(3)])

theorem echo_returns_prefix_witness:
  "\<exists>p q. fst ([7 :: byte], [] :: byte list) = p @ q \<and>
     snd (pump_edge (echo_state [] [7] empty_pipe empty_pipe AppReading False False Selecting))
       = snd ([7 :: byte], []) @ p"
  by (rule echo_returns_prefix [OF memory_pumped TrueI pipe_ops_laws demo_echo_back [unfolded echo_start_def]])

end
