(* ===== verification/Echo_Liveness.thy ===== *)
theory Echo_Liveness
  imports Echo_Origin
begin

text \<open>
  When the bytes an edge sends to the echoing origin of \<open>Echo_Origin\<close> come back. The pump has one
  task for both directions: a write that is pending in one of them holds up the other. So everything
  comes back as long as it fits the two buffers of the stream pair, and when more is under way, pump
  and origin can wait for each other for ever.
\<close>

section \<open>When everything comes back\<close>

lemma memory_read:
  "read_branch memory_peer s =
     Some (if fst s = [] then (Some Closing, True, s)
           else (Some (Writing (take PUMP_BUFFER (fst s))), False, (drop PUMP_BUFFER (fst s), snd s)))"
  by (cases s) (simp add: read_branch_def memory_peer_def)

lemma memory_transfer:
  "transfer_part memory_peer t s =
     Some (case t of Writing data \<Rightarrow> (None, False, (fst s, snd s @ data)) | Closing \<Rightarrow> (None, True, s))"
  by (cases s) (simp add: transfer_part_def memory_peer_def split: transfer.split)

text \<open>With such an edge nothing is ever lost: the bytes are in one place each.\<close>

definition echo_bytes :: "(byte list \<times> byte list, pipe duplex) pump_state \<Rightarrow> byte list" where
  "echo_bytes st = snd (pump_edge st) @ origin_unwritten (pump_phase st) @ in_origin (pump_origin st)
     @ edge_unwritten (pump_phase st) @ fst (pump_edge st)"

definition echo_whole :: "(byte list \<times> byte list, pipe duplex) pump_state \<Rightarrow> bool" where
  "echo_whole st \<longleftrightarrow>
     duplex_ok (pump_origin st) \<and> phase_ok st \<and>
     (edge_done st \<longrightarrow> fst (pump_edge st) = []) \<and>
     (sealed (inbound (pump_origin st)) \<longleftrightarrow> edge_done st \<and> pump_phase st \<noteq> FromEdge Closing) \<and>
     (origin_done st \<longrightarrow> in_origin (pump_origin st) = [] \<and> app (pump_origin st) = AppGone)"

lemma libcfd_read_sealed:
  "read_branch (libcfd_end pipes) d = Some (t, dn, d') \<Longrightarrow> sealed (inbound d') = sealed (inbound d)"
  by (auto simp: read_branch_def libcfd_end_def split: option.splits if_splits)

lemma libcfd_transfer_open:
  assumes "transfer_part (libcfd_end pipes) (Writing data) d = Some (t', dn, d')" and "data \<noteq> []"
    and "\<not> sealed (inbound d)" and "length (buffered (inbound d)) \<le> DUPLEX_SIZE"
  obtains n where "0 < n" "\<not> dn" "\<not> sealed (inbound d')" "in_origin d' = in_origin d @ take n data"
    "data = take n data @ unwritten t'" "app d' = app d" "t' \<noteq> Some Closing"
proof -
  from assms(1,3) obtain n p where w: "pipe_write DUPLEX_SIZE data (inbound d) = Some (Inr n, p)"
    by (auto simp: transfer_part_def libcfd_end_def dest: pipe_write_fails split: option.splits sum.splits)
  from pipe_write_bytes [OF w assms(4)] w assms(1,2) show thesis
    by (intro that [of n])
       (auto simp: transfer_part_def libcfd_end_def in_origin_def app_holding_def split: if_splits)
qed

lemma echo_whole_app:
  assumes "app_step pipes (pump_origin st) = Some d" and "echo_whole st"
  shows "echo_whole (st\<lparr>pump_origin := d\<rparr>) \<and> echo_bytes (st\<lparr>pump_origin := d\<rparr>) = echo_bytes st"
  using assms(2) app_step_keeps [OF assms(1)] by (auto simp: echo_whole_def echo_bytes_def)

lemma echo_whole_edge_transfer:
  assumes phase: "pump_phase st = FromEdge t" and whole: "echo_whole st"
    and part: "transfer_part (libcfd_end pipes) t (pump_origin st) = Some (t', d, oo)"
    and st': "st' = st\<lparr>pump_origin := oo, edge_done := d, pump_phase := next_phase FromEdge t'\<rparr>"
    and ok': "phase_ok st'"
  shows "echo_whole st' \<and> echo_bytes st' = echo_bytes st"
proof -
  have ok: "duplex_ok (pump_origin st)" using whole by (simp add: echo_whole_def)
  from libcfd_transfer_bytes [OF part ok] have keeps: "duplex_ok oo" by blast
  show ?thesis
  proof (cases t)
    case Closing
    with phase whole ok' keeps part st' show ?thesis
      by (auto simp: echo_whole_def transfer_part_def libcfd_end_def next_phase_def phase_ok_def
          in_origin_def app_holding_def echo_bytes_def)
  next
    case (Writing data)
    with whole phase have w: "data \<noteq> []" "\<not> edge_done st" "\<not> sealed (inbound (pump_origin st))"
      "length (buffered (inbound (pump_origin st))) \<le> DUPLEX_SIZE"
      by (auto simp: echo_whole_def phase_ok_def duplex_ok_def)
    from libcfd_transfer_open [OF part [unfolded Writing] w(1,3,4)] obtain n where n:
      "\<not> d" "\<not> sealed (inbound oo)" "in_origin oo = in_origin (pump_origin st) @ take n data"
      "data = take n data @ unwritten t'" "app oo = app (pump_origin st)" by blast
    have "in_origin oo @ unwritten t' = in_origin (pump_origin st) @ data"
      unfolding n(3) append.assoc n(4) [symmetric] ..
    with Writing phase st' have "echo_bytes st' = echo_bytes st"
      by (simp add: echo_bytes_def append_assoc [symmetric] del: append_assoc)
    moreover have "echo_whole st'"
      using whole w(2,3) ok' keeps n(1,2,5) st' by (auto simp: echo_whole_def duplex_ok_def)
    ultimately show ?thesis by simp
  qed
qed

lemma echo_whole_pump:
  assumes step: "pump_step memory_peer (libcfd_end pipes) st st'" and whole: "echo_whole st"
  shows "echo_whole st' \<and> echo_bytes st' = echo_bytes st"
proof -
  note phase = phase_ok_step [OF step]
  from step show ?thesis
  proof (cases rule: pump_step.cases)
    case (edge_read t d e)
    with whole phase show ?thesis
      by (auto simp: echo_whole_def echo_bytes_def memory_read next_phase_def split: if_splits)
  next
    case (edge_transfer t t' d oo)
    then show ?thesis by (intro echo_whole_edge_transfer whole phase)
  next
    case (origin_read t d oo)
    have "duplex_ok (pump_origin st)" using whole by (simp add: echo_whole_def)
    note got = libcfd_read_bytes [OF origin_read(4) this]
    have "echo_bytes st' = echo_bytes st"
      unfolding echo_bytes_def origin_read(1)
      by (simp add: origin_read(2) got(2) append_assoc [symmetric] del: append_assoc)
    moreover have "echo_whole st'"
      using origin_read(1,2) whole phase libcfd_read_sealed [OF origin_read(4)] got(1,3)
      by (auto simp: echo_whole_def next_phase_def split: option.split)
    ultimately show ?thesis by simp
  next
    case (origin_transfer t t' d e)
    with whole phase show ?thesis
      by (auto simp: echo_whole_def echo_bytes_def memory_transfer next_phase_def phase_ok_def
          split: transfer.splits)
  qed
qed

lemma echo_whole_run:
  assumes "(echo_step pipes memory_peer)\<^sup>*\<^sup>* (echo_start bytes) st"
  shows "echo_whole st \<and> echo_bytes st = bytes"
  using assms
proof (induction rule: rtranclp_induct)
  case base
  show ?case
    by (simp add: echo_whole_def echo_bytes_def echo_start_def pump_start_def phase_ok_def)
       (simp add: duplex_new_def)
next
  case (step st1 st2)
  from step(2) show ?case
    by cases (use step.IH echo_whole_app [of st1] echo_whole_pump [of st1 st2] in auto)
qed

text \<open>Every step moves bytes on or ends something, so runs end.\<close>

definition echo_work :: "(byte list \<times> byte list, pipe duplex) pump_state \<Rightarrow> nat" where
  "echo_work st =
     6 * length (fst (pump_edge st)) + 5 * length (edge_unwritten (pump_phase st))
     + 4 * length (buffered (inbound (pump_origin st))) + 3 * length (app_holding (pump_origin st))
     + 2 * length (buffered (outbound (pump_origin st))) + length (origin_unwritten (pump_phase st))
     + (if edge_done st then 0 else 2) + (if origin_done st then 0 else 2)
     + (if pump_phase st \<in> {FromEdge Closing, FromOrigin Closing} then 1 else 0)
     + (if app (pump_origin st) = AppGone then 0 else 1)"

lemma echo_work_app:
  assumes "app_step pipes (pump_origin st) = Some d" and "duplex_ok (pump_origin st)"
  shows "echo_work (st\<lparr>pump_origin := d\<rparr>) < echo_work st"
  using assms
proof (cases rule: app_step_cases)
  case (gave data n)
  then have "data \<noteq> []" using assms(2) by (simp add: duplex_ok_def)
  moreover have "length (take n data) + length (drop n data) = length data"
    unfolding length_append [symmetric] append_take_drop_id ..
  moreover have "0 < length (take n data)" using gave(2) \<open>data \<noteq> []\<close> by simp
  ultimately show ?thesis using gave by (auto simp: echo_work_def app_holding_def)
qed (auto simp: echo_work_def app_holding_def app_gone_def)

lemma libcfd_read_work:
  assumes "read_branch (libcfd_end pipes) d = Some (t, dn, d')"
  shows "length (buffered (outbound d)) = length (unwritten t) + length (buffered (outbound d'))"
    and "inbound d' = inbound d" "app d' = app d" "t \<noteq> Some (Writing [])"
    and "t = Some Closing \<longleftrightarrow> dn" "t \<noteq> None"
proof -
  from assms obtain data p where r: "pipe_read PUMP_BUFFER (outbound d) = Some (data, p)"
    by (auto simp: read_branch_def libcfd_end_def split: option.splits)
  with assms pipe_read_bytes [OF r sizes(3)] show
    "length (buffered (outbound d)) = length (unwritten t) + length (buffered (outbound d'))"
    "inbound d' = inbound d" "app d' = app d" "t \<noteq> Some (Writing [])" "t = Some Closing \<longleftrightarrow> dn" "t \<noteq> None"
    by (auto simp: read_branch_def libcfd_end_def split: if_splits)
qed

lemma libcfd_transfer_work:
  assumes "transfer_part (libcfd_end pipes) (Writing data) d = Some (t', dn, d')" and "data \<noteq> []"
    and "\<not> sealed (inbound d)" and "length (buffered (inbound d)) \<le> DUPLEX_SIZE"
  shows "4 * length (buffered (inbound d')) + 5 * length (unwritten t')
      < 4 * length (buffered (inbound d)) + 5 * length data"
    and "outbound d' = outbound d" "app d' = app d" "t' \<noteq> Some Closing" "\<not> dn"
proof -
  from assms(1,3) obtain n p where w: "pipe_write DUPLEX_SIZE data (inbound d) = Some (Inr n, p)"
    by (auto simp: transfer_part_def libcfd_end_def dest: pipe_write_fails split: option.splits sum.splits)
  note bytes = pipe_write_bytes [OF w assms(4)]
  have "length (take n data) + length (drop n data) = length data"
    unfolding length_append [symmetric] append_take_drop_id ..
  moreover have "0 < length (take n data)" using bytes assms(2) by simp
  ultimately show "4 * length (buffered (inbound d')) + 5 * length (unwritten t')
      < 4 * length (buffered (inbound d)) + 5 * length data"
    using w bytes assms(1,2) by (auto simp: transfer_part_def libcfd_end_def split: if_splits)
  show "outbound d' = outbound d" "app d' = app d" "t' \<noteq> Some Closing" "\<not> dn"
    using w bytes assms(1,2) by (auto simp: transfer_part_def libcfd_end_def split: if_splits)
qed

lemma echo_work_pump:
  assumes step: "pump_step memory_peer (libcfd_end pipes) st st'" and whole: "echo_whole st"
  shows "echo_work st' < echo_work st"
  using step
proof (cases rule: pump_step.cases)
  case (edge_read t d e)
  obtain xs ys where e: "pump_edge st = (xs, ys)" by (cases "pump_edge st")
  show ?thesis
  proof (cases xs)
    case Nil
    with edge_read e show ?thesis by (auto simp: echo_work_def memory_read next_phase_def)
  next
    case (Cons x zs)
    with edge_read e show ?thesis
      by (auto simp: echo_work_def memory_read next_phase_def min_def PUMP_BUFFER_def)
  qed
next
  case (edge_transfer t t' d oo)
  show ?thesis
  proof (cases t)
    case Closing
    with edge_transfer whole show ?thesis
      by (auto simp: echo_work_def transfer_part_def libcfd_end_def next_phase_def echo_whole_def
          phase_ok_def app_holding_def)
  next
    case (Writing data)
    with whole edge_transfer(2) have w: "data \<noteq> []" "\<not> edge_done st"
      "\<not> sealed (inbound (pump_origin st))" "length (buffered (inbound (pump_origin st))) \<le> DUPLEX_SIZE"
      by (auto simp: echo_whole_def phase_ok_def duplex_ok_def)
    from libcfd_transfer_work [OF edge_transfer(3) [unfolded Writing] w(1,3,4)] edge_transfer(1,2) Writing w
    show ?thesis by (auto simp: echo_work_def next_phase_def app_holding_def split: option.splits)
  qed
next
  case (origin_read t d oo)
  note work = libcfd_read_work [OF origin_read(4)]
  consider data where "t = Some (Writing data)" "data \<noteq> []" | "t = Some Closing"
    using work(4,6) by (cases t rule: unwritten.cases) auto
  then show ?thesis
  proof cases
    case 1
    with work(1-3,5) origin_read(1-3) show ?thesis
      by (simp add: echo_work_def next_phase_def app_holding_def)
  next
    case 2
    with work(1-3,5) origin_read(1-3) show ?thesis
      by (simp add: echo_work_def next_phase_def app_holding_def)
  qed
next
  case (origin_transfer t t' d e)
  with whole show ?thesis
    by (auto simp: echo_work_def memory_transfer next_phase_def echo_whole_def phase_ok_def
        split: transfer.splits)
qed

lemma echo_step_whole:
  assumes "echo_step pipes memory_peer st st'" and "echo_whole st"
  shows "echo_whole st' \<and> echo_bytes st' = echo_bytes st \<and> echo_work st' < echo_work st"
  using assms(1)
proof cases
  case pump_moves
  with echo_whole_pump [OF _ assms(2)] echo_work_pump [OF _ assms(2)] show ?thesis by blast
next
  case (app_moves d)
  with echo_whole_app [OF _ assms(2)] echo_work_app [of st d] assms(2) show ?thesis
    by (simp add: echo_whole_def)
qed

lemma echo_run_bounded:
  "(echo_step pipes memory_peer ^^ n) st st' \<Longrightarrow> echo_whole st \<Longrightarrow>
     echo_whole st' \<and> echo_bytes st' = echo_bytes st \<and> n + echo_work st' \<le> echo_work st"
proof (induction n arbitrary: st')
  case (Suc n)
  then obtain st1 where "(echo_step pipes memory_peer ^^ n) st st1" "echo_step pipes memory_peer st1 st'" by auto
  with Suc.IH [of st1] Suc.prems(2) echo_step_whole [of st1 st'] show ?case by auto
qed simp

lemma echo_start_whole [simp]:
  "echo_whole (echo_start bytes)" "echo_bytes (echo_start bytes) = bytes"
  "echo_work (echo_start bytes) = 6 * length bytes + 5"
  by (simp_all add: echo_whole_def echo_bytes_def echo_work_def echo_start_def pump_start_def phase_ok_def
      app_holding_def)
     (simp_all add: duplex_new_def)

text \<open>Where nothing moves: the task waits for bytes, or for room on its way out.\<close>

lemma app_waits:
  assumes "app_step pipes d = None" and "duplex_ok d"
  shows "(case app d of
      AppReading \<Rightarrow> buffered (inbound d) = [] \<and> \<not> sealed (inbound d)
    | AppWriting data \<Rightarrow> data \<noteq> [] \<and> length (buffered (outbound d)) = DUPLEX_SIZE
    | AppGone \<Rightarrow> sealed (inbound d) \<and> sealed (outbound d))"
  using assms
  by (auto simp: app_step_def duplex_ok_def pipe_read_def pipe_write_def Let_def
      split: app.splits option.splits sum.splits if_splits)

lemma echo_stuck:
  assumes stuck: "\<And>st'. \<not> echo_step pipes memory_peer st st'" and whole: "echo_whole st"
    and fits: "length (echo_bytes st) \<le> 2 * DUPLEX_SIZE + 1"
  shows "pump_finished st \<and> snd (pump_edge st) = echo_bytes st"
proof -
  obtain xs ys where e: "pump_edge st = (xs, ys)" by (cases "pump_edge st")
  let ?d = "pump_origin st"
  have ok: "duplex_ok ?d" using whole by (simp add: echo_whole_def)
  have app: "app_step pipes ?d = None"
    using stuck by (cases "app_step pipes ?d") (auto intro: echo_step.app_moves)
  note app_waits = app_waits [OF app ok]
  have pump: "\<not> pump_step memory_peer (libcfd_end pipes) st st'" for st'
    using stuck echo_step.pump_moves by blast
  have "pump_finished st"
  proof (rule ccontr)
    assume open_: "\<not> pump_finished st"
    note waits = pump_waits [OF pump open_]
    show False
    proof (cases "pump_phase st")
      case Selecting
      with waits e have "edge_done st" by (auto simp: memory_peer_def)
      with Selecting open_ waits have "pipe_read PUMP_BUFFER (outbound ?d) = None"
        by (simp add: pump_finished_def libcfd_end_def)
      then have "buffered (outbound ?d) = []" "\<not> sealed (outbound ?d)"
        by (auto simp: pipe_read_def split: if_splits)
      moreover have "sealed (inbound ?d)"
        using whole \<open>edge_done st\<close> Selecting by (simp add: echo_whole_def)
      ultimately show False using app_waits sizes(1) by (cases "app ?d") auto
    next
      case (FromEdge t)
      then obtain data where data: "t = Writing data" using waits by (cases t) (auto simp: libcfd_end_def)
      with waits FromEdge have full: "pipe_write DUPLEX_SIZE data (inbound ?d) = None" by (simp add: libcfd_end_def)
      have ne: "data \<noteq> []" using whole FromEdge data by (simp add: echo_whole_def phase_ok_def)
      have "length (buffered (inbound ?d)) = DUPLEX_SIZE" "\<not> sealed (inbound ?d)"
        using full ok by (auto simp: pipe_write_def Let_def duplex_ok_def split: if_splits)
      with app_waits sizes(1) obtain held where
        "app ?d = AppWriting held" "held \<noteq> []" "length (buffered (outbound ?d)) = DUPLEX_SIZE"
        by (cases "app ?d") auto
      with \<open>length (buffered (inbound ?d)) = DUPLEX_SIZE\<close> FromEdge data ne
      have "length (echo_bytes st) \<ge> 2 * DUPLEX_SIZE + length held + length data"
        by (simp add: echo_bytes_def in_origin_def app_holding_def)
      moreover have "0 < length held" "0 < length data" using \<open>held \<noteq> []\<close> ne by simp_all
      ultimately show False using fits by linarith
    next
      case (FromOrigin t)
      with waits e show False by (cases t) (simp_all add: memory_peer_def)
    qed
  qed
  moreover from this have "snd (pump_edge st) = echo_bytes st"
    using whole by (simp add: pump_finished_def echo_whole_def echo_bytes_def)
  ultimately show ?thesis ..
qed

lemma stuck_view:
  assumes "duplex_laws DUPLEX_SIZE dx view" and "\<forall>st'. \<not> echo_step dx edge st st'"
  shows "\<not> echo_step pipes edge (echo_view view st) b"
  using assms echo_step_lift by metis

lemma echo_steps_view:
  "duplex_laws DUPLEX_SIZE dx view \<Longrightarrow> (echo_step dx edge ^^ n) st st' \<Longrightarrow>
     (echo_step pipes edge ^^ n) (echo_view view st) (echo_view view st')"
  by (induction n arbitrary: st') (auto intro: echo_step_view)

lemma start_view:
  "duplex_laws DUPLEX_SIZE dx view \<Longrightarrow>
     echo_view view (pump_start (bytes, []) (duplex_new dx)) = echo_start bytes"
  by (simp add: pump_start_view echo_start_def)

text \<open>C20. An echo that fits the two buffers of the stream pair always comes back whole. From an edge
  that sends \<open>bytes\<close>, at most 131073 of them, and takes every write, pump and origin make at most
  six steps a byte and five more, in whatever order; and whenever neither can move, the pump has
  returned and the edge has got back exactly what it sent.\<close>

theorem echo_completes:
  assumes "duplex_laws DUPLEX_SIZE dx view" and "length bytes \<le> 131073"
    and start: "start = pump_start (bytes, []) (duplex_new dx)"
  shows "((echo_step dx memory_peer ^^ n) start st \<longrightarrow> n \<le> 6 * length bytes + 5) \<and>
    ((echo_step dx memory_peer)\<^sup>*\<^sup>* start st \<and> (\<forall>st'. \<not> echo_step dx memory_peer st st') \<longrightarrow>
       pump_finished st \<and> snd (pump_edge st) = bytes)"
proof (intro conjI impI)
  assume "(echo_step dx memory_peer ^^ n) start st"
  from echo_run_bounded [OF echo_steps_view [OF assms(1) this, unfolded start start_view [OF assms(1)]]]
  show "n \<le> 6 * length bytes + 5" by simp
next
  assume run: "(echo_step dx memory_peer)\<^sup>*\<^sup>* start st \<and> (\<forall>st'. \<not> echo_step dx memory_peer st st')"
  then have "(echo_step pipes memory_peer)\<^sup>*\<^sup>* (echo_start bytes) (echo_view view st)"
    using echo_run_view [OF assms(1)] start_view [OF assms(1)] start by metis
  then have "echo_whole (echo_view view st)" "echo_bytes (echo_view view st) = bytes"
    using echo_whole_run by blast+
  moreover have "\<not> echo_step pipes memory_peer (echo_view view st) b" for b
    using stuck_view [OF assms(1)] run by blast
  ultimately show "pump_finished st" "snd (pump_edge st) = bytes"
    using echo_stuck [of "echo_view view st"] assms(2) by (simp_all add: DUPLEX_SIZE_def)
qed

lemma demo_echo_run:
  "(echo_step pipes memory_peer ^^ 11) (echo_start [7])
     (echo_state [] [7] sealed_pipe sealed_pipe AppGone True True Selecting)"
proof -
  have "(11 :: nat) = Suc (Suc (Suc (Suc (Suc (Suc (Suc (Suc (Suc (Suc (Suc 0))))))))))" by simp
  then show ?thesis
    by (simp only: relpowp.simps) (blast intro: demo_echo)
qed

theorem echo_completes_witness:
  "(11 :: nat) \<le> 6 * length [7 :: byte] + 5 \<and>
   snd (pump_edge (echo_state [] [7] sealed_pipe sealed_pipe AppGone True True Selecting)) = [7]"
proof -
  let ?st = "echo_state [] [7] sealed_pipe sealed_pipe AppGone True True Selecting"
  have "\<forall>st'. \<not> echo_step pipes memory_peer ?st st'" by (simp add: run_echo)
  moreover from demo_echo_run have "(echo_step pipes memory_peer)\<^sup>*\<^sup>* (echo_start [7]) ?st"
    by (rule relpowp_imp_rtranclp)
  ultimately show ?thesis using echo_completes [OF pipe_ops_laws, of "[7]" "echo_start [7]" 11 ?st] demo_echo_run
    by (simp add: echo_start_def)
qed

section \<open>When pump and origin wait for each other\<close>

text \<open>
  The states of a run in which the pump only ever finds the edge ready: bytes to come, the two
  buffers and what the task of the origin does.
\<close>

definition flooded ::
  "byte list \<Rightarrow> byte list \<Rightarrow> app \<Rightarrow> byte list \<Rightarrow> pump_phase \<Rightarrow> (byte list \<times> byte list, pipe duplex) pump_state" where
  "flooded xs i a oo ph =
     \<lparr>pump_edge = (xs, []),
      pump_origin = \<lparr>inbound = \<lparr>buffered = i, sealed = False\<rparr>,
                     outbound = \<lparr>buffered = oo, sealed = False\<rparr>, app = a\<rparr>,
      edge_done = False, origin_done = False, pump_phase = ph\<rparr>"

abbreviation echo_runs where "echo_runs \<equiv> (echo_step pipes memory_peer)\<^sup>*\<^sup>*"

lemma flood_read:
  "xs \<noteq> [] \<Longrightarrow> echo_step pipes memory_peer (flooded xs i a oo Selecting)
     (flooded (drop PUMP_BUFFER xs) i a oo (FromEdge (Writing (take PUMP_BUFFER xs))))"
  by (rule echo_step.pump_moves,
      rule edge_read [where t = "Some (Writing (take PUMP_BUFFER xs))" and d = False
        and e = "(drop PUMP_BUFFER xs, [])", THEN back_subst [where P = "pump_step _ _ _"]])
     (simp_all add: flooded_def memory_read next_phase_def)

lemma flood_write:
  "0 < length data \<Longrightarrow> length i + length data \<le> DUPLEX_SIZE \<Longrightarrow>
   echo_step pipes memory_peer (flooded xs i a oo (FromEdge (Writing data))) (flooded xs (i @ data) a oo Selecting)"
  by (rule echo_step.pump_moves,
      rule edge_transfer [where t = "Writing data" and t' = None and d = False
        and oo = "\<lparr>inbound = \<lparr>buffered = i @ data, sealed = False\<rparr>,
                   outbound = \<lparr>buffered = oo, sealed = False\<rparr>, app = a\<rparr>",
        THEN back_subst [where P = "pump_step _ _ _"]])
     (auto simp: flooded_def transfer_part_def libcfd_end_def pipe_write_def Let_def next_phase_def
        length_greater_0_conv [symmetric] simp del: length_greater_0_conv)

lemma flood_task_reads:
  "i \<noteq> [] \<Longrightarrow> length i \<le> APP_BUFFER \<Longrightarrow>
   echo_step pipes memory_peer (flooded xs i AppReading oo ph) (flooded xs [] (AppWriting i) oo ph)"
  by (rule echo_step.app_moves [where d = "\<lparr>inbound = \<lparr>buffered = [], sealed = False\<rparr>,
        outbound = \<lparr>buffered = oo, sealed = False\<rparr>, app = AppWriting i\<rparr>",
        THEN back_subst [where P = "echo_step _ _ _"]])
     (simp_all add: flooded_def app_step_def pipe_read_def)

lemma flood_task_writes:
  "data \<noteq> [] \<Longrightarrow> length oo + length data \<le> DUPLEX_SIZE \<Longrightarrow>
   echo_step pipes memory_peer (flooded xs i (AppWriting data) oo ph) (flooded xs i AppReading (oo @ data) ph)"
  by (rule echo_step.app_moves [where d = "\<lparr>inbound = \<lparr>buffered = i, sealed = False\<rparr>,
        outbound = \<lparr>buffered = oo @ data, sealed = False\<rparr>, app = AppReading\<rparr>",
        THEN back_subst [where P = "echo_step _ _ _"]])
     (auto simp: flooded_def app_step_def pipe_write_def Let_def
        length_greater_0_conv [symmetric] simp del: length_greater_0_conv)

text \<open>One buffer of the pump goes into the origin.\<close>

lemma flood_block:
  assumes "length b = PUMP_BUFFER" and "length i + PUMP_BUFFER \<le> DUPLEX_SIZE"
  shows "echo_runs (flooded (b @ xs) i a oo Selecting) (flooded xs (i @ b) a oo Selecting)"
proof -
  have "b \<noteq> []" using assms(1) by auto
  with assms flood_read [of "b @ xs" i a oo] flood_write [of b i xs a oo] show ?thesis
    by (auto intro: converse_rtranclp_into_rtranclp)
qed

text \<open>Blocks that the task still can pass on fill the way out; later ones fill the way in.\<close>

lemma flood_way_out:
  "length bs = n * PUMP_BUFFER \<Longrightarrow> length oo + length bs \<le> DUPLEX_SIZE \<Longrightarrow>
   echo_runs (flooded (bs @ xs) [] AppReading oo Selecting) (flooded xs [] AppReading (oo @ bs) Selecting)"
proof (induction n arbitrary: bs oo)
  case (Suc n)
  define b where "b = take PUMP_BUFFER bs"
  have bs: "bs = b @ drop PUMP_BUFFER bs" "length b = PUMP_BUFFER" "b \<noteq> []"
    using Suc.prems(1) by (auto simp: b_def PUMP_BUFFER_def)
  have small: "length b \<le> APP_BUFFER" "length oo + length b \<le> DUPLEX_SIZE" "PUMP_BUFFER \<le> DUPLEX_SIZE"
    using bs(2) Suc.prems by (simp_all add: APP_BUFFER_def PUMP_BUFFER_def DUPLEX_SIZE_def)
  let ?rest = "drop PUMP_BUFFER bs @ xs"
  have "echo_runs (flooded (b @ ?rest) [] AppReading oo Selecting) (flooded ?rest b AppReading oo Selecting)"
    using flood_block [OF bs(2), of "[]"] small(3) by simp
  also have "echo_runs \<dots> (flooded ?rest [] AppReading (oo @ b) Selecting)"
    using flood_task_reads [OF bs(3) small(1)] flood_task_writes [OF bs(3) small(2)]
    by (blast intro: converse_rtranclp_into_rtranclp)
  also have "echo_runs \<dots> (flooded xs [] AppReading ((oo @ b) @ drop PUMP_BUFFER bs) Selecting)"
    by (rule Suc.IH) (use Suc.prems in \<open>auto simp: b_def\<close>)
  finally show ?case using bs(1) by (metis append.assoc)
qed simp

lemma flood_way_in:
  "length bs = n * PUMP_BUFFER \<Longrightarrow> length i + length bs \<le> DUPLEX_SIZE \<Longrightarrow>
   echo_runs (flooded (bs @ xs) i a oo Selecting) (flooded xs (i @ bs) a oo Selecting)"
proof (induction n arbitrary: bs i)
  case (Suc n)
  define b where "b = take PUMP_BUFFER bs"
  have bs: "bs = b @ drop PUMP_BUFFER bs" "length b = PUMP_BUFFER"
    using Suc.prems(1) by (auto simp: b_def PUMP_BUFFER_def)
  have "echo_runs (flooded (b @ drop PUMP_BUFFER bs @ xs) i a oo Selecting)
      (flooded (drop PUMP_BUFFER bs @ xs) (i @ b) a oo Selecting)"
    by (rule flood_block [OF bs(2)]) (use Suc.prems in simp)
  also have "echo_runs \<dots> (flooded xs ((i @ b) @ drop PUMP_BUFFER bs) a oo Selecting)"
    by (rule Suc.IH) (use Suc.prems in \<open>auto simp: b_def\<close>)
  finally show ?case using bs(1) by (metis append.assoc)
qed simp

lemma flooded_stuck:
  assumes "length i = DUPLEX_SIZE" "length oo = DUPLEX_SIZE" "held \<noteq> []" "data \<noteq> []"
  shows "\<not> echo_step pipes memory_peer (flooded xs i (AppWriting held) oo (FromEdge (Writing data))) st'"
  using assms
  by (auto simp: flooded_def transfer_part_def libcfd_end_def pipe_write_def app_step_def
      elim!: echo_step.cases pump_step.cases)

lemma pipes_can_hang:
  assumes "139264 < length bytes"
  shows "\<exists>st. echo_runs (echo_start bytes) st \<and>
    (\<forall>st'. \<not> echo_step pipes memory_peer st st') \<and> \<not> pump_finished st \<and> snd (pump_edge st) = []"
proof -
  define out where "out = take DUPLEX_SIZE bytes"
  define held where "held = take PUMP_BUFFER (drop DUPLEX_SIZE bytes)"
  define inn where "inn = take DUPLEX_SIZE (drop (DUPLEX_SIZE + PUMP_BUFFER) bytes)"
  define xs where "xs = drop (2 * DUPLEX_SIZE + PUMP_BUFFER) bytes"
  have bytes: "bytes = out @ held @ inn @ xs"
    unfolding out_def held_def inn_def xs_def
    by (metis (no_types) add.commute add.left_commute append_take_drop_id drop_drop mult_2)
  have len: "length out = 8 * PUMP_BUFFER" "length held = PUMP_BUFFER" "length inn = 8 * PUMP_BUFFER" "xs \<noteq> []"
    and size: "DUPLEX_SIZE = 8 * PUMP_BUFFER" "APP_BUFFER = PUMP_BUFFER"
    using assms by (auto simp: out_def held_def inn_def xs_def DUPLEX_SIZE_def PUMP_BUFFER_def APP_BUFFER_def)
  have "held \<noteq> []" using len(2) by auto
  let ?st = "flooded (drop PUMP_BUFFER xs) inn (AppWriting held) out (FromEdge (Writing (take PUMP_BUFFER xs)))"
  have "echo_start bytes = flooded (out @ held @ inn @ xs) [] AppReading [] Selecting"
    by (simp add: bytes echo_start_def pump_start_def duplex_new_def flooded_def)
  also have "echo_runs \<dots> (flooded (held @ inn @ xs) [] AppReading out Selecting)"
    using flood_way_out [OF len(1), of "[]"] len(1) size by simp
  also have "echo_runs \<dots> (flooded (inn @ xs) held AppReading out Selecting)"
    using flood_block [OF len(2), of "[]"] size by simp
  also have "echo_step pipes memory_peer \<dots> (flooded (inn @ xs) [] (AppWriting held) out Selecting)"
    by (rule flood_task_reads) (use \<open>held \<noteq> []\<close> len(2) size in simp_all)
  also have "echo_runs \<dots> (flooded xs inn (AppWriting held) out Selecting)"
    using flood_way_in [OF len(3), of "[]"] len(3) size by simp
  also have "echo_step pipes memory_peer \<dots> ?st" by (rule flood_read [OF len(4)])
  finally have "echo_runs (echo_start bytes) ?st" .
  moreover have "\<not> echo_step pipes memory_peer ?st st'" for st'
    by (rule flooded_stuck) (use len \<open>held \<noteq> []\<close> size in auto)
  ultimately show ?thesis
    by (intro exI [of _ ?st]) (simp add: pump_finished_def flooded_def)
qed

text \<open>C21. The pump can wait for ever. Whatever an edge sends to an echoing origin, once it is more than
  136 KiB there is a run of pump and origin to a state in which neither can ever move again: the
  pump is inside a write to the origin, whose buffer is full, the origin is inside a write towards
  the pump, whose buffer is full too, and the pump reads neither side meanwhile. The edge would take
  every write and has not got a single byte back.\<close>

theorem echo_can_hang:
  assumes "duplex_laws DUPLEX_SIZE dx view" and "139264 < length bytes"
  shows "\<exists>st. (echo_step dx memory_peer)\<^sup>*\<^sup>* (pump_start (bytes, []) (duplex_new dx)) st \<and>
    (\<forall>st'. \<not> echo_step dx memory_peer st st') \<and> \<not> pump_finished st \<and> snd (pump_edge st) = []"
proof -
  from pipes_can_hang [OF assms(2)] obtain b where b: "echo_runs (echo_start bytes) b"
    "\<forall>st'. \<not> echo_step pipes memory_peer b st'" "\<not> pump_finished b" "snd (pump_edge b) = []" by blast
  from echo_run_lift [OF assms(1)] b(1) obtain st where
    "(echo_step dx memory_peer)\<^sup>*\<^sup>* (pump_start (bytes, []) (duplex_new dx)) st" "echo_view view st = b"
    by (metis start_view [OF assms(1)])
  moreover from this b have "\<not> pump_finished st" "snd (pump_edge st) = []" by (metis pump_view_fields)+
  moreover have "\<forall>st'. \<not> echo_step dx memory_peer st st'"
    using b(2) \<open>echo_view view st = b\<close> echo_step_view [OF assms(1)] by metis
  ultimately show ?thesis by blast
qed

theorem echo_can_hang_witness:
  "\<exists>st. (echo_step pipes memory_peer)\<^sup>*\<^sup>* (pump_start (replicate 139265 7, []) (duplex_new pipes)) st \<and>
    (\<forall>st'. \<not> echo_step pipes memory_peer st st') \<and> \<not> pump_finished st \<and> snd (pump_edge st) = []"
  by (rule echo_can_hang [OF pipe_ops_laws]) simp

end
