(* ===== verification/Example_Origins.thy ===== *)
theory Example_Origins
  imports H2_Streams Connector
begin

text \<open>
  The origins and programs of \<open>examples/quick_tunnel.rs\<close>, \<open>h2_tunnel.rs\<close>, \<open>axum_tunnel.rs\<close> and
  \<open>origin_ws_tcp.rs\<close>, over the library's own definitions: HTTP handlers that answer with a text, the
  websocket origin that hands out a loopback connection, and the programs that create a quick tunnel
  and run it (not the loopback server that \<open>origin_ws_tcp.rs\<close> starts in between). Printing is an action \<open>println\<close> on the world. A handler that panics drops its responder.
\<close>

section \<open>Handlers that answer with a text\<close>

definition newline :: string where "newline = [CHR 0x0A]"

text \<open>The response of all of them; \<open>None\<close> is the panic of \<open>HeaderValue::from_static\<close>.\<close>

definition text_response ::
  "('m, 'u, 'v, 'h) http_crate \<Rightarrow> byte list \<Rightarrow> ('h, 'r) response option" where
  "text_response http content =
     map_option
       (\<lambda>plain. response_new 200 (hm_insert http ''content-type'' plain (hm_new http)) (body_from_bytes content))
       (hv_from_str http ''text/plain'')"

definition send_text ::
  "('m, 'u, 'v, 'h) http_crate \<Rightarrow> byte list \<Rightarrow> ('h, 'r) response receiver" where
  "send_text http content =
     (case text_response http content of Some r \<Rightarrow> responder_send r | None \<Rightarrow> SenderDropped)"

definition hello_handle ::
  "('m, 'u, 'v, 'h) http_crate \<Rightarrow> ('m, 'u, 'h, 'r) request \<Rightarrow> 'w \<Rightarrow> ('h, 'r) response receiver \<times> 'w" where
  "hello_handle http request w = (send_text http (as_bytes ''hello over http''), w)"

text \<open>The handlers that name the request; the texts of methods and URIs are those of the \<open>http\<close> crate.\<close>

definition hello_text :: "string \<Rightarrow> ('m \<Rightarrow> string) \<Rightarrow> ('u \<Rightarrow> string) \<Rightarrow> ('m, 'u, 'h, 'r) request \<Rightarrow> string" where
  "hello_text greeting show_method show_uri request =
     greeting @ newline @ ''method='' @ show_method (req_method request) @ newline
     @ ''uri='' @ show_uri (req_uri request) @ newline"

definition quick_hello_handle ::
  "('m, 'u, 'v, 'h) http_crate \<Rightarrow> ('m \<Rightarrow> string) \<Rightarrow> ('u \<Rightarrow> string) \<Rightarrow> ('m, 'u, 'h, 'r) request \<Rightarrow> 'w
     \<Rightarrow> ('h, 'r) response receiver \<times> 'w" where
  "quick_hello_handle http show_method show_uri request w =
     (send_text http (as_bytes (hello_text ''hello from libcfd!'' show_method show_uri request)), w)"

definition h2_hello_handle ::
  "('m, 'u, 'v, 'h) http_crate \<Rightarrow> ('m \<Rightarrow> string) \<Rightarrow> ('u \<Rightarrow> string) \<Rightarrow> ('m, 'u, 'h, 'r) request \<Rightarrow> 'w
     \<Rightarrow> ('h, 'r) response receiver \<times> 'w" where
  "h2_hello_handle http show_method show_uri request w =
     (send_text http (as_bytes (hello_text ''hello over h2 from libcfd!'' show_method show_uri request)), w)"

text \<open>The handler of \<open>named_tunnel.rs\<close> counts the requests it has served, with wrap-around.\<close>

definition named_hello_handle ::
  "('m, 'u, 'v, 'h) http_crate \<Rightarrow> ('m, 'u, 'h, 'r) request \<Rightarrow> u64 \<Rightarrow> ('h, 'r) response receiver \<times> u64" where
  "named_hello_handle http request served =
     (send_text http (as_bytes ''hello from a named tunnel!''), served + 1)"

lemma send_text_sends:
  assumes "http_laws http"
  shows "\<exists>plain. hv_to_str http plain = Some ''text/plain'' \<and>
    wait_outcome (send_text http content) = Some (Inr (response_new 200
      (hm_insert http ''content-type'' plain (hm_new http)) (body_from_bytes content)))"
  using http_lawsD(5) [OF assms, of "''text/plain''"]
  by (auto simp: send_text_def text_response_def responder_send_def)

text \<open>What a client reads of such a response: status 200, plain text, and a body that is the text.\<close>

lemma text_response_read:
  assumes "http_laws http" and "0 < n"
  obtains r where "wait_outcome (send_text http content) = Some (Inr r)" "res_status r = 200"
    "\<exists>plain. hm_get http ''content-type'' (res_headers r) = Some plain \<and> hv_to_str http plain = Some ''text/plain''"
    "\<exists>b. body_collect reader_read n (res_body r) = Some (Inr content, b)"
proof -
  from send_text_sends [OF assms(1)] obtain plain where
    plain: "hv_to_str http plain = Some ''text/plain''" and
    sends: "wait_outcome (send_text http content) = Some (Inr (response_new 200
      (hm_insert http ''content-type'' plain (hm_new http)) (body_from_bytes content :: receive_stream_reader body)))" by blast
  have "\<exists>b. body_collect reader_read n (body_from_bytes content) = Some (Inr content, b)"
    using h2_request_body.read_to_eof_all [OF assms(2), of "body_from_bytes content"]
    by (simp add: body_collect_def body_from_bytes_def)
  with plain show thesis
    by (intro that [OF sends]) (auto simp: response_new_def http_lawsD [OF assms(1)])
qed

lemma named_hello_counts:
  "foldl (\<lambda>served request. snd (named_hello_handle http request served)) n requests = n + of_nat (length requests)"
  by (induction requests arbitrary: n) (simp_all add: named_hello_handle_def)

section \<open>The websocket origin\<close>

text \<open>
  \<open>connect\<close> spawns a task, so the outcome is what the task leaves in the responder; a panic of the
  task drops it. \<open>tcp\<close> connects to the loopback address, \<open>halves\<close> splits the connection.
\<close>

definition challenge_key :: "('m, 'u, 'v, 'h) http_crate \<Rightarrow> ('m, 'u, 'h, 'r) request \<Rightarrow> string" where
  "challenge_key http request =
     (case hm_get http ''sec-websocket-key'' (req_headers request) of
        None \<Rightarrow> []
      | Some v \<Rightarrow> header_text http v)"

definition echo_websocket_connect ::
  "('m, 'u, 'v, 'h) http_crate \<Rightarrow> (byte list \<Rightarrow> string) \<Rightarrow> (socket_addr \<Rightarrow> 'w \<Rightarrow> (io_error + 's) \<times> 'w)
     \<Rightarrow> ('s \<Rightarrow> 'io \<times> 'io) \<Rightarrow> socket_addr \<Rightarrow> ('m, 'u, 'h, 'r) request \<Rightarrow> 'w
     \<Rightarrow> ('h, 'r, 'io) websocket_connection receiver \<times> 'w" where
  "echo_websocket_connect http sha1_base64 tcp halves address request w =
     (case tcp address w of
        (Inl e, w) \<Rightarrow> (websocket_fail (io_message e), w)
      | (Inr sock, w) \<Rightarrow>
          (case hv_from_str http (websocket_accept sha1_base64 (challenge_key http request)) of
             None \<Rightarrow> (SenderDropped, w)
           | Some accept \<Rightarrow>
               (websocket_upgrade
                  \<lparr>ws_response = response_new 101
                     (hm_insert http ''sec-websocket-accept'' accept (hm_new http)) body_empty,
                   ws_origin = stream_from_io halves sock\<rparr>, w)))"

lemma echo_websocket_outcome:
  assumes "http_laws http" and "\<And>bytes. visible_ascii (sha1_base64 bytes)"
    and "echo_websocket_connect http sha1_base64 tcp halves address request w = (r, w')"
  obtains
    (unreachable) e where "tcp address w = (Inl e, w')" "wait_outcome r = Some (Inl (io_message e))"
  | (upgraded) sock c where "tcp address w = (Inr sock, w')" "wait_outcome r = Some (Inr c)"
      "res_status (ws_response c) = 101" "ws_origin c = stream_from_io halves sock"
      "\<exists>v. hm_get http ''sec-websocket-accept'' (res_headers (ws_response c)) = Some v \<and>
         hv_to_str http v = Some (websocket_accept sha1_base64 (challenge_key http request))"
proof -
  have "visible_ascii (websocket_accept sha1_base64 key)" for key
    using assms(2) by (simp add: websocket_accept_def)
  with http_lawsD(5) [OF assms(1)] obtain v where
    v: "hv_from_str http (websocket_accept sha1_base64 (challenge_key http request)) = Some v"
      "hv_to_str http v = Some (websocket_accept sha1_base64 (challenge_key http request))" by blast
  show thesis
  proof (cases "tcp address w")
    case (Pair res w1)
    with assms(3) v show thesis
      by (cases res)
         (auto simp: echo_websocket_connect_def websocket_fail_def websocket_upgrade_def
            responder_fail_def responder_send_def response_new_def http_lawsD [OF assms(1)]
            intro: unreachable upgraded)
  qed
qed

section \<open>The programs\<close>

definition say :: "(string \<Rightarrow> 'w \<Rightarrow> 'w) \<Rightarrow> string \<Rightarrow> ('w, error fault, unit) io" where
  "say println line = (\<lambda>w. Some (Inr (), println line w))"

definition obtain_quick_tunnel ::
  "(string \<Rightarrow> 'w \<Rightarrow> 'w) \<Rightarrow> 'w https_world \<Rightarrow> tunnel_codecs \<Rightarrow> ('w, error fault, quick_tunnel) io" where
  "obtain_quick_tunnel println https codecs =
     bind_io (say println (''requesting a quick tunnel from '' @ service_url default_quick_tunnel_options)) (\<lambda>_.
     bind_io (create_quick_tunnel https codecs default_quick_tunnel_options) (\<lambda>t.
     bind_io (say println (''tunnel created: '' @ url t)) (\<lambda>_. return_io t)))"

definition tunnel_main ::
  "(string \<Rightarrow> 'w \<Rightarrow> 'w) \<Rightarrow> 'w https_world \<Rightarrow> tunnel_codecs \<Rightarrow> ('w, 'conn, 'cb) connector_env \<Rightarrow> transport
     \<Rightarrow> transport \<Rightarrow> ('w, error fault, unit) io" where
  "tunnel_main println https codecs env built_in wanted =
     bind_io (obtain_quick_tunnel println https codecs)
       (\<lambda>t. run env ((default_edge_options built_in)\<lparr>opt_transport := wanted\<rparr>) (Quick t))"

text \<open>\<open>h2_tunnel.rs\<close> asks for HTTP/2, \<open>axum_tunnel.rs\<close> for QUIC.\<close>

definition h2_main ::
  "(string \<Rightarrow> 'w \<Rightarrow> 'w) \<Rightarrow> 'w https_world \<Rightarrow> tunnel_codecs \<Rightarrow> ('w, 'conn, 'cb) connector_env \<Rightarrow> transport
     \<Rightarrow> ('w, error fault, unit) io" where
  "h2_main println https codecs env built_in = tunnel_main println https codecs env built_in TH2"

definition axum_main ::
  "(string \<Rightarrow> 'w \<Rightarrow> 'w) \<Rightarrow> 'w https_world \<Rightarrow> tunnel_codecs \<Rightarrow> ('w, 'conn, 'cb) connector_env \<Rightarrow> transport
     \<Rightarrow> ('w, error fault, unit) io" where
  "axum_main println https codecs env built_in = tunnel_main println https codecs env built_in TQuic"

definition quick_main ::
  "(string \<Rightarrow> 'w \<Rightarrow> 'w) \<Rightarrow> 'w https_world \<Rightarrow> tunnel_codecs \<Rightarrow> ('w, 'conn, 'cb) connector_env \<Rightarrow> transport
     \<Rightarrow> ('w, error fault, unit) io" where
  "quick_main println https codecs env built_in =
     bind_io (obtain_quick_tunnel println https codecs)
       (\<lambda>t. run_quick_tunnel env built_in t default_run_options)"

text \<open>The shorthand \<open>run_quick_tunnel\<close> is what \<open>axum_tunnel.rs\<close> writes out.\<close>

lemma quick_main_is_axum_main:
  "quick_main println https codecs env built_in = axum_main println https codecs env built_in"
  by (simp add: quick_main_def axum_main_def tunnel_main_def run_quick_tunnel_def [abs_def] edge_options_from_run_default)

text \<open>No tunnel, no run: an error of the service is the program's.\<close>

lemma tunnel_main_fails:
  assumes "create_quick_tunnel https codecs default_quick_tunnel_options
      (println (''requesting a quick tunnel from '' @ service_url default_quick_tunnel_options) w)
    = Some (Inl e, w')"
  shows "tunnel_main println https codecs env built_in wanted w = Some (Inl e, w')"
  using assms by (simp add: tunnel_main_def obtain_quick_tunnel_def say_def bind_io_def)

lemma tunnel_main_runs:
  assumes "create_quick_tunnel https codecs default_quick_tunnel_options
      (println (''requesting a quick tunnel from '' @ service_url default_quick_tunnel_options) w)
    = Some (Inr t, w')"
  shows "tunnel_main println https codecs env built_in wanted w =
    run env ((default_edge_options built_in)\<lparr>opt_transport := wanted\<rparr>) (Quick t)
      (println (''tunnel created: '' @ url t) w')"
  using assms by (simp add: tunnel_main_def obtain_quick_tunnel_def say_def bind_io_def)

end
