(* ===== verification/Named_Example.thy ===== *)
theory Named_Example
  imports Example_Origins
begin

text \<open>
  \<open>examples/named_tunnel.rs\<close>: how the tunnel is loaded, what a configuration push adds to the host
  names, and the task that verifies them over a small HTTPS client. Network, clock and printing are
  the fields of \<open>get_world\<close>; the shared list of host names is part of the world, and other tasks
  may extend it while the task sleeps. The main results: the task reads a well-formed answer, polls a
  host name for at most 90 times if every request ends, and waits for ever when nothing is pushed.
\<close>

record 'w get_world =
  get_uri :: "string \<Rightarrow> string + uri"
  get_server_name :: "string \<Rightarrow> string + unit"
  get_lookup :: "string \<Rightarrow> u16 \<Rightarrow> ('w, io_error, socket_addr list) io"
  get_connect :: "socket_addr \<Rightarrow> ('w, io_error, unit) io"
  get_tls :: "string \<Rightarrow> ('w, io_error, unit) io"
  get_write_all :: "byte list \<Rightarrow> ('w, io_error, unit) io"
  get_read_to_end :: "('w, io_error, byte list) io"
  now :: "'w \<Rightarrow> nat"
  pause :: "duration \<Rightarrow> 'w \<Rightarrow> 'w"
  print :: "string \<Rightarrow> 'w \<Rightarrow> 'w"

definition POLL_TIMEOUT :: duration where "POLL_TIMEOUT = from_secs 180"
definition POLL_INTERVAL :: duration where "POLL_INTERVAL = from_secs 2"

section \<open>The client\<close>

definition get_request_text :: "string \<Rightarrow> string \<Rightarrow> string" where
  "get_request_text path host =
     ''GET '' @ path @ '' HTTP/1.1'' @ crlf @ ''Host: '' @ host @ crlf
     @ ''User-Agent: libcfd-named-tunnel-example'' @ crlf @ ''Connection: close'' @ crlf @ crlf"

definition get_status :: "string \<Rightarrow> u16 option" where
  "get_status head =
     (case lines head of
        [] \<Rightarrow> None
      | line # _ \<Rightarrow>
          (case split_whitespace line of
             _ # code # _ \<Rightarrow> map_option of_nat (parse_unsigned (2 ^ 16) code)
           | _ \<Rightarrow> None))"

definition parse_get_response :: "byte list \<Rightarrow> string fault + (u16 \<times> byte list)" where
  "parse_get_response buffer =
     (case find_window header_terminator buffer of
        None \<Rightarrow> Inl (Err ''response has no header terminator'')
      | Some header_end \<Rightarrow>
          bind_result (slice buffer 0 header_end) (\<lambda>prefix.
            case from_utf8 prefix of
              None \<Rightarrow> Inl (Err (''response head is not utf-8: '' @ utf8_error_message prefix))
            | Some head \<Rightarrow>
                (case get_status head of
                   None \<Rightarrow> Inl (Err (''malformed status line '' @ debug_str head))
                 | Some status \<Rightarrow>
                     bind_result (slice buffer (header_end + 4) (length buffer)) (\<lambda>body.
                       Inr (status, body)))))"

definition https_get :: "'w get_world \<Rightarrow> string \<Rightarrow> ('w, string fault, u16 \<times> byte list) io" where
  "https_get env target =
     bind_io (map_err_io Err (
       bind_io (lift_io (map_err (\<lambda>e. ''invalid url '' @ debug_str target @ '': '' @ e) (get_uri env target))) (\<lambda>uri.
       case Http_Api.uri_host uri of
         None \<Rightarrow> throw_io (''url '' @ debug_str target @ '' has no host'')
       | Some host \<Rightarrow>
           let prt = (case uri_port uri of Some p \<Rightarrow> p | None \<Rightarrow> 443);
               path = (if uri_path uri = [] then ''/'' else uri_path uri) in
           bind_io (lift_io (map_err (\<lambda>e. ''invalid host '' @ debug_str host @ '': '' @ e)
                      (get_server_name env host))) (\<lambda>_.
           bind_io (map_err_io (\<lambda>e. ''resolve '' @ host @ '': '' @ io_message e)
                      (get_lookup env host prt)) (\<lambda>addresses.
           bind_io (case addresses of
                      a # _ \<Rightarrow> return_io a | [] \<Rightarrow> throw_io (''no address for '' @ host)) (\<lambda>address.
           bind_io (map_err_io (\<lambda>e. ''tcp connect '' @ socket_addr_text address @ '': '' @ io_message e)
                      (get_connect env address)) (\<lambda>_.
           bind_io (map_err_io (\<lambda>e. ''tls handshake with '' @ host @ '': '' @ io_message e)
                      (get_tls env host)) (\<lambda>_.
           bind_io (map_err_io (\<lambda>e. ''write request: '' @ io_message e)
                      (get_write_all env (as_bytes (get_request_text path host)))) (\<lambda>_.
           map_err_io (\<lambda>e. ''read response: '' @ io_message e) (get_read_to_end env))))))))))
     (\<lambda>buffer. lift_io (parse_get_response buffer))"

text \<open>The slices are in range, so an answer never makes the program panic.\<close>

lemma parse_get_response_eq:
  "parse_get_response buffer =
     (case find_window header_terminator buffer of
        None \<Rightarrow> Inl (Err ''response has no header terminator'')
      | Some n \<Rightarrow>
          (case from_utf8 (take n buffer) of
             None \<Rightarrow> Inl (Err (''response head is not utf-8: '' @ utf8_error_message (take n buffer)))
           | Some head \<Rightarrow>
               (case get_status head of
                  None \<Rightarrow> Inl (Err (''malformed status line '' @ debug_str head))
                | Some status \<Rightarrow> Inr (status, drop (n + 4) buffer))))"
proof (cases "find_window header_terminator buffer")
  case (Some n)
  with find_window_Some [OF Some] show ?thesis
    by (simp add: parse_get_response_def cong: option.case_cong)
qed (simp add: parse_get_response_def)

lemma https_get_never_panics:
  "https_get env target w \<noteq> Some (Inl Panic, w')"
proof
  assume "https_get env target w = Some (Inl Panic, w')"
  then obtain buffer where "parse_get_response buffer = Inl Panic"
    by (auto simp: https_get_def bind_io_eq_Inl_iff map_err_io_eq_Some_iff map_err_eq_Inl_iff
        dest!: sym [of "Inl Panic"])
  then show False by (simp add: parse_get_response_eq split: option.splits)
qed

text \<open>A successful request has read a head with that status and a body behind the first blank line.\<close>

lemma parse_get_response_ok:
  assumes "parse_get_response buffer = Inr (status, body)"
  shows "\<exists>head. buffer = as_bytes head @ header_terminator @ body \<and> get_status head = Some status"
proof -
  from assms obtain n head where n: "find_window header_terminator buffer = Some n"
    and head: "from_utf8 (take n buffer) = Some head" "get_status head = Some status" "body = drop (n + 4) buffer"
    by (auto simp: parse_get_response_eq split: option.splits)
  then have "as_bytes head = take n buffer" by (auto simp: from_utf8_def split: if_splits)
  with find_window_append [OF n] head show ?thesis by (metis length_header_terminator)
qed

lemma https_get_ok:
  assumes "https_get env target w = Some (Inr (status, body), w')"
  obtains head w1 where
    "get_read_to_end env w1 = Some (Inr (as_bytes head @ header_terminator @ body), w')"
    "get_status head = Some status"
proof -
  from assms obtain buffer w1 where "get_read_to_end env w1 = Some (Inr buffer, w')"
    and "parse_get_response buffer = Inr (status, body)"
    by (auto simp: https_get_def bind_io_eq_Inr_iff Let_def split: option.splits)
  with parse_get_response_ok that show thesis by blast
qed

section \<open>Polling a host name\<close>

definition hello_answer :: string where "hello_answer = ''hello from a named tunnel!''"

fun contains_text :: "string \<Rightarrow> string \<Rightarrow> bool" where
  "contains_text t [] \<longleftrightarrow> t = []"
| "contains_text t (c # s) \<longleftrightarrow> strip_prefix t (c # s) \<noteq> None \<or> contains_text t s"

definition reached :: "u16 \<Rightarrow> string \<Rightarrow> bool" where
  "reached status body \<longleftrightarrow> status = 200 \<and> contains_text hello_answer body"

text \<open>
  The loop over one host name, with the last status and body; it returns whether the origin was
  reached. A panic of the client would end the task, but there is none.
\<close>

partial_function (option) poll_host ::
  "'w get_world \<Rightarrow> string \<Rightarrow> nat \<Rightarrow> u16 \<Rightarrow> string \<Rightarrow> ('w, unit fault, bool \<times> u16 \<times> string) io" where
  "poll_host env target deadline last_status last_body w =
     (if now env w < deadline
      then (case https_get env target w of
              None \<Rightarrow> None
            | Some (Inl Panic, w) \<Rightarrow> Some (Inl Panic, w)
            | Some (Inl (Err e), w) \<Rightarrow>
                poll_host env target deadline 0 (''https get error: '' @ e) (pause env POLL_INTERVAL w)
            | Some (Inr (status, body), w) \<Rightarrow>
                if reached status (string_from_utf8_lossy body)
                then Some (Inr (True, status, string_from_utf8_lossy body), w)
                else poll_host env target deadline status (string_from_utf8_lossy body)
                       (pause env POLL_INTERVAL w))
      else Some (Inr (False, last_status, last_body), w))"

definition verdict :: "string \<Rightarrow> bool \<times> u16 \<times> string \<Rightarrow> string" where
  "verdict name r =
     (case r of (reached_origin, last_status, last_body) \<Rightarrow>
        if reached_origin then ''VERIFIED https://'' @ name @ ''/ -> origin response''
        else ''NOT VERIFIED https://'' @ name @ ''/ within 180s (last status=''
          @ decimal (unat last_status) @ '', body='' @ debug_str last_body @ '')'')"

definition host_url :: "string \<Rightarrow> string" where "host_url name = ''https://'' @ name @ ''/''"

fun verify_hostnames :: "'w get_world \<Rightarrow> string list \<Rightarrow> ('w, unit fault, unit) io" where
  "verify_hostnames env [] = return_io ()"
| "verify_hostnames env (name # rest) =
     (\<lambda>w. bind_io
        (poll_host env (host_url name) (now env w + as_nanos POLL_TIMEOUT) 0 [])
        (\<lambda>r w. verify_hostnames env rest (print env (verdict name r) w)) w)"

text \<open>The polls of a host name that did not reach the origin, each followed by a pause.\<close>

inductive missed :: "'w get_world \<Rightarrow> string \<Rightarrow> nat \<Rightarrow> 'w \<Rightarrow> 'w \<Rightarrow> bool" for env target where
  missed_none: "missed env target 0 w w"
| missed_error:
    "missed env target n w w1 \<Longrightarrow> https_get env target w1 = Some (Inl (Err e), w2) \<Longrightarrow>
     missed env target (Suc n) w (pause env POLL_INTERVAL w2)"
| missed_answer:
    "missed env target n w w1 \<Longrightarrow> https_get env target w1 = Some (Inr (status, body), w2) \<Longrightarrow>
     \<not> reached status (string_from_utf8_lossy body) \<Longrightarrow>
     missed env target (Suc n) w (pause env POLL_INTERVAL w2)"

text \<open>The clock does not go back during a request, and a pause lasts at least its time.\<close>

definition clock_laws :: "'w get_world \<Rightarrow> string \<Rightarrow> bool" where
  "clock_laws env target \<longleftrightarrow>
     (\<forall>w r w'. https_get env target w = Some (r, w') \<longrightarrow> now env w \<le> now env w') \<and>
     (\<forall>d w. now env w + as_nanos d \<le> now env (pause env d w))"

lemma clock_lawsD:
  assumes "clock_laws env target"
  shows "https_get env target w = Some (r, w') \<Longrightarrow> now env w \<le> now env w'"
    and "now env w + as_nanos d \<le> now env (pause env d w)"
  using assms by (auto simp: clock_laws_def)

lemma poll_durations [simp]:
  "as_nanos POLL_INTERVAL = 2 * 10 ^ 9" "as_nanos POLL_TIMEOUT = 180 * 10 ^ 9"
  by (simp_all add: POLL_INTERVAL_def POLL_TIMEOUT_def from_secs_def as_nanos_def)

lemma poll_takes_time:
  assumes "clock_laws env target" and "https_get env target w = Some (r, w')"
  shows "now env w + 2 * 10 ^ 9 \<le> now env (pause env POLL_INTERVAL w')"
  using clock_lawsD(1) [OF assms] clock_lawsD(2) [OF assms(1), of w' POLL_INTERVAL] by simp

lemma missed_time:
  assumes "missed env target n w w'" and "clock_laws env target"
  shows "now env w + n * (2 * 10 ^ 9) \<le> now env w'"
  using assms(1)
proof induction
  case (missed_error n w w1 e w2)
  with poll_takes_time [OF assms(2) missed_error.hyps(2)] show ?case by simp
next
  case (missed_answer n w w1 status body w2)
  with poll_takes_time [OF assms(2) missed_answer.hyps(2)] show ?case by simp
qed simp

text \<open>
  If every request ends, so does the loop, after at most 90 polls that missed: it has reached the
  origin before the deadline, or gives up after it.
\<close>

lemma poll_host_from:
  assumes laws: "clock_laws env target" and total: "\<And>w. https_get env target w \<noteq> None"
    and "missed env target k w0 w" and "k = 0 \<or> now env w0 + (k - 1) * (2 * 10 ^ 9) < deadline"
  shows "\<exists>n w1 r w'. poll_host env target deadline s b w = Some (Inr r, w') \<and> missed env target n w0 w1 \<and>
    (n = 0 \<or> now env w0 + (n - 1) * (2 * 10 ^ 9) < deadline) \<and>
    (if fst r then now env w1 < deadline \<and>
        (\<exists>body. https_get env target w1 = Some (Inr (200, body), w') \<and>
           contains_text hello_answer (string_from_utf8_lossy body))
     else w' = w1 \<and> deadline \<le> now env w')"
  using assms(3,4)
proof (induction "deadline - now env w" arbitrary: k w s b rule: less_induct)
  case less
  show ?case
  proof (cases "now env w < deadline")
    case False
    with less.prems show ?thesis
      by (subst poll_host.simps) (auto intro!: exI [of _ k])
  next
    case True
    from total obtain res w2 where get: "https_get env target w = Some (res, w2)" by fastforce
    define w3 where "w3 = pause env POLL_INTERVAL w2"
    have time: "now env w + 2 * 10 ^ 9 \<le> now env w3"
      unfolding w3_def by (rule poll_takes_time [OF laws get])
    have next_poll: "Suc k = 0 \<or> now env w0 + (Suc k - 1) * (2 * 10 ^ 9) < deadline"
      using missed_time [OF less.prems(1) laws] True by simp
    have shorter: "deadline - now env w3 < deadline - now env w" using time True by simp
    note again = less.hyps [OF shorter _ next_poll]
    show ?thesis
    proof (cases res)
      case (Inl e)
      with get https_get_never_panics obtain e' where e: "res = Inl (Err e')"
        by (metis fault.exhaust)
      with less.prems(1) get have "missed env target (Suc k) w0 w3"
        unfolding w3_def by (intro missed_error) auto
      from again [OF this] show ?thesis using True get e
        by (subst poll_host.simps) (simp add: w3_def)
    next
      case (Inr sb)
      obtain status body where sb: "sb = (status, body)" by (cases sb)
      show ?thesis
      proof (cases "reached status (string_from_utf8_lossy body)")
        case True
        with \<open>now env w < deadline\<close> get Inr sb less.prems show ?thesis
          by (subst poll_host.simps) (auto simp: reached_def intro!: exI [of _ k] exI [of _ w])
      next
        case False
        with less.prems(1) get Inr sb have "missed env target (Suc k) w0 w3"
          unfolding w3_def by (intro missed_answer) auto
        from again [OF this] show ?thesis using \<open>now env w < deadline\<close> get Inr sb False
          by (subst poll_host.simps) (simp add: w3_def)
      qed
    qed
  qed
qed

lemma poll_host_ends:
  assumes "clock_laws env target" and "\<And>w. https_get env target w \<noteq> None"
  obtains
    (verified) n w1 body last w' where "missed env target n w w1" "n \<le> 90"
      "https_get env target w1 = Some (Inr (200, body), w')"
      "contains_text hello_answer (string_from_utf8_lossy body)"
      "poll_host env target (now env w + as_nanos POLL_TIMEOUT) 0 [] w = Some (Inr (True, last), w')"
  | (gave_up) n last w' where "missed env target n w w'" "n \<le> 90"
      "now env w + as_nanos POLL_TIMEOUT \<le> now env w'"
      "poll_host env target (now env w + as_nanos POLL_TIMEOUT) 0 [] w = Some (Inr (False, last), w')"
proof -
  let ?deadline = "now env w + as_nanos POLL_TIMEOUT"
  from poll_host_from [OF assms missed_none, of w ?deadline 0 "[]"] obtain n w1 r w' where
    poll: "poll_host env target ?deadline 0 [] w = Some (Inr r, w')" "missed env target n w w1"
      "n = 0 \<or> now env w + (n - 1) * (2 * 10 ^ 9) < ?deadline"
    and ends: "if fst r then now env w1 < ?deadline \<and>
        (\<exists>body. https_get env target w1 = Some (Inr (200, body), w') \<and>
           contains_text hello_answer (string_from_utf8_lossy body))
     else w' = w1 \<and> ?deadline \<le> now env w'" by auto
  have "n \<le> 90" using poll(3) by auto
  obtain hit last where r: "r = (hit, last)" by (cases r)
  show thesis
  proof (cases hit)
    case True
    with ends r poll \<open>n \<le> 90\<close> show thesis by (auto intro: verified)
  next
    case False
    with ends r poll \<open>n \<le> 90\<close> show thesis by (auto intro: gave_up)
  qed
qed

lemma poll_host_returns:
  assumes "clock_laws env target" and "\<And>w. https_get env target w \<noteq> None"
  shows "\<exists>r w'. poll_host env target (now env w + as_nanos POLL_TIMEOUT) 0 [] w = Some (Inr r, w')"
  using assms by (cases rule: poll_host_ends [where w = w]) blast+

text \<open>The task goes through all host names, whatever becomes of each.\<close>

lemma verify_hostnames_returns:
  assumes "\<And>name. name \<in> set hostnames \<Longrightarrow> clock_laws env (host_url name)"
    and "\<And>name w. https_get env (host_url name) w \<noteq> None"
  shows "\<exists>w'. verify_hostnames env hostnames w = Some (Inr (), w')"
  using assms(1)
proof (induction hostnames arbitrary: w)
  case (Cons name rest)
  then obtain r w1 where
    "poll_host env (host_url name) (now env w + as_nanos POLL_TIMEOUT) 0 [] w = Some (Inr r, w1)"
    using poll_host_returns [OF _ assms(2)] by fastforce
  with Cons show ?case by (simp add: bind_io_def)
qed simp

section \<open>The program\<close>

definition load_tunnel ::
  "tunnel_codecs \<Rightarrow> (string \<Rightarrow> io_error + byte list) \<Rightarrow> (string \<Rightarrow> bool) \<Rightarrow> string list
     \<Rightarrow> error + named_tunnel" where
  "load_tunnel codecs fs_read is_file args =
     (let arg = (case args of _ # a # _ \<Rightarrow> a | _ \<Rightarrow> ''credentials.json'') in
      if is_file arg then from_credentials_file codecs fs_read arg else from_token codecs arg)"

text \<open>The callback of a configuration push, on the shared host names and with the line it prints.\<close>

definition debug_list :: "string list \<Rightarrow> string" where
  "debug_list names = ''['' @ separated '', '' (map debug_str names) @ '']''"

definition on_remote_configuration :: "remote_configuration \<Rightarrow> string list \<Rightarrow> string list \<times> string" where
  "on_remote_configuration configuration names =
     (names @ remote_hostnames configuration,
      ''edge pushed remote configuration (version '' @ decimal_int (sint (remote_version configuration))
        @ ''): hostnames '' @ debug_list (remote_hostnames configuration))"

definition named_options :: "transport \<Rightarrow> 'cb \<Rightarrow> 'cb edge_options" where
  "named_options built_in callback =
     (default_edge_options built_in)\<lparr>opt_on_remote_configuration := Some callback\<rparr>"

text \<open>The task that waits for host names; \<open>pushed\<close> reads the shared list in the world.\<close>

partial_function (option) await_hostnames ::
  "'w get_world \<Rightarrow> ('w \<Rightarrow> string list) \<Rightarrow> 'w \<Rightarrow> (string list \<times> 'w) option" where
  "await_hostnames env pushed w =
     (if pushed w \<noteq> [] then Some (pushed w, w)
      else await_hostnames env pushed (pause env POLL_INTERVAL w))"

definition verify_task ::
  "'w get_world \<Rightarrow> ('w \<Rightarrow> string list) \<Rightarrow> ('w, unit fault, unit) io" where
  "verify_task env pushed w =
     Option.bind (await_hostnames env pushed w) (\<lambda>(names, w). verify_hostnames env names w)"

lemma await_hostnames_pushed:
  assumes "await_hostnames env pushed w = Some r"
  shows "\<exists>n. snd r = (pause env POLL_INTERVAL ^^ n) w \<and> pushed (snd r) = fst r \<and> fst r \<noteq> []"
proof (rule await_hostnames.raw_induct [where P = "\<lambda>env pushed w r.
    \<exists>n. snd r = (pause env POLL_INTERVAL ^^ n) w \<and> pushed (snd r) = fst r \<and> fst r \<noteq> []", OF _ assms])
  fix go :: "'a get_world \<Rightarrow> ('a \<Rightarrow> string list) \<Rightarrow> 'a \<Rightarrow> (string list \<times> 'a) option"
    and env pushed w r
  assume IH: "\<And>env pushed w r. go env pushed w = Some r \<Longrightarrow>
      \<exists>n. snd r = (pause env POLL_INTERVAL ^^ n) w \<and> pushed (snd r) = fst r \<and> fst r \<noteq> []"
    and eq: "(if pushed w \<noteq> [] then Some (pushed w, w) else go env pushed (pause env POLL_INTERVAL w)) = Some r"
  show "\<exists>n. snd r = (pause env POLL_INTERVAL ^^ n) w \<and> pushed (snd r) = fst r \<and> fst r \<noteq> []"
  proof (cases "pushed w \<noteq> []")
    case True
    with eq show ?thesis by (auto intro!: exI [of _ 0])
  next
    case False
    with eq have "go env pushed (pause env POLL_INTERVAL w) = Some r" by simp
    from IH [OF this] obtain n where "snd r = (pause env POLL_INTERVAL ^^ n) (pause env POLL_INTERVAL w)"
      "pushed (snd r) = fst r" "fst r \<noteq> []" by blast
    then show ?thesis by (auto simp: funpow_swap1 intro!: exI [of _ "Suc n"])
  qed
qed

text \<open>
  Pushed host names are found at the next look. Without any the task never ends, and the program
  with it: \<open>main\<close> awaits the task after the run has ended.
\<close>

lemma await_hostnames_finds:
  "pushed ((pause env POLL_INTERVAL ^^ n) w) \<noteq> [] \<Longrightarrow> \<exists>r. await_hostnames env pushed w = Some r"
proof (induction n arbitrary: w)
  case 0
  then show ?case by (subst await_hostnames.simps) simp
next
  case (Suc n)
  then show ?case by (subst await_hostnames.simps) (simp add: funpow_swap1)
qed

lemma verify_task_waits_for_ever:
  assumes "\<And>n. pushed ((pause env POLL_INTERVAL ^^ n) w) = []"
  shows "verify_task env pushed w = None"
proof (cases "await_hostnames env pushed w")
  case (Some r)
  with await_hostnames_pushed [of env pushed w r] assms show ?thesis by auto
qed (simp add: verify_task_def)

end
