(* ===== verification/Quiche.thy ===== *)
theory Quiche
  imports Errors Io Ip_Addr Roots "HOL-Library.AList"
begin

text \<open>
  The quiche backend of the QUIC connection, \<open>src/edge/quic/quiche/mod.rs\<close> and
  \<open>src/edge/quic/quiche/stream.rs\<close>: the state behind the mutex, the polls of a stream, which
  register wakers, accepting and releasing streams, closing, and the turn of the driver task,
  which wakes them. A method that takes the mutex is one step. The quiche connection \<open>'q\<close> is
  the record \<open>quiche_crate\<close>; a waker \<open>'k\<close> stands for the task it wakes; the hash maps are
  association lists.
\<close>

section \<open>Constants\<close>

definition MAXIMUM_DATAGRAM_SIZE :: nat where "MAXIMUM_DATAGRAM_SIZE = 1350"
definition MAXIMUM_IDLE_TIMEOUT_MS :: u64 where "MAXIMUM_IDLE_TIMEOUT_MS = 5000"
definition KEEPALIVE_INTERVAL :: duration where "KEEPALIVE_INTERVAL = from_secs 1"
definition QUICHE_STREAM_RECEIVE_WINDOW :: u64 where "QUICHE_STREAM_RECEIVE_WINDOW = 6 * 1024 * 1024"
definition QUICHE_CONNECTION_RECEIVE_WINDOW :: u64 where "QUICHE_CONNECTION_RECEIVE_WINDOW = 30 * 1024 * 1024"
definition QUICHE_MAXIMUM_INCOMING_STREAMS :: u64 where "QUICHE_MAXIMUM_INCOMING_STREAMS = 2 ^ 60"

section \<open>State\<close>

datatype quiche_error = QuicheDone | QuicheInvalidStreamState | QuicheOther string

text \<open>
  The calls the code makes on the connection; \<open>qc_shutdown_write\<close>, \<open>qc_shutdown_read\<close>,
  \<open>qc_stream_writable\<close> and \<open>qc_close\<close> stand for calls whose result is ignored.
\<close>

record 'q quiche_crate =
  qc_readable :: "'q \<Rightarrow> u64 list"
  qc_writable :: "'q \<Rightarrow> u64 list"
  qc_recv :: "u64 \<Rightarrow> nat \<Rightarrow> 'q \<Rightarrow> (quiche_error + byte list \<times> bool) \<times> 'q"
  qc_send :: "u64 \<Rightarrow> byte list \<Rightarrow> bool \<Rightarrow> 'q \<Rightarrow> (quiche_error + nat) \<times> 'q"
  qc_shutdown_write :: "u64 \<Rightarrow> 'q \<Rightarrow> 'q"
  qc_shutdown_read :: "u64 \<Rightarrow> 'q \<Rightarrow> 'q"
  qc_stream_writable :: "u64 \<Rightarrow> nat \<Rightarrow> 'q \<Rightarrow> 'q"
  qc_close :: "'q \<Rightarrow> 'q"
  qc_is_established :: "'q \<Rightarrow> bool"
  qc_is_closed :: "'q \<Rightarrow> bool"
  qc_is_timed_out :: "'q \<Rightarrow> bool"
  qc_peer_error :: "'q \<Rightarrow> string option"
  qc_send_ack_eliciting :: "'q \<Rightarrow> 'q"
  qc_next_packet :: "'q \<Rightarrow> (quiche_error + byte list) \<times> 'q"
  qc_on_timeout :: "'q \<Rightarrow> 'q"
  qc_recv_packet :: "byte list \<Rightarrow> 'q \<Rightarrow> 'q"

record ('q, 'k) inner =
  connection :: 'q
  read_wakers :: "(u64 \<times> 'k) list"
  write_wakers :: "(u64 \<times> 'k) list"
  accepted :: "u64 set"
  established :: bool
  closed :: bool
  inner_timed_out :: bool
  close_reason :: "string option"

definition inner_new :: "'q \<Rightarrow> ('q, 'k) inner" where
  "inner_new q =
     \<lparr>connection = q, read_wakers = [], write_wakers = [], accepted = {0}, established = False,
      closed = False, inner_timed_out = False, close_reason = None\<rparr>"

text \<open>\<open>wait_established\<close>, each time it looks: an outcome, or it waits for the driver.\<close>

definition wait_established :: "('q, 'k) inner \<Rightarrow> (error + unit) poll" where
  "wait_established g =
     (if closed g
      then Ready (Inl (quic_error (''connection closed during handshake: ''
             @ (case close_reason g of Some m \<Rightarrow> m | None \<Rightarrow> ''closed''))))
      else if established g then Ready (Inr ()) else Pending)"

section \<open>Dialling\<close>

text \<open>
  The settings of a connection, and the network and the crates as dialling uses them. \<open>sd_waits\<close>
  starts the driver and awaits \<^const>\<open>wait_established\<close>.
\<close>

record quiche_configuration =
  application_protos :: "byte list list"
  max_idle_timeout :: u64
  max_recv_udp_payload_size :: nat
  max_send_udp_payload_size :: nat
  initial_max_data :: u64
  initial_max_stream_data_bidi_local :: u64
  initial_max_stream_data_bidi_remote :: u64
  initial_max_stream_data_uni :: u64
  initial_max_streams_bidi :: u64
  initial_max_streams_uni :: u64
  disable_active_migration :: bool

definition quiche_settings :: quiche_configuration where
  "quiche_settings =
     \<lparr>application_protos = [EDGE_ALPN], max_idle_timeout = MAXIMUM_IDLE_TIMEOUT_MS,
      max_recv_udp_payload_size = MAXIMUM_DATAGRAM_SIZE,
      max_send_udp_payload_size = MAXIMUM_DATAGRAM_SIZE,
      initial_max_data = QUICHE_CONNECTION_RECEIVE_WINDOW,
      initial_max_stream_data_bidi_local = QUICHE_STREAM_RECEIVE_WINDOW,
      initial_max_stream_data_bidi_remote = QUICHE_STREAM_RECEIVE_WINDOW,
      initial_max_stream_data_uni = QUICHE_STREAM_RECEIVE_WINDOW,
      initial_max_streams_bidi = QUICHE_MAXIMUM_INCOMING_STREAMS,
      initial_max_streams_uni = QUICHE_MAXIMUM_INCOMING_STREAMS,
      disable_active_migration = True\<rparr>"

record ('w, 'store, 'cert, 'q, 'k) quiche_dialer =
  sd_bind :: "string \<Rightarrow> ('w, io_error, unit) io"
  sd_connect_socket :: "socket_addr \<Rightarrow> ('w, io_error, unit) io"
  sd_local_addr :: "('w, io_error, socket_addr) io"
  sd_read_file :: "string \<Rightarrow> io_error + byte list"
  sd_bundled :: "byte list"
  sd_store :: "string + 'store"
  sd_stack_from_pem :: "byte list \<Rightarrow> string + 'cert list"
  sd_add_cert :: "'cert \<Rightarrow> 'store \<Rightarrow> string + 'store"
  sd_config :: "'store \<Rightarrow> string + unit"
  sd_set_protos :: "byte list list \<Rightarrow> string + unit"
  sd_random_scid :: "('w, string, byte list) io"
  sd_connect :: "string \<Rightarrow> byte list \<Rightarrow> socket_addr \<Rightarrow> socket_addr \<Rightarrow> 'store \<Rightarrow> quiche_configuration \<Rightarrow> string + 'q"
  sd_waits :: "('q, 'k) inner \<Rightarrow> ('w, error, ('q, 'k) inner) io"

definition quiche_client_config ::
  "('w, 'store, 'cert, 'q, 'k) quiche_dialer \<Rightarrow> byte list option \<Rightarrow> error + 'store" where
  "quiche_client_config d ca_cert_pem =
     bind_result (map_err error_from_boring (sd_store d)) (\<lambda>store.
     bind_result (map_err error_from_boring
       (quiche_root_store (sd_stack_from_pem d) (sd_add_cert d)
          (root_pems (sd_read_file d) (sd_bundled d) ca_cert_pem) store)) (\<lambda>store.
     bind_result (map_err error_from_quiche (sd_config d store)) (\<lambda>_. Inr store)))"

definition quiche_dial ::
  "('w, 'store, 'cert, 'q, 'k) quiche_dialer \<Rightarrow> socket_addr \<Rightarrow> byte list option
     \<Rightarrow> ('w, error, ('q, 'k) inner) io" where
  "quiche_dial d peer ca_cert_pem =
     bind_io (map_err_io error_from_io
       (sd_bind d (case ip peer of V4 _ \<Rightarrow> ''0.0.0.0:0'' | V6 _ \<Rightarrow> ''[::]:0''))) (\<lambda>_.
     bind_io (map_err_io error_from_io (sd_connect_socket d peer)) (\<lambda>_.
     bind_io (map_err_io error_from_io (sd_local_addr d)) (\<lambda>local.
     bind_io (lift_io (quiche_client_config d ca_cert_pem)) (\<lambda>store.
     bind_io (lift_io (map_err error_from_quiche (sd_set_protos d (application_protos quiche_settings)))) (\<lambda>_.
     bind_io (map_err_io error_from_boring (sd_random_scid d)) (\<lambda>scid.
     bind_io (lift_io (map_err error_from_quiche
       (sd_connect d EDGE_SNI scid local peer store quiche_settings))) (\<lambda>q.
       sd_waits d (inner_new q))))))))"

text \<open>\<open>open_control_stream\<close>: the handle of stream 0.\<close>

definition quiche_control_stream :: u64 where "quiche_control_stream = 0"

lemma control_stream_never_accepted: "quiche_control_stream \<in> accepted (inner_new q)"
  by (simp add: quiche_control_stream_def inner_new_def)

section \<open>A stream\<close>

definition closed_error :: io_error where
  "closed_error = io_err ConnectionReset ''quic connection closed''"

fun stream_error :: "quiche_error \<Rightarrow> io_error" where
  "stream_error QuicheInvalidStreamState = io_err ConnectionAborted ''stream state error''"
| "stream_error QuicheDone = io_err OtherKind ''Done''"
| "stream_error (QuicheOther m) = io_err OtherKind m"

text \<open>
  One \<open>stream_recv\<close>: an answer for the caller with the new end-of-stream flag, or \<open>None\<close> for
  \<open>Done\<close> and for \<open>InvalidStreamState\<close>, after which the poll goes on.
\<close>

definition try_recv ::
  "'q quiche_crate \<Rightarrow> u64 \<Rightarrow> bool \<Rightarrow> nat \<Rightarrow> ('q, 'k) inner
     \<Rightarrow> ((io_error + byte list) \<times> bool) option \<times> ('q, 'k) inner" where
  "try_recv ops ident eof n g =
     (case qc_recv ops ident n (connection g) of (r, q) \<Rightarrow>
        (case r of
           Inr (data, fin) \<Rightarrow> Some (Inr data, eof \<or> fin)
         | Inl QuicheDone \<Rightarrow> None
         | Inl QuicheInvalidStreamState \<Rightarrow> None
         | Inl e \<Rightarrow> Some (Inl (stream_error e), eof),
         g\<lparr>connection := q\<rparr>))"

definition poll_read ::
  "'q quiche_crate \<Rightarrow> u64 \<Rightarrow> 'k \<Rightarrow> bool \<Rightarrow> nat \<Rightarrow> ('q, 'k) inner
     \<Rightarrow> (io_error + byte list) poll \<times> bool \<times> ('q, 'k) inner" where
  "poll_read ops ident w eof n g =
     (if closed g then (Ready (Inl closed_error), eof, g)
      else if eof then (Ready (Inr []), eof, g)
      else case try_recv ops ident eof n g of
        (Some (r, eof), g) \<Rightarrow> (Ready r, eof, g)
      | (None, g) \<Rightarrow>
          (case try_recv ops ident eof n (g\<lparr>read_wakers := AList.update ident w (read_wakers g)\<rparr>) of
             (Some (r, eof), g) \<Rightarrow>
               (Ready r, eof, g\<lparr>read_wakers := AList.delete ident (read_wakers g)\<rparr>)
           | (None, g) \<Rightarrow> (Pending, eof, g)))"

definition poll_write ::
  "'q quiche_crate \<Rightarrow> u64 \<Rightarrow> 'k \<Rightarrow> byte list \<Rightarrow> ('q, 'k) inner
     \<Rightarrow> (io_error + nat) poll \<times> ('q, 'k) inner" where
  "poll_write ops ident w buffer g =
     (if closed g then (Ready (Inl closed_error), g)
      else case qc_send ops ident buffer False (connection g) of
        (Inr n, q) \<Rightarrow> (Ready (Inr n), g\<lparr>connection := q\<rparr>)
      | (Inl QuicheInvalidStreamState, q) \<Rightarrow>
          (Ready (Inl (io_err BrokenPipe ''stream is not open'')), g\<lparr>connection := q\<rparr>)
      | (Inl QuicheDone, q) \<Rightarrow>
          (Pending, g\<lparr>connection := qc_stream_writable ops ident (length buffer) q,
                      write_wakers := AList.update ident w (write_wakers g)\<rparr>)
      | (Inl e, q) \<Rightarrow> (Ready (Inl (stream_error e)), g\<lparr>connection := q\<rparr>))"

definition finish :: "'q quiche_crate \<Rightarrow> u64 \<Rightarrow> ('q, 'k) inner \<Rightarrow> ('q, 'k) inner" where
  "finish ops ident g =
     (if closed g then g else g\<lparr>connection := snd (qc_send ops ident [] True (connection g))\<rparr>)"

text \<open>With the waker it wakes, if one is registered.\<close>

definition cancel_write ::
  "'q quiche_crate \<Rightarrow> u64 \<Rightarrow> ('q, 'k) inner \<Rightarrow> 'k list \<times> ('q, 'k) inner" where
  "cancel_write ops ident g =
     (if closed g then ([], g)
      else (case map_of (write_wakers g) ident of Some w \<Rightarrow> [w] | None \<Rightarrow> [],
            g\<lparr>connection := qc_shutdown_write ops ident (connection g),
              write_wakers := AList.delete ident (write_wakers g)\<rparr>))"

definition stop_read :: "'q quiche_crate \<Rightarrow> u64 \<Rightarrow> ('q, 'k) inner \<Rightarrow> ('q, 'k) inner" where
  "stop_read ops ident g =
     (if closed g then g else g\<lparr>connection := qc_shutdown_read ops ident (connection g)\<rparr>)"

section \<open>The connection\<close>

text \<open>
  \<open>accept_stream\<close>, each time it looks: \<open>None\<close> in \<open>Ready\<close> is the end of the connection; it waits
  for the driver when no readable stream is new.
\<close>

definition accept_stream ::
  "'q quiche_crate \<Rightarrow> ('q, 'k) inner \<Rightarrow> u64 option poll \<times> ('q, 'k) inner" where
  "accept_stream ops g =
     (if closed g then (Ready None, g)
      else case find (\<lambda>ident. ident \<notin> accepted g) (qc_readable ops (connection g)) of
        Some ident \<Rightarrow> (Ready (Some ident), g\<lparr>accepted := insert ident (accepted g)\<rparr>)
      | None \<Rightarrow> (Pending, g))"

definition release :: "u64 \<Rightarrow> ('q, 'k) inner \<Rightarrow> ('q, 'k) inner" where
  "release ident g = g\<lparr>accepted := accepted g - {ident}\<rparr>"

definition all_wakers :: "('q, 'k) inner \<Rightarrow> 'k list" where
  "all_wakers g = map snd (read_wakers g) @ map snd (write_wakers g)"

definition close :: "'q quiche_crate \<Rightarrow> ('q, 'k) inner \<Rightarrow> 'k list \<times> ('q, 'k) inner" where
  "close ops g =
     (all_wakers g,
      g\<lparr>connection := qc_close ops (connection g), closed := True, read_wakers := [], write_wakers := []\<rparr>)"

section \<open>The driver\<close>

text \<open>The first half of a turn: keep-alive, then everything quiche has queued goes to the socket \<open>'n\<close>.\<close>

definition keepalive :: "'q quiche_crate \<Rightarrow> nat \<Rightarrow> 'q \<Rightarrow> 'q" where
  "keepalive ops elapsed q =
     (if as_nanos KEEPALIVE_INTERVAL \<le> elapsed \<and> qc_is_established ops q
      then qc_send_ack_eliciting ops q else q)"

partial_function (option) flush ::
  "'q quiche_crate \<Rightarrow> (byte list \<Rightarrow> 'n \<Rightarrow> (io_error + unit) \<times> 'n) \<Rightarrow> 'q \<Rightarrow> 'n \<Rightarrow> ('q \<times> 'n) option" where
  "flush ops send_to q n =
     (case qc_next_packet ops q of
        (Inl e, q) \<Rightarrow> Some (q, n)
      | (Inr packet, q) \<Rightarrow>
          (case send_to packet n of
             (Inl e, n) \<Rightarrow> Some (q, n)
           | (Inr _, n) \<Rightarrow> flush ops send_to q n))"

text \<open>What the driver waits for, and the packets it then reads.\<close>

datatype drive_event = DriverNotified | SocketReadable "byte list list" | SocketFailed | QuicTimeout | Kick

fun drive_receive :: "'q quiche_crate \<Rightarrow> drive_event \<Rightarrow> 'q \<Rightarrow> 'q" where
  "drive_receive ops (SocketReadable packets) q = fold (qc_recv_packet ops) packets q"
| "drive_receive ops QuicTimeout q = qc_on_timeout ops q"
| "drive_receive ops _ q = q"

text \<open>The second half: the wakers to wake, and whether the connection has closed.\<close>

definition drive_wake ::
  "'q quiche_crate \<Rightarrow> ('q, 'k) inner \<Rightarrow> 'k list \<times> bool \<times> ('q, 'k) inner" where
  "drive_wake ops g =
     (let q = connection g;
          ready = filter (\<lambda>(ident, w). ident \<in> set (qc_readable ops q)) (read_wakers g);
          is_closed = qc_is_closed ops q;
          g1 = g\<lparr>established := established g \<or> qc_is_established ops q,
                 read_wakers := filter (\<lambda>(ident, w). ident \<notin> set (qc_readable ops q)) (read_wakers g),
                 write_wakers := []\<rparr>;
          g2 = (if is_closed
                then g1\<lparr>closed := True, inner_timed_out := qc_is_timed_out ops q,
                        close_reason := Some (case qc_peer_error ops q of
                            Some m \<Rightarrow> m
                          | None \<Rightarrow> if qc_is_timed_out ops q then ''idle timeout'' else ''connection closed'')\<rparr>
                else g1) in
      (map snd ready @ map snd (write_wakers g), is_closed, g2))"

text \<open>After a turn that saw the connection closed: everybody is woken and the driver ends.\<close>

definition drive_close :: "('q, 'k) inner \<Rightarrow> 'k list \<times> ('q, 'k) inner" where
  "drive_close g = (all_wakers g, g\<lparr>read_wakers := [], write_wakers := []\<rparr>)"

section \<open>Tasks and the driver together\<close>

text \<open>
  \<open>(ident, w) \<in> reading s\<close>: the task with waker \<open>w\<close> has polled a read of the stream, got
  \<^const>\<open>Pending\<close> and waits for it; likewise \<open>writing\<close>. Any number of tasks may poll a stream (the
  handles of a stream are clones: \<open>drain_unread\<close> and an origin that keeps the body both read it);
  \<open>latest_reader\<close> is the task that polled a read of it last, \<open>latest_writer\<close> a write. A task that
  is woken waits no longer, and a task may stop waiting by itself (a timeout, a dropped future).
  The driver runs, is about to wake everybody, or has ended.
\<close>

datatype driver_state = DriverRuns | DriverCloses | DriverEnded

record ('q, 'k) quiche_system =
  sys_inner :: "('q, 'k) inner"
  driver :: driver_state
  reading :: "(u64 \<times> 'k) set"
  writing :: "(u64 \<times> 'k) set"
  latest_reader :: "u64 \<Rightarrow> 'k option"
  latest_writer :: "u64 \<Rightarrow> 'k option"

definition system_start :: "'q \<Rightarrow> ('q, 'k) quiche_system" where
  "system_start q =
     \<lparr>sys_inner = inner_new q, driver = DriverRuns, reading = {}, writing = {},
      latest_reader = Map.empty, latest_writer = Map.empty\<rparr>"

definition still_waiting :: "'k list \<Rightarrow> (u64 \<times> 'k) set \<Rightarrow> (u64 \<times> 'k) set" where
  "still_waiting woken waiting = {e \<in> waiting. snd e \<notin> set woken}"

definition wake :: "'k list \<Rightarrow> ('q, 'k) inner \<Rightarrow> ('q, 'k) quiche_system \<Rightarrow> ('q, 'k) quiche_system" where
  "wake woken g s =
     s\<lparr>sys_inner := g, reading := still_waiting woken (reading s), writing := still_waiting woken (writing s)\<rparr>"

text \<open>A task waits after a poll that is pending, and does not after one that is ready.\<close>

definition polled :: "bool \<Rightarrow> u64 \<times> 'k \<Rightarrow> (u64 \<times> 'k) set \<Rightarrow> (u64 \<times> 'k) set" where
  "polled pending e waiting = (if pending then insert e waiting else waiting - {e})"

text \<open>The turn of the driver that collects the wakers.\<close>

definition driver_turn :: "'q quiche_crate \<Rightarrow> ('q, 'k) quiche_system \<Rightarrow> ('q, 'k) quiche_system" where
  "driver_turn ops s =
     (case drive_wake ops (sys_inner s) of
        (woken, is_closed, g) \<Rightarrow>
          (wake woken g s)\<lparr>driver := if is_closed then DriverCloses else DriverRuns\<rparr>)"

text \<open>
  \<open>driver_io\<close> is what the driver does to the connection before it collects the wakers: keep-alive,
  sending, receiving, the timeout. \<open>socket_fails\<close>: the driver leaves its loop at once.
\<close>

inductive quiche_step ::
  "'q quiche_crate \<Rightarrow> ('q, 'k) quiche_system \<Rightarrow> ('q, 'k) quiche_system \<Rightarrow> bool"
  for ops :: "'q quiche_crate" where
  driver_io: "driver s = DriverRuns \<Longrightarrow>
    quiche_step ops s (s\<lparr>sys_inner := sys_inner s\<lparr>connection := q\<rparr>\<rparr>)"
| turn: "driver s = DriverRuns \<Longrightarrow> quiche_step ops s (driver_turn ops s)"
| driver_closes: "driver s = DriverCloses \<Longrightarrow> drive_close (sys_inner s) = (woken, g) \<Longrightarrow>
    quiche_step ops s ((wake woken g s)\<lparr>driver := DriverEnded\<rparr>)"
| socket_fails: "driver s = DriverRuns \<Longrightarrow> quiche_step ops s (s\<lparr>driver := DriverEnded\<rparr>)"
| reads: "poll_read ops ident w eof n (sys_inner s) = (r, eof', g) \<Longrightarrow>
    quiche_step ops s (s\<lparr>sys_inner := g, reading := polled (r = Pending) (ident, w) (reading s),
                        latest_reader := (latest_reader s)(ident \<mapsto> w)\<rparr>)"
| writes: "poll_write ops ident w buffer (sys_inner s) = (r', g) \<Longrightarrow>
    quiche_step ops s (s\<lparr>sys_inner := g, writing := polled (r' = Pending) (ident, w) (writing s),
                        latest_writer := (latest_writer s)(ident \<mapsto> w)\<rparr>)"
| leaves_read: "quiche_step ops s (s\<lparr>reading := reading s - {(ident, w)}\<rparr>)"
| leaves_write: "quiche_step ops s (s\<lparr>writing := writing s - {(ident, w)}\<rparr>)"
| finishes: "quiche_step ops s (s\<lparr>sys_inner := finish ops ident (sys_inner s)\<rparr>)"
| stops: "quiche_step ops s (s\<lparr>sys_inner := stop_read ops ident (sys_inner s)\<rparr>)"
| cancels: "cancel_write ops ident (sys_inner s) = (woken, g) \<Longrightarrow> quiche_step ops s (wake woken g s)"
| accepts: "quiche_step ops s (s\<lparr>sys_inner := snd (accept_stream ops (sys_inner s))\<rparr>)"
| releases: "quiche_step ops s (s\<lparr>sys_inner := release ident (sys_inner s)\<rparr>)"
| closes: "close ops (sys_inner s) = (woken, g) \<Longrightarrow> quiche_step ops s (wake woken g s)"

abbreviation quiche_steps ::
  "'q quiche_crate \<Rightarrow> ('q, 'k) quiche_system \<Rightarrow> ('q, 'k) quiche_system \<Rightarrow> bool" where
  "quiche_steps ops \<equiv> (quiche_step ops)\<^sup>*\<^sup>*"

section \<open>Wake-ups\<close>

lemma map_of_filter_keys:
  "map_of (filter (\<lambda>(i, w). P i) xs) k = (if P k then map_of xs k else None)"
  by (induction xs) auto

lemma in_still_waiting [simp]:
  "(i, w) \<in> still_waiting woken waiting \<longleftrightarrow> (i, w) \<in> waiting \<and> w \<notin> set woken"
  by (simp add: still_waiting_def)

lemma in_polled [simp]:
  "e \<in> polled pending e' waiting \<longleftrightarrow> (if e = e' then pending else e \<in> waiting)"
  by (auto simp: polled_def)

text \<open>The task waits for the stream and no other task has polled the stream since.\<close>

definition awaits_read :: "('q, 'k) quiche_system \<Rightarrow> u64 \<Rightarrow> 'k \<Rightarrow> bool" where
  "awaits_read s i w \<longleftrightarrow> (i, w) \<in> reading s \<and> latest_reader s i = Some w"

definition awaits_write :: "('q, 'k) quiche_system \<Rightarrow> u64 \<Rightarrow> 'k \<Rightarrow> bool" where
  "awaits_write s i w \<longleftrightarrow> (i, w) \<in> writing s \<and> latest_writer s i = Some w"

lemmas awaits_defs = awaits_read_def awaits_write_def

definition registered :: "('q, 'k) quiche_system \<Rightarrow> bool" where
  "registered s \<longleftrightarrow>
     (\<forall>i w. awaits_read s i w \<longrightarrow> map_of (read_wakers (sys_inner s)) i = Some w) \<and>
     (\<forall>i w. awaits_write s i w \<longrightarrow> map_of (write_wakers (sys_inner s)) i = Some w)"

definition nobody_awaits :: "('q, 'k) quiche_system \<Rightarrow> bool" where
  "nobody_awaits s \<longleftrightarrow> (\<forall>i w. \<not> awaits_read s i w \<and> \<not> awaits_write s i w)"

definition waiting_inv :: "('q, 'k) quiche_system \<Rightarrow> bool" where
  "waiting_inv s \<longleftrightarrow>
     registered s \<and> (closed (sys_inner s) \<and> driver s \<noteq> DriverCloses \<longrightarrow> nobody_awaits s)"

lemmas waiting_defs = waiting_inv_def registered_def nobody_awaits_def awaits_defs

lemma waiting_inv_start: "waiting_inv (system_start q)"
  by (simp add: waiting_defs system_start_def)

lemma poll_read_effect:
  assumes "poll_read ops i w eof n g = (r, eof', g')"
  shows "closed g' = closed g \<and> write_wakers g' = write_wakers g \<and>
    (\<forall>j. j \<noteq> i \<longrightarrow> map_of (read_wakers g') j = map_of (read_wakers g) j) \<and>
    (r = Pending \<longrightarrow> \<not> closed g \<and> map_of (read_wakers g') i = Some w)"
  using assms
  by (auto simp: poll_read_def try_recv_def update_conv' delete_conv'
      split: if_splits prod.splits option.splits sum.splits quiche_error.splits)

lemma poll_write_effect:
  assumes "poll_write ops i w buffer g = (r, g')"
  shows "closed g' = closed g \<and> read_wakers g' = read_wakers g \<and>
    (\<forall>j. j \<noteq> i \<longrightarrow> map_of (write_wakers g') j = map_of (write_wakers g) j) \<and>
    (r = Pending \<longrightarrow> \<not> closed g \<and> map_of (write_wakers g') i = Some w)"
  using assms
  by (auto simp: poll_write_def update_conv'
      split: if_splits prod.splits sum.splits quiche_error.splits)

lemma registeredD:
  assumes "registered s"
  shows "awaits_read s i w \<Longrightarrow> (i, w) \<in> set (read_wakers (sys_inner s))"
    and "awaits_write s i w \<Longrightarrow> (i, w) \<in> set (write_wakers (sys_inner s))"
  using assms by (auto simp: registered_def intro: map_of_SomeD)

lemma awaits_wake:
  "awaits_read (wake woken g s) i w \<longleftrightarrow> awaits_read s i w \<and> w \<notin> set woken"
  "awaits_write (wake woken g s) i w \<longleftrightarrow> awaits_write s i w \<and> w \<notin> set woken"
  by (auto simp: awaits_defs wake_def)

text \<open>Waking everybody who is registered leaves nobody who awaits.\<close>

lemma wake_all:
  assumes "registered s" and "set (all_wakers (sys_inner s)) \<subseteq> set woken"
  shows "nobody_awaits (wake woken g s)"
proof -
  have "w \<in> set woken" if "awaits_read s i w \<or> awaits_write s i w" for i w
  proof -
    from that registeredD [OF assms(1)]
    have "(i, w) \<in> set (read_wakers (sys_inner s)) \<union> set (write_wakers (sys_inner s))" by blast
    then have "w \<in> set (all_wakers (sys_inner s))" unfolding all_wakers_def by force
    with assms(2) show ?thesis by blast
  qed
  then show ?thesis by (auto simp: nobody_awaits_def awaits_wake)
qed

lemma driver_turn_effect:
  assumes "registered s"
  shows "registered (driver_turn ops s) \<and>
    (\<forall>i w. awaits_write s i w \<longrightarrow> (i, w) \<notin> writing (driver_turn ops s)) \<and>
    (\<forall>i w. i \<in> set (qc_readable ops (connection (sys_inner s))) \<and> awaits_read s i w \<longrightarrow>
       (i, w) \<notin> reading (driver_turn ops s)) \<and>
    (closed (sys_inner (driver_turn ops s)) \<longrightarrow>
       closed (sys_inner s) \<or> driver (driver_turn ops s) = DriverCloses)"
proof -
  let ?g = "sys_inner s"
  let ?ready = "set (qc_readable ops (connection ?g))"
  obtain woken is_closed g where turn: "drive_wake ops ?g = (woken, is_closed, g)" by (rule prod_cases3)
  have woken: "woken = map snd (filter (\<lambda>(i, w). i \<in> ?ready) (read_wakers ?g)) @ map snd (write_wakers ?g)"
    and keep: "read_wakers g = filter (\<lambda>(i, w). i \<notin> ?ready) (read_wakers ?g)" "write_wakers g = []"
      "closed g \<longrightarrow> closed ?g \<or> is_closed"
    using turn by (auto simp: drive_wake_def Let_def split: if_splits)
  have writer: "w \<in> set woken" if "awaits_write s i w" for i w
    using registeredD(2) [OF assms that] by (force simp: woken)
  have reader: "w \<in> set woken" if "i \<in> ?ready" "awaits_read s i w" for i w
    using registeredD(1) [OF assms that(2)] that(1) by (force simp: woken)
  have "map_of (read_wakers g) i = Some w" if "awaits_read s i w" "w \<notin> set woken" for i w
    using that reader assms by (auto simp: keep map_of_filter_keys registered_def)
  moreover have "\<not> awaits_write s i w" if "w \<notin> set woken" for i w
    using that writer by blast
  ultimately have "registered (wake woken g s)"
    unfolding registered_def awaits_wake by (auto simp: wake_def)
  then show ?thesis
    using turn keep(3) writer reader
    by (auto simp: driver_turn_def registered_def wake_def awaits_defs)
qed


lemma waiting_inv_step:
  assumes "quiche_step ops s s'" and "waiting_inv s"
  shows "waiting_inv s'"
  using assms(1)
proof (cases rule: quiche_step.cases)
  case turn
  have "nobody_awaits (driver_turn ops s)" if "nobody_awaits s"
    using that by (auto simp: nobody_awaits_def driver_turn_def wake_def awaits_defs split: prod.split)
  with turn assms(2) driver_turn_effect [of s ops] show ?thesis by (auto simp: waiting_inv_def)
next
  case (driver_closes woken g)
  then have "nobody_awaits (wake woken g s)"
    using assms(2) by (intro wake_all) (auto simp: waiting_inv_def drive_close_def)
  then show ?thesis using driver_closes by (auto simp: waiting_defs)
next
  case (closes woken g)
  then have "nobody_awaits (wake woken g s)"
    using assms(2) by (intro wake_all) (auto simp: waiting_inv_def close_def)
  then show ?thesis using closes by (simp add: waiting_inv_def nobody_awaits_def registered_def)
next
  case (reads i w eof n r eof' g)
  then show ?thesis
    using assms(2) poll_read_effect [OF reads(2)] by (auto simp: waiting_defs split: if_splits)
next
  case (writes i w buffer r g)
  then show ?thesis
    using assms(2) poll_write_effect [OF writes(2)] by (auto simp: waiting_defs split: if_splits)
next
  case (cancels i woken g)
  then show ?thesis
    using assms(2)
    by (auto simp: waiting_defs cancel_write_def wake_def delete_conv' split: if_splits option.splits)
qed (use assms(2) in \<open>auto simp: waiting_defs finish_def stop_read_def accept_stream_def
      release_def split: option.splits\<close>)

text \<open>
  What the driver does not do. A task that waits without being registered is woken by no turn of
  the driver and by no closing: \<open>read_wakers\<close> has one waker for each stream, so this happens to a task
  when another one polls the stream after it. And a driver that has ended, as it does when the socket
  fails, never takes a turn again, although \<open>closed\<close> is not set and nobody has been woken.
\<close>

lemma unregistered_not_woken:
  assumes "(i, w) \<in> reading s" and "w \<notin> set (all_wakers (sys_inner s))"
  shows "(i, w) \<in> reading (driver_turn ops s) \<and> w \<notin> set (all_wakers (sys_inner (driver_turn ops s)))"
    and "close ops (sys_inner s) = (woken, g) \<Longrightarrow> (i, w) \<in> reading (wake woken g s)"
    and "drive_close (sys_inner s) = (woken, g) \<Longrightarrow> (i, w) \<in> reading (wake woken g s)"
  using assms
  by (force simp: driver_turn_def drive_wake_def wake_def all_wakers_def close_def drive_close_def Let_def
      split: prod.splits)+

lemma ended_driver_stays_ended:
  "quiche_step ops s s' \<Longrightarrow> driver s = DriverEnded \<Longrightarrow> driver s' = DriverEnded"
  by (cases rule: quiche_step.cases) (auto simp: wake_def)

text \<open>C22. In any interleaving of the driver and any number of tasks that poll, leave, close and
  cancel, the wake-up of the task that polled a stream last is not lost: while it waits it is
  registered under the stream; as long as the driver runs, its next turn wakes it when the
  stream is readable, and wakes every such writer; the turn after which the driver closes wakes
  it in any case; and on a closed connection nobody waits like that. (Nothing is promised
  to a task that another one has overtaken by polling the same stream, which stays waiting in the
  witness, and to nobody once the driver has left its loop because the socket failed.)\<close>

theorem quiche_no_lost_wakeup:
  assumes "quiche_steps ops (system_start q) s"
  shows "(\<forall>i w. awaits_read s i w \<longrightarrow> map_of (read_wakers (sys_inner s)) i = Some w) \<and>
    (\<forall>i w. awaits_write s i w \<longrightarrow> map_of (write_wakers (sys_inner s)) i = Some w) \<and>
    (driver s = DriverRuns \<longrightarrow> quiche_step ops s (driver_turn ops s) \<and>
       (\<forall>i w. i \<in> set (qc_readable ops (connection (sys_inner s))) \<and> awaits_read s i w \<longrightarrow>
          (i, w) \<notin> reading (driver_turn ops s)) \<and>
       (\<forall>i w. awaits_write s i w \<longrightarrow> (i, w) \<notin> writing (driver_turn ops s))) \<and>
    (driver s = DriverCloses \<longrightarrow>
       (\<forall>woken g i w. drive_close (sys_inner s) = (woken, g) \<and> (awaits_read s i w \<or> awaits_write s i w) \<longrightarrow>
          w \<in> set woken)) \<and>
    (closed (sys_inner s) \<and> driver s \<noteq> DriverCloses \<longrightarrow>
       (\<forall>i w. \<not> awaits_read s i w \<and> \<not> awaits_write s i w))"
proof -
  have inv: "waiting_inv s"
    using assms by (induction rule: rtranclp_induct) (auto intro: waiting_inv_start waiting_inv_step)
  have "w \<in> set (all_wakers (sys_inner s))" if "awaits_read s i w \<or> awaits_write s i w" for i w
    using that registeredD [of s i w] inv by (force simp: waiting_inv_def all_wakers_def)
  with inv driver_turn_effect [of s ops] show ?thesis
    by (auto simp: waiting_inv_def registered_def nobody_awaits_def drive_close_def intro: turn)
qed

text \<open>A connection whose streams have no data; its state is the list of readable streams.\<close>

definition idle_quiche :: "u64 list quiche_crate" where
  "idle_quiche =
     \<lparr>qc_readable = (\<lambda>q. q), qc_writable = (\<lambda>q. []), qc_recv = (\<lambda>_ _ q. (Inl QuicheDone, q)),
      qc_send = (\<lambda>_ _ _ q. (Inl QuicheDone, q)), qc_shutdown_write = (\<lambda>_ q. q),
      qc_shutdown_read = (\<lambda>_ q. q), qc_stream_writable = (\<lambda>_ _ q. q), qc_close = (\<lambda>q. q),
      qc_is_established = (\<lambda>q. True), qc_is_closed = (\<lambda>q. False), qc_is_timed_out = (\<lambda>q. False),
      qc_peer_error = (\<lambda>q. None), qc_send_ack_eliciting = (\<lambda>q. q),
      qc_next_packet = (\<lambda>q. (Inl QuicheDone, q)), qc_on_timeout = (\<lambda>q. q),
      qc_recv_packet = (\<lambda>_ q. q)\<rparr>"

text \<open>The drain task has polled stream 4, then the origin that keeps the body.\<close>

definition demo_waiting :: "(u64 list, string) quiche_system" where
  "demo_waiting =
     (system_start [4])\<lparr>sys_inner := (inner_new [4])\<lparr>read_wakers := [(4, ''body'')]\<rparr>,
       reading := {(4, ''body''), (4, ''drain'')}, latest_reader := [4 \<mapsto> ''body'']\<rparr>"

lemma demo_waiting_reached: "quiche_steps idle_quiche (system_start [4]) demo_waiting"
proof -
  let ?s = "system_start [4] :: (u64 list, string) quiche_system"
  let ?t = "?s\<lparr>sys_inner := (inner_new [4])\<lparr>read_wakers := [(4, ''drain'')]\<rparr>,
    reading := {(4, ''drain'')}, latest_reader := [4 \<mapsto> ''drain'']\<rparr>"
  have poll: "poll_read idle_quiche 4 ''drain'' False 8192 (sys_inner ?s)
      = (Pending, False, (inner_new [4])\<lparr>read_wakers := [(4, ''drain'')]\<rparr>)"
    "poll_read idle_quiche 4 ''body'' False 10 (sys_inner ?t)
      = (Pending, False, (inner_new [4])\<lparr>read_wakers := [(4, ''body'')]\<rparr>)"
    by (simp_all add: system_start_def poll_read_def try_recv_def inner_new_def idle_quiche_def)
  have "quiche_step idle_quiche ?s ?t"
    using quiche_step.reads [OF poll(1)] by (simp add: system_start_def polled_def)
  moreover have "quiche_step idle_quiche ?t demo_waiting"
    using quiche_step.reads [OF poll(2)] by (simp add: demo_waiting_def system_start_def polled_def)
  ultimately show ?thesis by (meson converse_rtranclp_into_rtranclp rtranclp.rtrancl_refl)
qed

theorem quiche_no_lost_wakeup_witness:
  "map_of (read_wakers (sys_inner demo_waiting)) 4 = Some ''body'' \<and>
   (4, ''body'') \<in> reading demo_waiting \<and> (4, ''body'') \<notin> reading (driver_turn idle_quiche demo_waiting) \<and>
   (4, ''drain'') \<in> reading (driver_turn idle_quiche demo_waiting)"
proof -
  have waits: "awaits_read demo_waiting 4 ''body''" and runs: "driver demo_waiting = DriverRuns"
    by (simp_all add: demo_waiting_def awaits_read_def system_start_def)
  have "4 \<in> set (qc_readable idle_quiche (connection (sys_inner demo_waiting)))"
    by (simp add: demo_waiting_def inner_new_def idle_quiche_def)
  moreover have "(4, ''drain'') \<in> reading (driver_turn idle_quiche demo_waiting)"
    by (rule conjunct1 [OF unregistered_not_woken(1)])
       (simp_all add: demo_waiting_def inner_new_def all_wakers_def)
  ultimately show ?thesis
    using quiche_no_lost_wakeup [OF demo_waiting_reached] waits runs by (simp add: awaits_read_def)
qed

section \<open>Accepting a stream twice\<close>

lemma find_only:
  assumes "x \<in> set xs" and "P x" and "\<And>y. y \<in> set xs \<Longrightarrow> P y \<Longrightarrow> y = x"
  shows "find P xs = Some x"
proof (cases "find P xs")
  case None
  with assms(1,2) show ?thesis by (simp add: find_None_iff)
next
  case (Some y)
  then have "y \<in> set xs" and "P y" by (auto simp: find_Some_iff)
  with Some assms(3) show ?thesis by blast
qed

text \<open>A stream that has been accepted is not accepted again while its task runs; but when the
  task ends and releases it with bytes of its body still unread (an error response, or a drain
  that is not through), the stream is accepted again at once, and a new task takes the rest of
  the body for the start of a request.\<close>

lemma released_stream_is_accepted_again:
  assumes "\<not> closed g" and "ident \<in> accepted g"
    and "ident \<in> set (qc_readable ops (connection g))"
    and "\<forall>other \<in> set (qc_readable ops (connection g)). other \<in> accepted g"
  shows "accept_stream ops g = (Pending, g) \<and>
    accept_stream ops (release ident g) = (Ready (Some ident), g)"
proof -
  have "find (\<lambda>i. i \<notin> accepted g) (qc_readable ops (connection g)) = None"
    using assms(4) by (auto simp: find_None_iff)
  moreover have "find (\<lambda>i. i \<notin> accepted (release ident g)) (qc_readable ops (connection g)) = Some ident"
    using assms(3,4) by (intro find_only) (auto simp: release_def)
  ultimately show ?thesis
    using assms(1,2) by (simp add: accept_stream_def release_def insert_absorb)
qed

end
