(* ===== verification/Capnp.thy ===== *)
theory Capnp
  imports Framing
begin

text \<open>
  The layout interface of the \<open>capnp\<close> crate, as generated code calls it: structs with a data
  section, whose fields are read and written by width and index, and a pointer section. The
  crate is a parameter, its documented behaviour the locale \<open>capnp_layout\<close>. The typed accessors
  that every generated getter and setter consists of are defined here once.
\<close>

unbundle bit_operations_syntax

text \<open>The generated accessors, unfolded together.\<close>

named_theorems accessors

section \<open>The crate\<close>

text \<open>
  A fresh struct of so many data words and pointers (zero and null), its size, a data field by
  its width in bits and index, a pointer field; what a pointer can hold, and how it is read (the
  error is a text); the framed bytes of a message with this root, the root of the segments read,
  and the segments of a framed message in a slice.
\<close>

record ('st, 'p) capnp_crate =
  cp_init :: "nat \<Rightarrow> nat \<Rightarrow> 'st"
  cp_size :: "'st \<Rightarrow> nat \<times> nat"
  cp_data :: "nat \<Rightarrow> nat \<Rightarrow> 'st \<Rightarrow> nat"
  cp_set_data :: "nat \<Rightarrow> nat \<Rightarrow> nat \<Rightarrow> 'st \<Rightarrow> 'st"
  cp_pointer :: "nat \<Rightarrow> 'st \<Rightarrow> 'p"
  cp_set_pointer :: "nat \<Rightarrow> 'p \<Rightarrow> 'st \<Rightarrow> 'st"
  cp_null :: 'p
  cp_text_pointer :: "byte list \<Rightarrow> 'p"
  cp_data_pointer :: "byte list \<Rightarrow> 'p"
  cp_struct_pointer :: "'st \<Rightarrow> 'p"
  cp_list_pointer :: "'st list \<Rightarrow> 'p"
  cp_texts_pointer :: "byte list list \<Rightarrow> 'p"
  cp_capability :: "nat \<Rightarrow> 'p"
  cp_get_text :: "'p \<Rightarrow> string + byte list"
  cp_get_data :: "'p \<Rightarrow> string + byte list"
  cp_get_struct :: "'p \<Rightarrow> string + 'st"
  cp_get_list :: "'p \<Rightarrow> string + 'st list"
  cp_get_texts :: "'p \<Rightarrow> string + byte list list"
  cp_words :: "'st \<Rightarrow> byte list"
  cp_root :: "byte list list \<Rightarrow> string + 'st"
  cp_flat_segments :: "byte list \<Rightarrow> string + byte list list"
  cp_not_in_schema :: "u16 \<Rightarrow> string"

section \<open>Typed accessors\<close>

definition get_field :: "('st, 'p) capnp_crate \<Rightarrow> nat \<Rightarrow> 'st \<Rightarrow> 'a::len word" where
  "get_field cp i st = of_nat (cp_data cp LENGTH('a) i st)"

definition set_field :: "('st, 'p) capnp_crate \<Rightarrow> nat \<Rightarrow> 'a::len word \<Rightarrow> 'st \<Rightarrow> 'st" where
  "set_field cp i x = cp_set_data cp LENGTH('a) i (unat x)"

text \<open>A boolean with a default is stored exclusive-or its default.\<close>

definition get_bool_mask :: "('st, 'p) capnp_crate \<Rightarrow> nat \<Rightarrow> bool \<Rightarrow> 'st \<Rightarrow> bool" where
  "get_bool_mask cp i dflt st \<longleftrightarrow> odd (cp_data cp 1 i st) \<noteq> dflt"

definition set_bool_mask :: "('st, 'p) capnp_crate \<Rightarrow> nat \<Rightarrow> bool \<Rightarrow> bool \<Rightarrow> 'st \<Rightarrow> 'st" where
  "set_bool_mask cp i v dflt = cp_set_data cp 1 i (of_bool (v \<noteq> dflt))"

text \<open>\<open>get_<field>()?.to_str()?.to_string()\<close> on pointer field \<open>i\<close>, and its setter.\<close>

definition get_text_field :: "('st, 'p) capnp_crate \<Rightarrow> nat \<Rightarrow> 'st \<Rightarrow> rpc_error + string" where
  "get_text_field cp i st =
     bind_result (map_err rpc_error_from_capnp (cp_get_text cp (cp_pointer cp i st))) (\<lambda>bytes.
       case from_utf8 bytes of
         Some s \<Rightarrow> Inr s
       | None \<Rightarrow> Inl (rpc_error_from_utf8 (utf8_error_message bytes)))"

definition set_text_field :: "('st, 'p) capnp_crate \<Rightarrow> nat \<Rightarrow> string \<Rightarrow> 'st \<Rightarrow> 'st" where
  "set_text_field cp i s = cp_set_pointer cp i (cp_text_pointer cp (as_bytes s))"

definition get_data_bytes :: "('st, 'p) capnp_crate \<Rightarrow> nat \<Rightarrow> 'st \<Rightarrow> rpc_error + byte list" where
  "get_data_bytes cp i st = map_err rpc_error_from_capnp (cp_get_data cp (cp_pointer cp i st))"

definition set_data_bytes :: "('st, 'p) capnp_crate \<Rightarrow> nat \<Rightarrow> byte list \<Rightarrow> 'st \<Rightarrow> 'st" where
  "set_data_bytes cp i bytes = cp_set_pointer cp i (cp_data_pointer cp bytes)"

text \<open>A struct behind a pointer: what was built in it is set.\<close>

definition get_struct :: "('st, 'p) capnp_crate \<Rightarrow> nat \<Rightarrow> 'st \<Rightarrow> rpc_error + 'st" where
  "get_struct cp i st = map_err rpc_error_from_capnp (cp_get_struct cp (cp_pointer cp i st))"

definition set_struct :: "('st, 'p) capnp_crate \<Rightarrow> nat \<Rightarrow> 'st \<Rightarrow> 'st \<Rightarrow> 'st" where
  "set_struct cp i child = cp_set_pointer cp i (cp_struct_pointer cp child)"

definition get_structs :: "('st, 'p) capnp_crate \<Rightarrow> nat \<Rightarrow> 'st \<Rightarrow> rpc_error + 'st list" where
  "get_structs cp i st = map_err rpc_error_from_capnp (cp_get_list cp (cp_pointer cp i st))"

definition set_structs :: "('st, 'p) capnp_crate \<Rightarrow> nat \<Rightarrow> 'st list \<Rightarrow> 'st \<Rightarrow> 'st" where
  "set_structs cp i children = cp_set_pointer cp i (cp_list_pointer cp children)"

text \<open>An error of a union's \<open>which()\<close>.\<close>

definition not_in_schema :: "('st, 'p) capnp_crate \<Rightarrow> u16 \<Rightarrow> rpc_error" where
  "not_in_schema cp value = rpc_error_from_not_in_schema (cp_not_in_schema cp value)"

text \<open>A Rust \<open>String\<close> is valid UTF-8.\<close>

definition is_text :: "string \<Rightarrow> bool" where
  "is_text s \<longleftrightarrow> utf8_valid (as_bytes s)"

lemma from_utf8_text [simp]: "is_text s \<Longrightarrow> from_utf8 (as_bytes s) = Some s"
  by (simp add: is_text_def from_utf8_def)

lemma from_utf8_Nil [simp]: "from_utf8 [] = Some []"
  by (simp add: from_utf8_def)

section \<open>What the crate promises\<close>

text \<open>A data field that lies inside the data section; two fields that do not overlap.\<close>

definition field_fits :: "('st, 'p) capnp_crate \<Rightarrow> nat \<Rightarrow> nat \<Rightarrow> 'st \<Rightarrow> bool" where
  "field_fits cp w i st \<longleftrightarrow> w * (i + 1) \<le> 64 * fst (cp_size cp st)"

definition disjoint_fields :: "nat \<Rightarrow> nat \<Rightarrow> nat \<Rightarrow> nat \<Rightarrow> bool" where
  "disjoint_fields w i v j \<longleftrightarrow> w * (i + 1) \<le> v * j \<or> v * (j + 1) \<le> w * i"

locale capnp_layout =
  fixes cp :: "('st, 'p) capnp_crate"
  assumes size_init: "cp_size cp (cp_init cp d p) = (d, p)"
    and size_set_data: "cp_size cp (cp_set_data cp w i x st) = cp_size cp st"
    and size_set_pointer: "cp_size cp (cp_set_pointer cp i ptr st) = cp_size cp st"
    and data_init: "cp_data cp w i (cp_init cp d p) = 0"
    and data_same: "field_fits cp w i st \<Longrightarrow> cp_data cp w i (cp_set_data cp w i x st) = x mod 2 ^ w"
    and data_other: "field_fits cp w i st \<Longrightarrow> field_fits cp v j st \<Longrightarrow> disjoint_fields w i v j \<Longrightarrow>
      cp_data cp w i (cp_set_data cp v j x st) = cp_data cp w i st"
    and data_set_pointer: "cp_data cp w i (cp_set_pointer cp j ptr st) = cp_data cp w i st"
    and pointer_init: "cp_pointer cp i (cp_init cp d p) = cp_null cp"
    and pointer_set_data: "cp_pointer cp i (cp_set_data cp w j x st) = cp_pointer cp i st"
    and pointer_set_pointer: "j < snd (cp_size cp st) \<Longrightarrow>
      cp_pointer cp i (cp_set_pointer cp j ptr st) = (if i = j then ptr else cp_pointer cp i st)"
    and text_null: "cp_get_text cp (cp_null cp) = Inr []"
    and data_null: "cp_get_data cp (cp_null cp) = Inr []"
    and list_null: "cp_get_list cp (cp_null cp) = Inr []"
    and get_text: "cp_get_text cp (cp_text_pointer cp bytes) = Inr bytes"
    and get_data: "cp_get_data cp (cp_data_pointer cp bytes) = Inr bytes"
    and get_struct: "cp_get_struct cp (cp_struct_pointer cp child) = Inr child"
    and get_list: "cp_get_list cp (cp_list_pointer cp children) = Inr children"
    and get_texts: "cp_get_texts cp (cp_texts_pointer cp texts) = Inr texts"
begin

lemmas layout_simps [simp] =
  size_init size_set_data size_set_pointer data_init data_set_pointer pointer_init
  pointer_set_data pointer_set_pointer text_null data_null list_null get_text get_data get_struct
  get_list get_texts

text \<open>Typed fields; with concrete indices and a struct of known size their premises evaluate.\<close>

lemma size_set_field [simp]:
  "cp_size cp (set_field cp i x st) = cp_size cp st"
  "cp_size cp (set_bool_mask cp i v dflt st) = cp_size cp st"
  "cp_size cp (set_text_field cp i s st) = cp_size cp st"
  "cp_size cp (set_data_bytes cp i bytes st) = cp_size cp st"
  "cp_size cp (set_struct cp i child st) = cp_size cp st"
  "cp_size cp (set_structs cp i children st) = cp_size cp st"
  by (simp_all add: set_field_def set_bool_mask_def set_text_field_def set_data_bytes_def
      set_struct_def set_structs_def)

lemma get_field_same [simp]:
  fixes x :: "'a::len word"
  shows "LENGTH('a) * (i + 1) \<le> 64 * fst (cp_size cp st) \<Longrightarrow> get_field cp i (set_field cp i x st) = x"
  using unsigned_less [of x, where 'a = nat]
  by (simp add: get_field_def set_field_def data_same field_fits_def)

lemma get_field_other [simp]:
  fixes x :: "'b::len word"
  assumes "LENGTH('a) * (i + 1) \<le> 64 * fst (cp_size cp st)" "LENGTH('b) * (j + 1) \<le> 64 * fst (cp_size cp st)"
    and "LENGTH('a) * (i + 1) \<le> LENGTH('b) * j \<or> LENGTH('b) * (j + 1) \<le> LENGTH('a) * i"
  shows "(get_field cp i (set_field cp j x st) :: 'a::len word) = get_field cp i st"
  using assms by (simp add: get_field_def set_field_def data_other field_fits_def disjoint_fields_def)

lemma get_field_mask [simp]:
  assumes "LENGTH('a) * (i + 1) \<le> 64 * fst (cp_size cp st)" "j + 1 \<le> 64 * fst (cp_size cp st)"
    and "LENGTH('a) * (i + 1) \<le> j \<or> j + 1 \<le> LENGTH('a) * i"
  shows "(get_field cp i (set_bool_mask cp j v dflt st) :: 'a::len word) = get_field cp i st"
  using assms by (simp add: get_field_def set_bool_mask_def data_other field_fits_def disjoint_fields_def)

lemma get_mask_field [simp]:
  fixes x :: "'b::len word"
  assumes "i + 1 \<le> 64 * fst (cp_size cp st)" "LENGTH('b) * (j + 1) \<le> 64 * fst (cp_size cp st)"
    and "i + 1 \<le> LENGTH('b) * j \<or> LENGTH('b) * (j + 1) \<le> i"
  shows "get_bool_mask cp i dflt (set_field cp j x st) = get_bool_mask cp i dflt st"
  using assms by (simp add: get_bool_mask_def set_field_def data_other field_fits_def disjoint_fields_def)

lemma get_mask_same [simp]:
  "i + 1 \<le> 64 * fst (cp_size cp st) \<Longrightarrow> get_bool_mask cp i dflt (set_bool_mask cp i v dflt st) = v"
  by (cases v; cases dflt) (simp_all add: get_bool_mask_def set_bool_mask_def data_same field_fits_def)

lemma get_field_init [simp]: "get_field cp i (cp_init cp d p) = 0"
  by (simp add: get_field_def)

text \<open>Pointer fields and data fields do not meet.\<close>

lemma get_field_pointer [simp]:
  "get_field cp i (cp_set_pointer cp j ptr st) = get_field cp i st"
  "get_field cp i (set_text_field cp j s st) = get_field cp i st"
  "get_field cp i (set_data_bytes cp j bytes st) = get_field cp i st"
  "get_field cp i (set_struct cp j child st) = get_field cp i st"
  "get_field cp i (set_structs cp j children st) = get_field cp i st"
  by (simp_all add: get_field_def set_text_field_def set_data_bytes_def set_struct_def set_structs_def)

lemma get_mask_pointer [simp]:
  "get_bool_mask cp i dflt (cp_set_pointer cp j ptr st) = get_bool_mask cp i dflt st"
  "get_bool_mask cp i dflt (set_text_field cp j s st) = get_bool_mask cp i dflt st"
  "get_bool_mask cp i dflt (set_data_bytes cp j bytes st) = get_bool_mask cp i dflt st"
  "get_bool_mask cp i dflt (set_struct cp j child st) = get_bool_mask cp i dflt st"
  "get_bool_mask cp i dflt (set_structs cp j children st) = get_bool_mask cp i dflt st"
  by (simp_all add: get_bool_mask_def set_text_field_def set_data_bytes_def set_struct_def set_structs_def)

lemma pointer_set_field [simp]:
  "cp_pointer cp i (set_field cp j x st) = cp_pointer cp i st"
  "cp_pointer cp i (set_bool_mask cp j v dflt st) = cp_pointer cp i st"
  by (simp_all add: set_field_def set_bool_mask_def)

lemma pointer_set [simp]:
  assumes "j < snd (cp_size cp st)"
  shows "cp_pointer cp i (set_text_field cp j s st) = (if i = j then cp_text_pointer cp (as_bytes s) else cp_pointer cp i st)"
    and "cp_pointer cp i (set_data_bytes cp j bytes st) = (if i = j then cp_data_pointer cp bytes else cp_pointer cp i st)"
    and "cp_pointer cp i (set_struct cp j child st) = (if i = j then cp_struct_pointer cp child else cp_pointer cp i st)"
    and "cp_pointer cp i (set_structs cp j children st) = (if i = j then cp_list_pointer cp children else cp_pointer cp i st)"
  using assms by (simp_all add: set_text_field_def set_data_bytes_def set_struct_def set_structs_def)

text \<open>What a pointer field is set to is read from it, and from no other field.\<close>

lemma get_pointer_data [simp]:
  "get_text_field cp i (set_field cp j x st) = get_text_field cp i st"
  "get_text_field cp i (set_bool_mask cp j v dflt st) = get_text_field cp i st"
  "get_data_bytes cp i (set_field cp j x st) = get_data_bytes cp i st"
  "get_data_bytes cp i (set_bool_mask cp j v dflt st) = get_data_bytes cp i st"
  "Capnp.get_struct cp i (set_field cp j x st) = Capnp.get_struct cp i st"
  "Capnp.get_struct cp i (set_bool_mask cp j v dflt st) = Capnp.get_struct cp i st"
  "get_structs cp i (set_field cp j x st) = get_structs cp i st"
  "get_structs cp i (set_bool_mask cp j v dflt st) = get_structs cp i st"
  by (simp_all add: get_text_field_def get_data_bytes_def get_struct_def get_structs_def)

lemma get_struct_set [simp]:
  "j < snd (cp_size cp st) \<Longrightarrow> Capnp.get_struct cp i (set_struct cp j child st)
     = (if i = j then Inr child else Capnp.get_struct cp i st)"
  by (simp add: get_struct_def)

lemma get_structs_set [simp]:
  "j < snd (cp_size cp st) \<Longrightarrow> get_structs cp i (set_structs cp j children st)
     = (if i = j then Inr children else get_structs cp i st)"
  by (simp add: get_structs_def)

lemma get_other_pointer [simp]:
  assumes "j < snd (cp_size cp st)" "i \<noteq> j"
  shows "get_text_field cp i (cp_set_pointer cp j ptr st) = get_text_field cp i st"
    and "get_text_field cp i (set_text_field cp j s st) = get_text_field cp i st"
    and "get_text_field cp i (set_data_bytes cp j bytes st) = get_text_field cp i st"
    and "get_text_field cp i (set_struct cp j child st) = get_text_field cp i st"
    and "get_text_field cp i (set_structs cp j children st) = get_text_field cp i st"
    and "get_data_bytes cp i (cp_set_pointer cp j ptr st) = get_data_bytes cp i st"
    and "get_data_bytes cp i (set_text_field cp j s st) = get_data_bytes cp i st"
    and "get_data_bytes cp i (set_data_bytes cp j bytes st) = get_data_bytes cp i st"
    and "get_data_bytes cp i (set_struct cp j child st) = get_data_bytes cp i st"
    and "Capnp.get_struct cp i (cp_set_pointer cp j ptr st) = Capnp.get_struct cp i st"
    and "Capnp.get_struct cp i (set_text_field cp j s st) = Capnp.get_struct cp i st"
    and "Capnp.get_struct cp i (set_data_bytes cp j bytes st) = Capnp.get_struct cp i st"
    and "Capnp.get_struct cp i (set_structs cp j children st) = Capnp.get_struct cp i st"
    and "get_structs cp i (cp_set_pointer cp j ptr st) = get_structs cp i st"
    and "get_structs cp i (set_text_field cp j s st) = get_structs cp i st"
    and "get_structs cp i (set_struct cp j child st) = get_structs cp i st"
  using assms by (simp_all add: get_text_field_def get_data_bytes_def get_struct_def get_structs_def)

lemma get_text_init [simp]: "get_text_field cp i (cp_init cp d p) = Inr []"
  by (simp add: get_text_field_def from_utf8_def)

lemma get_text_same [simp]:
  "\<lbrakk>i < snd (cp_size cp st); is_text s\<rbrakk> \<Longrightarrow> get_text_field cp i (set_text_field cp i s st) = Inr s"
  by (simp add: get_text_field_def)

lemma get_data_same [simp]:
  "i < snd (cp_size cp st) \<Longrightarrow> get_data_bytes cp i (set_data_bytes cp i bytes st) = Inr bytes"
  by (simp add: get_data_bytes_def)

end

text \<open>
  The framed bytes of a message fit the reader's limits, and its segments are read as the
  message.
\<close>

definition message_fits :: "('st, 'p) capnp_crate \<Rightarrow> 'st \<Rightarrow> bool" where
  "message_fits cp st \<longleftrightarrow>
     (\<exists>segs. cp_words cp st = frame segs \<and> segments_wf segs \<and> cp_root cp segs = Inr st)"

section \<open>A concrete crate\<close>

text \<open>
  Structs as trees, the data section as a number of so many words. The messages of the list
  \<open>demos\<close> are framed as a segment with their position.
\<close>

datatype capnp_struct = CapnpStruct nat nat "capnp_pointer list"
  and capnp_pointer =
    NullPointer
  | TextPointer "byte list"
  | DataPointer "byte list"
  | StructPointer capnp_struct
  | ListPointer "capnp_struct list"
  | TextsPointer "byte list list"
  | CapabilityPointer nat

definition field_of :: "nat \<Rightarrow> nat \<Rightarrow> nat \<Rightarrow> nat" where
  "field_of w i d = take_bit w (drop_bit (w * i) d)"

definition with_field :: "nat \<Rightarrow> nat \<Rightarrow> nat \<Rightarrow> nat \<Rightarrow> nat" where
  "with_field w i x d =
     take_bit (w * i) d OR push_bit (w * i) (take_bit w x)
       OR push_bit (w * (i + 1)) (drop_bit (w * (i + 1)) d)"

lemma field_of_0 [simp]: "field_of w i 0 = 0"
  by (simp add: field_of_def)

lemma field_with_field_same: "field_of w i (with_field w i x d) = x mod 2 ^ w"
  unfolding take_bit_eq_mod [symmetric]
  by (rule bit_eqI) (auto simp: field_of_def with_field_def bit_simps)

lemma field_with_field_other:
  "disjoint_fields w i v j \<Longrightarrow> field_of w i (with_field v j x d) = field_of w i d"
  by (rule bit_eqI) (auto simp: field_of_def with_field_def disjoint_fields_def bit_simps)

definition segment_of :: "nat \<Rightarrow> byte list" where
  "segment_of n = of_nat n # replicate 7 0"

lemma length_segment_of [simp]: "length (segment_of n) = 8"
  by (simp add: segment_of_def)

lemma hd_segment_of [simp]: "hd (segment_of n) = of_nat n"
  by (simp add: segment_of_def)

definition position :: "'x list \<Rightarrow> 'x \<Rightarrow> nat" where
  "position xs x = length (takeWhile (\<lambda>y. y \<noteq> x) xs)"

lemma position_Cons [simp]: "position (x # xs) y = (if x = y then 0 else Suc (position xs y))"
  by (simp add: position_def)

lemma nth_position: "x \<in> set xs \<Longrightarrow> position xs x < length xs \<and> xs ! position xs x = x"
  by (induction xs) auto

definition tree_capnp :: "capnp_struct list \<Rightarrow> (capnp_struct, capnp_pointer) capnp_crate" where
  "tree_capnp demos =
     \<lparr>cp_init = (\<lambda>d p. CapnpStruct d 0 (replicate p NullPointer)),
      cp_size = (\<lambda>st. case st of CapnpStruct d x ps \<Rightarrow> (d, length ps)),
      cp_data = (\<lambda>w i st. case st of CapnpStruct d x ps \<Rightarrow> field_of w i x),
      cp_set_data = (\<lambda>w i v st. case st of CapnpStruct d x ps \<Rightarrow> CapnpStruct d (with_field w i v x) ps),
      cp_pointer = (\<lambda>i st. case st of CapnpStruct d x ps \<Rightarrow> if i < length ps then ps ! i else NullPointer),
      cp_set_pointer = (\<lambda>i p st. case st of CapnpStruct d x ps \<Rightarrow> CapnpStruct d x (ps[i := p])),
      cp_null = NullPointer, cp_text_pointer = TextPointer, cp_data_pointer = DataPointer,
      cp_struct_pointer = StructPointer, cp_list_pointer = ListPointer,
      cp_texts_pointer = TextsPointer, cp_capability = CapabilityPointer,
      cp_get_text = (\<lambda>p. case p of NullPointer \<Rightarrow> Inr [] | TextPointer b \<Rightarrow> Inr b | _ \<Rightarrow> Inl ''not a text''),
      cp_get_data = (\<lambda>p. case p of NullPointer \<Rightarrow> Inr [] | DataPointer b \<Rightarrow> Inr b | _ \<Rightarrow> Inl ''not data''),
      cp_get_struct = (\<lambda>p. case p of StructPointer st \<Rightarrow> Inr st | NullPointer \<Rightarrow> Inr (CapnpStruct 0 0 [])
                          | _ \<Rightarrow> Inl ''not a struct''),
      cp_get_list = (\<lambda>p. case p of NullPointer \<Rightarrow> Inr [] | ListPointer l \<Rightarrow> Inr l | _ \<Rightarrow> Inl ''not a list''),
      cp_get_texts = (\<lambda>p. case p of NullPointer \<Rightarrow> Inr [] | TextsPointer l \<Rightarrow> Inr l | _ \<Rightarrow> Inl ''not texts''),
      cp_words = (\<lambda>st. frame [segment_of (position demos st)]),
      cp_root = (\<lambda>segs. if unat (hd (hd segs)) < length demos then Inr (demos ! unat (hd (hd segs)))
                        else Inl ''no message''),
      cp_flat_segments = (\<lambda>bytes. Inr [drop 8 bytes]),
      cp_not_in_schema = (\<lambda>_. ''?'')\<rparr>"

interpretation tree: capnp_layout "tree_capnp demos"
  by unfold_locales
     (auto simp: tree_capnp_def field_with_field_same field_with_field_other nth_list_update
       split: capnp_struct.split)

lemma tree_capnp_layout: "capnp_layout (tree_capnp demos)"
  by (rule tree.capnp_layout_axioms)

lemma tree_capnp_fits:
  assumes "st \<in> set demos" and "length demos < 256"
  shows "message_fits (tree_capnp demos) st"
proof -
  have "unat (of_nat (position demos st) :: byte) = position demos st"
    using nth_position [OF assms(1)] assms(2) by (simp add: unsigned_of_nat take_bit_nat_eq_self)
  then show ?thesis
    using nth_position [OF assms(1)]
    by (auto simp: message_fits_def tree_capnp_def segments_wf_def
        MAXIMUM_TOTAL_WORDS_def intro!: exI [of _ "[segment_of (position demos st)]"])
qed

lemma tree_words: "cp_words (tree_capnp demos) st = frame [segment_of (position demos st)]"
  by (simp add: tree_capnp_def)

text \<open>What is built does not depend on \<open>demos\<close>.\<close>

lemma tree_accessors:
  "cp_init (tree_capnp demos) = cp_init (tree_capnp demos')"
  "set_field (tree_capnp demos) = set_field (tree_capnp demos')"
  "set_bool_mask (tree_capnp demos) = set_bool_mask (tree_capnp demos')"
  "set_text_field (tree_capnp demos) = set_text_field (tree_capnp demos')"
  "set_data_bytes (tree_capnp demos) = set_data_bytes (tree_capnp demos')"
  "set_struct (tree_capnp demos) = set_struct (tree_capnp demos')"
  "set_structs (tree_capnp demos) = set_structs (tree_capnp demos')"
  "cp_set_pointer (tree_capnp demos) = cp_set_pointer (tree_capnp demos')"
  "cp_null (tree_capnp demos) = cp_null (tree_capnp demos')"
  "cp_capability (tree_capnp demos) = cp_capability (tree_capnp demos')"
  "cp_struct_pointer (tree_capnp demos) = cp_struct_pointer (tree_capnp demos')"
  "cp_texts_pointer (tree_capnp demos) = cp_texts_pointer (tree_capnp demos')"
  by (simp_all add: tree_capnp_def fun_eq_iff set_field_def set_bool_mask_def set_text_field_def
      set_data_bytes_def set_struct_def set_structs_def)

section \<open>A message on a stream\<close>

context live_reader
begin

lemma read_fitting_message:
  assumes "good s" and "rest s = cp_words cp st @ after" and "message_fits cp st"
  shows "\<exists>segs s'. read_message rd s = Some (Inr segs, s') \<and> cp_root cp segs = Inr st \<and>
    rest s' = after \<and> good s'"
proof -
  from assms(3) obtain segs where segs: "cp_words cp st = frame segs" "segments_wf segs"
      "cp_root cp segs = Inr st" by (auto simp: message_fits_def)
  with read_message_frame [OF assms(1) segs(2)] assms(2) show ?thesis by auto
qed

end

end
