(* ===== verification/Quic_Metadata.thy ===== *)
theory Quic_Metadata
  imports Capnp
begin

text \<open>
  The metadata protocol of a QUIC stream, \<open>rpc/src/quic.rs\<close>: the signatures, the request the
  edge sends and the response it gets. Messages are Cap'n Proto structs; the crate that lays
  them out is the parameter \<open>capnp_crate\<close> (structs \<open>'st\<close> with data and pointer fields,
  pointers \<open>'p\<close>), the field numbers and the enum values are those of the generated accessors.
\<close>

section \<open>The protocol\<close>

definition DATA_STREAM_PROTOCOL_SIGNATURE :: "byte list" where
  "DATA_STREAM_PROTOCOL_SIGNATURE = [0x0A, 0x36, 0xCD, 0x12, 0xA1, 0x3E]"
definition RPC_STREAM_PROTOCOL_SIGNATURE :: "byte list" where
  "RPC_STREAM_PROTOCOL_SIGNATURE = [0x52, 0xBB, 0x82, 0x5C, 0xDB, 0x65]"
definition PROTOCOL_V1 :: "byte list" where "PROTOCOL_V1 = as_bytes ''01''"
definition HTTP_METHOD_KEY :: string where "HTTP_METHOD_KEY = ''HttpMethod''"
definition HTTP_HOST_KEY :: string where "HTTP_HOST_KEY = ''HttpHost''"
definition HTTP_HEADER_KEY :: string where "HTTP_HEADER_KEY = ''HttpHeader''"
definition HTTP_STATUS_KEY :: string where "HTTP_STATUS_KEY = ''HttpStatus''"

datatype connection_type = Http | Websocket | Tcp

record connect_request =
  destination :: string
  request_type :: connection_type
  request_metadata :: "(string \<times> string) list"

record connect_response =
  response_error :: string
  response_metadata :: "(string \<times> string) list"

section \<open>The generated accessors\<close>

text \<open>The generated enum, \<open>as u16\<close> and \<open>TryFrom<u16>\<close>.\<close>

datatype wire_connection_type = WireHttp | WireWebsocket | WireTcp

fun wire_connection_type_u16 :: "wire_connection_type \<Rightarrow> u16" where
  "wire_connection_type_u16 WireHttp = 0"
| "wire_connection_type_u16 WireWebsocket = 1"
| "wire_connection_type_u16 WireTcp = 2"

definition wire_connection_type_try_from ::
  "('st, 'p) capnp_crate \<Rightarrow> u16 \<Rightarrow> rpc_error + wire_connection_type" where
  "wire_connection_type_try_from cp value =
     (if value = 0 then Inr WireHttp
      else if value = 1 then Inr WireWebsocket
      else if value = 2 then Inr WireTcp
      else Inl (not_in_schema cp value))"

fun from_capnp :: "wire_connection_type \<Rightarrow> connection_type" where
  "from_capnp WireHttp = Http"
| "from_capnp WireWebsocket = Websocket"
| "from_capnp WireTcp = Tcp"

fun to_capnp :: "connection_type \<Rightarrow> wire_connection_type" where
  "to_capnp Http = WireHttp"
| "to_capnp Websocket = WireWebsocket"
| "to_capnp Tcp = WireTcp"

lemma from_to_capnp [simp]: "from_capnp (to_capnp t) = t"
  by (cases t) simp_all

lemma wire_connection_type_roundtrip [simp]:
  "wire_connection_type_try_from cp (wire_connection_type_u16 t) = Inr t"
  by (cases t) (simp_all add: wire_connection_type_try_from_def)

text \<open>\<open>Metadata\<close> entries: the key is pointer 0, the value pointer 1.\<close>

definition metadata_entry :: "('st, 'p) capnp_crate \<Rightarrow> string \<times> string \<Rightarrow> 'st" where
  "metadata_entry cp entry =
     set_text_field cp 1 (snd entry) (set_text_field cp 0 (fst entry) (cp_init cp 0 2))"

definition set_metadata :: "('st, 'p) capnp_crate \<Rightarrow> (string \<times> string) list \<Rightarrow> 'st \<Rightarrow> 'st" where
  "set_metadata cp metadata =
     set_structs cp 1 (map (metadata_entry cp) metadata)"

fun read_entries :: "('st, 'p) capnp_crate \<Rightarrow> 'st list \<Rightarrow> rpc_error + (string \<times> string) list" where
  "read_entries cp [] = Inr []"
| "read_entries cp (entry # entries) =
     bind_result (get_text_field cp 0 entry) (\<lambda>key.
     bind_result (get_text_field cp 1 entry) (\<lambda>val.
     bind_result (read_entries cp entries) (\<lambda>more. Inr ((key, val) # more))))"

definition get_metadata :: "('st, 'p) capnp_crate \<Rightarrow> 'st \<Rightarrow> rpc_error + (string \<times> string) list" where
  "get_metadata cp st =
     bind_result (get_structs cp 1 st) (read_entries cp)"

section \<open>Encoding and decoding\<close>

definition encode_connect_request :: "('st, 'p) capnp_crate \<Rightarrow> connect_request \<Rightarrow> 'st" where
  "encode_connect_request cp request =
     set_metadata cp (request_metadata request)
       (set_field cp 0 (wire_connection_type_u16 (to_capnp (request_type request)))
         (set_text_field cp 0 (destination request) (cp_init cp 1 2)))"

definition encode_connect_response :: "('st, 'p) capnp_crate \<Rightarrow> connect_response \<Rightarrow> 'st" where
  "encode_connect_response cp response =
     (let root = cp_init cp 0 2;
          root = (if response_error response \<noteq> []
                  then set_text_field cp 0 (response_error response) root else root) in
      set_metadata cp (response_metadata response) root)"

definition decode_connect_request ::
  "('st, 'p) capnp_crate \<Rightarrow> byte list list \<Rightarrow> rpc_error + connect_request" where
  "decode_connect_request cp segments =
     bind_result (map_err rpc_error_from_capnp (cp_root cp segments)) (\<lambda>root.
     bind_result (get_text_field cp 0 root) (\<lambda>dest.
     bind_result (wire_connection_type_try_from cp (get_field cp 0 root)) (\<lambda>t.
     bind_result (get_metadata cp root) (\<lambda>metadata.
       Inr \<lparr>destination = dest, request_type = from_capnp t, request_metadata = metadata\<rparr>))))"

definition decode_connect_response ::
  "('st, 'p) capnp_crate \<Rightarrow> byte list list \<Rightarrow> rpc_error + connect_response" where
  "decode_connect_response cp segments =
     bind_result (map_err rpc_error_from_capnp (cp_root cp segments)) (\<lambda>root.
     bind_result (get_text_field cp 0 root) (\<lambda>err.
     bind_result (get_metadata cp root) (\<lambda>metadata.
       Inr \<lparr>response_error = err, response_metadata = metadata\<rparr>)))"

text \<open>The same from a slice that holds the framed message.\<close>

definition decode_connect_request_bytes ::
  "('st, 'p) capnp_crate \<Rightarrow> byte list \<Rightarrow> rpc_error + connect_request" where
  "decode_connect_request_bytes cp bytes =
     bind_result (map_err rpc_error_from_capnp (cp_flat_segments cp bytes)) (decode_connect_request cp)"

definition decode_connect_response_bytes ::
  "('st, 'p) capnp_crate \<Rightarrow> byte list \<Rightarrow> rpc_error + connect_response" where
  "decode_connect_response_bytes cp bytes =
     bind_result (map_err rpc_error_from_capnp (cp_flat_segments cp bytes)) (decode_connect_response cp)"

definition read_connect_request ::
  "('st, 'p) capnp_crate \<Rightarrow> 's reader \<Rightarrow> ('s, rpc_error, connect_request) io" where
  "read_connect_request cp rd =
     bind_io (read_message rd) (\<lambda>segments. lift_io (decode_connect_request cp segments))"

definition read_connect_response ::
  "('st, 'p) capnp_crate \<Rightarrow> 's reader \<Rightarrow> ('s, rpc_error, connect_response) io" where
  "read_connect_response cp rd =
     bind_io (read_message rd) (\<lambda>segments. lift_io (decode_connect_response cp segments))"

definition write_connect_request ::
  "('st, 'p) capnp_crate \<Rightarrow> 's writer \<Rightarrow> connect_request \<Rightarrow> ('s, rpc_error, unit) io" where
  "write_connect_request cp wr request = write_raw wr (cp_words cp (encode_connect_request cp request))"

definition write_connect_response ::
  "('st, 'p) capnp_crate \<Rightarrow> 's writer \<Rightarrow> connect_response \<Rightarrow> ('s, rpc_error, unit) io" where
  "write_connect_response cp wr response =
     write_raw wr (cp_words cp (encode_connect_response cp response))"

section \<open>Reading back what was written\<close>

definition metadata_texts :: "(string \<times> string) list \<Rightarrow> bool" where
  "metadata_texts metadata \<longleftrightarrow> (\<forall>(k, v) \<in> set metadata. is_text k \<and> is_text v)"

context capnp_layout
begin

lemma size_set_metadata [simp]: "cp_size cp (set_metadata cp metadata st) = cp_size cp st"
  by (simp add: set_metadata_def)

lemma read_metadata_entries:
  "metadata_texts metadata \<Longrightarrow> read_entries cp (map (metadata_entry cp) metadata) = Inr metadata"
  by (induction metadata) (auto simp: metadata_texts_def metadata_entry_def get_text_field_def)

lemma get_set_metadata:
  "metadata_texts metadata \<Longrightarrow> cp_size cp st = (d, 2) \<Longrightarrow>
   get_metadata cp (set_metadata cp metadata st) = Inr metadata"
  by (simp add: get_metadata_def set_metadata_def get_structs_def read_metadata_entries)

lemma decode_connect_request_encode:
  assumes "cp_root cp segs = Inr (encode_connect_request cp r)"
    and "is_text (destination r)" and "metadata_texts (request_metadata r)"
  shows "decode_connect_request cp segs = Inr r"
  using assms
  by (simp add: decode_connect_request_def encode_connect_request_def get_set_metadata)
     (simp add: set_metadata_def get_text_field_def)

lemma decode_connect_response_encode:
  assumes "cp_root cp segs = Inr (encode_connect_response cp r)"
    and "is_text (response_error r)" and "metadata_texts (response_metadata r)"
  shows "decode_connect_response cp segs = Inr r"
  using assms
  by (simp add: decode_connect_response_def encode_connect_response_def Let_def get_set_metadata)
     (simp add: set_metadata_def get_text_field_def)

end

lemma connect_request_unknown_type:
  assumes "cp_root cp segs = Inr root" and "get_text_field cp 0 root = Inr dest"
    and "2 < (get_field cp 0 root :: u16)"
  shows "decode_connect_request cp segs = Inl (not_in_schema cp (get_field cp 0 root))"
  using assms by (auto simp: decode_connect_request_def wire_connection_type_try_from_def)

context live_reader
begin

lemma read_connect_request_back:
  assumes "capnp_layout cp" and "good s"
    and "rest s = cp_words cp (encode_connect_request cp r) @ after"
    and "message_fits cp (encode_connect_request cp r)"
    and "is_text (destination r)" and "metadata_texts (request_metadata r)"
  shows "\<exists>s'. read_connect_request cp rd s = Some (Inr r, s') \<and> rest s' = after \<and> good s'"
proof -
  from read_fitting_message [OF assms(2-4)] obtain segs s' where
    "read_message rd s = Some (Inr segs, s')" "cp_root cp segs = Inr (encode_connect_request cp r)"
    "rest s' = after" "good s'" by blast
  with capnp_layout.decode_connect_request_encode [OF assms(1) _ assms(5,6)] show ?thesis
    by (simp add: read_connect_request_def bind_io_def)
qed

lemma read_connect_response_back:
  assumes "capnp_layout cp" and "good s"
    and "rest s = cp_words cp (encode_connect_response cp r) @ after"
    and "message_fits cp (encode_connect_response cp r)"
    and "is_text (response_error r)" and "metadata_texts (response_metadata r)"
  shows "\<exists>s'. read_connect_response cp rd s = Some (Inr r, s') \<and> rest s' = after \<and> good s'"
proof -
  from read_fitting_message [OF assms(2-4)] obtain segs s' where
    "read_message rd s = Some (Inr segs, s')" "cp_root cp segs = Inr (encode_connect_response cp r)"
    "rest s' = after" "good s'" by blast
  with capnp_layout.decode_connect_response_encode [OF assms(1) _ assms(5,6)] show ?thesis
    by (simp add: read_connect_response_def bind_io_def)
qed

end

end
