(* ===== verification/Quic_Serve.thy ===== *)
theory Quic_Serve
  imports Http_Crate Pump Configuration Tunnel Quic_Metadata
begin

text \<open>
  Serving the streams of a QUIC connection, \<open>src/edge/serve.rs\<close>: the dispatch on the stream's
  signature, the handlers for HTTP, websocket, TCP and RPC streams, the draining of an unread
  body and the loop that accepts streams. It is written over the operations of a stream, which
  both QUIC backends provide. A stream is its receiving half \<open>'r\<close> and its sending half \<open>'s\<close>;
  an origin handler acts on the world \<open>'w\<close> and on the receiving half, which the request's body
  reads. What the origin reads after it has answered is not part of the model.
\<close>

section \<open>Streams and the environment\<close>

record ('r, 's) quic_ops =
  q_read :: "'r reader"
  q_write :: "'s writer"
  q_finish :: "'s \<Rightarrow> 's"
  q_cancel_write :: "'s \<Rightarrow> 's"
  q_stop_read :: "'r \<Rightarrow> 'r"

record ('r, 's, 'w, 'c) quic_task =
  task_id :: u64
  task_recv :: 'r
  task_send :: 's
  task_world :: 'w
  task_configuration :: "'c edge_configuration_handler"
  task_drains :: bool

text \<open>
  \<open>qe_body\<close> makes a request body of the stream, \<open>qe_copy\<close> is \<open>futures_util::io::copy\<close> of a
  response body into the stream, \<open>qe_pump\<close> the outcome of the pump.
\<close>

record ('m, 'u, 'v, 'h, 'b, 'io, 'r, 's, 'st, 'p, 'q) quic_env =
  qe_http :: "('m, 'u, 'v, 'h) http_crate"
  qe_capnp :: "('st, 'p) capnp_crate"
  qe_codec :: "'q server_codec"
  qe_ops :: "('r, 's) quic_ops"
  qe_body :: "'r \<Rightarrow> 'b"
  qe_copy :: "'b body \<Rightarrow> 's \<Rightarrow> ((io_error + unit) \<times> 's) option"
  qe_pump :: "'io origin_stream \<Rightarrow> 'r \<times> 's \<Rightarrow> ('r \<times> 's) option"
  qe_ingress :: ingress_parser

type_synonym ('m, 'u, 'h, 'b, 'io, 'r, 'w) quic_origin = "('m, 'u, 'h, 'b, 'io, 'w \<times> 'r) origin"
type_synonym ('r, 's, 'w, 'c, 'a) quic_io = "(('r, 's, 'w, 'c) quic_task, error, 'a) io"

definition on_recv_half ::
  "('e \<Rightarrow> error) \<Rightarrow> ('r, 'e, 'a) io \<Rightarrow> ('r, 's, 'w, 'c, 'a) quic_io" where
  "on_recv_half err m t = map_option (\<lambda>(x, r). (map_err err x, t\<lparr>task_recv := r\<rparr>)) (m (task_recv t))"

definition on_send_half ::
  "('e \<Rightarrow> error) \<Rightarrow> ('s, 'e, 'a) io \<Rightarrow> ('r, 's, 'w, 'c, 'a) quic_io" where
  "on_send_half err m t = map_option (\<lambda>(x, s). (map_err err x, t\<lparr>task_send := s\<rparr>)) (m (task_send t))"

text \<open>\<open>finish\<close> and \<open>cancel_write\<close>, which cannot fail.\<close>

definition update_send :: "('s \<Rightarrow> 's) \<Rightarrow> ('r, 's, 'w, 'c, unit) quic_io" where
  "update_send f t = Some (Inr (), t\<lparr>task_send := f (task_send t)\<rparr>)"

text \<open>\<open>AsyncReadExt::read_exact\<close>: as \<^const>\<open>read_exact\<close>, with the error of the \<open>futures\<close> crate.\<close>

fun futures_error :: "rpc_error \<Rightarrow> io_error" where
  "futures_error (RpcIo e) = e"
| "futures_error _ = io_err UnexpectedEof ''unexpected end of file''"

definition futures_read_exact :: "'r reader \<Rightarrow> nat \<Rightarrow> ('r, io_error, byte list) io" where
  "futures_read_exact rd n = map_err_io futures_error (read_exact rd n)"

section \<open>Requests and responses\<close>

definition HEADER_KEY_PREFIX :: string where "HEADER_KEY_PREFIX = ''HttpHeader:''"

text \<open>One metadata entry of a request: it changes the method, the headers, or nothing.\<close>

definition request_entry ::
  "('m, 'u, 'v, 'h) http_crate \<Rightarrow> string \<times> string \<Rightarrow> 'm \<times> 'h \<Rightarrow> 'm \<times> 'h" where
  "request_entry http entry acc =
     (case (entry, acc) of ((key, val), (m, headers)) \<Rightarrow>
        if key = HTTP_METHOD_KEY
        then (case method_from_bytes http (as_bytes val) of Some m' \<Rightarrow> m' | None \<Rightarrow> method_get http,
              headers)
        else case (if key = HTTP_HOST_KEY then hv_from_str http val else None) of
          Some hv \<Rightarrow> (m, hm_insert http ''host'' hv headers)
        | None \<Rightarrow>
            (case strip_prefix HEADER_KEY_PREFIX key of
               None \<Rightarrow> (m, headers)
             | Some name \<Rightarrow>
                 (case (header_name_from_bytes http (as_bytes name), hv_from_str http val) of
                    (Some n, Some v) \<Rightarrow> (m, hm_append http n v headers)
                  | _ \<Rightarrow> (m, headers))))"

definition build_request ::
  "('m, 'u, 'v, 'h) http_crate \<Rightarrow> connect_request \<Rightarrow> error + ('m, 'u, 'h, 'b) request" where
  "build_request http connect =
     (case fold (request_entry http) (request_metadata connect) (method_get http, hm_new http) of
        (m, headers) \<Rightarrow>
          bind_result
            (map_err (\<lambda>e. quic_error (''invalid request destination ''
                @ debug_str (destination connect) @ '': '' @ e))
              (http_crate.uri_try_from http (destination connect)))
            (\<lambda>uri. Inr (request_new m uri headers body_empty)))"

definition encode_response_metadata ::
  "('m, 'u, 'v, 'h) http_crate \<Rightarrow> ('h, 'b) response \<Rightarrow> (string \<times> string) list" where
  "encode_response_metadata http response =
     (HTTP_STATUS_KEY, decimal (unat (res_status response)))
     # map (\<lambda>(name, value). (HEADER_KEY_PREFIX @ name, header_text http value))
         (hm_iter http (res_headers response))"

definition write_response_preamble ::
  "('m, 'u, 'v, 'h, 'b, 'io, 'r, 's, 'st, 'p, 'q) quic_env \<Rightarrow> connect_response
     \<Rightarrow> ('r, 's, 'w, 'c, unit) quic_io" where
  "write_response_preamble env response =
     (let wr = q_write (qe_ops env) in
      bind_io (on_send_half error_from_io (futures_write_all wr DATA_STREAM_PROTOCOL_SIGNATURE)) (\<lambda>_.
      bind_io (on_send_half error_from_io (futures_write_all wr PROTOCOL_V1)) (\<lambda>_.
        on_send_half error_from_rpc (write_connect_response (qe_capnp env) wr response))))"

definition error_response :: "string \<Rightarrow> connect_response" where
  "error_response message =
     \<lparr>response_error = message, response_metadata = [(HTTP_STATUS_KEY, ''502'')]\<rparr>"

definition write_stream_error ::
  "('m, 'u, 'v, 'h, 'b, 'io, 'r, 's, 'st, 'p, 'q) quic_env \<Rightarrow> string
     \<Rightarrow> ('r, 's, 'w, 'c, unit) quic_io" where
  "write_stream_error env message =
     bind_io (write_response_preamble env (error_response message)) (\<lambda>_.
       update_send (q_cancel_write (qe_ops env)))"

section \<open>The handlers\<close>

definition call_quic_origin ::
  "('w \<times> 'r \<Rightarrow> 'a receiver \<times> 'w \<times> 'r)
     \<Rightarrow> (('r, 's, 'w, 'c) quic_task, string, 'a) io" where
  "call_quic_origin handler t =
     (case handler (task_world t, task_recv t) of
        (receiver, w, r) \<Rightarrow>
          map_option (\<lambda>x. (x, t\<lparr>task_world := w, task_recv := r\<rparr>)) (wait_outcome receiver))"

text \<open>Cancels the write side when a computation fails, and fails with its error.\<close>

definition or_cancel ::
  "('r, 's) quic_ops \<Rightarrow> ('r, 's, 'w, 'c, unit) quic_io \<Rightarrow> ('r, 's, 'w, 'c, unit) quic_io" where
  "or_cancel ops m =
     catch_io m (\<lambda>r. case r of
         Inr _ \<Rightarrow> return_io ()
       | Inl e \<Rightarrow> bind_io (update_send (q_cancel_write ops)) (\<lambda>_. throw_io e))"

lemma or_cancel_apply:
  "or_cancel ops m t =
     (case m t of
        None \<Rightarrow> None
      | Some (Inr u, t) \<Rightarrow> Some (Inr (), t)
      | Some (Inl e, t) \<Rightarrow> Some (Inl e, t\<lparr>task_send := q_cancel_write ops (task_send t)\<rparr>))"
  by (simp add: or_cancel_def catch_io_def bind_io_def update_send_def
      split: option.split sum.split prod.split)

text \<open>Spawns the task of \<open>drain_unread\<close>.\<close>

definition spawn_drain :: "('r, 's, 'w, 'c, unit) quic_io" where
  "spawn_drain t = Some (Inr (), t\<lparr>task_drains := True\<rparr>)"

definition handle_quic_http ::
  "('m, 'u, 'v, 'h, 'b, 'io, 'r, 's, 'st, 'p, 'q) quic_env
     \<Rightarrow> ('m, 'u, 'h, 'b, 'io, 'r, 'w) quic_origin \<Rightarrow> connect_request
     \<Rightarrow> ('r, 's, 'w, 'c, unit) quic_io" where
  "handle_quic_http env origin connect t =
     bind_io (lift_io (build_request (qe_http env) connect)) (\<lambda>request :: ('m, 'u, 'h, 'b) request.
     let request = request_new (req_method request) (req_uri request) (req_headers request)
                     (body_from_reader (qe_body env (task_recv t))) in
     catch_io (call_quic_origin (origin_http origin request)) (\<lambda>outcome.
       case outcome of
         Inl message \<Rightarrow> write_stream_error env message
       | Inr response \<Rightarrow>
           bind_io (or_cancel (qe_ops env) (write_response_preamble env
             \<lparr>response_error = [],
              response_metadata = encode_response_metadata (qe_http env) response\<rparr>)) (\<lambda>_.
           bind_io (or_cancel (qe_ops env) (on_send_half edge_io (qe_copy env (res_body response)))) (\<lambda>_.
           bind_io spawn_drain (\<lambda>_.
             update_send (q_finish (qe_ops env))))))) t"

definition pump_quic ::
  "('m, 'u, 'v, 'h, 'b, 'io, 'r, 's, 'st, 'p, 'q) quic_env \<Rightarrow> 'io origin_stream
     \<Rightarrow> ('r, 's, 'w, 'c, unit) quic_io" where
  "pump_quic env io t =
     map_option (\<lambda>(r, s). (Inr (), t\<lparr>task_recv := r, task_send := s\<rparr>))
       (qe_pump env io (task_recv t, task_send t))"

definition handle_quic_websocket ::
  "('m, 'u, 'v, 'h, 'b, 'io, 'r, 's, 'st, 'p, 'q) quic_env
     \<Rightarrow> ('m, 'u, 'h, 'b, 'io, 'r, 'w) quic_origin \<Rightarrow> connect_request
     \<Rightarrow> ('r, 's, 'w, 'c, unit) quic_io" where
  "handle_quic_websocket env origin connect =
     (case origin_websocket origin of
        None \<Rightarrow> write_stream_error env ''no websocket origin handler''
      | Some websocket \<Rightarrow>
          bind_io (lift_io (build_request (qe_http env) connect)) (\<lambda>request.
          catch_io (call_quic_origin (websocket request)) (\<lambda>outcome.
            case outcome of
              Inl message \<Rightarrow> write_stream_error env message
            | Inr connection \<Rightarrow>
                bind_io (write_response_preamble env
                  \<lparr>response_error = [],
                   response_metadata = encode_response_metadata (qe_http env) (ws_response connection)\<rparr>)
                  (\<lambda>_. pump_quic env (ws_origin connection)))))"

definition handle_quic_tcp ::
  "('m, 'u, 'v, 'h, 'b, 'io, 'r, 's, 'st, 'p, 'q) quic_env
     \<Rightarrow> ('m, 'u, 'h, 'b, 'io, 'r, 'w) quic_origin \<Rightarrow> connect_request
     \<Rightarrow> ('r, 's, 'w, 'c, unit) quic_io" where
  "handle_quic_tcp env origin connect =
     (case origin_tcp origin of
        None \<Rightarrow> write_stream_error env ''no tcp origin handler''
      | Some tcp \<Rightarrow>
          catch_io (call_quic_origin (tcp (request_tcp (qe_http env) (destination connect)))) (\<lambda>outcome.
            case outcome of
              Inl message \<Rightarrow> write_stream_error env message
            | Inr io \<Rightarrow>
                bind_io (write_response_preamble env \<lparr>response_error = [], response_metadata = []\<rparr>)
                  (\<lambda>_. pump_quic env io)))"

text \<open>An RPC stream is served on both halves together.\<close>

definition pair_read :: "('r, 's) quic_ops \<Rightarrow> ('r \<times> 's) reader" where
  "pair_read ops n st = map_option (\<lambda>(x, r). (x, (r, snd st))) (q_read ops n (fst st))"

definition pair_write :: "('r, 's) quic_ops \<Rightarrow> ('r \<times> 's) writer" where
  "pair_write ops buffer st = map_option (\<lambda>(x, s). (x, (fst st, s))) (q_write ops buffer (snd st))"

definition handle_rpc_stream ::
  "('m, 'u, 'v, 'h, 'b, 'io, 'r, 's, 'st, 'p, 'q) quic_env \<Rightarrow> ('r, 's, 'w, 'c, unit) quic_io" where
  "handle_rpc_stream env t =
     map_option (\<lambda>(x, (r, s), h).
         (map_err error_from_rpc x, t\<lparr>task_recv := r, task_send := s, task_configuration := h\<rparr>))
       (serve_cloudflared (qe_codec env) (edge_handler (qe_ingress env)) (pair_read (qe_ops env))
          (pair_write (qe_ops env)) (task_recv t, task_send t) (task_configuration t))"

definition serve_stream ::
  "('m, 'u, 'v, 'h, 'b, 'io, 'r, 's, 'st, 'p, 'q) quic_env
     \<Rightarrow> ('m, 'u, 'h, 'b, 'io, 'r, 'w) quic_origin \<Rightarrow> ('r, 's, 'w, 'c, unit) quic_io" where
  "serve_stream env origin t =
     (let rd = q_read (qe_ops env); name = ''stream '' @ decimal (unat (task_id t)) in
      bind_io (on_recv_half error_from_io (futures_read_exact rd 6)) (\<lambda>signature.
        if signature = RPC_STREAM_PROTOCOL_SIGNATURE then handle_rpc_stream env
        else if signature \<noteq> DATA_STREAM_PROTOCOL_SIGNATURE
        then throw_io (quic_error (name @ '' has no data-stream signature''))
        else bind_io (on_recv_half error_from_io (futures_read_exact rd 2)) (\<lambda>version.
          if version \<noteq> PROTOCOL_V1
          then throw_io (quic_error (name @ '' has unsupported protocol version''))
          else bind_io (on_recv_half error_from_rpc (read_connect_request (qe_capnp env) rd)) (\<lambda>connect.
            case request_type connect of
              Http \<Rightarrow> handle_quic_http env origin connect
            | Websocket \<Rightarrow> handle_quic_websocket env origin connect
            | Tcp \<Rightarrow> handle_quic_tcp env origin connect))) t)"

section \<open>What a handler writes\<close>

lemma is_ok_unit [simp]: "is_ok (x :: 'e + unit) \<longleftrightarrow> x = Inr ()"
  by (cases x) simp_all

text \<open>A computation on the sending half that writes \<open>y\<close>, or a prefix of it when it fails.\<close>

definition half_writes ::
  "('s \<Rightarrow> byte list) \<Rightarrow> ('s \<Rightarrow> bool) \<Rightarrow> ('s, 'e, 'a) io \<Rightarrow> byte list \<Rightarrow> bool" where
  "half_writes written good m y \<longleftrightarrow>
     (\<forall>s x s'. good s \<longrightarrow> m s = Some (x, s') \<longrightarrow>
        good s' \<and> (\<exists>k. written s' = written s @ take k y \<and> (is_ok x \<longrightarrow> take k y = y)))"

definition preamble :: "('st, 'p) capnp_crate \<Rightarrow> connect_response \<Rightarrow> byte list" where
  "preamble cp r =
     DATA_STREAM_PROTOCOL_SIGNATURE @ PROTOCOL_V1 @ cp_words cp (encode_connect_response cp r)"

text \<open>
  The answer of the origin to an HTTP stream, and the bytes that answer is sent as; \<open>bytes\<close>
  is the content of a response body.
\<close>

definition http_answer ::
  "('m, 'u, 'v, 'h, 'b, 'io, 'r, 's, 'st, 'p, 'q) quic_env
     \<Rightarrow> ('m, 'u, 'h, 'b, 'io, 'r, 'w) quic_origin \<Rightarrow> connect_request
     \<Rightarrow> ('r, 's, 'w, 'c) quic_task \<Rightarrow> (string + ('h, 'b) response) option" where
  "http_answer env origin connect t =
     (case build_request (qe_http env) connect :: error + ('m, 'u, 'h, 'b) request of
        Inl e \<Rightarrow> None
      | Inr req \<Rightarrow>
          wait_outcome (fst (origin_http origin
            (request_new (req_method req) (req_uri req) (req_headers req)
               (body_from_reader (qe_body env (task_recv t)))) (task_world t, task_recv t))))"

definition answer_bytes ::
  "('m, 'u, 'v, 'h, 'b, 'io, 'r, 's, 'st, 'p, 'q) quic_env \<Rightarrow> ('b body \<Rightarrow> byte list)
     \<Rightarrow> string + ('h, 'b) response \<Rightarrow> byte list" where
  "answer_bytes env bytes answer =
     (case answer of
        Inl message \<Rightarrow> preamble (qe_capnp env) (error_response message)
      | Inr response \<Rightarrow>
          preamble (qe_capnp env)
            \<lparr>response_error = [],
             response_metadata = encode_response_metadata (qe_http env) response\<rparr>
          @ bytes (res_body response))"

text \<open>
  The contract of a sending half: besides what a writer promises, \<open>finish\<close> ends it and
  \<open>cancel_write\<close> resets it, and neither takes back what was written.
\<close>

locale quic_sender = byte_writer "q_write ops" written good
  for ops :: "('r, 's) quic_ops" and written :: "'s \<Rightarrow> byte list" and good :: "'s \<Rightarrow> bool" +
  fixes finished :: "'s \<Rightarrow> bool" and cancelled :: "'s \<Rightarrow> bool"
  assumes finishes: "good s \<Longrightarrow> good (q_finish ops s) \<and> written (q_finish ops s) = written s \<and>
      finished (q_finish ops s)"
    and cancels: "good s \<Longrightarrow> good (q_cancel_write ops s) \<and> written (q_cancel_write ops s) = written s \<and>
      cancelled (q_cancel_write ops s)"
begin

abbreviation writes :: "('s, 'e, 'a) io \<Rightarrow> byte list \<Rightarrow> bool" where
  "writes \<equiv> half_writes written good"

lemma writesI:
  assumes "\<And>s x s'. good s \<Longrightarrow> m s = Some (x, s') \<Longrightarrow>
    good s' \<and> (\<exists>k. written s' = written s @ take k y \<and> (is_ok x \<longrightarrow> take k y = y))"
  shows "writes m y"
  unfolding half_writes_def using assms by blast

lemma futures_write_all_writes: "writes (futures_write_all (q_write ops) buffer) buffer"
  by (rule writesI) (unfold is_ok_unit, rule futures_write_all_prefix)

lemma write_connect_response_writes:
  "writes (write_connect_response cp (q_write ops) r) (cp_words cp (encode_connect_response cp r))"
proof (rule writesI)
  fix s x s'
  assume "good s" and "write_connect_response cp (q_write ops) r s = Some (x, s')"
  then have "write_all (q_write ops) (cp_words cp (encode_connect_response cp r)) s = Some (x, s')"
    by (simp add: write_connect_response_def write_raw_def)
  from write_all_prefix [OF \<open>good s\<close> this]
  show "good s' \<and> (\<exists>k. written s' = written s @ take k (cp_words cp (encode_connect_response cp r)) \<and>
      (is_ok x \<longrightarrow> take k (cp_words cp (encode_connect_response cp r)) = cp_words cp (encode_connect_response cp r)))"
    by auto
qed

definition wrote :: "byte list \<Rightarrow> byte list \<Rightarrow> ('r, 's, 'w, 'c) quic_task \<Rightarrow> bool" where
  "wrote base x t \<longleftrightarrow> good (task_send t) \<and> written (task_send t) = base @ x"

definition wrote_part :: "byte list \<Rightarrow> byte list \<Rightarrow> ('r, 's, 'w, 'c) quic_task \<Rightarrow> bool" where
  "wrote_part base full t \<longleftrightarrow>
     good (task_send t) \<and> (\<exists>k. written (task_send t) = base @ take k full)"

lemma wrote_is_part: "wrote base x t \<Longrightarrow> wrote_part base x t"
  by (auto simp: wrote_def wrote_part_def intro!: exI [of _ "length x"])

lemma wrote_part_more: "wrote_part base x t \<Longrightarrow> wrote_part base (x @ y) t"
proof -
  assume "wrote_part base x t"
  then obtain k where "good (task_send t)" "written (task_send t) = base @ take k x"
    by (auto simp: wrote_part_def)
  moreover have "take k x = take (min k (length x)) (x @ y)" by (simp add: min_def)
  ultimately show ?thesis unfolding wrote_part_def by metis
qed

lemma on_send_half_writes:
  assumes "writes m y"
  shows "ensures_io (wrote base x) (on_send_half err m) (\<lambda>_. wrote base (x @ y))
    (\<lambda>_. wrote_part base (x @ y @ z))"
proof (rule ensures_ioI)
  fix t v t'
  assume t: "wrote base x t"
  { assume "on_send_half err m t = Some (Inr v, t')"
    then obtain s where "m (task_send t) = Some (Inr v, s)" "t' = t\<lparr>task_send := s\<rparr>"
      by (auto simp: on_send_half_def)
    with assms t show "wrote base (x @ y) t'" by (fastforce simp: half_writes_def wrote_def) }
next
  fix t e t'
  assume t: "wrote base x t" and "on_send_half err m t = Some (Inl e, t')"
  then obtain e' s where "m (task_send t) = Some (Inl e', s)" and t': "t' = t\<lparr>task_send := s\<rparr>"
    by (auto simp: on_send_half_def map_err_eq_Inl_iff)
  with assms t obtain k where "good s" "written s = (base @ x) @ take k y"
    by (force simp: half_writes_def wrote_def)
  then have "wrote_part base (x @ y) t'"
    by (auto simp: wrote_part_def t' intro!: exI [of _ "length x + k"])
  from wrote_part_more [OF this, of z] show "wrote_part base (x @ y @ z) t'" by simp
qed

lemma write_response_preamble_writes:
  assumes "qe_ops env = ops"
  shows "ensures_io (wrote base []) (write_response_preamble env r)
    (\<lambda>_. wrote base (preamble (qe_capnp env) r)) (\<lambda>_. wrote_part base (preamble (qe_capnp env) r @ z))"
proof -
  let ?full = "preamble (qe_capnp env) r @ z"
  let ?words = "cp_words (qe_capnp env) (encode_connect_response (qe_capnp env) r)"
  have full: "[] @ DATA_STREAM_PROTOCOL_SIGNATURE @ PROTOCOL_V1 @ ?words @ z = ?full"
    "([] @ DATA_STREAM_PROTOCOL_SIGNATURE) @ PROTOCOL_V1 @ ?words @ z = ?full"
    "(([] @ DATA_STREAM_PROTOCOL_SIGNATURE) @ PROTOCOL_V1) @ ?words @ z = ?full"
    "(([] @ DATA_STREAM_PROTOCOL_SIGNATURE) @ PROTOCOL_V1) @ ?words = preamble (qe_capnp env) r"
    by (simp_all add: preamble_def)
  note steps =
    on_send_half_writes [OF futures_write_all_writes, where base = base and x = "[]"
        and y = DATA_STREAM_PROTOCOL_SIGNATURE and err = error_from_io
        and z = "PROTOCOL_V1 @ ?words @ z", unfolded full]
    on_send_half_writes [OF futures_write_all_writes, where base = base
        and x = "[] @ DATA_STREAM_PROTOCOL_SIGNATURE" and y = PROTOCOL_V1 and err = error_from_io
        and z = "?words @ z", unfolded full]
    on_send_half_writes [OF write_connect_response_writes [of "qe_capnp env" r], where base = base
        and x = "([] @ DATA_STREAM_PROTOCOL_SIGNATURE) @ PROTOCOL_V1" and err = error_from_rpc and z = z, unfolded full]
  show ?thesis
    unfolding write_response_preamble_def Let_def assms
    by (rule ensures_bind [OF steps(1)], rule ensures_bind [OF steps(2)], rule steps(3))
qed

lemma or_cancel_writes:
  assumes "ensures_io P m (\<lambda>_. Q) (\<lambda>_. wrote_part base full)"
  shows "ensures_io P (or_cancel ops m) (\<lambda>_. Q)
    (\<lambda>_ t. wrote_part base full t \<and> cancelled (task_send t))"
proof (rule ensures_ioI)
  fix t u t' assume P: "P t" and "or_cancel ops m t = Some (Inr u, t')"
  then obtain v where "m t = Some (Inr v, t')"
    by (auto simp: or_cancel_apply split: option.splits sum.splits)
  from ensures_io_Ok [OF assms P this] show "Q t'" .
next
  fix t e t' assume P: "P t" and "or_cancel ops m t = Some (Inl e, t')"
  then obtain t1 where "m t = Some (Inl e, t1)"
      and t': "t' = t1\<lparr>task_send := q_cancel_write ops (task_send t1)\<rparr>"
    by (auto simp: or_cancel_apply split: option.splits sum.splits)
  from ensures_io_Err [OF assms P this(1)] show "wrote_part base full t' \<and> cancelled (task_send t')"
    by (auto simp: wrote_part_def t' cancels)
qed

lemma update_send_finishes:
  assumes "qe_ops env = ops"
  shows "ensures_io (wrote base x) (update_send (q_finish (qe_ops env)))
    (\<lambda>_ t. wrote base x t \<and> finished (task_send t)) E"
  using finishes by (auto simp: ensures_io_def update_send_def wrote_def assms)

lemma write_stream_error_writes:
  assumes "qe_ops env = ops"
  shows "ensures_io (wrote base []) (write_stream_error env message)
    (\<lambda>_ t. wrote base (preamble (qe_capnp env) (error_response message)) t \<and> cancelled (task_send t))
    (\<lambda>_. wrote_part base (preamble (qe_capnp env) (error_response message)))"
  unfolding write_stream_error_def
  by (rule ensures_bind, rule write_response_preamble_writes [OF assms, where z = "[]", simplified])
     (use cancels in \<open>auto simp: ensures_io_def update_send_def wrote_def assms\<close>)

lemma http_response_writes:
  assumes ops: "qe_ops env = ops" and copy: "writes (qe_copy env b) body"
  shows "ensures_io (wrote base [])
    (bind_io (or_cancel (qe_ops env) (write_response_preamble env r)) (\<lambda>_.
     bind_io (or_cancel (qe_ops env) (on_send_half edge_io (qe_copy env b))) (\<lambda>_.
     bind_io spawn_drain (\<lambda>_. update_send (q_finish (qe_ops env))))))
    (\<lambda>_ t. wrote base (preamble (qe_capnp env) r @ body) t \<and> finished (task_send t))
    (\<lambda>_ t. wrote_part base (preamble (qe_capnp env) r @ body) t \<and> cancelled (task_send t))"
    (is "ensures_io _ (bind_io ?head (\<lambda>_. bind_io ?copy (\<lambda>_. bind_io _ (\<lambda>_. ?end)))) ?Q ?E")
proof -
  let ?pre = "preamble (qe_capnp env) r"
  have head: "ensures_io (wrote base []) ?head (\<lambda>_. wrote base ?pre) ?E"
    unfolding ops by (rule or_cancel_writes [OF write_response_preamble_writes [OF ops]])
  have body: "ensures_io (wrote base ?pre) ?copy (\<lambda>_. wrote base (?pre @ body)) ?E"
    unfolding ops
    using or_cancel_writes [OF on_send_half_writes [OF copy, where z = "[]"]] by simp
  have drain: "ensures_io (wrote base x) spawn_drain (\<lambda>_. wrote base x) ?E" for x
    by (auto simp: ensures_io_def spawn_drain_def wrote_def)
  show ?thesis
    by (rule ensures_bind [OF head], rule ensures_bind [OF body], rule ensures_bind [OF drain],
        rule update_send_finishes [OF ops])
qed

lemma handle_quic_http_writes:
  assumes ops: "qe_ops env = ops" and copy: "\<And>b. writes (qe_copy env b) (bytes b)"
    and good: "good (task_send t)" and answer: "http_answer env origin connect t = Some answer"
    and run: "handle_quic_http env origin connect t = Some (r, t')"
  defines "base \<equiv> written (task_send t)" and "full \<equiv> answer_bytes env bytes answer"
  shows "wrote_part base full t' \<and>
    (r = Inr () \<longrightarrow> wrote base full t' \<and>
       (if is_ok answer then finished (task_send t') else cancelled (task_send t'))) \<and>
    (r \<noteq> Inr () \<longrightarrow> is_ok answer \<longrightarrow> cancelled (task_send t'))"
proof -
  from answer obtain req :: "('a, 'b, 'd, 'e) request" where
    "build_request (qe_http env) connect = Inr req"
    and outcome: "wait_outcome (fst (origin_http origin
            (request_new (req_method req) (req_uri req) (req_headers req)
               (body_from_reader (qe_body env (task_recv t)))) (task_world t, task_recv t))) = Some answer"
    by (auto simp: http_answer_def split: sum.splits)
  with run obtain t1 where send: "task_send t1 = task_send t"
    and step: "(case answer of
         Inl message \<Rightarrow> write_stream_error env message
       | Inr response \<Rightarrow>
           bind_io (or_cancel (qe_ops env) (write_response_preamble env
             \<lparr>response_error = [],
              response_metadata = encode_response_metadata (qe_http env) response\<rparr>)) (\<lambda>_.
           bind_io (or_cancel (qe_ops env) (on_send_half edge_io (qe_copy env (res_body response)))) (\<lambda>_.
           bind_io spawn_drain (\<lambda>_.
             update_send (q_finish (qe_ops env)))))) t1 = Some (r, t')"
    by (atomize_elim, auto simp: handle_quic_http_def call_quic_origin_def Let_def catch_io_apply
        bind_io_apply split: prod.splits)
      (rule exI, rule conjI [rotated], assumption, simp)
  have start: "wrote base [] t1" using good send by (simp add: wrote_def base_def)
  show ?thesis
  proof (cases answer)
    case (Inl message)
    with step have "write_stream_error env message t1 = Some (r, t')" by simp
    from ensures_ioD [OF write_stream_error_writes [OF ops] start this] Inl show ?thesis
      by (cases r) (auto simp: full_def answer_bytes_def wrote_is_part)
  next
    case (Inr response)
    from ensures_ioD [OF http_response_writes [OF ops copy] start
        step [unfolded Inr sum.case]] Inr show ?thesis
      by (cases r) (auto simp: full_def answer_bytes_def wrote_is_part)
  qed
qed

end

text \<open>C16. An HTTP stream gets the origin's answer and nothing else: the data-stream signature, the
  version, the response metadata and the body in that order, or, when the origin fails or drops
  its responder, an error response with status 502. On success the stream is finished (reset
  after an error response); when writing fails the edge has got a prefix of it, and a response
  that was cut short is reset, so that the edge cannot take it for a complete one.\<close>

theorem quic_http_response:
  assumes "quic_sender (qe_ops env) written good finished cancelled"
    and "\<And>b. half_writes written good (qe_copy env b) (bytes b)"
    and "good (task_send t)" and "http_answer env origin connect t = Some answer"
    and "handle_quic_http env origin connect t = Some (r, t')"
  shows "(\<exists>k. written (task_send t') = written (task_send t) @ take k (answer_bytes env bytes answer)) \<and>
    (r = Inr () \<longrightarrow>
       written (task_send t') = written (task_send t) @ answer_bytes env bytes answer \<and>
       (if is_ok answer then finished (task_send t') else cancelled (task_send t'))) \<and>
    (r \<noteq> Inr () \<longrightarrow> is_ok answer \<longrightarrow> cancelled (task_send t'))"
  using quic_sender.handle_quic_http_writes [OF assms(1) refl assms(2-5)]
  by (simp add: quic_sender.wrote_def [OF assms(1)] quic_sender.wrote_part_def [OF assms(1)])

text \<open>A stream whose halves are in memory, served by an origin that echoes the path.\<close>

definition memory_ops :: "(byte list, byte list \<times> bool \<times> bool) quic_ops" where
  "memory_ops =
     \<lparr>q_read = whole_reader, q_write = (\<lambda>b (w, f, c). Some (Inr (length b), (w @ b, f, c))),
      q_finish = (\<lambda>(w, f, c). (w, True, c)), q_cancel_write = (\<lambda>(w, f, c). (w, f, True)),
      q_stop_read = id\<rparr>"

lemma memory_writes:
  "futures_write_all (q_write memory_ops) b (w, f, c) = Some (Inr (), (w @ b, f, c))"
  "write_all (q_write memory_ops) b (w, f, c) = Some (Inr (), (w @ b, f, c))"
  by (cases "b = []"; simp add: memory_ops_def futures_write_all.simps write_all.simps)+

lemma memory_sender: "quic_sender memory_ops fst (\<lambda>_. True) (\<lambda>s. fst (snd s)) (\<lambda>s. snd (snd s))"
  by unfold_locales (auto simp: memory_ops_def split: prod.splits)

definition demo_quic_env ::
  "(string, string, string, (string \<times> string) list, unit, unit, byte list,
     byte list \<times> bool \<times> bool, capnp_struct, capnp_pointer, unit) quic_env" where
  "demo_quic_env =
     \<lparr>qe_http = list_http, qe_capnp = tree_capnp [],
      qe_codec = undefined, qe_ops = memory_ops, qe_body = (\<lambda>_. ()),
      qe_copy = (\<lambda>b (w, f, c). case inner b of
          BBytes bytes p \<Rightarrow> Some (Inr (), (w @ bytes, f, c)) | _ \<Rightarrow> Some (Inr (), (w, f, c))),
      qe_pump = (\<lambda>_ s. Some s), qe_ingress = (\<lambda>_. Inr [])\<rparr>"

definition demo_quic_origin ::
  "(string, string, (string \<times> string) list, unit, unit, byte list, nat) quic_origin" where
  "demo_quic_origin =
     origin_new (\<lambda>req (w, r). (responder_send (response_new 200 [] (body_from_bytes (as_bytes (req_uri req)))),
                               Suc w, []))"

definition demo_quic_task :: "(byte list, byte list \<times> bool \<times> bool, nat, unit) quic_task" where
  "demo_quic_task =
     \<lparr>task_id = 4, task_recv = [1, 2], task_send = ([], False, False), task_world = 0,
      task_configuration = edge_configuration_handler_new None (), task_drains = False\<rparr>"

definition demo_connect :: connect_request where
  "demo_connect = \<lparr>destination = ''/p'', request_type = Http, request_metadata = [(HTTP_METHOD_KEY, ''POST'')]\<rparr>"

definition body_bytes :: "'r body \<Rightarrow> byte list" where
  "body_bytes b = (case inner b of BBytes bytes p \<Rightarrow> bytes | _ \<Rightarrow> [])"

lemma demo_http_answer:
  "http_answer demo_quic_env demo_quic_origin demo_connect demo_quic_task
     = Some (Inr (response_new 200 [] (body_from_bytes (as_bytes ''/p''))))"
  by (simp add: http_answer_def build_request_def request_entry_def demo_connect_def demo_quic_env_def
      list_http_def demo_quic_origin_def origin_new_def responder_send_def request_new_def
      HTTP_METHOD_KEY_def demo_quic_task_def)

lemma demo_quic_run:
  "handle_quic_http demo_quic_env demo_quic_origin demo_connect demo_quic_task
     = Some (Inr (), demo_quic_task\<lparr>task_recv := [], task_world := 1, task_drains := True,
         task_send := (answer_bytes demo_quic_env body_bytes
            (Inr (response_new 200 [] (body_from_bytes (as_bytes ''/p'')))), True, False)\<rparr>)"
  by (simp add: handle_quic_http_def build_request_def request_entry_def demo_connect_def
      demo_quic_env_def list_http_def demo_quic_origin_def origin_new_def responder_send_def
      request_new_def HTTP_METHOD_KEY_def demo_quic_task_def call_quic_origin_def or_cancel_apply
      write_response_preamble_def on_send_half_def memory_writes write_connect_response_def
      write_raw_def spawn_drain_def update_send_def memory_ops_def [THEN arg_cong [where f = q_finish]]
      answer_bytes_def preamble_def body_bytes_def body_from_bytes_def response_new_def tree_capnp_def
      Let_def run_io cong: run_io_congs)

lemma demo_copy: "half_writes fst (\<lambda>_. True) (qe_copy demo_quic_env b) (body_bytes b)"
  by (cases "inner b")
     (auto simp: half_writes_def demo_quic_env_def body_bytes_def intro!: exI [of _ "length x" for x])

theorem quic_http_response_witness:
  "let answer = Inr (response_new 200 [] (body_from_bytes (as_bytes ''/p'')));
       out = answer_bytes demo_quic_env body_bytes answer;
       t' = demo_quic_task\<lparr>task_recv := [], task_world := 1, task_drains := True,
              task_send := (out, True, False)\<rparr> in
   (\<exists>k. fst (task_send t') = fst (task_send demo_quic_task) @ take k out) \<and>
   ((Inr () :: error + unit) = Inr () \<longrightarrow>
      fst (task_send t') = fst (task_send demo_quic_task) @ out \<and>
      (if is_ok answer then fst (snd (task_send t')) else snd (snd (task_send t')))) \<and>
   ((Inr () :: error + unit) \<noteq> Inr () \<longrightarrow> is_ok answer \<longrightarrow> snd (snd (task_send t')))"
  unfolding Let_def
  by (rule quic_http_response [OF _ _ _ demo_http_answer demo_quic_run, where good = "\<lambda>_. True"])
     (simp_all add: demo_copy, simp add: demo_quic_env_def memory_sender)

section \<open>Draining an unread body\<close>

definition DRAIN_LIMIT :: u64 where "DRAIN_LIMIT = 256 * 1024"
definition DRAIN_TIMEOUT :: duration where "DRAIN_TIMEOUT = from_secs 5"

text \<open>
  One read of the drain with its timeout: \<open>elapses r = Some r'\<close> says that the timeout comes
  first. The loop returns whether it gave up, the bytes and the reads it made.
\<close>

datatype drain_read = DrainData nat | DrainEnd | DrainFailed

definition drain_next ::
  "('r, 's) quic_ops \<Rightarrow> ('r \<Rightarrow> 'r option) \<Rightarrow> 'r \<Rightarrow> drain_read \<times> 'r" where
  "drain_next ops elapses r =
     (case elapses r of
        Some r' \<Rightarrow> (DrainFailed, r')
      | None \<Rightarrow>
          (case q_read ops 8192 r of
             None \<Rightarrow> (DrainFailed, r)
           | Some (Inl e, r) \<Rightarrow> (DrainFailed, r)
           | Some (Inr data, r) \<Rightarrow> (if data = [] then DrainEnd else DrainData (length data), r)))"

function drain_loop ::
  "('r, 's) quic_ops \<Rightarrow> ('r \<Rightarrow> 'r option) \<Rightarrow> u64 \<Rightarrow> nat \<Rightarrow> 'r \<Rightarrow> bool \<times> u64 \<times> nat \<times> 'r" where
  "drain_loop ops elapses drained reads r =
     (case drain_next ops elapses r of
        (DrainFailed, r) \<Rightarrow> (True, drained, reads, r)
      | (DrainEnd, r) \<Rightarrow> (False, drained, reads, r)
      | (DrainData n, r) \<Rightarrow>
          (let drained = saturating_add drained (of_nat n) in
           if drained \<ge> DRAIN_LIMIT then (True, drained, reads, r)
           else if reads + 1 > 4096 then (True, drained, reads + 1, r)
           else drain_loop ops elapses drained (reads + 1) r))"
  by pat_completeness auto
termination
  by (relation "measure (\<lambda>(ops, elapses, drained, reads, r). 4096 - reads)") auto

declare drain_loop.simps [simp del]

text \<open>The task: when it gave up, it stops the reading side.\<close>

definition drain_unread :: "('r, 's) quic_ops \<Rightarrow> ('r \<Rightarrow> 'r option) \<Rightarrow> 'r \<Rightarrow> 'r" where
  "drain_unread ops elapses r =
     (case drain_loop ops elapses 0 0 r of
        (gave_up, drained, reads, r) \<Rightarrow> if gave_up then q_stop_read ops r else r)"

lemma drain_loop_ends:
  assumes "byte_reader (q_read ops) rest good"
  shows "good s \<Longrightarrow> d < DRAIN_LIMIT \<Longrightarrow> n \<le> 4096 \<Longrightarrow>
    drain_loop ops elapses d n s = (gave_up, drained, reads, r') \<Longrightarrow>
    reads \<le> 4097 \<and> unat drained < unat DRAIN_LIMIT + 8192 \<and>
    (\<not> gave_up \<longrightarrow> drained < DRAIN_LIMIT \<and> unat drained = unat d + length (rest s) \<and> rest r' = []) \<and>
    (gave_up \<longrightarrow> DRAIN_LIMIT \<le> drained \<or> reads = 4097 \<or>
       (\<exists>s. drain_next ops elapses s = (DrainFailed, r')))"
  (is "_ \<Longrightarrow> _ \<Longrightarrow> _ \<Longrightarrow> _ \<Longrightarrow> ?ends d s")
proof (induction "4096 - n" arbitrary: d n s rule: less_induct)
  case less
  obtain x s1 where x: "drain_next ops elapses s = (x, s1)" by fastforce
  note run = less.prems(4) [unfolded drain_loop.simps [of ops elapses d n s] x prod.case]
  show ?case
  proof (cases x)
    case (DrainData k)
    from x DrainData obtain data where "q_read ops 8192 s = Some (Inr data, s1)" "k = length data"
      by (auto simp: drain_next_def split: option.splits prod.splits sum.splits if_splits)
    with byte_reader.sread_prefix [OF assms less.prems(1)]
    have k: "k \<le> 8192" and s1: "good s1" "length (rest s) = k + length (rest s1)"
      by auto
    let ?d = "saturating_add d (of_nat k)"
    have "unat (of_nat k :: u64) = k" using k by (simp add: unat_of_nat)
    moreover have "unat d < 262144"
      using less.prems(2) by (simp add: DRAIN_LIMIT_def word_less_nat_alt)
    ultimately have d: "unat ?d = unat d + k" using k by (simp add: unat_saturating_add)
    with k less.prems(2) have bound: "unat ?d < unat DRAIN_LIMIT + 8192"
      by (simp add: word_less_nat_alt)
    show ?thesis
    proof (cases "?d \<ge> DRAIN_LIMIT \<or> n + 1 > 4096")
      case True
      with run DrainData bound less.prems(3) show ?thesis
        by (auto simp: Let_def split: if_splits)
    next
      case False
      then have "drain_loop ops elapses ?d (n + 1) s1 = (gave_up, drained, reads, r')"
        using run DrainData by (simp add: Let_def)
      moreover have "4096 - (n + 1) < 4096 - n" "n + 1 \<le> 4096" "?d < DRAIN_LIMIT"
        using False by auto
      ultimately have "?ends ?d s1" using less.hyps s1(1) by blast
      then show ?thesis using d s1(2) by auto
    qed
  next
    case DrainEnd
    with x have read: "q_read ops 8192 s = Some (Inr [], s1)"
      by (auto simp: drain_next_def split: option.splits prod.splits sum.splits if_splits)
    with byte_reader.sread_prefix [OF assms less.prems(1) read]
      byte_reader.sread_end [OF assms less.prems(1) _ read]
    have "rest s = []" "rest s1 = []" by auto
    with run DrainEnd less.prems show ?thesis by (auto simp: word_less_nat_alt)
  next
    case DrainFailed
    with run x less.prems show ?thesis by (auto simp: word_less_nat_alt)
  qed
qed

text \<open>C38. Draining a body the origin left unread always ends, after at most 4097 reads and fewer
  than \<^const>\<open>DRAIN_LIMIT\<close> plus one buffer of bytes; unless it gave up it has read the whole of
  the body, and it gives up only at the limit of bytes, at the limit of reads, or because a read
  failed or timed out; and it stops the reading side exactly when it gave up.\<close>

theorem drain_unread_bounded:
  assumes "byte_reader (q_read ops) rest good" and "good r"
    and "drain_loop ops elapses 0 0 r = (gave_up, drained, reads, r')"
  shows "reads \<le> 4097 \<and> unat drained < unat DRAIN_LIMIT + 8192 \<and>
    (\<not> gave_up \<longrightarrow> drained < DRAIN_LIMIT \<and> unat drained = length (rest r) \<and> rest r' = []) \<and>
    (gave_up \<longrightarrow> DRAIN_LIMIT \<le> drained \<or> reads = 4097 \<or>
       (\<exists>s. drain_next ops elapses s = (DrainFailed, r'))) \<and>
    drain_unread ops elapses r = (if gave_up then q_stop_read ops r' else r')"
  using drain_loop_ends [OF assms(1,2) _ _ assms(3)] assms(3)
  by (simp add: drain_unread_def DRAIN_LIMIT_def)

theorem drain_unread_bounded_witness:
  "let ops = \<lparr>q_read = whole_reader, q_write = (\<lambda>_ s. None), q_finish = id, q_cancel_write = id,
              q_stop_read = (\<lambda>_. [])\<rparr> :: (byte list, unit) quic_ops;
       r = replicate 10000 7 in
   drain_loop ops (\<lambda>_. None) 0 0 r = (False, 10000, 2, []) \<and>
   (2 :: nat) \<le> 4097 \<and> unat (10000 :: u64) < unat DRAIN_LIMIT + 8192 \<and>
   (10000 :: u64) < DRAIN_LIMIT \<and> unat (10000 :: u64) = length r \<and>
   drain_unread ops (\<lambda>_. None) r = (if False then q_stop_read ops [] else [])"
proof -
  let ?ops = "\<lparr>q_read = whole_reader, q_write = (\<lambda>_ s. None), q_finish = id, q_cancel_write = id,
              q_stop_read = (\<lambda>_. [])\<rparr> :: (byte list, unit) quic_ops"
  have run: "drain_loop ?ops (\<lambda>_. None) 0 0 (replicate 10000 7) = (False, 10000, 2, [])"
    by (simp add: drain_loop.simps drain_next_def whole_reader_def take_replicate drop_replicate
        saturating_add_def DRAIN_LIMIT_def Let_def)
  have "byte_reader (q_read ?ops) id (\<lambda>_. True)"
    by unfold_locales (auto simp: whole_reader_def)
  from drain_unread_bounded [OF this TrueI run] run show ?thesis by (simp add: Let_def)
qed

section \<open>Accepting streams\<close>

text \<open>
  What \<open>serve_requests\<close> sees: a stream accepted, a task that returned (it has released its
  stream) or panicked (it has not), a finished task joined, the end of the connection with the
  reason it closed, if known, and a failed accept. \<open>tasks.join_next()\<close> is polled while there
  are tasks and yields a finished one.
\<close>

datatype quic_event =
    StreamAccepted u64
  | TaskReturned u64 "error + unit"
  | TaskPanicked u64
  | TaskJoined u64
  | ConnectionEnded "string option"
  | AcceptFailed error

record quic_loop =
  active :: "u64 list"
  ended :: "u64 list"
  released_ids :: "u64 list"

fun quic_event_possible :: "quic_loop \<Rightarrow> quic_event \<Rightarrow> bool" where
  "quic_event_possible st (TaskReturned q r) \<longleftrightarrow> q \<in> set (active st)"
| "quic_event_possible st (TaskPanicked q) \<longleftrightarrow> q \<in> set (active st)"
| "quic_event_possible st (TaskJoined q) \<longleftrightarrow> q \<in> set (ended st)"
| "quic_event_possible st _ \<longleftrightarrow> True"

fun quic_serve_step :: "quic_loop \<Rightarrow> quic_event \<Rightarrow> error + quic_loop" where
  "quic_serve_step st (StreamAccepted q) = Inr (st\<lparr>active := active st @ [q]\<rparr>)"
| "quic_serve_step st (TaskReturned q r) =
     Inr (st\<lparr>active := remove1 q (active st), ended := ended st @ [q],
             released_ids := released_ids st @ [q]\<rparr>)"
| "quic_serve_step st (TaskPanicked q) =
     Inr (st\<lparr>active := remove1 q (active st), ended := ended st @ [q]\<rparr>)"
| "quic_serve_step st (TaskJoined q) = Inr (st\<lparr>ended := remove1 q (ended st)\<rparr>)"
| "quic_serve_step st (ConnectionEnded reason) =
     Inl (quic_error (case reason of Some m \<Rightarrow> m | None \<Rightarrow> ''connection closed''))"
| "quic_serve_step st (AcceptFailed e) = Inl e"

text \<open>A run over events; \<open>None\<close> for a sequence that cannot occur. It never ends with \<open>Ok\<close>.\<close>

fun serve_requests :: "quic_loop \<Rightarrow> quic_event list \<Rightarrow> (error + quic_loop) option" where
  "serve_requests st [] = Some (Inr st)"
| "serve_requests st (ev # evs) =
     (if \<not> quic_event_possible st ev then None
      else case quic_serve_step st ev of
        Inl e \<Rightarrow> if evs = [] then Some (Inl e) else None
      | Inr st \<Rightarrow> serve_requests st evs)"

fun_cases quic_serve_step_InlE: "quic_serve_step st ev = Inl e"

text \<open>A failed request or a task that panicked does not end the loop.\<close>

lemma serve_requests_end:
  "serve_requests st evs = Some (Inl e) \<Longrightarrow>
   (\<exists>reason. last evs = ConnectionEnded reason) \<or> last evs = AcceptFailed e"
proof (induction evs arbitrary: st)
  case (Cons ev evs)
  show ?case
  proof (cases "quic_serve_step st ev")
    case (Inl e')
    with Cons.prems have "evs = []" "e' = e" by (auto split: if_splits)
    with Inl show ?thesis by (auto elim: quic_serve_step_InlE)
  next
    case (Inr st')
    with Cons.prems have "serve_requests st' evs = Some (Inl e)" by (auto split: if_splits)
    with Cons.IH show ?thesis by (cases evs) auto
  qed
qed simp

end
