(* ===== verification/Quinn.thy ===== *)
theory Quinn
  imports Quic_Serve Roots "HOL-Library.Sublist"
begin

text \<open>
  The quinn backend of the QUIC connection, \<open>src/edge/quic/quinn.rs\<close>. A stream handle shares its
  two halves behind a mutex; a poll takes a half out of its slot, polls it without the lock and
  puts it back. The halves of quinn are the record \<open>quinn_crate\<close>.
\<close>

section \<open>Constants\<close>

definition QUINN_MAXIMUM_DATAGRAM_SIZE :: u16 where "QUINN_MAXIMUM_DATAGRAM_SIZE = 1350"
definition QUINN_MAXIMUM_IDLE_TIMEOUT_MS :: u32 where "QUINN_MAXIMUM_IDLE_TIMEOUT_MS = 5000"
definition QUINN_KEEPALIVE_INTERVAL :: duration where "QUINN_KEEPALIVE_INTERVAL = from_secs 1"
definition STREAM_RECEIVE_WINDOW :: u64 where "STREAM_RECEIVE_WINDOW = 6 * 1024 * 1024"
definition CONNECTION_RECEIVE_WINDOW :: u64 where "CONNECTION_RECEIVE_WINDOW = 30 * 1024 * 1024"
definition MAXIMUM_INCOMING_STREAMS :: u64 where "MAXIMUM_INCOMING_STREAMS = 1024"

record quinn_transport =
  max_idle_timeout_ms :: u32
  keep_alive_interval :: duration
  initial_mtu :: u16
  receive_window :: u64
  stream_receive_window :: u64
  max_concurrent_bidi_streams :: u64
  max_concurrent_uni_streams :: u64

text \<open>\<open>VarInt::from_u64\<close> accepts what is below \<open>2 ^ 62\<close>; the \<open>expect\<close>s panic otherwise.\<close>

definition varint_from_u64 :: "u64 \<Rightarrow> u64 option" where
  "varint_from_u64 x = (if unat x < 2 ^ 62 then Some x else None)"

definition quinn_transport_config :: "quinn_transport option" where
  "quinn_transport_config =
     (case (varint_from_u64 CONNECTION_RECEIVE_WINDOW, varint_from_u64 STREAM_RECEIVE_WINDOW,
            varint_from_u64 MAXIMUM_INCOMING_STREAMS) of
        (Some window, Some stream_window, Some streams) \<Rightarrow>
          Some \<lparr>max_idle_timeout_ms = QUINN_MAXIMUM_IDLE_TIMEOUT_MS,
                keep_alive_interval = QUINN_KEEPALIVE_INTERVAL,
                initial_mtu = QUINN_MAXIMUM_DATAGRAM_SIZE, receive_window = window,
                stream_receive_window = stream_window, max_concurrent_bidi_streams = streams,
                max_concurrent_uni_streams = streams\<rparr>
      | _ \<Rightarrow> None)"

lemma quinn_transport_config_no_panic: "quinn_transport_config \<noteq> None"
  by (simp add: quinn_transport_config_def varint_from_u64_def CONNECTION_RECEIVE_WINDOW_def
      STREAM_RECEIVE_WINDOW_def MAXIMUM_INCOMING_STREAMS_def)

section \<open>The connection\<close>

datatype quinn_connection_error =
    QuinnVersionMismatch
  | QuinnTransportError string
  | QuinnConnectionClosed string
  | QuinnApplicationClosed string
  | QuinnReset
  | QuinnTimedOut
  | QuinnLocallyClosed
  | QuinnCidsExhausted

fun is_connection_close :: "quinn_connection_error \<Rightarrow> bool" where
  "is_connection_close QuinnLocallyClosed = True"
| "is_connection_close (QuinnApplicationClosed _) = True"
| "is_connection_close (QuinnConnectionClosed _) = True"
| "is_connection_close QuinnReset = True"
| "is_connection_close QuinnTimedOut = True"
| "is_connection_close _ = False"

text \<open>\<open>display\<close> is the crate's text of an error.\<close>

definition accept_outcome ::
  "(quinn_connection_error \<Rightarrow> string) \<Rightarrow> quinn_connection_error + 'a \<Rightarrow> error + 'a option" where
  "accept_outcome display r =
     (case r of
        Inr x \<Rightarrow> Inr (Some x)
      | Inl e \<Rightarrow> if is_connection_close e then Inr None
                 else Inl (quic_error (''accept failed: '' @ display e)))"

definition quinn_close_reason ::
  "(quinn_connection_error \<Rightarrow> string) \<Rightarrow> quinn_connection_error option \<Rightarrow> string option" where
  "quinn_close_reason display reason = map_option display reason"

definition quinn_timed_out :: "quinn_connection_error option \<Rightarrow> bool" where
  "quinn_timed_out reason \<longleftrightarrow> reason = Some QuinnTimedOut"

text \<open>The network and the crate as dialling uses them; its errors are texts.\<close>

record ('w, 'store, 'cert, 'conn) quinn_dialer =
  qd_client :: "string \<Rightarrow> ('w, io_error, unit) io"
  qd_pem_items :: "byte list \<Rightarrow> (string + 'cert) list"
  qd_add :: "'cert \<Rightarrow> 'store \<Rightarrow> string + 'store"
  qd_empty :: 'store
  qd_crypto :: "'store \<Rightarrow> byte list \<Rightarrow> string + unit"
  qd_connect :: "'store \<Rightarrow> quinn_transport \<Rightarrow> socket_addr \<Rightarrow> string \<Rightarrow> string + unit"
  qd_handshake :: "('w, string, 'conn) io"
  qd_read_file :: "string \<Rightarrow> io_error + byte list"
  qd_bundled :: "byte list"

definition quinn_client_config ::
  "('w, 'store, 'cert, 'conn) quinn_dialer \<Rightarrow> byte list option \<Rightarrow> error + 'store" where
  "quinn_client_config d ca_cert_pem =
     (let store = root_store (qd_pem_items d) (qd_add d) (qd_empty d)
            (root_pems (qd_read_file d) (qd_bundled d) ca_cert_pem) in
      bind_result (map_err (\<lambda>e. quic_error (''quic tls configuration failed: '' @ e))
        (qd_crypto d store EDGE_ALPN)) (\<lambda>_. Inr store))"

definition quinn_dial ::
  "('w, 'store, 'cert, 'conn) quinn_dialer \<Rightarrow> socket_addr \<Rightarrow> byte list option \<Rightarrow> ('w, error fault, 'conn) io" where
  "quinn_dial d peer ca_cert_pem =
     (let local = (case ip peer of V4 _ \<Rightarrow> ''0.0.0.0:0'' | V6 _ \<Rightarrow> ''[::]:0'') in
      bind_io (map_err_io (\<lambda>e. Err (error_from_io e)) (qd_client d local)) (\<lambda>_.
      bind_io (lift_io (map_err Err (quinn_client_config d ca_cert_pem))) (\<lambda>store.
      case quinn_transport_config of
        None \<Rightarrow> throw_io Panic
      | Some transport \<Rightarrow>
          bind_io (lift_io (map_err (\<lambda>e. Err (quic_error (''connect failed: '' @ e)))
            (qd_connect d store transport peer EDGE_SNI))) (\<lambda>_.
            map_err_io (\<lambda>e. Err (quic_error (''handshake failed: '' @ e))) (qd_handshake d)))))"

text \<open>Closing sends code 0 with an empty reason; a stream is handed out once, so releasing it does
  nothing.\<close>

definition quinn_close :: "(u32 \<Rightarrow> byte list \<Rightarrow> 'conn \<Rightarrow> 'conn) \<Rightarrow> 'conn \<Rightarrow> 'conn" where
  "quinn_close close_connection = close_connection 0 []"

definition quinn_release :: "u64 \<Rightarrow> 'conn \<Rightarrow> 'conn" where
  "quinn_release ident conn = conn"

section \<open>Streams\<close>

record ('r, 's) quinn_crate =
  qn_poll_read :: "nat \<Rightarrow> 'r \<Rightarrow> (io_error + byte list) poll \<times> 'r"
  qn_poll_write :: "byte list \<Rightarrow> 's \<Rightarrow> (io_error + nat) poll \<times> 's"
  qn_poll_flush :: "'s \<Rightarrow> (io_error + unit) poll \<times> 's"
  qn_finish :: "'s \<Rightarrow> 's"
  qn_reset :: "'s \<Rightarrow> 's"
  qn_stop :: "'r \<Rightarrow> 'r"
  qn_send_id :: "'s \<Rightarrow> u64"
  qn_recv_id :: "'r \<Rightarrow> u64"

record ('r, 's) stream_parts =
  part_send :: "'s option"
  part_recv :: "'r option"

definition quinn_stream_new :: "'s option \<Rightarrow> 'r option \<Rightarrow> ('r, 's) stream_parts" where
  "quinn_stream_new s r = \<lparr>part_send = s, part_recv = r\<rparr>"

text \<open>A stream the edge opens is bidirectional or can only be read.\<close>

datatype ('r, 's) quinn_accepted =
    AcceptedBi "quinn_connection_error + 's \<times> 'r"
  | AcceptedUni "quinn_connection_error + 'r"

definition quinn_accept_stream ::
  "(quinn_connection_error \<Rightarrow> string) \<Rightarrow> ('r, 's) quinn_accepted
     \<Rightarrow> error + ('r, 's) stream_parts option" where
  "quinn_accept_stream display ev =
     (case ev of
        AcceptedBi result \<Rightarrow>
          bind_result (accept_outcome display result) (\<lambda>streams.
            Inr (map_option (\<lambda>(s, r). quinn_stream_new (Some s) (Some r)) streams))
      | AcceptedUni result \<Rightarrow>
          bind_result (accept_outcome display result) (\<lambda>stream.
            Inr (map_option (\<lambda>r. quinn_stream_new None (Some r)) stream)))"

definition quinn_open_control_stream ::
  "(quinn_connection_error \<Rightarrow> string) \<Rightarrow> quinn_connection_error + 's \<times> 'r
     \<Rightarrow> error + ('r, 's) stream_parts" where
  "quinn_open_control_stream display result =
     bind_result (map_err (\<lambda>e. quic_error (''open control stream failed: '' @ display e)) result)
       (\<lambda>(s, r). Inr (quinn_stream_new (Some s) (Some r)))"

definition quinn_id :: "('r, 's) quinn_crate \<Rightarrow> ('r, 's) stream_parts \<Rightarrow> u64" where
  "quinn_id q parts =
     (case part_send parts of
        Some s \<Rightarrow> qn_send_id q s
      | None \<Rightarrow> (case part_recv parts of Some r \<Rightarrow> qn_recv_id q r | None \<Rightarrow> 0))"

definition quinn_finish :: "('r, 's) quinn_crate \<Rightarrow> ('r, 's) stream_parts \<Rightarrow> ('r, 's) stream_parts" where
  "quinn_finish q parts = parts\<lparr>part_send := map_option (qn_finish q) (part_send parts)\<rparr>"

definition quinn_cancel_write :: "('r, 's) quinn_crate \<Rightarrow> ('r, 's) stream_parts \<Rightarrow> ('r, 's) stream_parts" where
  "quinn_cancel_write q parts = parts\<lparr>part_send := map_option (qn_reset q) (part_send parts)\<rparr>"

definition quinn_stop_read :: "('r, 's) quinn_crate \<Rightarrow> ('r, 's) stream_parts \<Rightarrow> ('r, 's) stream_parts" where
  "quinn_stop_read q parts = parts\<lparr>part_recv := map_option (qn_stop q) (part_recv parts)\<rparr>"

text \<open>
  A poll is three steps, between which another handle can run: take the half out, poll it, put
  it back. \<open>quinn_poll_read\<close> and \<open>quinn_poll_write\<close> are the steps without interruption.
\<close>

definition take_recv :: "('r, 's) stream_parts \<Rightarrow> 'r option \<times> ('r, 's) stream_parts" where
  "take_recv parts = (part_recv parts, parts\<lparr>part_recv := None\<rparr>)"

definition put_recv :: "'r \<Rightarrow> ('r, 's) stream_parts \<Rightarrow> ('r, 's) stream_parts" where
  "put_recv r parts = parts\<lparr>part_recv := Some r\<rparr>"

definition take_send :: "('r, 's) stream_parts \<Rightarrow> 's option \<times> ('r, 's) stream_parts" where
  "take_send parts = (part_send parts, parts\<lparr>part_send := None\<rparr>)"

definition put_send :: "'s \<Rightarrow> ('r, 's) stream_parts \<Rightarrow> ('r, 's) stream_parts" where
  "put_send s parts = parts\<lparr>part_send := Some s\<rparr>"

definition quinn_poll_read ::
  "('r, 's) quinn_crate \<Rightarrow> nat \<Rightarrow> ('r, 's) stream_parts
     \<Rightarrow> (io_error + byte list) poll \<times> ('r, 's) stream_parts" where
  "quinn_poll_read q n parts =
     (case take_recv parts of
        (None, parts) \<Rightarrow> (Ready (Inr []), parts)
      | (Some r, parts) \<Rightarrow>
          (case qn_poll_read q n r of (result, r) \<Rightarrow> (result, put_recv r parts)))"

definition quinn_poll_write ::
  "('r, 's) quinn_crate \<Rightarrow> byte list \<Rightarrow> ('r, 's) stream_parts
     \<Rightarrow> (io_error + nat) poll \<times> ('r, 's) stream_parts" where
  "quinn_poll_write q buffer parts =
     (case take_send parts of
        (None, parts) \<Rightarrow> (Ready (Inl (io_err BrokenPipe ''write side is closed'')), parts)
      | (Some s, parts) \<Rightarrow>
          (case qn_poll_write q buffer s of (result, s) \<Rightarrow> (result, put_send s parts)))"

definition quinn_poll_flush ::
  "('r, 's) quinn_crate \<Rightarrow> ('r, 's) stream_parts \<Rightarrow> (io_error + unit) poll \<times> ('r, 's) stream_parts" where
  "quinn_poll_flush q parts =
     (case take_send parts of
        (None, parts) \<Rightarrow> (Ready (Inr ()), parts)
      | (Some s, parts) \<Rightarrow> (case qn_poll_flush q s of (result, s) \<Rightarrow> (result, put_send s parts)))"

section \<open>Several handles\<close>

text \<open>
  The handles of a stream, numbered, which run in any interleaving: a poll takes the receiving
  half (\<open>takes\<close>) or finds it taken (\<open>finds_none\<close>, and reports the end of the stream), polls it
  without the lock and puts it back (\<open>polls\<close>); \<open>stop_read\<close> stops the half when it is there.
\<close>

record ('r, 's) quinn_system =
  shared :: "('r, 's) stream_parts"
  holding :: "nat \<Rightarrow> 'r option"
  delivered :: "byte list"
  told_end :: "nat list"
  stopped :: bool

definition quinn_start :: "'r \<Rightarrow> ('r, 's) quinn_system" where
  "quinn_start r =
     \<lparr>shared = quinn_stream_new None (Some r), holding = Map.empty, delivered = [], told_end = [],
      stopped = False\<rparr>"

definition ready_bytes :: "(io_error + byte list) poll \<Rightarrow> byte list" where
  "ready_bytes res = (case res of Ready (Inr data) \<Rightarrow> data | _ \<Rightarrow> [])"

inductive quinn_step ::
  "('r, 's) quinn_crate \<Rightarrow> ('r, 's) quinn_system \<Rightarrow> ('r, 's) quinn_system \<Rightarrow> bool"
  for q :: "('r, 's) quinn_crate" where
  takes: "holding st h = None \<Longrightarrow> take_recv (shared st) = (Some r, p) \<Longrightarrow>
    quinn_step q st (st\<lparr>shared := p, holding := (holding st)(h \<mapsto> r)\<rparr>)"
| finds_none: "holding st h = None \<Longrightarrow> take_recv (shared st) = (None, p) \<Longrightarrow>
    quinn_step q st (st\<lparr>shared := p, told_end := told_end st @ [h]\<rparr>)"
| polls: "holding st h = Some r \<Longrightarrow> qn_poll_read q n r = (res, r') \<Longrightarrow>
    quinn_step q st (st\<lparr>shared := put_recv r' (shared st), holding := (holding st)(h := None),
                        delivered := delivered st @ ready_bytes res\<rparr>)"
| stops: "quinn_step q st (st\<lparr>shared := quinn_stop_read q (shared st), stopped := True\<rparr>)"

abbreviation quinn_steps ::
  "('r, 's) quinn_crate \<Rightarrow> ('r, 's) quinn_system \<Rightarrow> ('r, 's) quinn_system \<Rightarrow> bool" where
  "quinn_steps q \<equiv> (quinn_step q)\<^sup>*\<^sup>*"

text \<open>
  The receiving half of the crate: a poll hands out the next bytes or keeps them all, and a
  stopped half has no more to hand out than it had.
\<close>

definition recv_half_laws :: "('r, 's) quinn_crate \<Rightarrow> ('r \<Rightarrow> byte list) \<Rightarrow> bool" where
  "recv_half_laws q rest \<longleftrightarrow>
     (\<forall>n r res r'. qn_poll_read q n r = (res, r') \<longrightarrow> rest r = ready_bytes res @ rest r') \<and>
     (\<forall>r. prefix (rest (qn_stop q r)) (rest r))"

text \<open>The half is in its slot or with exactly one handle, and has what was not delivered.\<close>

definition half_of :: "('r, 's) quinn_system \<Rightarrow> 'r \<Rightarrow> bool" where
  "half_of st r \<longleftrightarrow>
     part_recv (shared st) = Some r \<and> holding st = Map.empty \<or>
     part_recv (shared st) = None \<and> (\<exists>h. holding st = [h \<mapsto> r])"

definition nothing_lost :: "('r \<Rightarrow> byte list) \<Rightarrow> byte list \<Rightarrow> ('r, 's) quinn_system \<Rightarrow> 'r \<Rightarrow> bool" where
  "nothing_lost rest content st r \<longleftrightarrow>
     prefix (delivered st @ rest r) content \<and>
     (\<not> stopped st \<longrightarrow> delivered st @ rest r = content)"

lemma half_step:
  assumes "quinn_step q st st'" and "recv_half_laws q rest"
    and "half_of st r" and "nothing_lost rest content st r"
  shows "\<exists>r'. half_of st' r' \<and> nothing_lost rest content st' r'"
  using assms(1)
proof (cases rule: quinn_step.cases)
  case (takes h r1 p)
  with assms(3,4) show ?thesis
    by (auto simp: half_of_def nothing_lost_def take_recv_def intro!: exI [of _ r])
next
  case (finds_none h p)
  with assms(3,4) show ?thesis
    by (auto simp: half_of_def nothing_lost_def take_recv_def intro!: exI [of _ r])
next
  case (polls h r1 n res r')
  with assms(3) have "r1 = r" "part_recv (shared st) = None" "(holding st)(h := None) = Map.empty"
    by (auto simp: half_of_def split: if_splits)
  moreover have "rest r = ready_bytes res @ rest r'"
    using assms(2) polls(3) \<open>r1 = r\<close> by (auto simp: recv_half_laws_def)
  ultimately show ?thesis
    using assms(4) polls(1)
    by (auto simp: half_of_def nothing_lost_def put_recv_def intro!: exI [of _ r'])
next
  case stops
  show ?thesis
  proof (cases "part_recv (shared st)")
    case None
    with assms(3,4) stops show ?thesis
      by (auto simp: half_of_def nothing_lost_def quinn_stop_read_def intro!: exI [of _ r])
  next
    case (Some r1)
    have "prefix (delivered st @ rest (qn_stop q r)) content"
      using assms(2,4) by (auto simp: recv_half_laws_def nothing_lost_def
          intro: prefix_order.trans [OF same_prefix_prefix [THEN iffD2]])
    with Some assms(3) stops show ?thesis
      by (auto simp: half_of_def nothing_lost_def quinn_stop_read_def intro!: exI [of _ "qn_stop q r"])
  qed
qed

text \<open>C36. However the handles of a stream interleave, the receiving half is never lost or
  duplicated: it is in its slot, or with the one handle that polls it, and what all handles
  together were given is, in order, a prefix of what the stream carries; nothing is lost unless
  reading was stopped. But while one handle polls, a read through every other handle reports the
  end of the stream, and a \<open>stop_read\<close> has no effect.\<close>

theorem quinn_handles_share_half:
  assumes "recv_half_laws q rest" and "quinn_steps q (quinn_start r0) st"
  shows "\<exists>r. (part_recv (shared st) = Some r \<and> holding st = Map.empty \<or>
        part_recv (shared st) = None \<and> (\<exists>h. holding st = [h \<mapsto> r]) \<and>
        quinn_poll_read q n (shared st) = (Ready (Inr []), shared st) \<and>
        quinn_stop_read q (shared st) = shared st) \<and>
      prefix (delivered st @ rest r) (rest r0) \<and>
      (\<not> stopped st \<longrightarrow> delivered st @ rest r = rest r0)"
proof -
  have "\<exists>r. half_of st r \<and> nothing_lost rest (rest r0) st r"
    using assms(2)
  proof (induction rule: rtranclp_induct)
    case base
    show ?case
      by (auto simp: half_of_def nothing_lost_def quinn_start_def quinn_stream_new_def intro!: exI [of _ r0])
  next
    case (step st1 st2)
    then show ?case using half_step [OF _ assms(1)] by blast
  qed
  then obtain r where r: "half_of st r" "nothing_lost rest (rest r0) st r" by blast
  have "part_recv (shared st) = None \<Longrightarrow>
      quinn_poll_read q n (shared st) = (Ready (Inr []), shared st) \<and> quinn_stop_read q (shared st) = shared st"
    by (cases "shared st") (simp add: quinn_poll_read_def take_recv_def quinn_stop_read_def)
  with r show ?thesis unfolding half_of_def nothing_lost_def by blast
qed

section \<open>Awaited operations\<close>

text \<open>An awaited poll is repeated until it is ready.\<close>

partial_function (option) await :: "('s \<Rightarrow> 'a poll \<times> 's) \<Rightarrow> 's \<Rightarrow> ('a \<times> 's) option" where
  "await f s = (case f s of (Ready x, s) \<Rightarrow> Some (x, s) | (Pending, s) \<Rightarrow> await f s)"

lemma await_induct:
  assumes "await f s = Some (x, s')" and "Inv s"
    and ready: "\<And>s x s'. Inv s \<Longrightarrow> f s = (Ready x, s') \<Longrightarrow> Q x s'"
    and pending: "\<And>s s'. Inv s \<Longrightarrow> f s = (Pending, s') \<Longrightarrow> Inv s'"
  shows "Q x s'"
proof -
  have "f' = f \<longrightarrow> Inv s \<longrightarrow> Q (fst y) (snd y)" if "await f' s = Some y" for f' s y
  proof (rule await.raw_induct [where P = "\<lambda>f' s y. f' = f \<longrightarrow> Inv s \<longrightarrow> Q (fst y) (snd y)", OF _ that])
    fix await' f' s y
    assume IH: "\<And>f' s y. await' f' s = Some y \<Longrightarrow> f' = f \<longrightarrow> Inv s \<longrightarrow> Q (fst y) (snd y)"
      and step: "(case f' s of (Ready x, s) \<Rightarrow> Some (x, s) | (Pending, s) \<Rightarrow> await' f' s) = Some y"
    show "f' = f \<longrightarrow> Inv s \<longrightarrow> Q (fst y) (snd y)"
    proof (intro impI)
      assume s: "f' = f" "Inv s"
      obtain p s1 where p: "f s = (p, s1)" by fastforce
      show "Q (fst y) (snd y)"
        using p s step ready [OF s(2), of _ s1] pending [OF s(2), of s1] IH [of f s1 y] by (cases p) auto
    qed
  qed
  from this [OF assms(1)] assms(2) show ?thesis by simp
qed

text \<open>The operations \<open>Quic_Serve\<close> is written over, on the slots of a handle's halves.\<close>

definition quinn_ops :: "('r, 's) quinn_crate \<Rightarrow> ('r option, 's option) quic_ops" where
  "quinn_ops q =
     \<lparr>q_read = (\<lambda>n slot. map_option (\<lambda>(x, parts). (x, part_recv parts))
        (await (quinn_poll_read q n) (quinn_stream_new None slot))),
      q_write = (\<lambda>buffer slot. map_option (\<lambda>(x, parts). (x, part_send parts))
        (await (quinn_poll_write q buffer) (quinn_stream_new slot None))),
      q_finish = map_option (qn_finish q), q_cancel_write = map_option (qn_reset q),
      q_stop_read = map_option (qn_stop q)\<rparr>"

section \<open>A scripted crate\<close>

text \<open>
  Halves with a script: what each poll of the receiving half delivers (\<open>None\<close> is pending; the
  end of the script is the end of the stream), how much each poll of the sending half takes.
\<close>

record scripted_send =
  script_out :: "byte list"
  script_takes :: "nat option list"
  script_finished :: bool
  script_reset :: bool

fun scripted_poll_read :: "nat \<Rightarrow> byte list option list \<Rightarrow> (io_error + byte list) poll \<times> byte list option list" where
  "scripted_poll_read n [] = (Ready (Inr []), [])"
| "scripted_poll_read n (None # evs) = (Pending, evs)"
| "scripted_poll_read n (Some data # evs) =
     (if data = [] then scripted_poll_read n evs
      else (Ready (Inr (take n data)), if length data \<le> n then evs else Some (drop n data) # evs))"

definition scripted_poll_write :: "byte list \<Rightarrow> scripted_send \<Rightarrow> (io_error + nat) poll \<times> scripted_send" where
  "scripted_poll_write buffer s =
     (if script_reset s then (Ready (Inl (io_err OtherKind ''reset'')), s)
      else case script_takes s of
        [] \<Rightarrow> (Ready (Inr (length buffer)), s\<lparr>script_out := script_out s @ buffer\<rparr>)
      | None # ts \<Rightarrow> (Pending, s\<lparr>script_takes := ts\<rparr>)
      | Some n # ts \<Rightarrow>
          (Ready (Inr (min n (length buffer))),
           s\<lparr>script_takes := ts, script_out := script_out s @ take n buffer\<rparr>))"

definition scripted_quinn :: "(byte list option list, scripted_send) quinn_crate" where
  "scripted_quinn =
     \<lparr>qn_poll_read = scripted_poll_read, qn_poll_write = scripted_poll_write,
      qn_poll_flush = (\<lambda>s. (Ready (Inr ()), s)),
      qn_finish = (\<lambda>s. s\<lparr>script_finished := True\<rparr>), qn_reset = (\<lambda>s. s\<lparr>script_reset := True\<rparr>),
      qn_stop = (\<lambda>_. []), qn_send_id = (\<lambda>_. 4), qn_recv_id = (\<lambda>_. 4)\<rparr>"

fun script_rest :: "byte list option list \<Rightarrow> byte list" where
  "script_rest [] = []"
| "script_rest (None # evs) = script_rest evs"
| "script_rest (Some data # evs) = data @ script_rest evs"

definition slot_rest :: "byte list option list option \<Rightarrow> byte list" where
  "slot_rest slot = (case slot of Some evs \<Rightarrow> script_rest evs | None \<Rightarrow> [])"

definition slot_out :: "scripted_send option \<Rightarrow> byte list" where
  "slot_out slot = (case slot of Some s \<Rightarrow> script_out s | None \<Rightarrow> [])"

lemma take_drop_append [simp]: "take n xs @ drop n xs @ ys = xs @ ys"
  by (metis append_assoc append_take_drop_id)

lemma scripted_poll_read_Ready:
  "scripted_poll_read n evs = (Ready (Inr data), evs') \<Longrightarrow>
   length data \<le> n \<and> script_rest evs = data @ script_rest evs' \<and>
   (0 < n \<longrightarrow> data = [] \<longrightarrow> script_rest evs = [])"
  by (induction n evs rule: scripted_poll_read.induct)
     (auto split: if_splits)

lemma scripted_poll_read_Pending:
  "scripted_poll_read n evs = (Pending, evs') \<Longrightarrow> script_rest evs' = script_rest evs"
  by (induction n evs rule: scripted_poll_read.induct) (auto split: if_splits)

lemma scripted_slot_read:
  assumes "quinn_poll_read scripted_quinn n parts = (r, parts')"
  shows "(\<forall>data. r = Ready (Inr data) \<longrightarrow>
      length data \<le> n \<and> slot_rest (part_recv parts) = data @ slot_rest (part_recv parts') \<and>
      (0 < n \<longrightarrow> data = [] \<longrightarrow> slot_rest (part_recv parts) = [])) \<and>
    (r = Pending \<longrightarrow> slot_rest (part_recv parts') = slot_rest (part_recv parts))"
proof (cases "part_recv parts")
  case None
  with assms show ?thesis by (auto simp: quinn_poll_read_def take_recv_def slot_rest_def)
next
  case (Some evs)
  with assms obtain evs' where "scripted_poll_read n evs = (r, evs')" "part_recv parts' = Some evs'"
    by (auto simp: quinn_poll_read_def take_recv_def put_recv_def scripted_quinn_def split: prod.splits)
  with Some scripted_poll_read_Ready [of n evs _ evs'] scripted_poll_read_Pending [of n evs evs'] show ?thesis
    by (auto simp: slot_rest_def)
qed

lemma scripted_slot_write:
  assumes "quinn_poll_write scripted_quinn buffer parts = (r, parts')"
  shows "(\<forall>k. r = Ready (Inr k) \<longrightarrow>
      k \<le> length buffer \<and> slot_out (part_send parts') = slot_out (part_send parts) @ take k buffer) \<and>
    ((r = Pending \<or> (\<exists>e. r = Ready (Inl e))) \<longrightarrow> slot_out (part_send parts') = slot_out (part_send parts)) \<and>
    (part_send parts' = None \<longleftrightarrow> part_send parts = None)"
proof (cases "part_send parts")
  case None
  with assms show ?thesis by (auto simp: quinn_poll_write_def take_send_def)
next
  case (Some s)
  with assms obtain s' where "scripted_poll_write buffer s = (r, s')" "part_send parts' = Some s'"
    by (auto simp: quinn_poll_write_def take_send_def put_send_def scripted_quinn_def split: prod.splits)
  with Some show ?thesis
    by (auto simp: slot_out_def scripted_poll_write_def min_def split: if_splits list.splits option.splits)
qed

lemma slot_read_Ready:
  "quinn_poll_read scripted_quinn n parts = (Ready (Inr data), parts') \<Longrightarrow>
   length data \<le> n \<and> slot_rest (part_recv parts) = data @ slot_rest (part_recv parts')"
  "quinn_poll_read scripted_quinn n parts = (Ready (Inr []), parts') \<Longrightarrow> 0 < n \<Longrightarrow>
   slot_rest (part_recv parts) = []"
  by (drule scripted_slot_read, blast)+

lemma slot_read_Pending:
  "quinn_poll_read scripted_quinn n parts = (Pending, parts') \<Longrightarrow>
   slot_rest (part_recv parts') = slot_rest (part_recv parts)"
  by (drule scripted_slot_read, blast)

lemma slot_write_Ready:
  "quinn_poll_write scripted_quinn buffer parts = (Ready (Inr k), parts') \<Longrightarrow>
   k \<le> length buffer \<and> slot_out (part_send parts') = slot_out (part_send parts) @ take k buffer"
  "quinn_poll_write scripted_quinn buffer parts = (Ready (Inl e), parts') \<Longrightarrow>
   slot_out (part_send parts') = slot_out (part_send parts)"
  by (drule scripted_slot_write, blast)+

lemma slot_write_Pending:
  "quinn_poll_write scripted_quinn buffer parts = (Pending, parts') \<Longrightarrow>
   slot_out (part_send parts') = slot_out (part_send parts)"
  by (drule scripted_slot_write, blast)

lemma slot_write_None:
  "quinn_poll_write scripted_quinn buffer parts = (r, parts') \<Longrightarrow>
   part_send parts' = None \<longleftrightarrow> part_send parts = None"
  by (drule scripted_slot_write, blast)

text \<open>A handle polls while another one is told that the stream has ended.\<close>

lemma scripted_recv_half_laws: "recv_half_laws scripted_quinn script_rest"
proof -
  have "script_rest r = ready_bytes res @ script_rest r'" if "scripted_poll_read n r = (res, r')" for n r res r'
  proof (cases res)
    case (Ready x)
    with that scripted_poll_read_Ready [of n r _ r'] show ?thesis
    proof (cases x)
      case (Inl e)
      with that Ready show ?thesis
        by (induction n r rule: scripted_poll_read.induct) (auto split: if_splits)
    qed (auto simp: ready_bytes_def)
  next
    case Pending
    with that scripted_poll_read_Pending [of n r r'] show ?thesis by (simp add: ready_bytes_def)
  qed
  then show ?thesis by (auto simp: recv_half_laws_def scripted_quinn_def)
qed

definition demo_shared :: "(byte list option list, scripted_send) quinn_system" where
  "demo_shared =
     \<lparr>shared = quinn_stream_new None None, holding = [0 \<mapsto> [Some [1, 2]]], delivered = [], told_end = [1],
      stopped = False\<rparr>"

lemma demo_shared_reached: "quinn_steps scripted_quinn (quinn_start [Some [1, 2]]) demo_shared"
proof -
  let ?s0 = "quinn_start [Some [1, 2]] :: (byte list option list, scripted_send) quinn_system"
  let ?s1 = "?s0\<lparr>shared := quinn_stream_new None None, holding := (holding ?s0)(0 \<mapsto> [Some [1, 2]])\<rparr>"
  have "quinn_step scripted_quinn ?s0 ?s1"
    by (rule quinn_step.takes) (simp_all add: quinn_start_def quinn_stream_new_def take_recv_def)
  moreover have "quinn_step scripted_quinn ?s1 (?s1\<lparr>shared := quinn_stream_new None None, told_end := told_end ?s1 @ [1]\<rparr>)"
    by (rule quinn_step.finds_none) (simp_all add: quinn_start_def quinn_stream_new_def take_recv_def)
  ultimately show ?thesis
    by (simp add: demo_shared_def quinn_start_def converse_rtranclp_into_rtranclp)
qed

theorem quinn_handles_share_half_witness:
  "told_end demo_shared = [1] \<and> delivered demo_shared = [] \<and>
   (\<exists>r. holding demo_shared = [0 \<mapsto> r] \<and> script_rest r = [1, 2])"
proof -
  from quinn_handles_share_half [OF scripted_recv_half_laws demo_shared_reached, of 8]
  obtain r where "part_recv (shared demo_shared) = Some r \<or> (\<exists>h. holding demo_shared = [h \<mapsto> r])"
    and "delivered demo_shared @ script_rest r = [1, 2]" by (auto simp: demo_shared_def)
  then show ?thesis
    by (auto simp: demo_shared_def quinn_stream_new_def fun_upd_def fun_eq_iff split: if_splits)
qed

text \<open>So the awaited operations of a handle meet the contracts the handlers are proved under.\<close>

interpretation quinn_reader: byte_reader "q_read (quinn_ops scripted_quinn)" slot_rest "\<lambda>_. True"
proof (unfold_locales, goal_cases)
  case (1 s n data s')
  then obtain parts where run: "await (quinn_poll_read scripted_quinn n) (quinn_stream_new None s) = Some (Inr data, parts)"
    and "s' = part_recv parts" by (auto simp: quinn_ops_def)
  have "Inr data = (Inr d :: io_error + byte list) \<longrightarrow> length d \<le> n \<and> slot_rest s = d @ slot_rest (part_recv parts)" for d
    by (rule await_induct [OF run, where Inv = "\<lambda>p. slot_rest (part_recv p) = slot_rest s"
          and Q = "\<lambda>x p. x = Inr d \<longrightarrow> length d \<le> n \<and> slot_rest s = d @ slot_rest (part_recv p)"])
       (auto simp: quinn_stream_new_def dest: slot_read_Ready(1) slot_read_Pending)
  with \<open>s' = part_recv parts\<close> show ?case by simp
next
  case (2 s n s')
  then obtain parts where run: "await (quinn_poll_read scripted_quinn n) (quinn_stream_new None s) = Some (Inr [], parts)"
    by (auto simp: quinn_ops_def)
  have "Inr [] = (Inr [] :: io_error + byte list) \<longrightarrow> slot_rest s = []"
    by (rule await_induct [OF run, where Inv = "\<lambda>p. slot_rest (part_recv p) = slot_rest s"
          and Q = "\<lambda>x p. x = Inr [] \<longrightarrow> slot_rest s = []"])
       (use 2(2) in \<open>auto simp: quinn_stream_new_def dest: slot_read_Ready(2) slot_read_Pending\<close>)
  then show ?case by simp
qed

interpretation quinn_sender: quic_sender "quinn_ops scripted_quinn" slot_out "\<lambda>s. s \<noteq> None"
  "\<lambda>slot. case slot of Some s \<Rightarrow> script_finished s | None \<Rightarrow> False"
  "\<lambda>slot. case slot of Some s \<Rightarrow> script_reset s | None \<Rightarrow> False"
proof (unfold_locales, goal_cases)
  case (1 s buffer k s')
  then obtain parts where run: "await (quinn_poll_write scripted_quinn buffer) (quinn_stream_new s None) = Some (Inr k, parts)"
    and s': "s' = part_send parts" by (auto simp: quinn_ops_def)
  have "Inr k = (Inr k :: io_error + nat) \<longrightarrow> k \<le> length buffer \<and> slot_out (part_send parts) = slot_out s @ take k buffer \<and>
      part_send parts \<noteq> None"
    by (rule await_induct [OF run, where Inv = "\<lambda>p. slot_out (part_send p) = slot_out s \<and> part_send p \<noteq> None"
          and Q = "\<lambda>x p. x = Inr k \<longrightarrow> k \<le> length buffer \<and> slot_out (part_send p) = slot_out s @ take k buffer \<and>
             part_send p \<noteq> None"])
       (use 1(1) in \<open>auto simp: quinn_stream_new_def slot_write_None
          dest: slot_write_Ready(1) slot_write_Pending\<close>)
  with s' show ?case by simp
next
  case (2 s buffer e s')
  then obtain parts where run: "await (quinn_poll_write scripted_quinn buffer) (quinn_stream_new s None) = Some (Inl e, parts)"
    and s': "s' = part_send parts" by (auto simp: quinn_ops_def)
  have "Inl e = (Inl e :: io_error + nat) \<longrightarrow> slot_out (part_send parts) = slot_out s \<and> part_send parts \<noteq> None"
    by (rule await_induct [OF run, where Inv = "\<lambda>p. slot_out (part_send p) = slot_out s \<and> part_send p \<noteq> None"
          and Q = "\<lambda>x p. x = Inl e \<longrightarrow> slot_out (part_send p) = slot_out s \<and> part_send p \<noteq> None"])
       (use 2(1) in \<open>auto simp: quinn_stream_new_def slot_write_None
          dest: slot_write_Ready(2) slot_write_Pending\<close>)
  with s' show ?case by simp
qed (auto simp: quinn_ops_def scripted_quinn_def slot_out_def split: option.splits)

end
