(* ===== verification/Quic_Requests.thy ===== *)
theory Quic_Requests
  imports Quic_Serve
begin

text \<open>
  From the bytes of a QUIC stream to the call of an origin handler: the dispatch of
  \<open>serve_stream\<close> on what the edge writes (\<open>src/edge/serve.rs\<close>, \<open>rpc/src/quic.rs\<close>), and the request
  that \<open>build_request\<close> makes of the metadata, against a declarative reading of the metadata.
\<close>

section \<open>Dispatch\<close>

text \<open>The handler of a connect request.\<close>

definition connect_handler ::
  "('m, 'u, 'v, 'h, 'b, 'io, 'r, 's, 'st, 'p, 'q) quic_env
     \<Rightarrow> ('m, 'u, 'h, 'b, 'io, 'r, 'w) quic_origin \<Rightarrow> connect_request
     \<Rightarrow> ('r, 's, 'w, 'c, unit) quic_io" where
  "connect_handler env origin c =
     (case request_type c of
        Http \<Rightarrow> handle_quic_http env origin c
      | Websocket \<Rightarrow> handle_quic_websocket env origin c
      | Tcp \<Rightarrow> handle_quic_tcp env origin c)"

lemma length_signatures [simp]:
  "length DATA_STREAM_PROTOCOL_SIGNATURE = 6" "length RPC_STREAM_PROTOCOL_SIGNATURE = 6"
  "length PROTOCOL_V1 = 2"
  by (simp_all add: DATA_STREAM_PROTOCOL_SIGNATURE_def RPC_STREAM_PROTOCOL_SIGNATURE_def
      PROTOCOL_V1_def)

lemma signatures_differ [simp]: "DATA_STREAM_PROTOCOL_SIGNATURE \<noteq> RPC_STREAM_PROTOCOL_SIGNATURE"
  by (simp add: DATA_STREAM_PROTOCOL_SIGNATURE_def RPC_STREAM_PROTOCOL_SIGNATURE_def)

context live_reader
begin

lemma futures_read_exact_prefix:
  assumes "good s" and "rest s = bytes @ after" and "length bytes = n"
  shows "\<exists>s'. futures_read_exact rd n s = Some (Inr bytes, s') \<and> rest s' = after \<and> good s'"
  using read_exact_prefix [OF assms(1,2)] assms(3) by (auto simp: futures_read_exact_def)

lemma recv_signature:
  assumes "good (task_recv t)" and "rest (task_recv t) = bytes @ after" and "length bytes = n"
  shows "\<exists>r. on_recv_half err (futures_read_exact rd n) t = Some (Inr bytes, t\<lparr>task_recv := r\<rparr>) \<and>
    rest r = after \<and> good r"
  using futures_read_exact_prefix [OF assms] by (auto simp: on_recv_half_def)

end

lemma serve_rpc_stream:
  assumes "live_reader (q_read (qe_ops env)) rest good" and "good (task_recv t)"
    and "rest (task_recv t) = RPC_STREAM_PROTOCOL_SIGNATURE @ after"
  shows "\<exists>r. rest r = after \<and> good r \<and>
    serve_stream env origin t = handle_rpc_stream env (t\<lparr>task_recv := r\<rparr>)"
  using live_reader.recv_signature [OF assms, of 6 error_from_io]
  by (auto simp: serve_stream_def Let_def)

text \<open>A stream with another signature fails without calling the origin or writing anything.\<close>

lemma serve_unknown_stream:
  assumes "live_reader (q_read (qe_ops env)) rest good" and "good (task_recv t)"
    and "rest (task_recv t) = signature @ after" and "length signature = 6"
    and "signature \<notin> {RPC_STREAM_PROTOCOL_SIGNATURE, DATA_STREAM_PROTOCOL_SIGNATURE}"
  shows "\<exists>r e. serve_stream env origin t = Some (Inl e, t\<lparr>task_recv := r\<rparr>)"
  using live_reader.recv_signature [OF assms(1-4), of error_from_io] assms(5)
  by (auto simp: serve_stream_def Let_def)

text \<open>C15. What the edge writes on a data stream reaches the origin: from the signature, the version
  and the encoded connect request, in whatever pieces the stream delivers them, the handler of
  the request's type is called with exactly the destination and the metadata the edge gave,
  and what the stream still delivers to it is the body, from its first byte.\<close>

theorem quic_request_delivered:
  assumes reader: "live_reader (q_read (qe_ops env)) rest good" and "capnp_layout (qe_capnp env)"
    and "good (task_recv t)"
    and bytes: "rest (task_recv t) = DATA_STREAM_PROTOCOL_SIGNATURE @ PROTOCOL_V1 @
      cp_words (qe_capnp env) (encode_connect_request (qe_capnp env) c) @ after"
    and "message_fits (qe_capnp env) (encode_connect_request (qe_capnp env) c)"
    and "is_text (destination c)" and "metadata_texts (request_metadata c)"
  shows "\<exists>r. rest r = after \<and> good r \<and>
    serve_stream env origin t = connect_handler env origin c (t\<lparr>task_recv := r\<rparr>)"
proof -
  let ?rd = "q_read (qe_ops env)"
  from live_reader.recv_signature [OF reader assms(3) bytes, of 6 error_from_io] obtain r1 where
    sig: "on_recv_half error_from_io (futures_read_exact ?rd 6) t
        = Some (Inr DATA_STREAM_PROTOCOL_SIGNATURE, t\<lparr>task_recv := r1\<rparr>)"
    and r1: "rest r1 = PROTOCOL_V1 @ cp_words (qe_capnp env) (encode_connect_request (qe_capnp env) c) @ after"
      "good r1" by auto
  from live_reader.recv_signature [OF reader, of "t\<lparr>task_recv := r1\<rparr>" PROTOCOL_V1 _ 2 error_from_io] r1
  obtain r2 where
    ver: "on_recv_half error_from_io (futures_read_exact ?rd 2) (t\<lparr>task_recv := r1\<rparr>)
        = Some (Inr PROTOCOL_V1, t\<lparr>task_recv := r2\<rparr>)"
    and r2: "rest r2 = cp_words (qe_capnp env) (encode_connect_request (qe_capnp env) c) @ after"
      "good r2" by auto
  from live_reader.read_connect_request_back [OF reader assms(2) r2(2,1) assms(5-7)] obtain r where
    read: "read_connect_request (qe_capnp env) ?rd r2 = Some (Inr c, r)" and r: "rest r = after" "good r"
    by blast
  have "on_recv_half error_from_rpc (read_connect_request (qe_capnp env) ?rd) (t\<lparr>task_recv := r2\<rparr>)
      = Some (Inr c, t\<lparr>task_recv := r\<rparr>)"
    by (simp add: on_recv_half_def read)
  with sig ver have "serve_stream env origin t = connect_handler env origin c (t\<lparr>task_recv := r\<rparr>)"
    by (simp add: serve_stream_def Let_def connect_handler_def cong: connection_type.case_cong)
  with r show ?thesis by blast
qed

text \<open>The stream of \<^const>\<open>demo_connect\<close> with the body \<open>[7, 7]\<close>.\<close>

definition demo_request_capnp :: "(capnp_struct, capnp_pointer) capnp_crate" where
  "demo_request_capnp = tree_capnp [encode_connect_request (tree_capnp []) demo_connect]"

definition demo_request_bytes :: "byte list" where
  "demo_request_bytes = DATA_STREAM_PROTOCOL_SIGNATURE @ PROTOCOL_V1 @ frame [segment_of 0]"

lemma tree_encode_connect_request:
  "encode_connect_request (tree_capnp demos) r = encode_connect_request (tree_capnp demos') r"
  unfolding encode_connect_request_def set_metadata_def metadata_entry_def [abs_def]
    tree_accessors [of demos demos'] ..

lemma demo_request_message:
  "encode_connect_request demo_request_capnp demo_connect
     = encode_connect_request (tree_capnp []) demo_connect"
  unfolding demo_request_capnp_def by (rule tree_encode_connect_request)

theorem quic_request_delivered_witness:
  "\<exists>r. id r = [7, 7] \<and> True \<and>
     serve_stream (demo_quic_env\<lparr>qe_capnp := demo_request_capnp\<rparr>) demo_quic_origin
         (demo_quic_task\<lparr>task_recv := demo_request_bytes @ [7, 7]\<rparr>)
       = connect_handler (demo_quic_env\<lparr>qe_capnp := demo_request_capnp\<rparr>) demo_quic_origin demo_connect
           (demo_quic_task\<lparr>task_recv := demo_request_bytes @ [7, 7], task_recv := r\<rparr>)"
proof (rule quic_request_delivered)
  let ?env = "demo_quic_env\<lparr>qe_capnp := demo_request_capnp\<rparr>"
  show "live_reader (q_read (qe_ops ?env)) id (\<lambda>_. True)"
    by unfold_locales (auto simp: whole_reader_def demo_quic_env_def memory_ops_def)
  show "capnp_layout (qe_capnp ?env)" by (simp add: demo_request_capnp_def tree_capnp_layout)
  show "message_fits (qe_capnp ?env) (encode_connect_request (qe_capnp ?env) demo_connect)"
    by (simp add: demo_request_message) (simp add: demo_request_capnp_def tree_capnp_fits)
  show "is_text (destination demo_connect)" "metadata_texts (request_metadata demo_connect)"
    by (simp_all add: demo_connect_def is_text_def metadata_texts_def HTTP_METHOD_KEY_def utf8_step_ascii
        utf8_width_def)
  show "id (task_recv (demo_quic_task\<lparr>task_recv := demo_request_bytes @ [7, 7]\<rparr>)) =
      DATA_STREAM_PROTOCOL_SIGNATURE @ PROTOCOL_V1 @
      cp_words (qe_capnp ?env) (encode_connect_request (qe_capnp ?env) demo_connect) @ [7, 7]"
    by (simp add: demo_request_message demo_request_bytes_def)
       (simp add: demo_request_capnp_def tree_words)
qed simp

section \<open>The request of the metadata\<close>

text \<open>
  A declarative reading: the method is that of the last method entry; the host headers are the
  valid values of host entries; the other headers are the valid ones among the header entries.
\<close>

definition metadata_method :: "('m, 'u, 'v, 'h) http_crate \<Rightarrow> (string \<times> string) list \<Rightarrow> 'm" where
  "metadata_method http metadata =
     (case map snd (filter (\<lambda>(key, val). key = HTTP_METHOD_KEY) metadata) of
        [] \<Rightarrow> method_get http
      | vals \<Rightarrow> (case method_from_bytes http (as_bytes (last vals)) of
            Some m \<Rightarrow> m | None \<Rightarrow> method_get http))"

definition metadata_hosts :: "('m, 'u, 'v, 'h) http_crate \<Rightarrow> (string \<times> string) list \<Rightarrow> 'v list" where
  "metadata_hosts http metadata =
     concat (map (\<lambda>(key, val).
       if key = HTTP_HOST_KEY then (case hv_from_str http val of Some hv \<Rightarrow> [hv] | None \<Rightarrow> []) else [])
       metadata)"

definition metadata_headers ::
  "('m, 'u, 'v, 'h) http_crate \<Rightarrow> (string \<times> string) list \<Rightarrow> (string \<times> 'v) list" where
  "metadata_headers http metadata =
     concat (map (\<lambda>(key, val).
       case strip_prefix HEADER_KEY_PREFIX key of
         None \<Rightarrow> []
       | Some name \<Rightarrow>
           (case (header_name_from_bytes http (as_bytes name), hv_from_str http val) of
              (Some n, Some v) \<Rightarrow> [(n, v)] | _ \<Rightarrow> [])) metadata)"

lemma reserved_keys [simp]:
  "strip_prefix HEADER_KEY_PREFIX HTTP_HOST_KEY = None"
  "strip_prefix HEADER_KEY_PREFIX HTTP_METHOD_KEY = None"
  "HTTP_HOST_KEY \<noteq> HTTP_METHOD_KEY" "HTTP_METHOD_KEY \<noteq> HTTP_HOST_KEY"
  by (simp_all add: HEADER_KEY_PREFIX_def HTTP_HOST_KEY_def HTTP_METHOD_KEY_def)

lemma metadata_single:
  "metadata_hosts http [(key, val)] =
     (if key = HTTP_HOST_KEY then (case hv_from_str http val of Some hv \<Rightarrow> [hv] | None \<Rightarrow> []) else [])"
  "metadata_headers http [(key, val)] =
     (case strip_prefix HEADER_KEY_PREFIX key of
        None \<Rightarrow> []
      | Some name \<Rightarrow>
          (case (header_name_from_bytes http (as_bytes name), hv_from_str http val) of
             (Some n, Some v) \<Rightarrow> [(n, v)] | _ \<Rightarrow> []))"
  by (simp_all add: metadata_hosts_def metadata_headers_def)

lemma metadata_append:
  "metadata_hosts http (xs @ ys) = metadata_hosts http xs @ metadata_hosts http ys"
  "metadata_headers http (xs @ ys) = metadata_headers http xs @ metadata_headers http ys"
  by (simp_all add: metadata_hosts_def metadata_headers_def)

lemma metadata_method_snoc:
  "metadata_method http (metadata @ [(key, val)]) =
     (if key = HTTP_METHOD_KEY
      then (case method_from_bytes http (as_bytes val) of Some m \<Rightarrow> m | None \<Rightarrow> method_get http)
      else metadata_method http metadata)"
  by (cases "map snd (filter (\<lambda>(key, val). key = HTTP_METHOD_KEY) metadata)")
     (simp_all add: metadata_method_def)

lemma fold_request_entries:
  assumes "http_laws http"
    and "fold (request_entry http) metadata (method_get http, hm_new http) = (m, headers)"
  shows "m = metadata_method http metadata \<and>
    (\<forall>n. hm_get http n headers =
      (if n = ''host'' \<and> metadata_hosts http metadata \<noteq> [] then Some (last (metadata_hosts http metadata))
       else map_of (metadata_headers http metadata) n))"
  using assms(2)
proof (induction metadata arbitrary: m headers rule: rev_induct)
  case Nil
  with http_lawsD(1) [OF assms(1)] show ?case
    by (simp add: metadata_method_def metadata_hosts_def metadata_headers_def)
next
  case (snoc e metadata)
  obtain key val where e: "e = (key, val)" by fastforce
  obtain m0 h0 where f: "fold (request_entry http) metadata (method_get http, hm_new http) = (m0, h0)"
    by fastforce
  note IH = snoc.IH [OF f]
  have step: "request_entry http (key, val) (m0, h0) = (m, headers)" using snoc.prems f e by simp
  have "m = metadata_method http (metadata @ [e])"
    using step conjunct1 [OF IH] unfolding e metadata_method_snoc
    by (auto simp: request_entry_def split: if_splits option.splits)
  moreover have "hm_get http n headers =
      (if n = ''host'' \<and> metadata_hosts http (metadata @ [e]) \<noteq> []
       then Some (last (metadata_hosts http (metadata @ [e])))
       else map_of (metadata_headers http (metadata @ [e])) n)" for n
  proof -
    note IHn = conjunct2 [OF IH, rule_format, of n]
    consider (at_method) "key = HTTP_METHOD_KEY"
      | (host) "key = HTTP_HOST_KEY"
      | (other) "key \<noteq> HTTP_METHOD_KEY" "key \<noteq> HTTP_HOST_KEY" by blast
    then show ?thesis
    proof cases
      case at_method
      with step have "headers = h0" by (simp add: request_entry_def)
      with at_method IHn show ?thesis by (simp add: e metadata_append metadata_single)
    next
      case host
      with step have "headers = (case hv_from_str http val of
          Some hv \<Rightarrow> hm_insert http ''host'' hv h0 | None \<Rightarrow> h0)"
        by (auto simp: request_entry_def split: option.splits)
      with host IHn show ?thesis
        by (auto simp: e metadata_append metadata_single http_lawsD(2) [OF assms(1)] split: option.split if_splits)
    next
      case other
      show ?thesis
      proof (cases "metadata_headers http [(key, val)]")
        case Nil
        with step other have "headers = h0"
          by (auto simp: request_entry_def metadata_single split: option.splits)
        with other IHn Nil show ?thesis by (simp add: e metadata_append metadata_single(1))
      next
        case (Cons nv more)
        with step other have "more = [] \<and> headers = hm_append http (fst nv) (snd nv) h0"
          by (auto simp: request_entry_def metadata_single split: option.splits)
        with other IHn http_lawsD(3) [OF assms(1), of n "fst nv" "snd nv" h0] Cons show ?thesis
          by (cases nv) (auto simp: e metadata_append metadata_single(1) map_add_def split: option.split)
      qed
    qed
  qed
  ultimately show ?case by blast
qed

text \<open>C25. The request the origin sees is the declarative reading of the metadata: the method of the
  last method entry (\<open>GET\<close> without one, or when it is not a method), the last valid host, for
  every other header name the first valid entry, an empty body at first, and an error exactly
  when the destination is not a URI. Entries that are not valid headers are left out, wherever
  they stand.\<close>

theorem request_of_metadata:
  assumes "http_laws http"
  shows "case http_crate.uri_try_from http (destination c) of
      Inl e \<Rightarrow> \<exists>m. build_request http c = Inl (quic_error m)
    | Inr uri \<Rightarrow> \<exists>headers.
        build_request http c
          = Inr (request_new (metadata_method http (request_metadata c)) uri headers body_empty) \<and>
        (\<forall>n. hm_get http n headers =
          (if n = ''host'' \<and> metadata_hosts http (request_metadata c) \<noteq> []
           then Some (last (metadata_hosts http (request_metadata c)))
           else map_of (metadata_headers http (request_metadata c)) n))"
proof -
  obtain m headers where
    f: "fold (request_entry http) (request_metadata c) (method_get http, hm_new http) = (m, headers)"
    by fastforce
  from fold_request_entries [OF assms f] f show ?thesis
    by (auto simp: build_request_def split: sum.split)
qed

definition demo_metadata :: "(string \<times> string) list" where
  "demo_metadata =
     [(''HttpHeader:X-A'', ''1''), (HTTP_METHOD_KEY, ''POST''), (HTTP_HOST_KEY, ''a.example''),
      (''HttpHeader:x-a'', ''2''), (''Other'', ''3'')]"

theorem request_of_metadata_witness:
  "\<exists>headers.
     build_request list_http \<lparr>destination = ''/p'', request_type = Http, request_metadata = demo_metadata\<rparr>
       = Inr (request_new ''POST'' ''/p'' headers body_empty :: (string, string, (string \<times> string) list, unit) request) \<and>
     hm_get list_http ''host'' headers = Some ''a.example'' \<and>
     hm_get list_http ''x-a'' headers = Some ''1'' \<and> hm_get list_http ''other'' headers = None"
proof -
  have uri: "http_crate.uri_try_from list_http ''/p'' = Inr ''/p''" by (simp add: list_http_def)
  have read: "metadata_method list_http demo_metadata = ''POST''"
    "metadata_hosts list_http demo_metadata = [''a.example'']"
    "metadata_headers list_http demo_metadata = [(''x-a'', ''1''), (''x-a'', ''2'')]"
    by code_simp+
  let ?c = "\<lparr>destination = ''/p'', request_type = Http, request_metadata = demo_metadata\<rparr>"
  from request_of_metadata [OF list_http_laws, of ?c, unfolded connect_request.select_convs] uri
  obtain headers where
    request: "build_request list_http ?c
        = Inr (request_new (metadata_method list_http demo_metadata) ''/p'' headers body_empty ::
            (string, string, (string \<times> string) list, unit) request)"
    and get: "\<And>n. hm_get list_http n headers =
        (if n = ''host'' \<and> metadata_hosts list_http demo_metadata \<noteq> []
         then Some (last (metadata_hosts list_http demo_metadata))
         else map_of (metadata_headers list_http demo_metadata) n)" by auto
  from request get [of "''host''"] get [of "''x-a''"] get [of "''other''"] show ?thesis
    unfolding read by auto
qed

end
