(* ===== verification/Rpc_Capnp.thy ===== *)
theory Rpc_Capnp
  imports Capnp
begin

text \<open>
  The generated accessors of the RPC protocol that the library calls,
  \<open>rpc/pregenerated/rpc_capnp.rs\<close>: the sizes of the structs, the fields with their offsets and the
  discriminants of the unions. A builder method \<open>init_x\<close> returns a builder of a new child, which
  the caller fills in; here it takes the child as it has been filled in.
\<close>

section \<open>Message\<close>

definition new_message :: "('st, 'p) capnp_crate \<Rightarrow> 'st" where [accessors]: "new_message cp = cp_init cp 1 1"

definition init_call :: "('st, 'p) capnp_crate \<Rightarrow> 'st \<Rightarrow> 'st \<Rightarrow> 'st" where [accessors]:
  "init_call cp child root = set_struct cp 0 child (set_field cp 0 (2 :: u16) root)"

definition init_return :: "('st, 'p) capnp_crate \<Rightarrow> 'st \<Rightarrow> 'st \<Rightarrow> 'st" where [accessors]:
  "init_return cp child root = set_struct cp 0 child (set_field cp 0 (3 :: u16) root)"

definition init_finish :: "('st, 'p) capnp_crate \<Rightarrow> 'st \<Rightarrow> 'st \<Rightarrow> 'st" where [accessors]:
  "init_finish cp child root = set_struct cp 0 child (set_field cp 0 (4 :: u16) root)"

definition init_release :: "('st, 'p) capnp_crate \<Rightarrow> 'st \<Rightarrow> 'st \<Rightarrow> 'st" where [accessors]:
  "init_release cp child root = set_struct cp 0 child (set_field cp 0 (6 :: u16) root)"

definition init_bootstrap :: "('st, 'p) capnp_crate \<Rightarrow> 'st \<Rightarrow> 'st \<Rightarrow> 'st" where [accessors]:
  "init_bootstrap cp child root = set_struct cp 0 child (set_field cp 0 (8 :: u16) root)"

datatype ('st, 'p) message_which =
    MUnimplemented "rpc_error + 'st"
  | MAbort "rpc_error + 'st"
  | MCall "rpc_error + 'st"
  | MReturn "rpc_error + 'st"
  | MFinish "rpc_error + 'st"
  | MResolve "rpc_error + 'st"
  | MRelease "rpc_error + 'st"
  | MObsoleteSave 'p
  | MBootstrap "rpc_error + 'st"
  | MObsoleteDelete 'p
  | MProvide "rpc_error + 'st"
  | MAccept "rpc_error + 'st"
  | MJoin "rpc_error + 'st"
  | MDisembargo "rpc_error + 'st"

definition message_which :: "('st, 'p) capnp_crate \<Rightarrow> 'st \<Rightarrow> rpc_error + ('st, 'p) message_which" where [accessors]:
  "message_which cp st =
     (let d = get_field cp 0 st :: u16; child = get_struct cp 0 st in
      if d = 0 then Inr (MUnimplemented child)
      else if d = 1 then Inr (MAbort child)
      else if d = 2 then Inr (MCall child)
      else if d = 3 then Inr (MReturn child)
      else if d = 4 then Inr (MFinish child)
      else if d = 5 then Inr (MResolve child)
      else if d = 6 then Inr (MRelease child)
      else if d = 7 then Inr (MObsoleteSave (cp_pointer cp 0 st))
      else if d = 8 then Inr (MBootstrap child)
      else if d = 9 then Inr (MObsoleteDelete (cp_pointer cp 0 st))
      else if d = 10 then Inr (MProvide child)
      else if d = 11 then Inr (MAccept child)
      else if d = 12 then Inr (MJoin child)
      else if d = 13 then Inr (MDisembargo child)
      else Inl (not_in_schema cp d))"

section \<open>Bootstrap, Finish and Release\<close>

definition new_bootstrap :: "('st, 'p) capnp_crate \<Rightarrow> 'st" where [accessors]: "new_bootstrap cp = cp_init cp 1 1"

definition bootstrap_set_question_id :: "('st, 'p) capnp_crate \<Rightarrow> u32 \<Rightarrow> 'st \<Rightarrow> 'st" where [accessors]:
  "bootstrap_set_question_id cp = set_field cp 0"

definition bootstrap_question_id :: "('st, 'p) capnp_crate \<Rightarrow> 'st \<Rightarrow> u32" where [accessors]:
  "bootstrap_question_id cp = get_field cp 0"

definition new_finish :: "('st, 'p) capnp_crate \<Rightarrow> 'st" where [accessors]: "new_finish cp = cp_init cp 1 0"

definition finish_set_question_id :: "('st, 'p) capnp_crate \<Rightarrow> u32 \<Rightarrow> 'st \<Rightarrow> 'st" where [accessors]:
  "finish_set_question_id cp = set_field cp 0"

definition finish_set_release_result_caps :: "('st, 'p) capnp_crate \<Rightarrow> bool \<Rightarrow> 'st \<Rightarrow> 'st" where [accessors]:
  "finish_set_release_result_caps cp v = set_bool_mask cp 32 v True"

definition finish_question_id :: "('st, 'p) capnp_crate \<Rightarrow> 'st \<Rightarrow> u32" where [accessors]:
  "finish_question_id cp = get_field cp 0"

definition finish_release_result_caps :: "('st, 'p) capnp_crate \<Rightarrow> 'st \<Rightarrow> bool" where [accessors]:
  "finish_release_result_caps cp = get_bool_mask cp 32 True"

definition new_release :: "('st, 'p) capnp_crate \<Rightarrow> 'st" where [accessors]: "new_release cp = cp_init cp 1 0"

definition release_set_id :: "('st, 'p) capnp_crate \<Rightarrow> u32 \<Rightarrow> 'st \<Rightarrow> 'st" where [accessors]:
  "release_set_id cp = set_field cp 0"

definition release_set_reference_count :: "('st, 'p) capnp_crate \<Rightarrow> u32 \<Rightarrow> 'st \<Rightarrow> 'st" where [accessors]:
  "release_set_reference_count cp = set_field cp 1"

definition release_id :: "('st, 'p) capnp_crate \<Rightarrow> 'st \<Rightarrow> u32" where [accessors]:
  "release_id cp = get_field cp 0"

definition release_reference_count :: "('st, 'p) capnp_crate \<Rightarrow> 'st \<Rightarrow> u32" where [accessors]:
  "release_reference_count cp = get_field cp 1"

section \<open>Call\<close>

definition new_call :: "('st, 'p) capnp_crate \<Rightarrow> 'st" where [accessors]: "new_call cp = cp_init cp 3 3"

definition call_set_question_id :: "('st, 'p) capnp_crate \<Rightarrow> u32 \<Rightarrow> 'st \<Rightarrow> 'st" where [accessors]:
  "call_set_question_id cp = set_field cp 0"

definition call_set_interface_id :: "('st, 'p) capnp_crate \<Rightarrow> u64 \<Rightarrow> 'st \<Rightarrow> 'st" where [accessors]:
  "call_set_interface_id cp = set_field cp 1"

definition call_set_method_id :: "('st, 'p) capnp_crate \<Rightarrow> u16 \<Rightarrow> 'st \<Rightarrow> 'st" where [accessors]:
  "call_set_method_id cp = set_field cp 2"

definition call_init_target :: "('st, 'p) capnp_crate \<Rightarrow> 'st \<Rightarrow> 'st \<Rightarrow> 'st" where [accessors]:
  "call_init_target cp = set_struct cp 0"

definition call_init_params :: "('st, 'p) capnp_crate \<Rightarrow> 'st \<Rightarrow> 'st \<Rightarrow> 'st" where [accessors]:
  "call_init_params cp = set_struct cp 1"

definition call_init_send_results_to :: "('st, 'p) capnp_crate \<Rightarrow> 'st \<Rightarrow> 'st" where [accessors]:
  "call_init_send_results_to cp st = cp_set_pointer cp 2 (cp_null cp) (set_field cp 3 (0 :: u16) st)"

definition call_set_caller :: "('st, 'p) capnp_crate \<Rightarrow> 'st \<Rightarrow> 'st" where [accessors]:
  "call_set_caller cp = set_field cp 3 (0 :: u16)"

definition call_question_id :: "('st, 'p) capnp_crate \<Rightarrow> 'st \<Rightarrow> u32" where [accessors]:
  "call_question_id cp = get_field cp 0"

definition call_target :: "('st, 'p) capnp_crate \<Rightarrow> 'st \<Rightarrow> rpc_error + 'st" where [accessors]:
  "call_target cp = get_struct cp 0"

definition call_interface_id :: "('st, 'p) capnp_crate \<Rightarrow> 'st \<Rightarrow> u64" where [accessors]:
  "call_interface_id cp = get_field cp 1"

definition call_method_id :: "('st, 'p) capnp_crate \<Rightarrow> 'st \<Rightarrow> u16" where [accessors]:
  "call_method_id cp = get_field cp 2"

definition call_get_params :: "('st, 'p) capnp_crate \<Rightarrow> 'st \<Rightarrow> rpc_error + 'st" where [accessors]:
  "call_get_params cp = get_struct cp 1"

definition new_message_target :: "('st, 'p) capnp_crate \<Rightarrow> 'st" where [accessors]:
  "new_message_target cp = cp_init cp 1 1"

definition target_set_imported_cap :: "('st, 'p) capnp_crate \<Rightarrow> u32 \<Rightarrow> 'st \<Rightarrow> 'st" where [accessors]:
  "target_set_imported_cap cp v st = set_field cp 0 v (set_field cp 2 (0 :: u16) st)"

section \<open>Return\<close>

definition new_return :: "('st, 'p) capnp_crate \<Rightarrow> 'st" where [accessors]: "new_return cp = cp_init cp 2 1"

definition return_set_answer_id :: "('st, 'p) capnp_crate \<Rightarrow> u32 \<Rightarrow> 'st \<Rightarrow> 'st" where [accessors]:
  "return_set_answer_id cp = set_field cp 0"

definition return_init_results :: "('st, 'p) capnp_crate \<Rightarrow> 'st \<Rightarrow> 'st \<Rightarrow> 'st" where [accessors]:
  "return_init_results cp child st = set_struct cp 0 child (set_field cp 3 (0 :: u16) st)"

definition return_init_exception :: "('st, 'p) capnp_crate \<Rightarrow> 'st \<Rightarrow> 'st \<Rightarrow> 'st" where [accessors]:
  "return_init_exception cp child st = set_struct cp 0 child (set_field cp 3 (1 :: u16) st)"

definition return_answer_id :: "('st, 'p) capnp_crate \<Rightarrow> 'st \<Rightarrow> u32" where [accessors]:
  "return_answer_id cp = get_field cp 0"

datatype ('st, 'p) return_which =
    RResults "rpc_error + 'st"
  | RException "rpc_error + 'st"
  | RCanceled
  | RResultsSentElsewhere
  | RTakeFromOtherQuestion u32
  | RAcceptFromThirdParty 'p

definition return_which_of :: "('st, 'p) capnp_crate \<Rightarrow> 'st \<Rightarrow> rpc_error + ('st, 'p) return_which" where [accessors]:
  "return_which_of cp st =
     (let d = get_field cp 3 st :: u16 in
      if d = 0 then Inr (RResults (get_struct cp 0 st))
      else if d = 1 then Inr (RException (get_struct cp 0 st))
      else if d = 2 then Inr RCanceled
      else if d = 3 then Inr RResultsSentElsewhere
      else if d = 4 then Inr (RTakeFromOtherQuestion (get_field cp 2 st))
      else if d = 5 then Inr (RAcceptFromThirdParty (cp_pointer cp 0 st))
      else Inl (not_in_schema cp d))"

section \<open>Payload, capability descriptor and exception\<close>

definition new_payload :: "('st, 'p) capnp_crate \<Rightarrow> 'st" where [accessors]: "new_payload cp = cp_init cp 0 2"

text \<open>\<open>init_content\<close> with what is then put behind the pointer.\<close>

definition payload_init_content :: "('st, 'p) capnp_crate \<Rightarrow> 'p \<Rightarrow> 'st \<Rightarrow> 'st" where [accessors]:
  "payload_init_content cp content st = cp_set_pointer cp 0 content (cp_set_pointer cp 0 (cp_null cp) st)"

definition payload_init_cap_table :: "('st, 'p) capnp_crate \<Rightarrow> 'st list \<Rightarrow> 'st \<Rightarrow> 'st" where [accessors]:
  "payload_init_cap_table cp = set_structs cp 1"

definition payload_get_content :: "('st, 'p) capnp_crate \<Rightarrow> 'st \<Rightarrow> 'p" where [accessors]:
  "payload_get_content cp = cp_pointer cp 0"

definition payload_cap_table :: "('st, 'p) capnp_crate \<Rightarrow> 'st \<Rightarrow> rpc_error + 'st list" where [accessors]:
  "payload_cap_table cp = get_structs cp 1"

definition new_cap_descriptor :: "('st, 'p) capnp_crate \<Rightarrow> 'st" where [accessors]:
  "new_cap_descriptor cp = cp_init cp 1 1"

definition cap_set_sender_hosted :: "('st, 'p) capnp_crate \<Rightarrow> u32 \<Rightarrow> 'st \<Rightarrow> 'st" where [accessors]:
  "cap_set_sender_hosted cp v st = set_field cp 1 v (set_field cp 0 (1 :: u16) st)"

datatype 'st cap_which =
    CapNone
  | CapSenderHosted u32
  | CapSenderPromise u32
  | CapReceiverHosted u32
  | CapReceiverAnswer "rpc_error + 'st"
  | CapThirdPartyHosted "rpc_error + 'st"

definition cap_which_of :: "('st, 'p) capnp_crate \<Rightarrow> 'st \<Rightarrow> rpc_error + 'st cap_which" where [accessors]:
  "cap_which_of cp st =
     (let d = get_field cp 0 st :: u16 in
      if d = 0 then Inr CapNone
      else if d = 1 then Inr (CapSenderHosted (get_field cp 1 st))
      else if d = 2 then Inr (CapSenderPromise (get_field cp 1 st))
      else if d = 3 then Inr (CapReceiverHosted (get_field cp 1 st))
      else if d = 4 then Inr (CapReceiverAnswer (get_struct cp 0 st))
      else if d = 5 then Inr (CapThirdPartyHosted (get_struct cp 0 st))
      else Inl (not_in_schema cp d))"

definition new_exception :: "('st, 'p) capnp_crate \<Rightarrow> 'st" where [accessors]: "new_exception cp = cp_init cp 1 1"

datatype exception_type = ExFailed | ExOverloaded | ExDisconnected | ExUnimplemented

fun exception_type_u16 :: "exception_type \<Rightarrow> u16" where
  "exception_type_u16 ExFailed = 0"
| "exception_type_u16 ExOverloaded = 1"
| "exception_type_u16 ExDisconnected = 2"
| "exception_type_u16 ExUnimplemented = 3"

definition exception_type_try_from :: "('st, 'p) capnp_crate \<Rightarrow> u16 \<Rightarrow> rpc_error + exception_type" where [accessors]:
  "exception_type_try_from cp n =
     (if n = 0 then Inr ExFailed
      else if n = 1 then Inr ExOverloaded
      else if n = 2 then Inr ExDisconnected
      else if n = 3 then Inr ExUnimplemented
      else Inl (not_in_schema cp n))"

definition exception_set_reason :: "('st, 'p) capnp_crate \<Rightarrow> string \<Rightarrow> 'st \<Rightarrow> 'st" where [accessors]:
  "exception_set_reason cp = set_text_field cp 0"

definition exception_set_type :: "('st, 'p) capnp_crate \<Rightarrow> exception_type \<Rightarrow> 'st \<Rightarrow> 'st" where [accessors]:
  "exception_set_type cp t = set_field cp 2 (exception_type_u16 t)"

definition exception_reason :: "('st, 'p) capnp_crate \<Rightarrow> 'st \<Rightarrow> rpc_error + string" where [accessors]:
  "exception_reason cp = get_text_field cp 0"

definition exception_get_type :: "('st, 'p) capnp_crate \<Rightarrow> 'st \<Rightarrow> rpc_error + exception_type" where [accessors]:
  "exception_get_type cp st = exception_type_try_from cp (get_field cp 2 st)"

end
