(* ===== verification/Tunnelrpc_Capnp.thy ===== *)
theory Tunnelrpc_Capnp
  imports Capnp
begin

text \<open>
  The generated accessors of the tunnel interfaces that the library calls, and those with which
  the edge reads or writes the same structs, \<open>rpc/pregenerated/tunnelrpc_capnp.rs\<close>: sizes, fields
  with their offsets, and the discriminant of a registration's result.
\<close>

section \<open>Client and connection options\<close>

definition new_client_info :: "('st, 'p) capnp_crate \<Rightarrow> 'st" where [accessors]: "new_client_info cp = cp_init cp 0 4"

definition client_set_client_id :: "('st, 'p) capnp_crate \<Rightarrow> byte list \<Rightarrow> 'st \<Rightarrow> 'st" where [accessors]:
  "client_set_client_id cp = set_data_bytes cp 0"

text \<open>\<open>init_features\<close> followed by a \<open>set\<close> for every element.\<close>

definition client_init_features :: "('st, 'p) capnp_crate \<Rightarrow> string list \<Rightarrow> 'st \<Rightarrow> 'st" where [accessors]:
  "client_init_features cp features = cp_set_pointer cp 1 (cp_texts_pointer cp (map as_bytes features))"

definition client_set_version :: "('st, 'p) capnp_crate \<Rightarrow> string \<Rightarrow> 'st \<Rightarrow> 'st" where [accessors]:
  "client_set_version cp = set_text_field cp 2"

definition client_set_arch :: "('st, 'p) capnp_crate \<Rightarrow> string \<Rightarrow> 'st \<Rightarrow> 'st" where [accessors]:
  "client_set_arch cp = set_text_field cp 3"

definition client_client_id :: "('st, 'p) capnp_crate \<Rightarrow> 'st \<Rightarrow> rpc_error + byte list" where [accessors]:
  "client_client_id cp = get_data_bytes cp 0"

definition client_features :: "('st, 'p) capnp_crate \<Rightarrow> 'st \<Rightarrow> rpc_error + byte list list" where [accessors]:
  "client_features cp st = map_err rpc_error_from_capnp (cp_get_texts cp (cp_pointer cp 1 st))"

definition client_version :: "('st, 'p) capnp_crate \<Rightarrow> 'st \<Rightarrow> rpc_error + string" where [accessors]:
  "client_version cp = get_text_field cp 2"

definition client_arch :: "('st, 'p) capnp_crate \<Rightarrow> 'st \<Rightarrow> rpc_error + string" where [accessors]:
  "client_arch cp = get_text_field cp 3"

definition new_connection_options :: "('st, 'p) capnp_crate \<Rightarrow> 'st" where [accessors]:
  "new_connection_options cp = cp_init cp 1 2"

definition options_init_client :: "('st, 'p) capnp_crate \<Rightarrow> 'st \<Rightarrow> 'st \<Rightarrow> 'st" where [accessors]:
  "options_init_client cp = set_struct cp 0"

definition options_set_origin_local_ip :: "('st, 'p) capnp_crate \<Rightarrow> byte list \<Rightarrow> 'st \<Rightarrow> 'st" where [accessors]:
  "options_set_origin_local_ip cp = set_data_bytes cp 1"

definition options_set_replace_existing :: "('st, 'p) capnp_crate \<Rightarrow> bool \<Rightarrow> 'st \<Rightarrow> 'st" where [accessors]:
  "options_set_replace_existing cp v = set_bool_mask cp 0 v False"

definition options_set_compression_quality :: "('st, 'p) capnp_crate \<Rightarrow> u8 \<Rightarrow> 'st \<Rightarrow> 'st" where [accessors]:
  "options_set_compression_quality cp = set_field cp 1"

definition options_set_num_previous_attempts :: "('st, 'p) capnp_crate \<Rightarrow> u8 \<Rightarrow> 'st \<Rightarrow> 'st" where [accessors]:
  "options_set_num_previous_attempts cp = set_field cp 2"

definition options_client :: "('st, 'p) capnp_crate \<Rightarrow> 'st \<Rightarrow> rpc_error + 'st" where [accessors]:
  "options_client cp = get_struct cp 0"

definition options_origin_local_ip :: "('st, 'p) capnp_crate \<Rightarrow> 'st \<Rightarrow> rpc_error + byte list" where [accessors]:
  "options_origin_local_ip cp = get_data_bytes cp 1"

definition options_replace_existing :: "('st, 'p) capnp_crate \<Rightarrow> 'st \<Rightarrow> bool" where [accessors]:
  "options_replace_existing cp = get_bool_mask cp 0 False"

definition options_compression_quality :: "('st, 'p) capnp_crate \<Rightarrow> 'st \<Rightarrow> u8" where [accessors]:
  "options_compression_quality cp = get_field cp 1"

definition options_num_previous_attempts :: "('st, 'p) capnp_crate \<Rightarrow> 'st \<Rightarrow> u8" where [accessors]:
  "options_num_previous_attempts cp = get_field cp 2"

section \<open>Credentials and parameters\<close>

definition new_tunnel_auth :: "('st, 'p) capnp_crate \<Rightarrow> 'st" where [accessors]: "new_tunnel_auth cp = cp_init cp 0 2"

definition auth_set_account_tag :: "('st, 'p) capnp_crate \<Rightarrow> string \<Rightarrow> 'st \<Rightarrow> 'st" where [accessors]:
  "auth_set_account_tag cp = set_text_field cp 0"

definition auth_set_tunnel_secret :: "('st, 'p) capnp_crate \<Rightarrow> byte list \<Rightarrow> 'st \<Rightarrow> 'st" where [accessors]:
  "auth_set_tunnel_secret cp = set_data_bytes cp 1"

definition auth_get_account_tag :: "('st, 'p) capnp_crate \<Rightarrow> 'st \<Rightarrow> rpc_error + string" where [accessors]:
  "auth_get_account_tag cp = get_text_field cp 0"

definition auth_get_tunnel_secret :: "('st, 'p) capnp_crate \<Rightarrow> 'st \<Rightarrow> rpc_error + byte list" where [accessors]:
  "auth_get_tunnel_secret cp = get_data_bytes cp 1"

definition new_register_params :: "('st, 'p) capnp_crate \<Rightarrow> 'st" where [accessors]:
  "new_register_params cp = cp_init cp 1 3"

definition params_init_auth :: "('st, 'p) capnp_crate \<Rightarrow> 'st \<Rightarrow> 'st \<Rightarrow> 'st" where [accessors]:
  "params_init_auth cp = set_struct cp 0"

definition params_set_tunnel_id :: "('st, 'p) capnp_crate \<Rightarrow> byte list \<Rightarrow> 'st \<Rightarrow> 'st" where [accessors]:
  "params_set_tunnel_id cp = set_data_bytes cp 1"

definition params_set_conn_index :: "('st, 'p) capnp_crate \<Rightarrow> u8 \<Rightarrow> 'st \<Rightarrow> 'st" where [accessors]:
  "params_set_conn_index cp = set_field cp 0"

definition params_init_options :: "('st, 'p) capnp_crate \<Rightarrow> 'st \<Rightarrow> 'st \<Rightarrow> 'st" where [accessors]:
  "params_init_options cp = set_struct cp 2"

definition params_auth :: "('st, 'p) capnp_crate \<Rightarrow> 'st \<Rightarrow> rpc_error + 'st" where [accessors]:
  "params_auth cp = get_struct cp 0"

definition params_tunnel_id :: "('st, 'p) capnp_crate \<Rightarrow> 'st \<Rightarrow> rpc_error + byte list" where [accessors]:
  "params_tunnel_id cp = get_data_bytes cp 1"

definition params_conn_index :: "('st, 'p) capnp_crate \<Rightarrow> 'st \<Rightarrow> u8" where [accessors]:
  "params_conn_index cp = get_field cp 0"

definition params_options :: "('st, 'p) capnp_crate \<Rightarrow> 'st \<Rightarrow> rpc_error + 'st" where [accessors]:
  "params_options cp = get_struct cp 2"

definition new_unregister_params :: "('st, 'p) capnp_crate \<Rightarrow> 'st" where [accessors]:
  "new_unregister_params cp = cp_init cp 0 0"

definition new_local_configuration_params :: "('st, 'p) capnp_crate \<Rightarrow> 'st" where [accessors]:
  "new_local_configuration_params cp = cp_init cp 0 1"

definition local_configuration_set_config :: "('st, 'p) capnp_crate \<Rightarrow> byte list \<Rightarrow> 'st \<Rightarrow> 'st" where [accessors]:
  "local_configuration_set_config cp = set_data_bytes cp 0"

definition local_configuration_config :: "('st, 'p) capnp_crate \<Rightarrow> 'st \<Rightarrow> rpc_error + byte list" where [accessors]:
  "local_configuration_config cp = get_data_bytes cp 0"

section \<open>The result of a registration\<close>

definition new_register_results :: "('st, 'p) capnp_crate \<Rightarrow> 'st" where [accessors]:
  "new_register_results cp = cp_init cp 0 1"

definition results_init_result :: "('st, 'p) capnp_crate \<Rightarrow> 'st \<Rightarrow> 'st \<Rightarrow> 'st" where [accessors]:
  "results_init_result cp = set_struct cp 0"

definition results_result :: "('st, 'p) capnp_crate \<Rightarrow> 'st \<Rightarrow> rpc_error + 'st" where [accessors]:
  "results_result cp = get_struct cp 0"

definition new_connection_response :: "('st, 'p) capnp_crate \<Rightarrow> 'st" where [accessors]:
  "new_connection_response cp = cp_init cp 1 1"

definition result_init_error :: "('st, 'p) capnp_crate \<Rightarrow> 'st \<Rightarrow> 'st \<Rightarrow> 'st" where [accessors]:
  "result_init_error cp child st = set_struct cp 0 child (set_field cp 0 (0 :: u16) st)"

definition result_init_connection_details :: "('st, 'p) capnp_crate \<Rightarrow> 'st \<Rightarrow> 'st \<Rightarrow> 'st" where [accessors]:
  "result_init_connection_details cp child st = set_struct cp 0 child (set_field cp 0 (1 :: u16) st)"

datatype 'st result_which = WhichError "rpc_error + 'st" | WhichConnectionDetails "rpc_error + 'st"

definition result_which_of :: "('st, 'p) capnp_crate \<Rightarrow> 'st \<Rightarrow> rpc_error + 'st result_which" where [accessors]:
  "result_which_of cp st =
     (let d = get_field cp 0 st :: u16 in
      if d = 0 then Inr (WhichError (get_struct cp 0 st))
      else if d = 1 then Inr (WhichConnectionDetails (get_struct cp 0 st))
      else Inl (not_in_schema cp d))"

definition new_connection_error :: "('st, 'p) capnp_crate \<Rightarrow> 'st" where [accessors]:
  "new_connection_error cp = cp_init cp 2 1"

definition error_set_cause :: "('st, 'p) capnp_crate \<Rightarrow> string \<Rightarrow> 'st \<Rightarrow> 'st" where [accessors]:
  "error_set_cause cp = set_text_field cp 0"

definition error_set_retry_after :: "('st, 'p) capnp_crate \<Rightarrow> i64 \<Rightarrow> 'st \<Rightarrow> 'st" where [accessors]:
  "error_set_retry_after cp = set_field cp 0"

definition error_set_should_retry :: "('st, 'p) capnp_crate \<Rightarrow> bool \<Rightarrow> 'st \<Rightarrow> 'st" where [accessors]:
  "error_set_should_retry cp v = set_bool_mask cp 64 v False"

definition error_cause :: "('st, 'p) capnp_crate \<Rightarrow> 'st \<Rightarrow> rpc_error + string" where [accessors]:
  "error_cause cp = get_text_field cp 0"

definition error_retry_after :: "('st, 'p) capnp_crate \<Rightarrow> 'st \<Rightarrow> i64" where [accessors]:
  "error_retry_after cp = get_field cp 0"

definition error_should_retry :: "('st, 'p) capnp_crate \<Rightarrow> 'st \<Rightarrow> bool" where [accessors]:
  "error_should_retry cp = get_bool_mask cp 64 False"

definition new_connection_details :: "('st, 'p) capnp_crate \<Rightarrow> 'st" where [accessors]:
  "new_connection_details cp = cp_init cp 1 2"

definition details_set_uuid :: "('st, 'p) capnp_crate \<Rightarrow> byte list \<Rightarrow> 'st \<Rightarrow> 'st" where [accessors]:
  "details_set_uuid cp = set_data_bytes cp 0"

definition details_set_location_name :: "('st, 'p) capnp_crate \<Rightarrow> string \<Rightarrow> 'st \<Rightarrow> 'st" where [accessors]:
  "details_set_location_name cp = set_text_field cp 1"

definition details_set_managed :: "('st, 'p) capnp_crate \<Rightarrow> bool \<Rightarrow> 'st \<Rightarrow> 'st" where [accessors]:
  "details_set_managed cp v = set_bool_mask cp 0 v False"

definition details_uuid :: "('st, 'p) capnp_crate \<Rightarrow> 'st \<Rightarrow> rpc_error + byte list" where [accessors]:
  "details_uuid cp = get_data_bytes cp 0"

definition details_location_name :: "('st, 'p) capnp_crate \<Rightarrow> 'st \<Rightarrow> rpc_error + string" where [accessors]:
  "details_location_name cp = get_text_field cp 1"

definition details_managed :: "('st, 'p) capnp_crate \<Rightarrow> 'st \<Rightarrow> bool" where [accessors]:
  "details_managed cp = get_bool_mask cp 0 False"

section \<open>The connector's interface\<close>

definition new_update_params :: "('st, 'p) capnp_crate \<Rightarrow> 'st" where [accessors]:
  "new_update_params cp = cp_init cp 1 1"

definition update_set_version :: "('st, 'p) capnp_crate \<Rightarrow> i32 \<Rightarrow> 'st \<Rightarrow> 'st" where [accessors]:
  "update_set_version cp = set_field cp 0"

definition update_set_config :: "('st, 'p) capnp_crate \<Rightarrow> byte list \<Rightarrow> 'st \<Rightarrow> 'st" where [accessors]:
  "update_set_config cp = set_data_bytes cp 0"

definition update_version :: "('st, 'p) capnp_crate \<Rightarrow> 'st \<Rightarrow> i32" where [accessors]:
  "update_version cp = get_field cp 0"

definition update_config :: "('st, 'p) capnp_crate \<Rightarrow> 'st \<Rightarrow> rpc_error + byte list" where [accessors]:
  "update_config cp = get_data_bytes cp 0"

definition new_update_results :: "('st, 'p) capnp_crate \<Rightarrow> 'st" where [accessors]:
  "new_update_results cp = cp_init cp 0 1"

definition update_init_result :: "('st, 'p) capnp_crate \<Rightarrow> 'st \<Rightarrow> 'st \<Rightarrow> 'st" where [accessors]:
  "update_init_result cp = set_struct cp 0"

definition update_result :: "('st, 'p) capnp_crate \<Rightarrow> 'st \<Rightarrow> rpc_error + 'st" where [accessors]:
  "update_result cp = get_struct cp 0"

definition new_update_response :: "('st, 'p) capnp_crate \<Rightarrow> 'st" where [accessors]:
  "new_update_response cp = cp_init cp 1 1"

definition response_set_latest_applied_version :: "('st, 'p) capnp_crate \<Rightarrow> i32 \<Rightarrow> 'st \<Rightarrow> 'st" where [accessors]:
  "response_set_latest_applied_version cp = set_field cp 0"

definition response_set_err :: "('st, 'p) capnp_crate \<Rightarrow> string \<Rightarrow> 'st \<Rightarrow> 'st" where [accessors]:
  "response_set_err cp = set_text_field cp 0"

definition response_latest_applied_version :: "('st, 'p) capnp_crate \<Rightarrow> 'st \<Rightarrow> i32" where [accessors]:
  "response_latest_applied_version cp = get_field cp 0"

definition response_err :: "('st, 'p) capnp_crate \<Rightarrow> 'st \<Rightarrow> rpc_error + string" where [accessors]:
  "response_err cp = get_text_field cp 0"

definition udp_session_id :: "('st, 'p) capnp_crate \<Rightarrow> 'st \<Rightarrow> rpc_error + byte list" where [accessors]:
  "udp_session_id cp = get_data_bytes cp 0"

definition udp_dst_ip :: "('st, 'p) capnp_crate \<Rightarrow> 'st \<Rightarrow> rpc_error + byte list" where [accessors]:
  "udp_dst_ip cp = get_data_bytes cp 1"

definition udp_dst_port :: "('st, 'p) capnp_crate \<Rightarrow> 'st \<Rightarrow> u16" where [accessors]:
  "udp_dst_port cp = get_field cp 0"

definition new_udp_params :: "('st, 'p) capnp_crate \<Rightarrow> 'st" where [accessors]:
  "new_udp_params cp = cp_init cp 2 3"

definition udp_set_session_id :: "('st, 'p) capnp_crate \<Rightarrow> byte list \<Rightarrow> 'st \<Rightarrow> 'st" where [accessors]:
  "udp_set_session_id cp = set_data_bytes cp 0"

definition udp_set_dst_ip :: "('st, 'p) capnp_crate \<Rightarrow> byte list \<Rightarrow> 'st \<Rightarrow> 'st" where [accessors]:
  "udp_set_dst_ip cp = set_data_bytes cp 1"

definition udp_set_dst_port :: "('st, 'p) capnp_crate \<Rightarrow> u16 \<Rightarrow> 'st \<Rightarrow> 'st" where [accessors]:
  "udp_set_dst_port cp = set_field cp 0"

definition new_udp_results :: "('st, 'p) capnp_crate \<Rightarrow> 'st" where [accessors]:
  "new_udp_results cp = cp_init cp 0 1"

definition udp_init_result :: "('st, 'p) capnp_crate \<Rightarrow> 'st \<Rightarrow> 'st \<Rightarrow> 'st" where [accessors]:
  "udp_init_result cp = set_struct cp 0"

definition udp_result :: "('st, 'p) capnp_crate \<Rightarrow> 'st \<Rightarrow> rpc_error + 'st" where [accessors]:
  "udp_result cp = get_struct cp 0"

definition new_udp_response :: "('st, 'p) capnp_crate \<Rightarrow> 'st" where [accessors]:
  "new_udp_response cp = cp_init cp 0 2"

definition udp_set_err :: "('st, 'p) capnp_crate \<Rightarrow> string \<Rightarrow> 'st \<Rightarrow> 'st" where [accessors]:
  "udp_set_err cp = set_text_field cp 0"

definition udp_set_spans :: "('st, 'p) capnp_crate \<Rightarrow> byte list \<Rightarrow> 'st \<Rightarrow> 'st" where [accessors]:
  "udp_set_spans cp = set_data_bytes cp 1"

definition udp_err :: "('st, 'p) capnp_crate \<Rightarrow> 'st \<Rightarrow> rpc_error + string" where [accessors]:
  "udp_err cp = get_text_field cp 0"

definition udp_get_spans :: "('st, 'p) capnp_crate \<Rightarrow> 'st \<Rightarrow> rpc_error + byte list" where [accessors]:
  "udp_get_spans cp = get_data_bytes cp 1"

definition new_unregister_udp_results :: "('st, 'p) capnp_crate \<Rightarrow> 'st" where [accessors]:
  "new_unregister_udp_results cp = cp_init cp 0 0"

end
