(* ===== verification/Rpc_Codec.thy ===== *)
theory Rpc_Codec
  imports Control Cloudflared Rpc_Capnp Tunnelrpc_Capnp
begin

text \<open>
  The codecs that the theories \<open>Rpc\<close>, \<open>Control\<close> and \<open>Cloudflared\<close> are written over, as the code
  has them: how \<open>rpc/src/rpc.rs\<close>, \<open>rpc/src/tunnel.rs\<close> and \<open>rpc/src/cloudflared.rs\<close> build and read
  messages with the generated accessors. A payload is the pointer of its content.
\<close>

section \<open>Building messages\<close>

definition bootstrap_message :: "('st, 'p) capnp_crate \<Rightarrow> u32 \<Rightarrow> 'st" where
  "bootstrap_message cp question =
     init_bootstrap cp (bootstrap_set_question_id cp question (new_bootstrap cp)) (new_message cp)"

definition payload_with :: "('st, 'p) capnp_crate \<Rightarrow> 'p \<Rightarrow> 'st list \<Rightarrow> 'st" where
  "payload_with cp content caps =
     payload_init_cap_table cp caps (payload_init_content cp content (new_payload cp))"

definition call_message ::
  "('st, 'p) capnp_crate \<Rightarrow> u32 \<Rightarrow> u32 \<Rightarrow> u64 \<Rightarrow> u16 \<Rightarrow> 'p \<Rightarrow> 'st" where
  "call_message cp question import_identifier interface_identifier method_identifier content =
     (let call = call_set_question_id cp question (new_call cp);
          target = target_set_imported_cap cp import_identifier (new_message_target cp);
          call = call_init_target cp target call;
          call = call_set_interface_id cp interface_identifier call;
          call = call_set_method_id cp method_identifier call;
          call = call_set_caller cp (call_init_send_results_to cp call);
          call = call_init_params cp (payload_with cp content []) call in
      init_call cp call (new_message cp))"

definition finish_message :: "('st, 'p) capnp_crate \<Rightarrow> u32 \<Rightarrow> bool \<Rightarrow> 'st" where
  "finish_message cp question release_result_caps =
     init_finish cp
       (finish_set_release_result_caps cp release_result_caps
         (finish_set_question_id cp question (new_finish cp))) (new_message cp)"

definition release_message :: "('st, 'p) capnp_crate \<Rightarrow> u32 \<Rightarrow> u32 \<Rightarrow> 'st" where
  "release_message cp ident reference_count =
     init_release cp
       (release_set_reference_count cp reference_count (release_set_id cp ident (new_release cp)))
       (new_message cp)"

definition exception_message :: "('st, 'p) capnp_crate \<Rightarrow> u32 \<Rightarrow> string \<Rightarrow> 'st" where
  "exception_message cp question reason =
     (let ret = return_set_answer_id cp question (new_return cp);
          exc = exception_set_type cp ExUnimplemented (exception_set_reason cp reason (new_exception cp)) in
      init_return cp (return_init_exception cp exc ret) (new_message cp))"

text \<open>A \<open>return\<close> with results: the bootstrap answer has one capability, the others have none.\<close>

definition results_message :: "('st, 'p) capnp_crate \<Rightarrow> u32 \<Rightarrow> 'p \<Rightarrow> 'st list \<Rightarrow> 'st" where
  "results_message cp question content caps =
     init_return cp
       (return_init_results cp (payload_with cp content caps)
         (return_set_answer_id cp question (new_return cp))) (new_message cp)"

definition bootstrap_return_message :: "('st, 'p) capnp_crate \<Rightarrow> u32 \<Rightarrow> 'st" where
  "bootstrap_return_message cp question =
     results_message cp question (cp_capability cp 0)
       [cap_set_sender_hosted cp 0 (new_cap_descriptor cp)]"

fun wire_message :: "('st, 'p) capnp_crate \<Rightarrow> 'p outgoing \<Rightarrow> 'st" where
  "wire_message cp (OBootstrap question) = bootstrap_message cp question"
| "wire_message cp (OCall question import_id interface_id method_id content) =
     call_message cp question import_id interface_id method_id content"
| "wire_message cp (OFinish question release_caps) = finish_message cp question release_caps"
| "wire_message cp (ORelease ident count) = release_message cp ident count"
| "wire_message cp (OException question reason) = exception_message cp question reason"
| "wire_message cp (OBootstrapReturn question) = bootstrap_return_message cp question"
| "wire_message cp (OResults question content) = results_message cp question content []"

section \<open>Reading messages\<close>

definition cap_view :: "('st, 'p) capnp_crate \<Rightarrow> 'st \<Rightarrow> rpc_error + cap_kind" where
  "cap_view cp desc =
     bind_result (cap_which_of cp desc) (\<lambda>w. Inr (case w of
         CapSenderHosted _ \<Rightarrow> SenderHosted
       | CapSenderPromise _ \<Rightarrow> SenderPromise
       | _ \<Rightarrow> OtherCap))"

definition wire_payload_view :: "('st, 'p) capnp_crate \<Rightarrow> 'st \<Rightarrow> 'p payload_view" where
  "wire_payload_view cp payload =
     \<lparr>payload_content = payload_get_content cp payload,
      cap_table = bind_result (payload_cap_table cp payload) (\<lambda>ctab. Inr (map (cap_view cp) ctab))\<rparr>"

definition wire_return_view :: "('st, 'p) capnp_crate \<Rightarrow> 'st \<Rightarrow> 'p return_view" where
  "wire_return_view cp ret =
     \<lparr>answer_id = return_answer_id cp ret,
      return_which = bind_result (return_which_of cp ret) (\<lambda>w. Inr (case w of
          RResults payload \<Rightarrow> Results (bind_result payload (\<lambda>p. Inr (wire_payload_view cp p)))
        | RException exc \<Rightarrow> Exception (bind_result exc (exception_reason cp))
        | _ \<Rightarrow> OtherReturn))\<rparr>"

definition wire_call_view :: "('st, 'p) capnp_crate \<Rightarrow> 'st \<Rightarrow> 'p call_view" where
  "wire_call_view cp call =
     \<lparr>call_question = call_question_id cp call, call_interface = call_interface_id cp call,
      call_method = call_method_id cp call,
      call_params = bind_result (call_get_params cp call) (\<lambda>p. Inr (payload_get_content cp p))\<rparr>"

definition wire_abort :: "('st, 'p) capnp_crate \<Rightarrow> 'st \<Rightarrow> rpc_error + string \<times> u16" where
  "wire_abort cp exc =
     bind_result (exception_reason cp exc) (\<lambda>reason.
     bind_result (exception_get_type cp exc) (\<lambda>t. Inr (reason, exception_type_u16 t)))"

definition wire_root :: "('st, 'p) capnp_crate \<Rightarrow> byte list list \<Rightarrow> rpc_error + 'p message_view" where
  "wire_root cp segments =
     bind_result (map_err rpc_error_from_capnp (cp_root cp segments)) (\<lambda>root.
     bind_result (message_which cp root) (\<lambda>w. Inr (case w of
         MBootstrap b \<Rightarrow> VBootstrap (bind_result b (\<lambda>b. Inr (bootstrap_question_id cp b)))
       | MCall c \<Rightarrow> VCall (bind_result c (\<lambda>c. Inr (wire_call_view cp c)))
       | MReturn r \<Rightarrow> VReturn (bind_result r (\<lambda>r. Inr (wire_return_view cp r)))
       | MFinish f \<Rightarrow> VFinish (bind_result f (\<lambda>f. Inr (finish_question_id cp f)))
       | MRelease _ \<Rightarrow> VRelease
       | MAbort e \<Rightarrow> VAbort (bind_result e (wire_abort cp))
       | _ \<Rightarrow> VOther)))"

definition wire_codec :: "('st, 'p) capnp_crate \<Rightarrow> 'p rpc_codec" where
  "wire_codec cp = \<lparr>serialize = (\<lambda>m. cp_words cp (wire_message cp m)), get_root = wire_root cp\<rparr>"

section \<open>What is built is read back\<close>

text \<open>How each message the library builds is seen by its reader.\<close>

fun view_of :: "('st, 'p) capnp_crate \<Rightarrow> 'p outgoing \<Rightarrow> 'p message_view" where
  "view_of cp (OBootstrap question) = VBootstrap (Inr question)"
| "view_of cp (OCall question import_id interface_id method_id content) =
     VCall (Inr \<lparr>call_question = question, call_interface = interface_id, call_method = method_id,
                 call_params = Inr content\<rparr>)"
| "view_of cp (OFinish question release_caps) = VFinish (Inr question)"
| "view_of cp (ORelease ident count) = VRelease"
| "view_of cp (OException question reason) =
     VReturn (Inr \<lparr>answer_id = question, return_which = Inr (Exception (Inr reason))\<rparr>)"
| "view_of cp (OBootstrapReturn question) =
     VReturn (Inr \<lparr>answer_id = question, return_which = Inr (Results (Inr
       \<lparr>payload_content = cp_capability cp 0, cap_table = Inr [Inr SenderHosted]\<rparr>))\<rparr>)"
| "view_of cp (OResults question content) =
     VReturn (Inr \<lparr>answer_id = question, return_which = Inr (Results (Inr
       \<lparr>payload_content = content, cap_table = Inr []\<rparr>))\<rparr>)"

text \<open>The only text in a message is the reason of an exception.\<close>

fun valid_texts :: "'p outgoing \<Rightarrow> bool" where
  "valid_texts (OException question reason) \<longleftrightarrow> is_text reason"
| "valid_texts m \<longleftrightarrow> True"

lemmas wire_builders = bootstrap_message_def payload_with_def call_message_def finish_message_def
  release_message_def exception_message_def results_message_def bootstrap_return_message_def

lemmas wire_views = wire_root_def wire_payload_view_def wire_return_view_def wire_call_view_def cap_view_def

context capnp_layout
begin

lemma wire_root_message:
  assumes "cp_root cp segs = Inr (wire_message cp m)"
    and "valid_texts m"
  shows "wire_root cp segs = Inr (view_of cp m)"
  using assms
  by (cases m) (simp_all add: wire_views wire_builders accessors Let_def)

end

context live_reader
begin

text \<open>A message of the library on a stream, read and decoded.\<close>

lemma read_wire_message:
  assumes "capnp_layout cp" and "good s" and "rest s = serialize (wire_codec cp) m @ after"
    and "message_fits cp (wire_message cp m)"
    and "valid_texts m"
  shows "\<exists>segs s'. read_message rd s = Some (Inr segs, s') \<and> rest s' = after \<and> good s' \<and>
    get_root (wire_codec cp) segs = Inr (view_of cp m)"
proof -
  from assms(3) have "rest s = cp_words cp (wire_message cp m) @ after" by (simp add: wire_codec_def)
  from read_fitting_message [OF assms(2) this assms(4)] obtain segs s' where
    read: "read_message rd s = Some (Inr segs, s')" "rest s' = after" "good s'"
    and root: "cp_root cp segs = Inr (wire_message cp m)" by blast
  from capnp_layout.wire_root_message [OF assms(1) root assms(5)] read show ?thesis
    by (auto simp: wire_codec_def)
qed

end

text \<open>C8. Every message that the RPC client or the connector's RPC server builds is understood
  by the reader of the other side: whatever pieces the stream delivers its bytes in and whatever
  follows them, the message read from it has the kind, the ids, the payload and the reason it was
  built with, and the reader stops exactly at its end.\<close>

theorem rpc_message_read_back:
  assumes "live_reader rd rest good" and "capnp_layout cp" and "good s"
    and "rest s = serialize (wire_codec cp) m @ after"
    and "message_fits cp (wire_message cp m)"
    and "valid_texts m"
  shows "\<exists>segs s'. read_message rd s = Some (Inr segs, s') \<and> rest s' = after \<and> good s' \<and>
    get_root (wire_codec cp) segs = Inr (view_of cp m)"
  using live_reader.read_wire_message [OF assms] .

text \<open>A call of method 1 with question 7, and the same on a stream.\<close>

lemma tree_wire_message: "wire_message (tree_capnp demos) m = wire_message (tree_capnp demos') m"
  by (cases m) (simp_all only: wire_message.simps wire_builders accessors
      tree_accessors [of demos demos'] Let_def)

definition demo_call :: "capnp_pointer outgoing" where
  "demo_call = OCall 7 0 REGISTRATION_SERVER_INTERFACE_ID 1 (StructPointer (CapnpStruct 0 0 []))"

definition demo_call_capnp :: "(capnp_struct, capnp_pointer) capnp_crate" where
  "demo_call_capnp = tree_capnp [wire_message (tree_capnp []) demo_call]"

lemma demo_call_message:
  "wire_message demo_call_capnp demo_call = wire_message (tree_capnp []) demo_call"
  unfolding demo_call_capnp_def by (rule tree_wire_message)

theorem rpc_message_read_back_witness:
  "\<exists>segs s'. read_message whole_reader (frame [segment_of 0] @ [9]) = Some (Inr segs, s') \<and>
     id s' = [9] \<and> True \<and> get_root (wire_codec demo_call_capnp) segs = Inr (view_of demo_call_capnp demo_call)"
proof (rule rpc_message_read_back [where rest = id and good = "\<lambda>_. True"])
  show "live_reader whole_reader id (\<lambda>_. True)" by (rule live_whole_reader)
  show "capnp_layout demo_call_capnp" by (simp add: demo_call_capnp_def tree_capnp_layout)
  show "message_fits demo_call_capnp (wire_message demo_call_capnp demo_call)"
    unfolding demo_call_message by (simp add: demo_call_capnp_def tree_capnp_fits)
  show "id (frame [segment_of 0] @ [9]) = serialize (wire_codec demo_call_capnp) demo_call @ [9]"
    unfolding wire_codec_def rpc_codec.select_convs demo_call_message
    by (simp add: demo_call_capnp_def tree_words)
qed (simp_all add: demo_call_def)

end
