(* ===== verification/Registration_Codec.thy ===== *)
theory Registration_Codec
  imports Rpc_Codec
begin

text \<open>
  The payloads of the registration interface, the closures of \<open>rpc/src/tunnel.rs\<close>: how the
  parameters of its three calls are built and how the result of a registration is read, with the
  generated accessors. The edge's side, which reads the parameters and builds the result with the
  same accessors, is what the theorems compare them with.
\<close>

section \<open>Parameters\<close>

definition client_struct :: "('st, 'p) capnp_crate \<Rightarrow> client_information \<Rightarrow> 'st" where
  "client_struct cp info =
     (let c = client_set_client_id cp (client_identifier info) (new_client_info cp);
          c = client_init_features cp (features info) c;
          c = client_set_version cp (version info) c in
      client_set_arch cp (arch info) c)"

definition options_struct :: "('st, 'p) capnp_crate \<Rightarrow> connection_options \<Rightarrow> 'st" where
  "options_struct cp options =
     (let o1 = options_init_client cp (client_struct cp (client options)) (new_connection_options cp);
          o2 = options_set_origin_local_ip cp (origin_local_ip options) o1;
          o3 = options_set_replace_existing cp (replace_existing options) o2;
          o4 = options_set_compression_quality cp (compression_quality options) o3 in
      options_set_num_previous_attempts cp (number_previous_attempts options) o4)"

definition auth_struct :: "('st, 'p) capnp_crate \<Rightarrow> tunnel_auth \<Rightarrow> 'st" where
  "auth_struct cp auth =
     auth_set_tunnel_secret cp (auth_tunnel_secret auth)
       (auth_set_account_tag cp (auth_account_tag auth) (new_tunnel_auth cp))"

definition register_params_struct ::
  "('st, 'p) capnp_crate \<Rightarrow> tunnel_auth \<Rightarrow> byte list \<Rightarrow> u8 \<Rightarrow> connection_options \<Rightarrow> 'st" where
  "register_params_struct cp auth ident connection_index options =
     (let parameters = params_init_auth cp (auth_struct cp auth) (new_register_params cp);
          parameters = params_set_tunnel_id cp ident parameters;
          parameters = params_set_conn_index cp connection_index parameters in
      params_init_options cp (options_struct cp options) parameters)"

definition local_configuration_struct :: "('st, 'p) capnp_crate \<Rightarrow> byte list \<Rightarrow> 'st" where
  "local_configuration_struct cp configuration =
     local_configuration_set_config cp configuration (new_local_configuration_params cp)"

section \<open>The result of a registration\<close>

definition decode_connection_error :: "('st, 'p) capnp_crate \<Rightarrow> 'st \<Rightarrow> rpc_error + connection_error" where
  "decode_connection_error cp e =
     bind_result (error_cause cp e) (\<lambda>reason. Inr
       \<lparr>cause = reason, retry_after = error_retry_after cp e, should_retry = error_should_retry cp e\<rparr>)"

definition decode_connection_details ::
  "('st, 'p) capnp_crate \<Rightarrow> 'st \<Rightarrow> rpc_error + connection_details" where
  "decode_connection_details cp d =
     bind_result (details_uuid cp d) (\<lambda>ident.
     bind_result (details_location_name cp d) (\<lambda>location. Inr
       \<lparr>uuid = ident, location_name = location, tunnel_is_remotely_managed = details_managed cp d\<rparr>))"

definition decode_register_results ::
  "('st, 'p) capnp_crate \<Rightarrow> 'p payload_view \<Rightarrow> rpc_error + connection_response" where
  "decode_register_results cp results =
     bind_result (map_err rpc_error_from_capnp (cp_get_struct cp (payload_content results))) (\<lambda>reader.
     bind_result (results_result cp reader) (\<lambda>response.
     bind_result (result_which_of cp response) (\<lambda>w. case w of
         WhichError e \<Rightarrow>
           bind_result e (\<lambda>e. bind_result (decode_connection_error cp e) (\<lambda>e. Inr (ResponseError e)))
       | WhichConnectionDetails d \<Rightarrow>
           bind_result d (\<lambda>d. bind_result (decode_connection_details cp d) (\<lambda>d. Inr (ResponseDetails d))))))"

definition wire_registration_codec :: "('st, 'p) capnp_crate \<Rightarrow> 'p registration_codec" where
  "wire_registration_codec cp =
     \<lparr>serialize = serialize (wire_codec cp), get_root = get_root (wire_codec cp),
      register_connection_params = (\<lambda>auth ident connection_index options.
        cp_struct_pointer cp (register_params_struct cp auth ident connection_index options)),
      unregister_connection_params = cp_struct_pointer cp (new_unregister_params cp),
      update_local_configuration_params = (\<lambda>configuration.
        cp_struct_pointer cp (local_configuration_struct cp configuration)),
      register_connection_results = decode_register_results cp\<rparr>"

lemma rpc_part_wire_registration_codec [simp]: "rpc_part (wire_registration_codec cp) = wire_codec cp"
  by (simp add: wire_registration_codec_def rpc_codec.truncate_def)

section \<open>The edge's side\<close>

fun read_texts :: "byte list list \<Rightarrow> string list option" where
  "read_texts [] = Some []"
| "read_texts (bytes # rest) =
     (case (from_utf8 bytes, read_texts rest) of
        (Some s, Some ss) \<Rightarrow> Some (s # ss)
      | _ \<Rightarrow> None)"

lemma read_texts_as_bytes: "\<forall>s \<in> set ss. is_text s \<Longrightarrow> read_texts (map as_bytes ss) = Some ss"
  by (induction ss) simp_all

definition edge_read_client :: "('st, 'p) capnp_crate \<Rightarrow> 'st \<Rightarrow> rpc_error + client_information" where
  "edge_read_client cp c =
     bind_result (client_client_id cp c) (\<lambda>ident.
     bind_result (client_features cp c) (\<lambda>texts.
     bind_result (client_version cp c) (\<lambda>ver.
     bind_result (client_arch cp c) (\<lambda>architecture.
       case read_texts texts of
         None \<Rightarrow> Inl (rpc_error_from_utf8 [])
       | Some feats \<Rightarrow> Inr \<lparr>client_identifier = ident, features = feats, version = ver, arch = architecture\<rparr>))))"

definition edge_read_options :: "('st, 'p) capnp_crate \<Rightarrow> 'st \<Rightarrow> rpc_error + connection_options" where
  "edge_read_options cp opts =
     bind_result (options_client cp opts) (\<lambda>c.
     bind_result (edge_read_client cp c) (\<lambda>info.
     bind_result (options_origin_local_ip cp opts) (\<lambda>address. Inr
       \<lparr>client = info, origin_local_ip = address, replace_existing = options_replace_existing cp opts,
        compression_quality = options_compression_quality cp opts,
        number_previous_attempts = options_num_previous_attempts cp opts\<rparr>)))"

definition edge_read_auth :: "('st, 'p) capnp_crate \<Rightarrow> 'st \<Rightarrow> rpc_error + tunnel_auth" where
  "edge_read_auth cp a =
     bind_result (auth_get_account_tag cp a) (\<lambda>tag.
     bind_result (auth_get_tunnel_secret cp a) (\<lambda>secret. Inr
       \<lparr>auth_account_tag = tag, auth_tunnel_secret = secret\<rparr>))"

definition edge_read_registration ::
  "('st, 'p) capnp_crate \<Rightarrow> 'p \<Rightarrow> rpc_error + tunnel_auth \<times> byte list \<times> u8 \<times> connection_options" where
  "edge_read_registration cp content =
     bind_result (map_err rpc_error_from_capnp (cp_get_struct cp content)) (\<lambda>parameters.
     bind_result (params_auth cp parameters) (\<lambda>a.
     bind_result (edge_read_auth cp a) (\<lambda>auth.
     bind_result (params_tunnel_id cp parameters) (\<lambda>ident.
     bind_result (params_options cp parameters) (\<lambda>opts.
     bind_result (edge_read_options cp opts) (\<lambda>options.
       Inr (auth, ident, params_conn_index cp parameters, options)))))))"

fun edge_response :: "('st, 'p) capnp_crate \<Rightarrow> connection_response \<Rightarrow> 'st" where
  "edge_response cp (ResponseError e) =
     results_init_result cp
       (result_init_error cp
         (error_set_should_retry cp (should_retry e)
           (error_set_retry_after cp (retry_after e)
             (error_set_cause cp (cause e) (new_connection_error cp))))
         (new_connection_response cp))
       (new_register_results cp)"
| "edge_response cp (ResponseDetails d) =
     results_init_result cp
       (result_init_connection_details cp
         (details_set_managed cp (tunnel_is_remotely_managed d)
           (details_set_location_name cp (location_name d)
             (details_set_uuid cp (uuid d) (new_connection_details cp))))
         (new_connection_response cp))
       (new_register_results cp)"

fun response_texts :: "connection_response \<Rightarrow> string list" where
  "response_texts (ResponseError e) = [cause e]"
| "response_texts (ResponseDetails d) = [location_name d]"

definition registration_texts :: "tunnel_auth \<Rightarrow> connection_options \<Rightarrow> string list" where
  "registration_texts auth options =
     auth_account_tag auth # version (client options) # arch (client options) # features (client options)"

context capnp_layout
begin

lemma edge_read_client_struct:
  assumes "is_text (version info)" "is_text (arch info)" "\<forall>s \<in> set (features info). is_text s"
  shows "edge_read_client cp (client_struct cp info) = Inr info"
  using assms
  by (simp add: edge_read_client_def client_struct_def accessors read_texts_as_bytes)

lemma edge_read_options_struct:
  assumes "is_text (version (client opts))" "is_text (arch (client opts))"
    "\<forall>s \<in> set (features (client opts)). is_text s"
  shows "edge_read_options cp (options_struct cp opts) = Inr opts"
  using assms
  by (simp add: edge_read_options_def options_struct_def accessors edge_read_client_struct)

lemma edge_read_auth_struct:
  "is_text (auth_account_tag auth) \<Longrightarrow> edge_read_auth cp (auth_struct cp auth) = Inr auth"
  by (simp add: edge_read_auth_def auth_struct_def accessors)

lemma edge_read_registration_params:
  assumes "\<forall>s \<in> set (registration_texts auth options). is_text s"
  shows "edge_read_registration cp
           (register_connection_params (wire_registration_codec cp) auth ident connection_index options)
         = Inr (auth, ident, connection_index, options)"
  using assms
  by (simp add: edge_read_registration_def wire_registration_codec_def register_params_struct_def
      accessors edge_read_auth_struct edge_read_options_struct registration_texts_def)

lemma decode_edge_response:
  assumes "\<forall>s \<in> set (response_texts r). is_text s"
  shows "decode_register_results cp
           \<lparr>payload_content = cp_struct_pointer cp (edge_response cp r), cap_table = caps\<rparr> = Inr r"
proof (cases r)
  case (ResponseError e)
  with assms show ?thesis
    by (simp add: decode_register_results_def decode_connection_error_def accessors)
next
  case (ResponseDetails d)
  with assms show ?thesis
    by (simp add: decode_register_results_def decode_connection_details_def accessors)
qed

end

section \<open>A registration on the wire\<close>

lemma frame_of_message: "serialize (wire_codec cp) m = cp_words cp (wire_message cp m)"
  by (simp add: wire_codec_def)

text \<open>The edge's answer to question \<open>question\<close>.\<close>

definition edge_answer :: "('st, 'p) capnp_crate \<Rightarrow> u32 \<Rightarrow> connection_response \<Rightarrow> 'p outgoing" where
  "edge_answer cp question r = OResults question (cp_struct_pointer cp (edge_response cp r))"

text \<open>C5. The call with which the client registers is what the edge reads from the stream: a call
  of method 0 of the registration interface with the question's id, whose parameters are the
  credentials, the tunnel's id, the connection's index and the options, with every feature in
  order and both flags and counters, for every value of them. The texts are valid Rust strings.\<close>

theorem registration_call_understood:
  assumes "live_reader rd rest good" and "capnp_layout cp" and "good s"
    and "rest s = build_call (rpc_part (wire_registration_codec cp)) question 0 REGISTRATION_SERVER_INTERFACE_ID
        METHOD_REGISTER_CONNECTION (register_connection_params (wire_registration_codec cp) auth ident
          connection_index options) @ after"
    and "message_fits cp (wire_message cp (OCall question 0 REGISTRATION_SERVER_INTERFACE_ID
        METHOD_REGISTER_CONNECTION (register_connection_params (wire_registration_codec cp) auth ident
          connection_index options)))"
    and "\<forall>t \<in> set (registration_texts auth options). is_text t"
  shows "\<exists>segs s' call. read_message rd s = Some (Inr segs, s') \<and> rest s' = after \<and>
    get_root (rpc_part (wire_registration_codec cp)) segs = Inr (VCall (Inr call)) \<and> call_question call = question \<and>
    call_interface call = REGISTRATION_SERVER_INTERFACE_ID \<and> call_method call = METHOD_REGISTER_CONNECTION \<and>
    bind_result (call_params call) (edge_read_registration cp)
      = Inr (auth, ident, connection_index, options)"
proof -
  from live_reader.read_wire_message [OF assms(1-3) _ assms(5)] assms(4) obtain segs s' where
    "read_message rd s = Some (Inr segs, s')" "rest s' = after"
    "get_root (wire_codec cp) segs = Inr (view_of cp (OCall question 0 REGISTRATION_SERVER_INTERFACE_ID
        METHOD_REGISTER_CONNECTION (register_connection_params (wire_registration_codec cp) auth ident
          connection_index options)))"
    by (auto simp: build_call_def)
  with capnp_layout.edge_read_registration_params [OF assms(2,6)] show ?thesis
    by auto
qed

text \<open>A registration with a feature, and one that is rejected.\<close>

definition demo_auth :: tunnel_auth where
  "demo_auth = \<lparr>auth_account_tag = ''a'', auth_tunnel_secret = [1, 2]\<rparr>"

definition demo_connection_options :: connection_options where
  "demo_connection_options =
     \<lparr>client = \<lparr>client_identifier = [3], features = [''f'', ''g''], version = ''1'', arch = ''x''\<rparr>,
      origin_local_ip = [127, 0, 0, 1], replace_existing = True, compression_quality = 7,
      number_previous_attempts = 255\<rparr>"

definition demo_register_call :: "(capnp_struct, capnp_pointer) capnp_crate \<Rightarrow> capnp_pointer outgoing" where
  "demo_register_call cp = OCall 7 0 REGISTRATION_SERVER_INTERFACE_ID METHOD_REGISTER_CONNECTION
     (register_connection_params (wire_registration_codec cp) demo_auth [4] 9 demo_connection_options)"

definition demo_register_capnp :: "(capnp_struct, capnp_pointer) capnp_crate" where
  "demo_register_capnp = tree_capnp [wire_message (tree_capnp []) (demo_register_call (tree_capnp []))]"

lemma tree_register_call: "demo_register_call (tree_capnp demos) = demo_register_call (tree_capnp demos')"
  by (simp only: demo_register_call_def wire_registration_codec_def registration_codec.select_convs
      register_params_struct_def options_struct_def client_struct_def auth_struct_def accessors
      tree_accessors [of demos demos'] Let_def)

lemma demo_register_message:
  "wire_message demo_register_capnp (demo_register_call demo_register_capnp)
     = wire_message (tree_capnp []) (demo_register_call (tree_capnp []))"
  unfolding demo_register_capnp_def
  by (rule trans [OF tree_wire_message arg_cong [OF tree_register_call]])

theorem registration_call_understood_witness:
  "\<exists>segs s' call. read_message whole_reader (frame [segment_of 0] @ [9]) = Some (Inr segs, s') \<and> id s' = [9] \<and>
    get_root (rpc_part (wire_registration_codec demo_register_capnp)) segs = Inr (VCall (Inr call)) \<and>
    call_question call = 7 \<and> call_interface call = REGISTRATION_SERVER_INTERFACE_ID \<and>
    call_method call = METHOD_REGISTER_CONNECTION \<and>
    bind_result (call_params call) (edge_read_registration demo_register_capnp)
      = Inr (demo_auth, [4], 9, demo_connection_options)"
proof (rule registration_call_understood [where good = "\<lambda>_. True"])
  show "live_reader whole_reader id (\<lambda>_. True)" by (rule live_whole_reader)
  show "capnp_layout demo_register_capnp" by (simp add: demo_register_capnp_def tree_capnp_layout)
  show "message_fits demo_register_capnp (wire_message demo_register_capnp
      (OCall 7 0 REGISTRATION_SERVER_INTERFACE_ID METHOD_REGISTER_CONNECTION
        (register_connection_params (wire_registration_codec demo_register_capnp) demo_auth [4] 9 demo_connection_options)))"
    unfolding demo_register_call_def [symmetric] demo_register_message
    by (simp add: demo_register_capnp_def tree_capnp_fits)
  show "id (frame [segment_of 0] @ [9]) = build_call (rpc_part (wire_registration_codec demo_register_capnp)) 7 0
      REGISTRATION_SERVER_INTERFACE_ID METHOD_REGISTER_CONNECTION
      (register_connection_params (wire_registration_codec demo_register_capnp) demo_auth [4] 9 demo_connection_options) @ [9]"
    unfolding build_call_def demo_register_call_def [symmetric] rpc_part_wire_registration_codec
      frame_of_message demo_register_message
    by (simp add: demo_register_capnp_def tree_words)
  show "\<forall>t \<in> set (registration_texts demo_auth demo_connection_options). is_text t"
    by (simp add: registration_texts_def demo_auth_def demo_connection_options_def is_text_def utf8_step_ascii utf8_width_def)
qed simp

text \<open>C6. The edge's answer reaches the caller: a client that waits for the answer to its question
  reads the edge's framed return and decodes it to the very rejection (cause, delay, whether to
  retry) or connection (id, location, remotely managed or not) the edge sent. It never takes one
  for the other and never fails.\<close>

theorem registration_answer_decoded:
  assumes "live_reader rd rest good" and "capnp_layout cp" and "good s"
    and "rest s = serialize (rpc_part (wire_registration_codec cp)) (edge_answer cp question r) @ after"
    and "message_fits cp (wire_message cp (edge_answer cp question r))"
    and "\<forall>t \<in> set (response_texts r). is_text t"
  shows "\<exists>s'. bind_io (read_message rd) (\<lambda>segments.
      lift_io (decode_call (rpc_part (wire_registration_codec cp)) segments question (register_connection_results (wire_registration_codec cp)))) s
    = Some (Inr (Value r), s') \<and> rest s' = after"
proof -
  from live_reader.read_wire_message [OF assms(1-3) _ assms(5)] assms(4) obtain segs s' where
    "read_message rd s = Some (Inr segs, s')" "rest s' = after"
    "get_root (wire_codec cp) segs = Inr (view_of cp (edge_answer cp question r))"
    by (auto simp: edge_answer_def)
  with capnp_layout.decode_edge_response [OF assms(2,6)] show ?thesis
    by (auto simp: edge_answer_def decode_call_def expect_return_def wire_registration_codec_def
        bind_io_def lift_io_def rpc_codec.defs)
qed

definition demo_rejection :: connection_response where
  "demo_rejection = ResponseError \<lparr>cause = ''no'', retry_after = -1, should_retry = True\<rparr>"

definition demo_rejection_capnp :: "(capnp_struct, capnp_pointer) capnp_crate" where
  "demo_rejection_capnp =
     tree_capnp [wire_message (tree_capnp []) (edge_answer (tree_capnp []) 7 demo_rejection)]"

lemma tree_edge_answer: "edge_answer (tree_capnp demos) question r = edge_answer (tree_capnp demos') question r"
  by (cases r) (simp_all only: edge_answer_def edge_response.simps accessors tree_accessors [of demos demos'])

lemma demo_rejection_message:
  "wire_message demo_rejection_capnp (edge_answer demo_rejection_capnp 7 demo_rejection)
     = wire_message (tree_capnp []) (edge_answer (tree_capnp []) 7 demo_rejection)"
  unfolding demo_rejection_capnp_def
  by (rule trans [OF tree_wire_message arg_cong [OF tree_edge_answer]])

theorem registration_answer_decoded_witness:
  "\<exists>s'. bind_io (read_message whole_reader) (\<lambda>segments.
      lift_io (decode_call (rpc_part (wire_registration_codec demo_rejection_capnp)) segments 7
        (register_connection_results (wire_registration_codec demo_rejection_capnp)))) (frame [segment_of 0] @ [9])
    = Some (Inr (Value demo_rejection), s') \<and> id s' = [9]"
proof (rule registration_answer_decoded [where good = "\<lambda>_. True"])
  show "live_reader whole_reader id (\<lambda>_. True)" by (rule live_whole_reader)
  show "capnp_layout demo_rejection_capnp" by (simp add: demo_rejection_capnp_def tree_capnp_layout)
  show "message_fits demo_rejection_capnp
      (wire_message demo_rejection_capnp (edge_answer demo_rejection_capnp 7 demo_rejection))"
    unfolding demo_rejection_message by (simp add: demo_rejection_capnp_def tree_capnp_fits)
  show "id (frame [segment_of 0] @ [9]) = serialize (rpc_part (wire_registration_codec demo_rejection_capnp))
      (edge_answer demo_rejection_capnp 7 demo_rejection) @ [9]"
    unfolding rpc_part_wire_registration_codec frame_of_message demo_rejection_message
    by (simp add: demo_rejection_capnp_def tree_words)
  show "\<forall>t \<in> set (response_texts demo_rejection). is_text t"
    by (simp add: demo_rejection_def is_text_def utf8_step_ascii utf8_width_def)
qed simp

end
