(* ===== verification/Registration.thy ===== *)
theory Registration
  imports Registration_Codec
begin

text \<open>
  A registration from end to end: the control stream of \<open>src/edge/control.rs\<close> over the RPC client
  with the codec of the generated code, against an edge that answers. \<open>register\<close> opens the control
  stream of a QUIC connection first.
\<close>

section \<open>Registration over QUIC\<close>

text \<open>\<open>opened\<close> is what \<open>open_control_stream\<close> of the backend gives; there is no client without a
  stream.\<close>

definition register ::
  "'p registration_codec \<Rightarrow> tunnel_codecs \<Rightarrow> process_info \<Rightarrow> 's reader \<Rightarrow> 's writer \<Rightarrow> error + 's
     \<Rightarrow> tunnel \<Rightarrow> registration_options \<Rightarrow> byte list
     \<Rightarrow> ((error + connection_details) \<times> 's rpc_client option) option" where
  "register codec codecs process rd wr opened t options configuration_json =
     (case opened of
        Inl e \<Rightarrow> Some (Inl e, None)
      | Inr s \<Rightarrow> map_option (\<lambda>(r, c). (r, Some c))
          (register_on_stream codec codecs process rd wr t options configuration_json s))"

section \<open>The edge\<close>

text \<open>What an edge that answers every question writes on the control stream when its decision is
  \<open>r\<close>: the connector pushes its configuration only to a tunnel that is not managed remotely.\<close>

definition pushes_configuration :: "connection_response \<Rightarrow> bool" where
  "pushes_configuration r =
     (case r of ResponseDetails d \<Rightarrow> \<not> tunnel_is_remotely_managed d | ResponseError e \<Rightarrow> False)"

definition edge_messages :: "('st, 'p) capnp_crate \<Rightarrow> connection_response \<Rightarrow> 'p \<Rightarrow> 'p outgoing list" where
  "edge_messages cp r content =
     [OBootstrapReturn 0, edge_answer cp 1 r]
     @ (if pushes_configuration r then [OResults 2 content] else [])"

definition edge_bytes :: "('st, 'p) capnp_crate \<Rightarrow> 'p outgoing list \<Rightarrow> byte list" where
  "edge_bytes cp ms = concat (map (serialize (wire_codec cp)) ms)"

definition writes_succeed :: "'s writer \<Rightarrow> ('s \<Rightarrow> bool) \<Rightarrow> bool" where
  "writes_succeed wr good \<longleftrightarrow> (\<forall>bytes s. good s \<longrightarrow> (\<exists>s'. write_raw wr bytes s = Some (Inr (), s')))"

section \<open>Calls that are answered\<close>

context byte_stream
begin

lemma write_completes:
  assumes "writes_succeed wr good" and "good s"
  shows "\<exists>s'. write_raw wr bytes s = Some (Inr (), s') \<and> good s' \<and> rest s' = rest s \<and>
    written s' = written s @ bytes"
  using assms write_raw_ok [OF assms(2)] unfolding writes_succeed_def by blast

lemma read_answer:
  assumes "capnp_layout cp" and "good s" and "rest s = serialize (wire_codec cp) m @ after"
    and "message_fits cp (wire_message cp m)"
    and "valid_texts m"
  shows "\<exists>segs s'. read_message rd s = Some (Inr segs, s') \<and> good s' \<and> rest s' = after \<and>
    written s' = written s \<and> get_root (wire_codec cp) segs = Inr (view_of cp m)"
  using read_wire_message [OF assms] read_message_written [OF assms(2)] by blast

text \<open>The exchange that \<open>bootstrap\<close> and \<open>rpc_call\<close> have in common: ask, wait, finish.\<close>

lemma exchange_completes:
  assumes "writes_succeed wr good" "capnp_layout cp" "good s"
    and "rest s = serialize (wire_codec cp) m @ after" "message_fits cp (wire_message cp m)"
    and "valid_texts m"
  shows "\<exists>s1 segs s2 s3. write_raw wr ask s = Some (Inr (), s1) \<and>
    read_message rd s1 = Some (Inr segs, s2) \<and> get_root (wire_codec cp) segs = Inr (view_of cp m) \<and>
    write_raw wr done_bytes s2 = Some (Inr (), s3) \<and> good s3 \<and> rest s3 = after \<and>
    written s3 = written s @ ask @ done_bytes"
proof -
  from write_completes [OF assms(1,3)] obtain s1 where
    w: "write_raw wr ask s = Some (Inr (), s1)" "good s1" "rest s1 = rest s" "written s1 = written s @ ask"
    by blast
  with read_answer [OF assms(2) w(2) _ assms(5,6)] assms(4) obtain segs s2 where
    r: "read_message rd s1 = Some (Inr segs, s2)" "good s2" "rest s2 = after" "written s2 = written s1"
      "get_root (wire_codec cp) segs = Inr (view_of cp m)" by metis
  from write_completes [OF assms(1) r(2)] obtain s3 where
    "write_raw wr done_bytes s2 = Some (Inr (), s3)" "good s3" "rest s3 = rest s2"
    "written s3 = written s2 @ done_bytes" by blast
  with w r show ?thesis by (intro exI [of _ s1] exI [of _ segs] exI [of _ s2] exI [of _ s3]) simp
qed

lemma bootstrap_completes:
  assumes "writes_succeed wr good" "capnp_layout cp" "good s"
    and "rest s = serialize (wire_codec cp) (OBootstrapReturn q) @ after"
    and "message_fits cp (wire_message cp (OBootstrapReturn q))"
  shows "\<exists>s'. bootstrap (wire_codec cp) rd wr \<lparr>stream = s, next_question = q, has_bootstrap = False\<rparr>
      = Some (Inr 0, \<lparr>stream = s', next_question = q + 1, has_bootstrap = True\<rparr>) \<and>
    good s' \<and> rest s' = after \<and>
    written s' = written s @ serialize (wire_codec cp) (OBootstrap q) @ serialize (wire_codec cp) (OFinish q False)"
proof -
  from exchange_completes [OF assms, of "serialize (wire_codec cp) (OBootstrap q)"
      "serialize (wire_codec cp) (OFinish q False)"] obtain s1 segs s2 s3 where
    "write_raw wr (serialize (wire_codec cp) (OBootstrap q)) s = Some (Inr (), s1)"
    "read_message rd s1 = Some (Inr segs, s2)"
    "get_root (wire_codec cp) segs = Inr (view_of cp (OBootstrapReturn q))"
    "write_raw wr (serialize (wire_codec cp) (OFinish q False)) s2 = Some (Inr (), s3)"
    "good s3" "rest s3 = after"
    "written s3 = written s @ serialize (wire_codec cp) (OBootstrap q) @ serialize (wire_codec cp) (OFinish q False)"
    by (auto simp del: outgoing.inject)
  then show ?thesis
    by (intro exI [of _ s3])
      (simp add: bootstrap_def take_question_def on_stream_def bind_io_def build_bootstrap_def
        decode_bootstrap_def expect_return_def send_finish_def build_finish_def)
qed

lemma rpc_call_completes:
  assumes "writes_succeed wr good" "capnp_layout cp" "good s"
    and "rest s = serialize (wire_codec cp) (OResults q content) @ after"
    and "message_fits cp (wire_message cp (OResults q content))"
    and "decode \<lparr>payload_content = content, cap_table = Inr []\<rparr> = Inr v"
  shows "\<exists>s'. rpc_call (wire_codec cp) rd wr target iface m params decode
        \<lparr>stream = s, next_question = q, has_bootstrap = True\<rparr>
      = Some (Inr v, \<lparr>stream = s', next_question = q + 1, has_bootstrap = True\<rparr>) \<and>
    good s' \<and> rest s' = after \<and>
    written s' = written s @ serialize (wire_codec cp) (OCall q target iface m params)
      @ serialize (wire_codec cp) (OFinish q False)"
proof -
  let ?call = "serialize (wire_codec cp) (OCall q target iface m params)"
  let ?finish = "serialize (wire_codec cp) (OFinish q False)"
  from exchange_completes [OF assms(1-5), of ?call ?finish] obtain s1 segs s2 s3 where
    "write_raw wr ?call s = Some (Inr (), s1)" "read_message rd s1 = Some (Inr segs, s2)"
    "get_root (wire_codec cp) segs = Inr (view_of cp (OResults q content))"
    "write_raw wr ?finish s2 = Some (Inr (), s3)" "good s3" "rest s3 = after"
    "written s3 = written s @ ?call @ ?finish"
    by auto
  with assms(6) show ?thesis
    by (intro exI [of _ s3])
      (simp add: rpc_call_def take_question_def on_stream_def bind_io_def build_call_def
        decode_call_def expect_return_def send_finish_def build_finish_def)
qed

lemma close_completes:
  assumes "writes_succeed wr good" "good s"
  shows "\<exists>s'. close_client codec wr \<lparr>stream = s, next_question = q, has_bootstrap = True\<rparr>
      = Some (Inr (), \<lparr>stream = s', next_question = q, has_bootstrap = False\<rparr>) \<and>
    good s' \<and> rest s' = rest s \<and> written s' = written s @ serialize codec (ORelease 0 1)"
  using write_completes [OF assms, of "serialize codec (ORelease 0 1)"]
  by (auto simp: close_client_def on_stream_def bind_io_def build_release_def)

text \<open>What the client writes when the edge's decision is \<open>r\<close>.\<close>

text \<open>The bootstrap and the registration call, up to the edge's answer.\<close>

lemma registration_call_completes:
  fixes r :: connection_response and cp :: "('st, 'p) capnp_crate"
  defines "codec \<equiv> wire_registration_codec cp"
  assumes live: "writes_succeed wr good" "capnp_layout cp" "good s"
    and edge: "rest s = edge_bytes cp (edge_messages cp r content) @ after"
    and fits: "\<forall>m \<in> set (edge_messages cp r content). message_fits cp (wire_message cp m)"
    and texts: "\<forall>t \<in> set (response_texts r). is_text t"
  obtains s1 s2 where
    "bootstrap (wire_codec cp) rd wr (client_new s)
      = Some (Inr 0, \<lparr>stream = s1, next_question = 1, has_bootstrap = True\<rparr>)"
    "rpc_call (wire_codec cp) rd wr 0 REGISTRATION_SERVER_INTERFACE_ID METHOD_REGISTER_CONNECTION
       (register_connection_params codec
          \<lparr>auth_account_tag = account_tag t, auth_tunnel_secret = tunnel_secret t\<rparr> ident 0
          (build_connection_options process options))
       (register_connection_results codec) \<lparr>stream = s1, next_question = 1, has_bootstrap = True\<rparr>
      = Some (Inr r, \<lparr>stream = s2, next_question = 2, has_bootstrap = True\<rparr>)"
    "good s2" "written s2 = written s @ registration_trace codec process t options ident"
    "rest s2 = edge_bytes cp (if pushes_configuration r then [OResults 2 content] else []) @ after"
proof -
  let ?auth = "\<lparr>auth_account_tag = account_tag t, auth_tunnel_secret = tunnel_secret t\<rparr>"
  let ?params = "register_connection_params codec ?auth ident 0 (build_connection_options process options)"
  let ?more = "edge_bytes cp (if pushes_configuration r then [OResults 2 content] else []) @ after"
  have ser: "serialize codec m = serialize (wire_codec cp) m" for m
    by (simp add: codec_def wire_registration_codec_def)
  have "rest s = serialize (wire_codec cp) (OBootstrapReturn 0)
      @ serialize (wire_codec cp) (edge_answer cp 1 r) @ ?more"
    using edge by (simp add: edge_messages_def edge_bytes_def)
  from bootstrap_completes [OF live this] fits obtain s1 where
    boot: "bootstrap (wire_codec cp) rd wr (client_new s)
        = Some (Inr 0, \<lparr>stream = s1, next_question = 1, has_bootstrap = True\<rparr>)"
    and s1: "good s1" "rest s1 = serialize (wire_codec cp) (edge_answer cp 1 r) @ ?more"
      "written s1 = written s @ serialize codec (OBootstrap 0) @ serialize codec (OFinish 0 False)"
    by (auto simp: client_new_def ser edge_messages_def)
  have decode: "register_connection_results codec
      \<lparr>payload_content = cp_struct_pointer cp (edge_response cp r), cap_table = Inr []\<rparr> = Inr r"
    using capnp_layout.decode_edge_response [OF live(2) texts]
    by (simp add: codec_def wire_registration_codec_def)
  have "message_fits cp (wire_message cp (edge_answer cp 1 r))"
    using fits by (simp add: edge_messages_def)
  from rpc_call_completes [where decode = "register_connection_results codec",
      OF live(1,2) s1(1) s1(2) [unfolded edge_answer_def] this [unfolded edge_answer_def] decode] obtain s2 where
    call: "rpc_call (wire_codec cp) rd wr 0 REGISTRATION_SERVER_INTERFACE_ID METHOD_REGISTER_CONNECTION
        ?params (register_connection_results codec) \<lparr>stream = s1, next_question = 1, has_bootstrap = True\<rparr>
      = Some (Inr r, \<lparr>stream = s2, next_question = 2, has_bootstrap = True\<rparr>)"
    and s2: "good s2" "rest s2 = ?more"
      "written s2 = written s @ registration_trace codec process t options ident"
    by (fastforce simp: registration_trace_def s1(3) ser)
  show thesis by (rule that [OF boot call s2(1,3,2)])
qed

lemma register_on_stream_completes:
  fixes r :: connection_response and cp :: "('st, 'p) capnp_crate"
  defines "codec \<equiv> wire_registration_codec cp"
  assumes live: "writes_succeed wr good" "capnp_layout cp" "good s"
    and edge: "rest s = edge_bytes cp (edge_messages cp r content) @ after"
    and fits: "\<forall>m \<in> set (edge_messages cp r content). message_fits cp (wire_message cp m)"
    and texts: "\<forall>t \<in> set (response_texts r). is_text t"
    and ident: "tunnel_identifier_bytes codecs t = Inr ident"
  shows "\<exists>c. register_on_stream codec codecs process rd wr t options cfg s
      = Some (case r of ResponseDetails d \<Rightarrow> Inr d | ResponseError e \<Rightarrow> Inl (rejection e), c) \<and>
    rest (stream c) = after \<and>
    written (stream c) = written s @ registration_trace codec process t options ident
      @ (case r of
           ResponseError e \<Rightarrow> serialize codec (ORelease 0 1)
         | ResponseDetails d \<Rightarrow> if tunnel_is_remotely_managed d then [] else update_trace codec cfg)"
proof -
  have ser: "serialize codec m = serialize (wire_codec cp) m" for m
    by (simp add: codec_def wire_registration_codec_def)
  from registration_call_completes [OF live edge fits texts, of t ident process options, folded codec_def]
  obtain s1 s2 where boot: "bootstrap (wire_codec cp) rd wr (client_new s)
      = Some (Inr 0, \<lparr>stream = s1, next_question = 1, has_bootstrap = True\<rparr>)"
    and call: "rpc_call (wire_codec cp) rd wr 0 REGISTRATION_SERVER_INTERFACE_ID METHOD_REGISTER_CONNECTION
       (register_connection_params codec
          \<lparr>auth_account_tag = account_tag t, auth_tunnel_secret = tunnel_secret t\<rparr> ident 0
          (build_connection_options process options))
       (register_connection_results codec) \<lparr>stream = s1, next_question = 1, has_bootstrap = True\<rparr>
      = Some (Inr r, \<lparr>stream = s2, next_question = 2, has_bootstrap = True\<rparr>)"
    and s2: "good s2"
      "rest s2 = edge_bytes cp (if pushes_configuration r then [OResults 2 content] else []) @ after"
      "written s2 = written s @ registration_trace codec process t options ident"
    by blast
  show ?thesis
  proof (cases r)
    case (ResponseError e)
    from close_completes [OF live(1) s2(1)] obtain s3 where
      "close_client (wire_codec cp) wr \<lparr>stream = s2, next_question = 2, has_bootstrap = True\<rparr>
        = Some (Inr (), \<lparr>stream = s3, next_question = 2, has_bootstrap = False\<rparr>)"
      "rest s3 = rest s2" "written s3 = written s2 @ serialize (wire_codec cp) (ORelease 0 1)" by blast
    with ResponseError s2 boot call ident show ?thesis
      by (intro exI [of _ "\<lparr>stream = s3, next_question = 2, has_bootstrap = False\<rparr>"])
        (simp add: register_on_stream_def client_bootstrap_def register_connection_def codec_def
          catch_io_def Let_def ser [unfolded codec_def] pushes_configuration_def edge_bytes_def)
  next
    case (ResponseDetails d)
    show ?thesis
    proof (cases "tunnel_is_remotely_managed d")
      case True
      with ResponseDetails s2 boot call ident show ?thesis
        by (intro exI [of _ "\<lparr>stream = s2, next_question = 2, has_bootstrap = True\<rparr>"])
          (simp add: register_on_stream_def client_bootstrap_def register_connection_def codec_def
            Let_def pushes_configuration_def edge_bytes_def)
    next
      case False
      with s2(2) ResponseDetails fits have more: "rest s2 = serialize (wire_codec cp) (OResults 2 content) @ after"
        and fits2: "message_fits cp (wire_message cp (OResults 2 content))"
        by (simp_all add: pushes_configuration_def edge_bytes_def edge_messages_def)
      from rpc_call_completes [OF live(1,2) s2(1) more fits2, of "\<lambda>_. Inr ()" "()"] obtain s3 where
        push: "rpc_call (wire_codec cp) rd wr 0 REGISTRATION_SERVER_INTERFACE_ID
            METHOD_UPDATE_LOCAL_CONFIGURATION (update_local_configuration_params codec cfg) (\<lambda>_. Inr ())
            \<lparr>stream = s2, next_question = 2, has_bootstrap = True\<rparr>
          = Some (Inr (), \<lparr>stream = s3, next_question = 3, has_bootstrap = True\<rparr>)"
        and "rest s3 = after" "written s3 = written s2 @ update_trace codec cfg"
        by (fastforce simp: update_trace_def ser)
      with False ResponseDetails s2 boot call ident show ?thesis
        by (intro exI [of _ "\<lparr>stream = s3, next_question = 3, has_bootstrap = True\<rparr>"])
          (simp add: register_on_stream_def client_bootstrap_def register_connection_def codec_def
            update_local_configuration_def catch_io_def Let_def)
    qed
  qed
qed

end

text \<open>C4. A registration completes. Over any byte stream whose writes succeed, against an edge that
  answers the bootstrap, the registration and the configuration push with the messages of the
  generated code, \<open>register\<close> returns, in whatever pieces the answers arrive: the details the edge
  sent, or the rejection its error stands for. The bytes it has sent are the bootstrap and the
  registration call with their finishes, then the local configuration exactly when the tunnel is
  not managed remotely, or the release of the capability after a rejection; and it has read no
  more than the edge's answers.\<close>

theorem registration_completes:
  assumes "byte_stream rd wr rest written good" and "writes_succeed wr good" and "capnp_layout cp" and "good s"
    and "rest s = edge_bytes cp (edge_messages cp r content) @ after"
    and "\<forall>m \<in> set (edge_messages cp r content). message_fits cp (wire_message cp m)"
    and "\<forall>x \<in> set (response_texts r). is_text x"
    and "tunnel_identifier_bytes codecs t = Inr ident"
  shows "\<exists>c. register (wire_registration_codec cp) codecs process rd wr (Inr s) t options cfg
      = Some (case r of ResponseDetails d \<Rightarrow> Inr d | ResponseError e \<Rightarrow> Inl (rejection e), Some c) \<and>
    rest (stream c) = after \<and>
    written (stream c) = written s
      @ registration_trace (wire_registration_codec cp) process t options ident
      @ (case r of
           ResponseError e \<Rightarrow> serialize (wire_registration_codec cp) (ORelease 0 1)
         | ResponseDetails d \<Rightarrow>
             if tunnel_is_remotely_managed d then [] else update_trace (wire_registration_codec cp) cfg)"
proof -
  from byte_stream.register_on_stream_completes [OF assms] obtain c where
    "register_on_stream (wire_registration_codec cp) codecs process rd wr t options cfg s
      = Some (case r of ResponseDetails d \<Rightarrow> Inr d | ResponseError e \<Rightarrow> Inl (rejection e), c) \<and>
    rest (stream c) = after \<and>
    written (stream c) = written s
      @ registration_trace (wire_registration_codec cp) process t options ident
      @ (case r of
           ResponseError e \<Rightarrow> serialize (wire_registration_codec cp) (ORelease 0 1)
         | ResponseDetails d \<Rightarrow>
             if tunnel_is_remotely_managed d then [] else update_trace (wire_registration_codec cp) cfg)"
    by blast
  then show ?thesis by (intro exI [of _ c]) (simp add: register_def)
qed

text \<open>An edge that accepts a locally managed tunnel, on a stream that keeps what is written.\<close>

definition pair_reader :: "(byte list \<times> byte list) reader" where
  "pair_reader n s = Some (Inr (take n (fst s)), (drop n (fst s), snd s))"

definition pair_writer :: "(byte list \<times> byte list) writer" where
  "pair_writer bytes s = Some (Inr (length bytes), (fst s, snd s @ bytes))"

lemma pair_stream: "byte_stream pair_reader pair_writer fst snd (\<lambda>_. True)"
  by unfold_locales (auto simp: pair_reader_def pair_writer_def)

lemma pair_writes: "writes_succeed pair_writer (\<lambda>_. True)"
  by (auto simp: writes_succeed_def write_raw_def write_all.simps pair_writer_def Let_def)

definition demo_accepted :: connection_response where
  "demo_accepted = ResponseDetails \<lparr>uuid = [5], location_name = ''sfo'', tunnel_is_remotely_managed = False\<rparr>"

definition demo_edge_messages :: "(capnp_struct, capnp_pointer) capnp_crate \<Rightarrow> capnp_pointer outgoing list" where
  "demo_edge_messages cp = edge_messages cp demo_accepted (cp_null cp)"

definition demo_edge_capnp :: "(capnp_struct, capnp_pointer) capnp_crate" where
  "demo_edge_capnp =
     tree_capnp (map (wire_message (tree_capnp [])) (demo_edge_messages (tree_capnp [])))"

lemma demo_edge_fits:
  "\<forall>m \<in> set (edge_messages demo_edge_capnp demo_accepted (cp_null demo_edge_capnp)).
     message_fits demo_edge_capnp (wire_message demo_edge_capnp m)"
proof
  have same: "demo_edge_messages (tree_capnp demos) = demo_edge_messages (tree_capnp demos')" for demos demos'
    by (simp only: demo_edge_messages_def edge_messages_def tree_edge_answer [of demos _ _ demos']
        tree_accessors [of demos demos'])
  fix m
  assume "m \<in> set (edge_messages demo_edge_capnp demo_accepted (cp_null demo_edge_capnp))"
  then have m: "m \<in> set (demo_edge_messages (tree_capnp []))"
    using same unfolding demo_edge_messages_def [symmetric] demo_edge_capnp_def by metis
  have "length (demo_edge_messages (tree_capnp [])) < 256"
    by (simp add: demo_edge_messages_def edge_messages_def)
  then have "message_fits demo_edge_capnp (wire_message (tree_capnp []) m)"
    unfolding demo_edge_capnp_def using m by (intro tree_capnp_fits) simp_all
  moreover have "wire_message demo_edge_capnp m = wire_message (tree_capnp []) m"
    unfolding demo_edge_capnp_def by (rule tree_wire_message)
  ultimately show "message_fits demo_edge_capnp (wire_message demo_edge_capnp m)" by simp
qed

theorem registration_completes_witness:
  "\<exists>c. register (wire_registration_codec demo_edge_capnp) demo_codecs demo_process pair_reader pair_writer
        (Inr (edge_bytes demo_edge_capnp (edge_messages demo_edge_capnp demo_accepted (cp_null demo_edge_capnp)) @ [9], []))
        demo_named default_registration_options [1]
      = Some (Inr \<lparr>uuid = [5], location_name = ''sfo'', tunnel_is_remotely_managed = False\<rparr>, Some c) \<and>
    fst (stream c) = [9]"
proof -
  let ?s = "(edge_bytes demo_edge_capnp (edge_messages demo_edge_capnp demo_accepted (cp_null demo_edge_capnp)) @ [9], [])"
  have "\<forall>x \<in> set (response_texts demo_accepted). is_text x"
    by (simp add: demo_accepted_def is_text_def utf8_step_ascii utf8_width_def)
  moreover have "tunnel_identifier_bytes demo_codecs demo_named = Inr [7]"
    by (simp add: tunnel_identifier_bytes_def parse_tunnel_identifier_def demo_codecs_def demo_named_def)
  moreover have "capnp_layout demo_edge_capnp" by (simp add: demo_edge_capnp_def tree_capnp_layout)
  ultimately show ?thesis
    using registration_completes [OF pair_stream pair_writes _ TrueI _ demo_edge_fits, of ?s "[9]" demo_codecs
        demo_named "[7]" demo_process default_registration_options "[1]"]
    by (auto simp: demo_accepted_def)
qed

end
