(* ===== verification/Server_Codec.thy ===== *)
theory Server_Codec
  imports Rpc_Codec
begin

text \<open>
  The payloads of the connector's RPC server, \<open>rpc/src/cloudflared.rs\<close>: how the parameters of the
  edge's calls are read and how the results are built, with the generated accessors. The edge's
  side builds the parameters and reads the results with the same accessors.
\<close>

section \<open>The server's payloads\<close>

definition read_update_params :: "('st, 'p) capnp_crate \<Rightarrow> 'p \<Rightarrow> rpc_error + i32 \<times> byte list" where
  "read_update_params cp content =
     bind_result (map_err rpc_error_from_capnp (cp_get_struct cp content)) (\<lambda>parameters.
     bind_result (update_config cp parameters) (\<lambda>config. Inr (update_version cp parameters, config)))"

definition read_udp_params ::
  "('st, 'p) capnp_crate \<Rightarrow> 'p \<Rightarrow> rpc_error + byte list \<times> byte list \<times> u16" where
  "read_udp_params cp content =
     bind_result (map_err rpc_error_from_capnp (cp_get_struct cp content)) (\<lambda>parameters.
     bind_result (udp_session_id cp parameters) (\<lambda>session.
     bind_result (udp_dst_ip cp parameters) (\<lambda>destination_ip.
       Inr (session, destination_ip, udp_dst_port cp parameters))))"

definition update_results_struct ::
  "('st, 'p) capnp_crate \<Rightarrow> update_configuration_response \<Rightarrow> 'st" where
  "update_results_struct cp response =
     update_init_result cp
       (response_set_err cp (update_error response)
         (response_set_latest_applied_version cp (latest_applied_version response)
           (new_update_response cp)))
       (new_update_results cp)"

definition udp_results_struct ::
  "('st, 'p) capnp_crate \<Rightarrow> register_udp_session_response \<Rightarrow> 'st" where
  "udp_results_struct cp response =
     udp_init_result cp
       (udp_set_spans cp (udp_spans response)
         (udp_set_err cp (udp_error response) (new_udp_response cp)))
       (new_udp_results cp)"

definition wire_server_codec :: "('st, 'p) capnp_crate \<Rightarrow> 'p server_codec" where
  "wire_server_codec cp =
     \<lparr>serialize = serialize (wire_codec cp), get_root = get_root (wire_codec cp),
      update_configuration_params = read_update_params cp,
      register_udp_session_params = read_udp_params cp,
      update_configuration_results = (\<lambda>response. cp_struct_pointer cp (update_results_struct cp response)),
      register_udp_session_results = (\<lambda>response. cp_struct_pointer cp (udp_results_struct cp response)),
      unregister_udp_session_results = cp_struct_pointer cp (new_unregister_udp_results cp)\<rparr>"

section \<open>The edge's side\<close>

definition edge_update_params :: "('st, 'p) capnp_crate \<Rightarrow> i32 \<Rightarrow> byte list \<Rightarrow> 'p" where
  "edge_update_params cp ver config =
     cp_struct_pointer cp (update_set_config cp config (update_set_version cp ver (new_update_params cp)))"

definition edge_read_update_results ::
  "('st, 'p) capnp_crate \<Rightarrow> 'p payload_view \<Rightarrow> rpc_error + update_configuration_response" where
  "edge_read_update_results cp results =
     bind_result (map_err rpc_error_from_capnp (cp_get_struct cp (payload_content results))) (\<lambda>reader.
     bind_result (update_result cp reader) (\<lambda>response.
     bind_result (response_err cp response) (\<lambda>err. Inr
       \<lparr>latest_applied_version = response_latest_applied_version cp response, update_error = err\<rparr>)))"

definition edge_udp_params :: "('st, 'p) capnp_crate \<Rightarrow> byte list \<Rightarrow> byte list \<Rightarrow> u16 \<Rightarrow> 'p" where
  "edge_udp_params cp session destination_ip destination_port =
     cp_struct_pointer cp
       (udp_set_dst_port cp destination_port
         (udp_set_dst_ip cp destination_ip (udp_set_session_id cp session (new_udp_params cp))))"

definition edge_read_udp_results ::
  "('st, 'p) capnp_crate \<Rightarrow> 'p payload_view \<Rightarrow> rpc_error + register_udp_session_response" where
  "edge_read_udp_results cp results =
     bind_result (map_err rpc_error_from_capnp (cp_get_struct cp (payload_content results))) (\<lambda>reader.
     bind_result (udp_result cp reader) (\<lambda>response.
     bind_result (udp_err cp response) (\<lambda>err.
     bind_result (udp_get_spans cp response) (\<lambda>spans. Inr
       \<lparr>udp_error = err, udp_spans = spans\<rparr>))))"

text \<open>The edge waits for the answer to its question on a stream and decodes its payload.\<close>

definition edge_receives ::
  "('st, 'p) capnp_crate \<Rightarrow> 's reader \<Rightarrow> ('p payload_view \<Rightarrow> rpc_error + 'a) \<Rightarrow> u32
     \<Rightarrow> ('s, rpc_error, 'a call_outcome) io" where
  "edge_receives cp rd decode question =
     bind_io (read_message rd) (\<lambda>segments. lift_io (decode_call (wire_codec cp) segments question decode))"

context capnp_layout
begin

lemma read_edge_udp_params:
  "read_udp_params cp (edge_udp_params cp session destination_ip destination_port)
     = Inr (session, destination_ip, destination_port)"
  by (simp add: read_udp_params_def edge_udp_params_def accessors)

lemma edge_read_udp_results_struct:
  "is_text (udp_error response) \<Longrightarrow>
   edge_read_udp_results cp
     \<lparr>payload_content = cp_struct_pointer cp (udp_results_struct cp response), cap_table = caps\<rparr>
   = Inr response"
  by (simp add: edge_read_udp_results_def udp_results_struct_def accessors)

lemma read_edge_update_params: "read_update_params cp (edge_update_params cp ver config) = Inr (ver, config)"
  by (simp add: read_update_params_def edge_update_params_def accessors)

lemma edge_read_update_results_struct:
  "is_text (update_error response) \<Longrightarrow>
   edge_read_update_results cp
     \<lparr>payload_content = cp_struct_pointer cp (update_results_struct cp response), cap_table = caps\<rparr>
   = Inr response"
  by (simp add: edge_read_update_results_def update_results_struct_def accessors)

lemma wire_update_answer:
  assumes "cp_root cp segs
      = Inr (wire_message cp (OCall question target iface m (edge_update_params cp ver config)))"
    and "classify_method iface m = UpdateConfiguration"
    and "update_configuration handler ver config h = (response, h')"
  shows "reply_to (wire_server_codec cp) handler segs h
    = (Inr (Some (serialize (wire_codec cp)
         (OResults question (cp_struct_pointer cp (update_results_struct cp response))))), h')"
  using assms wire_root_message [OF assms(1)]
  by (simp add: reply_to_def wire_server_codec_def wire_codec_def answer_call_def read_edge_update_params
      build_update_configuration_return_def)

lemma wire_udp_answer:
  assumes "cp_root cp segs
      = Inr (wire_message cp (OCall question target iface m (edge_udp_params cp session ip_bytes port_number)))"
    and "classify_method iface m = RegisterUdpSession"
    and "register_udp_session handler (session_identifier_bytes session) ip_bytes port_number h = (response, h')"
  shows "reply_to (wire_server_codec cp) handler segs h
    = (Inr (Some (serialize (wire_codec cp)
         (OResults question (cp_struct_pointer cp (udp_results_struct cp response))))), h')"
  using assms wire_root_message [OF assms(1)]
  by (simp add: reply_to_def wire_server_codec_def wire_codec_def answer_call_def read_edge_udp_params
      build_register_udp_session_return_def)

lemma wire_unknown_answer:
  assumes "cp_root cp segs = Inr (wire_message cp (OCall question target iface m content))"
    and "classify_method iface m = UnknownMethod"
  shows "reply_to (wire_server_codec cp) handler segs h
    = (Inr (Some (serialize (wire_codec cp) (OException question ''unimplemented''))), h)"
  using assms wire_root_message [OF assms(1)]
  by (simp add: reply_to_def wire_server_codec_def wire_codec_def answer_call_def)

end

context live_reader
begin

lemma edge_receives_results:
  assumes "capnp_layout cp" and "good s"
    and "rest s = serialize (wire_codec cp) (OResults question content) @ after"
    and "message_fits cp (wire_message cp (OResults question content))"
    and "decode \<lparr>payload_content = content, cap_table = Inr []\<rparr> = Inr v"
  shows "\<exists>s'. edge_receives cp rd decode question s = Some (Inr (Value v), s') \<and> rest s' = after"
proof -
  from read_wire_message [OF assms(1-4)] obtain segs s' where
    "read_message rd s = Some (Inr segs, s')" "rest s' = after"
    "get_root (wire_codec cp) segs = Inr (view_of cp (OResults question content))" by auto
  with assms(5) show ?thesis
    by (simp add: edge_receives_def decode_call_def expect_return_def bind_io_def lift_io_def)
qed

end

text \<open>C7. A configuration push over RPC, from the edge and back: the server reads the edge's call
  from the stream, calls the handler once with the version and the very bytes the edge put in it,
  and its reply, read by the edge from whatever stream carries it, is the handler's response to
  that question. It holds for both interfaces under which the method is called.\<close>

theorem configuration_push_answered:
  assumes "live_reader rd rest good" and "capnp_layout cp" and "good s"
    and "rest s = serialize (wire_codec cp)
        (OCall question target iface m (edge_update_params cp ver config)) @ after"
    and "message_fits cp (wire_message cp (OCall question target iface m (edge_update_params cp ver config)))"
    and "(iface, m) \<in> {(CONFIGURATION_MANAGER_INTERFACE_ID, 0), (CLOUDFLARED_SERVER_INTERFACE_ID, 2)}"
    and "update_configuration handler ver config h = (response, h')"
    and "message_fits cp (wire_message cp
        (OResults question (cp_struct_pointer cp (update_results_struct cp response))))"
    and "is_text (update_error response)"
  shows "\<exists>segs s' bytes. read_message rd s = Some (Inr segs, s') \<and> rest s' = after \<and>
    reply_to (wire_server_codec cp) handler segs h = (Inr (Some bytes), h') \<and>
    (\<forall>t more. good t \<and> rest t = bytes @ more \<longrightarrow>
      (\<exists>t'. edge_receives cp rd (edge_read_update_results cp) question t = Some (Inr (Value response), t') \<and>
            rest t' = more))"
proof -
  from assms(4) have "rest s = cp_words cp (wire_message cp
      (OCall question target iface m (edge_update_params cp ver config))) @ after"
    by (simp add: wire_codec_def)
  from live_reader.read_fitting_message [OF assms(1,3) this assms(5)] obtain segs s' where
    read: "read_message rd s = Some (Inr segs, s')" "rest s' = after"
    and root: "cp_root cp segs
        = Inr (wire_message cp (OCall question target iface m (edge_update_params cp ver config)))" by blast
  have "classify_method iface m = UpdateConfiguration"
    using assms(6) interface_ids_distinct by (auto simp: classify_method_def)
  with capnp_layout.wire_update_answer [OF assms(2) root _ assms(7)]
  have reply: "reply_to (wire_server_codec cp) handler segs h = (Inr (Some (serialize (wire_codec cp)
      (OResults question (cp_struct_pointer cp (update_results_struct cp response))))), h')" .
  show ?thesis
    using read reply live_reader.edge_receives_results [where decode = "edge_read_update_results cp",
        OF assms(1,2) _ _ assms(8) capnp_layout.edge_read_update_results_struct [OF assms(2,9)]]
    by blast
qed

text \<open>A push of version 3; the handler records what it is given and applies it.\<close>

definition demo_handler :: "(i32 \<times> byte list) list cloudflared_handler" where
  "demo_handler =
     \<lparr>update_configuration = (\<lambda>ver config h.
        (\<lparr>latest_applied_version = ver, update_error = ''''\<rparr>, (ver, config) # h)),
      register_udp_session = default_register_udp_session,
      unregister_udp_session = default_unregister_udp_session\<rparr>"

definition demo_push :: "(capnp_struct, capnp_pointer) capnp_crate \<Rightarrow> capnp_pointer outgoing" where
  "demo_push cp = OCall 7 0 CONFIGURATION_MANAGER_INTERFACE_ID 0 (edge_update_params cp 3 [1, 2])"

definition demo_push_answer :: "(capnp_struct, capnp_pointer) capnp_crate \<Rightarrow> capnp_pointer outgoing" where
  "demo_push_answer cp = OResults 7
     (cp_struct_pointer cp (update_results_struct cp \<lparr>latest_applied_version = 3, update_error = ''''\<rparr>))"

definition demo_push_capnp :: "(capnp_struct, capnp_pointer) capnp_crate" where
  "demo_push_capnp =
     tree_capnp [wire_message (tree_capnp []) (demo_push (tree_capnp [])),
                 wire_message (tree_capnp []) (demo_push_answer (tree_capnp []))]"

lemma tree_push: "demo_push (tree_capnp demos) = demo_push (tree_capnp demos')"
  by (simp only: demo_push_def edge_update_params_def accessors tree_accessors [of demos demos'])

lemma tree_push_answer: "demo_push_answer (tree_capnp demos) = demo_push_answer (tree_capnp demos')"
  by (simp only: demo_push_answer_def update_results_struct_def accessors tree_accessors [of demos demos'])

lemma demo_push_messages:
  "wire_message demo_push_capnp (demo_push demo_push_capnp)
     = wire_message (tree_capnp []) (demo_push (tree_capnp []))"
  "wire_message demo_push_capnp (demo_push_answer demo_push_capnp)
     = wire_message (tree_capnp []) (demo_push_answer (tree_capnp []))"
  unfolding demo_push_capnp_def
  by (rule trans [OF tree_wire_message arg_cong [OF tree_push]])
     (rule trans [OF tree_wire_message arg_cong [OF tree_push_answer]])

theorem configuration_push_answered_witness:
  "\<exists>segs s' bytes. read_message whole_reader (frame [segment_of 0] @ [9]) = Some (Inr segs, s') \<and> id s' = [9] \<and>
    reply_to (wire_server_codec demo_push_capnp) demo_handler segs [] = (Inr (Some bytes), [(3, [1, 2])]) \<and>
    (\<forall>t more. True \<and> id t = bytes @ more \<longrightarrow>
      (\<exists>t'. edge_receives demo_push_capnp whole_reader (edge_read_update_results demo_push_capnp) 7 t
          = Some (Inr (Value \<lparr>latest_applied_version = 3, update_error = ''''\<rparr>), t') \<and> id t' = more))"
proof (rule configuration_push_answered [where good = "\<lambda>_. True"])
  show "live_reader whole_reader id (\<lambda>_. True)" by (rule live_whole_reader)
  show "capnp_layout demo_push_capnp" by (simp add: demo_push_capnp_def tree_capnp_layout)
  show "id (frame [segment_of 0] @ [9]) = serialize (wire_codec demo_push_capnp)
      (OCall 7 0 CONFIGURATION_MANAGER_INTERFACE_ID 0 (edge_update_params demo_push_capnp 3 [1, 2])) @ [9]"
    unfolding demo_push_def [symmetric] wire_codec_def rpc_codec.select_convs demo_push_messages
    by (simp add: demo_push_capnp_def tree_words)
  show "message_fits demo_push_capnp (wire_message demo_push_capnp
      (OCall 7 0 CONFIGURATION_MANAGER_INTERFACE_ID 0 (edge_update_params demo_push_capnp 3 [1, 2])))"
    unfolding demo_push_def [symmetric] demo_push_messages
    by (simp add: demo_push_capnp_def tree_capnp_fits)
  show "message_fits demo_push_capnp (wire_message demo_push_capnp (OResults 7 (cp_struct_pointer demo_push_capnp
      (update_results_struct demo_push_capnp \<lparr>latest_applied_version = 3, update_error = ''''\<rparr>))))"
    unfolding demo_push_answer_def [symmetric] demo_push_messages
    by (simp add: demo_push_capnp_def tree_capnp_fits)
qed (simp_all add: demo_handler_def is_text_def)

end
