(* ===== verification/Accessors.thy ===== *)
theory Accessors
  imports Capnp
begin

text \<open>
  What every accessor in the generated code does, from three data: which part of the struct it
  touches, whether it belongs to a union, and the size of the struct. The operations are those of
  the \<open>capnp\<close> crate; a table of accessors is well formed when no two of them that can be live at
  the same time share a bit or a pointer.
\<close>

section \<open>Accessors\<close>

text \<open>
  Bits of a width at an index, stored exclusive-or a default; a flag with its default; a pointer;
  nothing (a union member without a value). A member of a union carries the index of the
  union's discriminant, 16 bits wide, and its value.
\<close>

datatype field_kind = Bits nat nat nat | Flag nat bool | Pointer nat | NoField

datatype accessor = Field string field_kind | Member nat nat string field_kind

fun acc_name :: "accessor \<Rightarrow> string" where
  "acc_name (Field n k) = n"
| "acc_name (Member i d n k) = n"

fun acc_kind :: "accessor \<Rightarrow> field_kind" where
  "acc_kind (Field n k) = k"
| "acc_kind (Member i d n k) = k"

text \<open>A struct: its sections in words and pointers, what its reader and its builder access.\<close>

datatype gen_struct = GenStruct string nat nat "accessor list" "accessor list"

datatype 'p field_value = BitsValue nat | FlagValue bool | PointerValue 'p | NoValue

text \<open>\<open>get_<field>\<close>, or what \<open>which()\<close> gives for a member; \<open>set_<field>\<close>, which makes the member live.\<close>

definition get_value :: "('st, 'p) capnp_crate \<Rightarrow> accessor \<Rightarrow> 'st \<Rightarrow> 'p field_value" where
  "get_value cp a st =
     (case acc_kind a of
        Bits w i m \<Rightarrow> BitsValue (cp_data cp w i st XOR m)
      | Flag i dflt \<Rightarrow> FlagValue (get_bool_mask cp i dflt st)
      | Pointer i \<Rightarrow> PointerValue (cp_pointer cp i st)
      | NoField \<Rightarrow> NoValue)"

fun set_kind :: "('st, 'p) capnp_crate \<Rightarrow> field_kind \<Rightarrow> 'p field_value \<Rightarrow> 'st \<Rightarrow> 'st" where
  "set_kind cp (Bits w i m) (BitsValue x) st = cp_set_data cp w i (x XOR m) st"
| "set_kind cp (Flag i dflt) (FlagValue b) st = set_bool_mask cp i b dflt st"
| "set_kind cp (Pointer i) (PointerValue p) st = cp_set_pointer cp i p st"
| "set_kind cp k v st = st"

fun select :: "('st, 'p) capnp_crate \<Rightarrow> accessor \<Rightarrow> 'st \<Rightarrow> 'st" where
  "select cp (Field n k) st = st"
| "select cp (Member i d n k) st = cp_set_data cp 16 i d st"

definition set_value :: "('st, 'p) capnp_crate \<Rightarrow> accessor \<Rightarrow> 'p field_value \<Rightarrow> 'st \<Rightarrow> 'st" where
  "set_value cp a v st = set_kind cp (acc_kind a) v (select cp a st)"

text \<open>The member that \<open>which()\<close> finds live; a plain field always is.\<close>

fun live :: "('st, 'p) capnp_crate \<Rightarrow> accessor \<Rightarrow> 'st \<Rightarrow> bool" where
  "live cp (Field n k) st \<longleftrightarrow> True"
| "live cp (Member i d n k) st \<longleftrightarrow> cp_data cp 16 i st = d"

text \<open>\<open>has_<field>\<close>: a pointer field that is live and not null.\<close>

definition has_value :: "('st, 'p) capnp_crate \<Rightarrow> accessor \<Rightarrow> 'st \<Rightarrow> bool" where
  "has_value cp a st \<longleftrightarrow> live cp a st \<and>
     (case acc_kind a of Pointer i \<Rightarrow> cp_pointer cp i st \<noteq> cp_null cp | _ \<Rightarrow> False)"

lemma has_value_iff:
  "has_value cp a st \<longleftrightarrow> live cp a st \<and>
     (\<exists>p. get_value cp a st = PointerValue p \<and> p \<noteq> cp_null cp)"
  by (auto simp: has_value_def get_value_def split: field_kind.split)

text \<open>The typed accessors of the component theories are these operations at one field.\<close>

lemma typed_field_value:
  fixes x :: "'a::len word"
  shows "set_field cp i x st = set_value cp (Field n (Bits LENGTH('a) i 0)) (BitsValue (unat x)) st"
    and "set_field cp j (of_nat d :: u16) st = select cp (Member j (d mod 2 ^ 16) n k) st"
    and "get_value cp (Field n (Bits LENGTH('a) i 0)) st = BitsValue (cp_data cp LENGTH('a) i st)"
  by (simp_all add: set_field_def set_value_def get_value_def unsigned_of_nat take_bit_eq_mod)

lemma typed_flag_value:
  "set_bool_mask cp i b dflt st = set_value cp (Field n (Flag i dflt)) (FlagValue b) st"
  "get_value cp (Field n (Flag i dflt)) st = FlagValue (get_bool_mask cp i dflt st)"
  by (simp_all add: set_value_def get_value_def)

lemma typed_pointer_value:
  "cp_set_pointer cp i p st = set_value cp (Field n (Pointer i)) (PointerValue p) st"
  "get_value cp (Field n (Pointer i)) st = PointerValue (cp_pointer cp i st)"
  by (simp_all add: set_value_def get_value_def)

fun value_fits :: "field_kind \<Rightarrow> 'p field_value \<Rightarrow> bool" where
  "value_fits (Bits w i m) (BitsValue x) \<longleftrightarrow> x < 2 ^ w"
| "value_fits (Flag i dflt) (FlagValue b) \<longleftrightarrow> True"
| "value_fits (Pointer i) (PointerValue p) \<longleftrightarrow> True"
| "value_fits NoField NoValue \<longleftrightarrow> True"
| "value_fits k v \<longleftrightarrow> False"

section \<open>Well-formed tables\<close>

fun kind_fits :: "nat \<Rightarrow> nat \<Rightarrow> field_kind \<Rightarrow> bool" where
  "kind_fits words pointers (Bits w i m) \<longleftrightarrow> w * (i + 1) \<le> 64 * words \<and> m < 2 ^ w"
| "kind_fits words pointers (Flag i dflt) \<longleftrightarrow> i + 1 \<le> 64 * words"
| "kind_fits words pointers (Pointer i) \<longleftrightarrow> i < pointers"
| "kind_fits words pointers NoField \<longleftrightarrow> True"

fun disjoint_kinds :: "field_kind \<Rightarrow> field_kind \<Rightarrow> bool" where
  "disjoint_kinds (Bits w i m) (Bits v j n) \<longleftrightarrow> disjoint_fields w i v j"
| "disjoint_kinds (Bits w i m) (Flag j dflt) \<longleftrightarrow> disjoint_fields w i 1 j"
| "disjoint_kinds (Flag i dflt) (Bits v j n) \<longleftrightarrow> disjoint_fields 1 i v j"
| "disjoint_kinds (Flag i dflt) (Flag j dflt') \<longleftrightarrow> disjoint_fields 1 i 1 j"
| "disjoint_kinds (Pointer i) (Pointer j) \<longleftrightarrow> i \<noteq> j"
| "disjoint_kinds k l \<longleftrightarrow> True"

text \<open>The discriminant of a member is a field too.\<close>

fun acc_tag :: "accessor \<Rightarrow> field_kind" where
  "acc_tag (Field n k) = NoField"
| "acc_tag (Member i d n k) = Bits 16 i 0"

fun tag_fits :: "accessor \<Rightarrow> bool" where
  "tag_fits (Field n k) \<longleftrightarrow> True"
| "tag_fits (Member i d n k) \<longleftrightarrow> d < 2 ^ 16"

text \<open>Two members of one union: only one of them is live.\<close>

fun excludes :: "accessor \<Rightarrow> accessor \<Rightarrow> bool" where
  "excludes (Member i d n k) (Member j e m l) \<longleftrightarrow> i = j"
| "excludes a b \<longleftrightarrow> False"

definition accessor_fits :: "nat \<Rightarrow> nat \<Rightarrow> accessor \<Rightarrow> bool" where
  "accessor_fits words pointers a \<longleftrightarrow>
     kind_fits words pointers (acc_kind a) \<and> kind_fits words pointers (acc_tag a) \<and> tag_fits a \<and>
     disjoint_kinds (acc_tag a) (acc_kind a)"

definition apart :: "accessor \<Rightarrow> accessor \<Rightarrow> bool" where
  "apart r w \<longleftrightarrow>
     disjoint_kinds (acc_kind r) (acc_kind w) \<and> disjoint_kinds (acc_kind r) (acc_tag w) \<and>
     disjoint_kinds (acc_tag r) (acc_kind w) \<and> disjoint_kinds (acc_tag r) (acc_tag w)"

definition distinct_members :: "accessor \<Rightarrow> accessor \<Rightarrow> bool" where
  "distinct_members r w \<longleftrightarrow>
     (case (r, w) of (Member i d n k, Member j e m l) \<Rightarrow> i = j \<longrightarrow> d \<noteq> e | _ \<Rightarrow> True)"

fun layout_ok :: "gen_struct \<Rightarrow> bool" where
  "layout_ok (GenStruct name words pointers readers writers) \<longleftrightarrow>
     list_all (accessor_fits words pointers) readers \<and> list_all (accessor_fits words pointers) writers \<and>
     list_all (\<lambda>w. list_all (\<lambda>r.
       if acc_name r = acc_name w then r = w
       else distinct_members r w \<and> (excludes r w \<or> apart r w)) readers) writers"

section \<open>What well-formed tables promise\<close>

context capnp_layout
begin

lemma size_set_kind [simp]: "cp_size cp (set_kind cp k v st) = cp_size cp st"
  by (cases "(cp, k, v, st)" rule: set_kind.cases) simp_all

lemma size_select [simp]: "cp_size cp (select cp a st) = cp_size cp st"
  by (cases a) simp_all

lemma get_set_kind_same:
  assumes "kind_fits d p k" and "cp_size cp st = (d, p)" and "value_fits k v" and "acc_kind a = k"
  shows "get_value cp a (set_kind cp k v st) = v"
proof (cases k)
  case (Bits w i m)
  with assms(3) obtain x where v: "v = BitsValue x" and x: "x < 2 ^ w" by (cases v) auto
  from assms(1) Bits have m: "m < 2 ^ w" and fits: "field_fits cp w i st"
    using assms(2) by (simp_all add: field_fits_def)
  have "(x XOR m) mod 2 ^ w = x XOR m"
    using x m by (simp add: take_bit_xor take_bit_nat_eq_self flip: take_bit_eq_mod)
  with Bits v fits assms(4) show ?thesis
    by (simp add: get_value_def data_same xor.assoc)
qed (use assms in \<open>cases v; simp add: get_value_def\<close>)+

lemma get_set_kind_other:
  assumes "kind_fits d p k" "kind_fits d p (acc_kind a)" "cp_size cp st = (d, p)"
    and "disjoint_kinds (acc_kind a) k"
  shows "get_value cp a (set_kind cp k v st) = get_value cp a st"
  using assms
  by (cases k; cases v; cases "acc_kind a")
     (auto simp: get_value_def get_bool_mask_def set_bool_mask_def data_other field_fits_def
        disjoint_fields_def)

text \<open>The discriminant, as a field of its own.\<close>

lemma select_eq:
  "select cp a st = set_kind cp (acc_tag a)
     (case a of Field n k \<Rightarrow> NoValue | Member i d n k \<Rightarrow> BitsValue d) st"
  by (cases a) simp_all

lemma live_eq:
  "live cp a st \<longleftrightarrow> get_value cp (Field [] (acc_tag a)) st
     = (case a of Field n k \<Rightarrow> NoValue | Member i d n k \<Rightarrow> BitsValue d)"
  by (cases a) (simp_all add: get_value_def)

lemma set_value_same:
  assumes "accessor_fits d p w" and "cp_size cp st = (d, p)" and "value_fits (acc_kind w) v"
  shows "get_value cp w (set_value cp w v st) = v \<and> live cp w (set_value cp w v st)"
proof
  show "get_value cp w (set_value cp w v st) = v"
    using assms by (simp add: set_value_def accessor_fits_def get_set_kind_same [of d p])
  have tag: "get_value cp (Field [] (acc_tag w)) (set_value cp w v st)
      = get_value cp (Field [] (acc_tag w)) (select cp w st)"
    unfolding set_value_def
    by (rule get_set_kind_other [of d p]) (use assms in \<open>simp_all add: accessor_fits_def\<close>)
  show "live cp w (set_value cp w v st)"
  proof (cases w)
    case (Member i e n k)
    with assms(1,2) have "get_value cp (Field [] (acc_tag w)) (select cp w st) = BitsValue e"
      unfolding select_eq
      by (intro get_set_kind_same [of d p, THEN trans]) (simp_all add: accessor_fits_def)
    with tag Member show ?thesis by (simp add: get_value_def)
  qed simp
qed

lemma set_value_other:
  assumes "accessor_fits d p w" "accessor_fits d p r" "cp_size cp st = (d, p)" and "apart r w"
  shows "get_value cp r (set_value cp w v st) = get_value cp r st \<and>
    (live cp r (set_value cp w v st) \<longleftrightarrow> live cp r st)"
  using assms unfolding live_eq set_value_def select_eq
  by (simp add: accessor_fits_def apart_def get_set_kind_other [of d p])

lemma excluded_not_live:
  assumes "accessor_fits d p w" "cp_size cp st = (d, p)" "value_fits (acc_kind w) v"
    and "excludes r w" "distinct_members r w"
  shows "\<not> live cp r (set_value cp w v st)"
proof -
  obtain i e n k j f m l where rw: "r = Member i e n k" "w = Member j f m l"
    using assms(4) by (cases r; cases w) auto
  with assms(4,5) set_value_same [OF assms(1-3)] show ?thesis by (auto simp: distinct_members_def)
qed

text \<open>Writing a field makes it live with the value written, leaves every other field as it is, and
  takes the other members of its union out of use.\<close>

lemma layout_ok_set_value:
  assumes "layout_ok (GenStruct name d p readers writers)" and "cp_size cp st = (d, p)"
    and "w \<in> set writers" "r \<in> set readers" and "value_fits (acc_kind w) v"
  shows "if acc_name r = acc_name w
    then get_value cp r (set_value cp w v st) = v \<and> live cp r (set_value cp w v st)
    else if excludes r w then \<not> live cp r (set_value cp w v st)
    else get_value cp r (set_value cp w v st) = get_value cp r st \<and>
      (live cp r (set_value cp w v st) \<longleftrightarrow> live cp r st)"
proof -
  have fits: "accessor_fits d p w" "accessor_fits d p r"
    and pair: "if acc_name r = acc_name w then r = w
      else distinct_members r w \<and> (excludes r w \<or> apart r w)"
    using assms(1,3,4) by (auto simp: list_all_iff)
  consider (same) "acc_name r = acc_name w" "r = w"
    | (excluded) "acc_name r \<noteq> acc_name w" "excludes r w" "distinct_members r w"
    | (apart) "acc_name r \<noteq> acc_name w" "\<not> excludes r w" "apart r w"
    using pair by (auto split: if_splits)
  then show ?thesis
  proof cases
    case same
    with set_value_same [OF fits(1) assms(2,5)] show ?thesis by simp
  next
    case excluded
    with excluded_not_live [OF fits(1) assms(2,5)] show ?thesis by simp
  next
    case apart
    with set_value_other [OF fits assms(2)] show ?thesis by simp
  qed
qed

end

end
