(* ===== verification/Generated_Structs.thy ===== *)
theory Generated_Structs
  imports Accessors Rpc_Capnp Tunnelrpc_Capnp
begin

text \<open>
  The tables of the generated code, \<open>rpc/pregenerated\<close>: for every struct the fields its reader
  gets and its builder sets (or initialises), with their offsets, defaults and union
  discriminants, in the order of the source. A builder's own getters access the fields of the
  reader. The accessors of a group are those of the struct it belongs to; a method that only
  returns or resets a group is not a field. For a pointer field \<open>has_value\<close> is the method that tests
  for its presence.
\<close>

section \<open>\<open>rpc_capnp.rs\<close>\<close>

definition rpc_message_reader :: "accessor list" where
  "rpc_message_reader =
     [Member 0 0 ''unimplemented'' (Pointer 0), Member 0 1 ''abort'' (Pointer 0),
      Member 0 2 ''call'' (Pointer 0), Member 0 3 ''return'' (Pointer 0),
      Member 0 4 ''finish'' (Pointer 0), Member 0 5 ''resolve'' (Pointer 0),
      Member 0 6 ''release'' (Pointer 0), Member 0 7 ''obsolete_save'' (Pointer 0),
      Member 0 8 ''bootstrap'' (Pointer 0), Member 0 9 ''obsolete_delete'' (Pointer 0),
      Member 0 10 ''provide'' (Pointer 0), Member 0 11 ''accept'' (Pointer 0),
      Member 0 12 ''join'' (Pointer 0), Member 0 13 ''disembargo'' (Pointer 0)]"

definition rpc_message_builder :: "accessor list" where
  "rpc_message_builder =
     [Member 0 0 ''unimplemented'' (Pointer 0), Member 0 1 ''abort'' (Pointer 0),
      Member 0 2 ''call'' (Pointer 0), Member 0 3 ''return'' (Pointer 0),
      Member 0 4 ''finish'' (Pointer 0), Member 0 5 ''resolve'' (Pointer 0),
      Member 0 6 ''release'' (Pointer 0), Member 0 7 ''obsolete_save'' (Pointer 0),
      Member 0 8 ''bootstrap'' (Pointer 0), Member 0 9 ''obsolete_delete'' (Pointer 0),
      Member 0 10 ''provide'' (Pointer 0), Member 0 11 ''accept'' (Pointer 0),
      Member 0 12 ''join'' (Pointer 0), Member 0 13 ''disembargo'' (Pointer 0)]"

definition rpc_bootstrap_reader :: "accessor list" where
  "rpc_bootstrap_reader =
     [Field ''question_id'' (Bits 32 0 0), Field ''deprecated_object_id'' (Pointer 0)]"

definition rpc_bootstrap_builder :: "accessor list" where
  "rpc_bootstrap_builder =
     [Field ''question_id'' (Bits 32 0 0), Field ''deprecated_object_id'' (Pointer 0)]"

definition rpc_call_reader :: "accessor list" where
  "rpc_call_reader =
     [Field ''question_id'' (Bits 32 0 0), Field ''target'' (Pointer 0),
      Field ''interface_id'' (Bits 64 1 0), Field ''method_id'' (Bits 16 2 0),
      Field ''params'' (Pointer 1), Field ''allow_third_party_tail_call'' (Flag 128 False)]"

definition rpc_call_builder :: "accessor list" where
  "rpc_call_builder =
     [Field ''question_id'' (Bits 32 0 0), Field ''target'' (Pointer 0),
      Field ''interface_id'' (Bits 64 1 0), Field ''method_id'' (Bits 16 2 0),
      Field ''params'' (Pointer 1), Field ''allow_third_party_tail_call'' (Flag 128 False)]"

definition rpc_call_send_results_to_reader :: "accessor list" where
  "rpc_call_send_results_to_reader =
     [Member 3 0 ''caller'' NoField, Member 3 1 ''yourself'' NoField,
      Member 3 2 ''third_party'' (Pointer 2)]"

definition rpc_call_send_results_to_builder :: "accessor list" where
  "rpc_call_send_results_to_builder =
     [Member 3 0 ''caller'' NoField, Member 3 1 ''yourself'' NoField,
      Member 3 2 ''third_party'' (Pointer 2)]"

definition rpc_return_reader :: "accessor list" where
  "rpc_return_reader =
     [Field ''answer_id'' (Bits 32 0 0), Field ''release_param_caps'' (Flag 32 True),
      Member 3 0 ''results'' (Pointer 0), Member 3 1 ''exception'' (Pointer 0),
      Member 3 2 ''canceled'' NoField, Member 3 3 ''results_sent_elsewhere'' NoField,
      Member 3 4 ''take_from_other_question'' (Bits 32 2 0),
      Member 3 5 ''accept_from_third_party'' (Pointer 0)]"

definition rpc_return_builder :: "accessor list" where
  "rpc_return_builder =
     [Field ''answer_id'' (Bits 32 0 0), Field ''release_param_caps'' (Flag 32 True),
      Member 3 0 ''results'' (Pointer 0), Member 3 1 ''exception'' (Pointer 0),
      Member 3 2 ''canceled'' NoField, Member 3 3 ''results_sent_elsewhere'' NoField,
      Member 3 4 ''take_from_other_question'' (Bits 32 2 0),
      Member 3 5 ''accept_from_third_party'' (Pointer 0)]"

definition rpc_finish_reader :: "accessor list" where
  "rpc_finish_reader =
     [Field ''question_id'' (Bits 32 0 0), Field ''release_result_caps'' (Flag 32 True)]"

definition rpc_finish_builder :: "accessor list" where
  "rpc_finish_builder =
     [Field ''question_id'' (Bits 32 0 0), Field ''release_result_caps'' (Flag 32 True)]"

definition rpc_resolve_reader :: "accessor list" where
  "rpc_resolve_reader =
     [Field ''promise_id'' (Bits 32 0 0), Member 2 0 ''cap'' (Pointer 0),
      Member 2 1 ''exception'' (Pointer 0)]"

definition rpc_resolve_builder :: "accessor list" where
  "rpc_resolve_builder =
     [Field ''promise_id'' (Bits 32 0 0), Member 2 0 ''cap'' (Pointer 0),
      Member 2 1 ''exception'' (Pointer 0)]"

definition rpc_release_reader :: "accessor list" where
  "rpc_release_reader =
     [Field ''id'' (Bits 32 0 0), Field ''reference_count'' (Bits 32 1 0)]"

definition rpc_release_builder :: "accessor list" where
  "rpc_release_builder =
     [Field ''id'' (Bits 32 0 0), Field ''reference_count'' (Bits 32 1 0)]"

definition rpc_message_target_reader :: "accessor list" where
  "rpc_message_target_reader =
     [Member 2 0 ''imported_cap'' (Bits 32 0 0), Member 2 1 ''promised_answer'' (Pointer 0)]"

definition rpc_message_target_builder :: "accessor list" where
  "rpc_message_target_builder =
     [Member 2 0 ''imported_cap'' (Bits 32 0 0), Member 2 1 ''promised_answer'' (Pointer 0)]"

definition rpc_payload_reader :: "accessor list" where
  "rpc_payload_reader =
     [Field ''content'' (Pointer 0), Field ''cap_table'' (Pointer 1)]"

definition rpc_payload_builder :: "accessor list" where
  "rpc_payload_builder =
     [Field ''content'' (Pointer 0), Field ''cap_table'' (Pointer 1)]"

definition rpc_cap_descriptor_reader :: "accessor list" where
  "rpc_cap_descriptor_reader =
     [Field ''attached_fd'' (Bits 8 2 255), Member 0 0 ''none'' NoField,
      Member 0 1 ''sender_hosted'' (Bits 32 1 0), Member 0 2 ''sender_promise'' (Bits 32 1 0),
      Member 0 3 ''receiver_hosted'' (Bits 32 1 0), Member 0 4 ''receiver_answer'' (Pointer 0),
      Member 0 5 ''third_party_hosted'' (Pointer 0)]"

definition rpc_cap_descriptor_builder :: "accessor list" where
  "rpc_cap_descriptor_builder =
     [Member 0 0 ''none'' NoField, Member 0 1 ''sender_hosted'' (Bits 32 1 0),
      Member 0 2 ''sender_promise'' (Bits 32 1 0), Member 0 3 ''receiver_hosted'' (Bits 32 1 0),
      Member 0 4 ''receiver_answer'' (Pointer 0), Member 0 5 ''third_party_hosted'' (Pointer 0),
      Field ''attached_fd'' (Bits 8 2 255)]"

definition rpc_promised_answer_reader :: "accessor list" where
  "rpc_promised_answer_reader =
     [Field ''question_id'' (Bits 32 0 0), Field ''transform'' (Pointer 0)]"

definition rpc_promised_answer_builder :: "accessor list" where
  "rpc_promised_answer_builder =
     [Field ''question_id'' (Bits 32 0 0), Field ''transform'' (Pointer 0)]"

definition rpc_promised_answer_op_reader :: "accessor list" where
  "rpc_promised_answer_op_reader =
     [Member 0 0 ''noop'' NoField, Member 0 1 ''get_pointer_field'' (Bits 16 1 0)]"

definition rpc_promised_answer_op_builder :: "accessor list" where
  "rpc_promised_answer_op_builder =
     [Member 0 0 ''noop'' NoField, Member 0 1 ''get_pointer_field'' (Bits 16 1 0)]"

definition rpc_third_party_cap_descriptor_reader :: "accessor list" where
  "rpc_third_party_cap_descriptor_reader =
     [Field ''id'' (Pointer 0), Field ''vine_id'' (Bits 32 0 0)]"

definition rpc_third_party_cap_descriptor_builder :: "accessor list" where
  "rpc_third_party_cap_descriptor_builder =
     [Field ''id'' (Pointer 0), Field ''vine_id'' (Bits 32 0 0)]"

definition rpc_exception_reader :: "accessor list" where
  "rpc_exception_reader =
     [Field ''reason'' (Pointer 0), Field ''obsolete_is_callers_fault'' (Flag 0 False),
      Field ''obsolete_durability'' (Bits 16 1 0), Field ''type'' (Bits 16 2 0)]"

definition rpc_exception_builder :: "accessor list" where
  "rpc_exception_builder =
     [Field ''reason'' (Pointer 0), Field ''obsolete_is_callers_fault'' (Flag 0 False),
      Field ''obsolete_durability'' (Bits 16 1 0), Field ''type'' (Bits 16 2 0)]"

definition rpc_provide_reader :: "accessor list" where
  "rpc_provide_reader =
     [Field ''question_id'' (Bits 32 0 0), Field ''target'' (Pointer 0),
      Field ''recipient'' (Pointer 1)]"

definition rpc_provide_builder :: "accessor list" where
  "rpc_provide_builder =
     [Field ''question_id'' (Bits 32 0 0), Field ''target'' (Pointer 0),
      Field ''recipient'' (Pointer 1)]"

definition rpc_accept_reader :: "accessor list" where
  "rpc_accept_reader =
     [Field ''question_id'' (Bits 32 0 0), Field ''provision'' (Pointer 0),
      Field ''embargo'' (Flag 32 False)]"

definition rpc_accept_builder :: "accessor list" where
  "rpc_accept_builder =
     [Field ''question_id'' (Bits 32 0 0), Field ''provision'' (Pointer 0),
      Field ''embargo'' (Flag 32 False)]"

definition rpc_join_reader :: "accessor list" where
  "rpc_join_reader =
     [Field ''question_id'' (Bits 32 0 0), Field ''target'' (Pointer 0)]"

definition rpc_join_builder :: "accessor list" where
  "rpc_join_builder =
     [Field ''question_id'' (Bits 32 0 0), Field ''target'' (Pointer 0)]"

definition rpc_disembargo_reader :: "accessor list" where
  "rpc_disembargo_reader =
     [Field ''target'' (Pointer 0), Field ''context'' (Pointer 1)]"

definition rpc_disembargo_builder :: "accessor list" where
  "rpc_disembargo_builder =
     [Field ''target'' (Pointer 0), Field ''context'' (Pointer 1)]"

section \<open>\<open>tunnelrpc_capnp.rs\<close>\<close>

definition tunnel_client_info_reader :: "accessor list" where
  "tunnel_client_info_reader =
     [Field ''client_id'' (Pointer 0), Field ''features'' (Pointer 1), Field ''version'' (Pointer 2),
      Field ''arch'' (Pointer 3)]"

definition tunnel_client_info_builder :: "accessor list" where
  "tunnel_client_info_builder =
     [Field ''client_id'' (Pointer 0), Field ''features'' (Pointer 1), Field ''version'' (Pointer 2),
      Field ''arch'' (Pointer 3)]"

definition tunnel_connection_options_reader :: "accessor list" where
  "tunnel_connection_options_reader =
     [Field ''client'' (Pointer 0), Field ''origin_local_ip'' (Pointer 1),
      Field ''replace_existing'' (Flag 0 False), Field ''compression_quality'' (Bits 8 1 0),
      Field ''num_previous_attempts'' (Bits 8 2 0)]"

definition tunnel_connection_options_builder :: "accessor list" where
  "tunnel_connection_options_builder =
     [Field ''client'' (Pointer 0), Field ''origin_local_ip'' (Pointer 1),
      Field ''replace_existing'' (Flag 0 False), Field ''compression_quality'' (Bits 8 1 0),
      Field ''num_previous_attempts'' (Bits 8 2 0)]"

definition tunnel_connection_response_result_reader :: "accessor list" where
  "tunnel_connection_response_result_reader =
     [Member 0 0 ''error'' (Pointer 0), Member 0 1 ''connection_details'' (Pointer 0)]"

definition tunnel_connection_response_result_builder :: "accessor list" where
  "tunnel_connection_response_result_builder =
     [Member 0 0 ''error'' (Pointer 0), Member 0 1 ''connection_details'' (Pointer 0)]"

definition tunnel_connection_error_reader :: "accessor list" where
  "tunnel_connection_error_reader =
     [Field ''cause'' (Pointer 0), Field ''retry_after'' (Bits 64 0 0),
      Field ''should_retry'' (Flag 64 False)]"

definition tunnel_connection_error_builder :: "accessor list" where
  "tunnel_connection_error_builder =
     [Field ''cause'' (Pointer 0), Field ''retry_after'' (Bits 64 0 0),
      Field ''should_retry'' (Flag 64 False)]"

definition tunnel_connection_details_reader :: "accessor list" where
  "tunnel_connection_details_reader =
     [Field ''uuid'' (Pointer 0), Field ''location_name'' (Pointer 1),
      Field ''tunnel_is_remotely_managed'' (Flag 0 False)]"

definition tunnel_connection_details_builder :: "accessor list" where
  "tunnel_connection_details_builder =
     [Field ''uuid'' (Pointer 0), Field ''location_name'' (Pointer 1),
      Field ''tunnel_is_remotely_managed'' (Flag 0 False)]"

definition tunnel_tunnel_auth_reader :: "accessor list" where
  "tunnel_tunnel_auth_reader =
     [Field ''account_tag'' (Pointer 0), Field ''tunnel_secret'' (Pointer 1)]"

definition tunnel_tunnel_auth_builder :: "accessor list" where
  "tunnel_tunnel_auth_builder =
     [Field ''account_tag'' (Pointer 0), Field ''tunnel_secret'' (Pointer 1)]"

definition tunnel_register_connection_params_reader :: "accessor list" where
  "tunnel_register_connection_params_reader =
     [Field ''auth'' (Pointer 0), Field ''tunnel_id'' (Pointer 1), Field ''conn_index'' (Bits 8 0 0),
      Field ''options'' (Pointer 2)]"

definition tunnel_register_connection_params_builder :: "accessor list" where
  "tunnel_register_connection_params_builder =
     [Field ''auth'' (Pointer 0), Field ''tunnel_id'' (Pointer 1), Field ''conn_index'' (Bits 8 0 0),
      Field ''options'' (Pointer 2)]"

definition tunnel_register_connection_results_reader :: "accessor list" where
  "tunnel_register_connection_results_reader =
     [Field ''result'' (Pointer 0)]"

definition tunnel_register_connection_results_builder :: "accessor list" where
  "tunnel_register_connection_results_builder =
     [Field ''result'' (Pointer 0)]"

definition tunnel_update_local_configuration_params_reader :: "accessor list" where
  "tunnel_update_local_configuration_params_reader =
     [Field ''config'' (Pointer 0)]"

definition tunnel_update_local_configuration_params_builder :: "accessor list" where
  "tunnel_update_local_configuration_params_builder =
     [Field ''config'' (Pointer 0)]"

definition tunnel_register_udp_session_response_reader :: "accessor list" where
  "tunnel_register_udp_session_response_reader =
     [Field ''err'' (Pointer 0), Field ''spans'' (Pointer 1)]"

definition tunnel_register_udp_session_response_builder :: "accessor list" where
  "tunnel_register_udp_session_response_builder =
     [Field ''err'' (Pointer 0), Field ''spans'' (Pointer 1)]"

definition tunnel_register_udp_session_params_reader :: "accessor list" where
  "tunnel_register_udp_session_params_reader =
     [Field ''session_id'' (Pointer 0), Field ''dst_ip'' (Pointer 1), Field ''dst_port'' (Bits 16 0 0),
      Field ''close_after_idle_hint'' (Bits 64 1 0), Field ''trace_context'' (Pointer 2)]"

definition tunnel_register_udp_session_params_builder :: "accessor list" where
  "tunnel_register_udp_session_params_builder =
     [Field ''session_id'' (Pointer 0), Field ''dst_ip'' (Pointer 1), Field ''dst_port'' (Bits 16 0 0),
      Field ''close_after_idle_hint'' (Bits 64 1 0), Field ''trace_context'' (Pointer 2)]"

definition tunnel_register_udp_session_results_reader :: "accessor list" where
  "tunnel_register_udp_session_results_reader =
     [Field ''result'' (Pointer 0)]"

definition tunnel_register_udp_session_results_builder :: "accessor list" where
  "tunnel_register_udp_session_results_builder =
     [Field ''result'' (Pointer 0)]"

definition tunnel_unregister_udp_session_params_reader :: "accessor list" where
  "tunnel_unregister_udp_session_params_reader =
     [Field ''session_id'' (Pointer 0), Field ''message'' (Pointer 1)]"

definition tunnel_unregister_udp_session_params_builder :: "accessor list" where
  "tunnel_unregister_udp_session_params_builder =
     [Field ''session_id'' (Pointer 0), Field ''message'' (Pointer 1)]"

definition tunnel_update_configuration_response_reader :: "accessor list" where
  "tunnel_update_configuration_response_reader =
     [Field ''latest_applied_version'' (Bits 32 0 0), Field ''err'' (Pointer 0)]"

definition tunnel_update_configuration_response_builder :: "accessor list" where
  "tunnel_update_configuration_response_builder =
     [Field ''latest_applied_version'' (Bits 32 0 0), Field ''err'' (Pointer 0)]"

definition tunnel_update_configuration_params_reader :: "accessor list" where
  "tunnel_update_configuration_params_reader =
     [Field ''version'' (Bits 32 0 0), Field ''config'' (Pointer 0)]"

definition tunnel_update_configuration_params_builder :: "accessor list" where
  "tunnel_update_configuration_params_builder =
     [Field ''version'' (Bits 32 0 0), Field ''config'' (Pointer 0)]"

definition tunnel_update_configuration_results_reader :: "accessor list" where
  "tunnel_update_configuration_results_reader =
     [Field ''result'' (Pointer 0)]"

definition tunnel_update_configuration_results_builder :: "accessor list" where
  "tunnel_update_configuration_results_builder =
     [Field ''result'' (Pointer 0)]"

section \<open>\<open>quic_metadata_protocol_capnp.rs\<close>\<close>

definition metadata_connect_request_reader :: "accessor list" where
  "metadata_connect_request_reader =
     [Field ''dest'' (Pointer 0), Field ''type'' (Bits 16 0 0), Field ''metadata'' (Pointer 1)]"

definition metadata_connect_request_builder :: "accessor list" where
  "metadata_connect_request_builder =
     [Field ''dest'' (Pointer 0), Field ''type'' (Bits 16 0 0), Field ''metadata'' (Pointer 1)]"

definition metadata_metadata_reader :: "accessor list" where
  "metadata_metadata_reader =
     [Field ''key'' (Pointer 0), Field ''val'' (Pointer 1)]"

definition metadata_metadata_builder :: "accessor list" where
  "metadata_metadata_builder =
     [Field ''key'' (Pointer 0), Field ''val'' (Pointer 1)]"

definition metadata_connect_response_reader :: "accessor list" where
  "metadata_connect_response_reader =
     [Field ''error'' (Pointer 0), Field ''metadata'' (Pointer 1)]"

definition metadata_connect_response_builder :: "accessor list" where
  "metadata_connect_response_builder =
     [Field ''error'' (Pointer 0), Field ''metadata'' (Pointer 1)]"

section \<open>All structs\<close>

definition rpc_structs :: "gen_struct list" where
  "rpc_structs =
     [GenStruct ''rpc_message'' 1 1 rpc_message_reader rpc_message_builder,
      GenStruct ''rpc_bootstrap'' 1 1 rpc_bootstrap_reader rpc_bootstrap_builder,
      GenStruct ''rpc_call'' 3 3
        (rpc_call_reader @ rpc_call_send_results_to_reader)
        (rpc_call_builder @ rpc_call_send_results_to_builder),
      GenStruct ''rpc_return'' 2 1 rpc_return_reader rpc_return_builder,
      GenStruct ''rpc_finish'' 1 0 rpc_finish_reader rpc_finish_builder,
      GenStruct ''rpc_resolve'' 1 1 rpc_resolve_reader rpc_resolve_builder,
      GenStruct ''rpc_release'' 1 0 rpc_release_reader rpc_release_builder,
      GenStruct ''rpc_message_target'' 1 1 rpc_message_target_reader rpc_message_target_builder,
      GenStruct ''rpc_payload'' 0 2 rpc_payload_reader rpc_payload_builder,
      GenStruct ''rpc_cap_descriptor'' 1 1 rpc_cap_descriptor_reader rpc_cap_descriptor_builder,
      GenStruct ''rpc_promised_answer'' 1 1 rpc_promised_answer_reader rpc_promised_answer_builder,
      GenStruct ''rpc_promised_answer_op'' 1 0
        rpc_promised_answer_op_reader rpc_promised_answer_op_builder,
      GenStruct ''rpc_third_party_cap_descriptor'' 1 1
        rpc_third_party_cap_descriptor_reader rpc_third_party_cap_descriptor_builder,
      GenStruct ''rpc_exception'' 1 1 rpc_exception_reader rpc_exception_builder,
      GenStruct ''rpc_provide'' 1 2 rpc_provide_reader rpc_provide_builder,
      GenStruct ''rpc_accept'' 1 1 rpc_accept_reader rpc_accept_builder,
      GenStruct ''rpc_join'' 1 1 rpc_join_reader rpc_join_builder,
      GenStruct ''rpc_disembargo'' 0 2 rpc_disembargo_reader rpc_disembargo_builder]"

definition tunnel_structs :: "gen_struct list" where
  "tunnel_structs =
     [GenStruct ''tunnel_client_info'' 0 4 tunnel_client_info_reader tunnel_client_info_builder,
      GenStruct ''tunnel_connection_options'' 1 2
        tunnel_connection_options_reader tunnel_connection_options_builder,
      GenStruct ''tunnel_connection_response'' 1 1
        tunnel_connection_response_result_reader tunnel_connection_response_result_builder,
      GenStruct ''tunnel_connection_error'' 2 1
        tunnel_connection_error_reader tunnel_connection_error_builder,
      GenStruct ''tunnel_connection_details'' 1 2
        tunnel_connection_details_reader tunnel_connection_details_builder,
      GenStruct ''tunnel_tunnel_auth'' 0 2 tunnel_tunnel_auth_reader tunnel_tunnel_auth_builder,
      GenStruct ''tunnel_register_connection_params'' 1 3
        tunnel_register_connection_params_reader tunnel_register_connection_params_builder,
      GenStruct ''tunnel_register_connection_results'' 0 1
        tunnel_register_connection_results_reader tunnel_register_connection_results_builder,
      GenStruct ''tunnel_unregister_connection_params'' 0 0 [] [],
      GenStruct ''tunnel_unregister_connection_results'' 0 0 [] [],
      GenStruct ''tunnel_update_local_configuration_params'' 0 1
        tunnel_update_local_configuration_params_reader
        tunnel_update_local_configuration_params_builder,
      GenStruct ''tunnel_update_local_configuration_results'' 0 0 [] [],
      GenStruct ''tunnel_register_udp_session_response'' 0 2
        tunnel_register_udp_session_response_reader
        tunnel_register_udp_session_response_builder,
      GenStruct ''tunnel_register_udp_session_params'' 2 3
        tunnel_register_udp_session_params_reader tunnel_register_udp_session_params_builder,
      GenStruct ''tunnel_register_udp_session_results'' 0 1
        tunnel_register_udp_session_results_reader tunnel_register_udp_session_results_builder,
      GenStruct ''tunnel_unregister_udp_session_params'' 0 2
        tunnel_unregister_udp_session_params_reader
        tunnel_unregister_udp_session_params_builder,
      GenStruct ''tunnel_unregister_udp_session_results'' 0 0 [] [],
      GenStruct ''tunnel_update_configuration_response'' 1 1
        tunnel_update_configuration_response_reader
        tunnel_update_configuration_response_builder,
      GenStruct ''tunnel_update_configuration_params'' 1 1
        tunnel_update_configuration_params_reader tunnel_update_configuration_params_builder,
      GenStruct ''tunnel_update_configuration_results'' 0 1
        tunnel_update_configuration_results_reader tunnel_update_configuration_results_builder]"

definition metadata_structs :: "gen_struct list" where
  "metadata_structs =
     [GenStruct ''metadata_connect_request'' 1 2
        metadata_connect_request_reader metadata_connect_request_builder,
      GenStruct ''metadata_metadata'' 0 2 metadata_metadata_reader metadata_metadata_builder,
      GenStruct ''metadata_connect_response'' 0 2
        metadata_connect_response_reader metadata_connect_response_builder]"

definition generated_structs :: "gen_struct list" where
  "generated_structs = rpc_structs @ tunnel_structs @ metadata_structs"

lemmas layout_eqs = accessor_fits_def apart_def disjoint_fields_def distinct_members_def

lemmas rpc_tables =
    rpc_message_reader_def rpc_message_builder_def rpc_bootstrap_reader_def
    rpc_bootstrap_builder_def rpc_call_reader_def rpc_call_builder_def
    rpc_call_send_results_to_reader_def rpc_call_send_results_to_builder_def rpc_return_reader_def
    rpc_return_builder_def rpc_finish_reader_def rpc_finish_builder_def rpc_resolve_reader_def
    rpc_resolve_builder_def rpc_release_reader_def rpc_release_builder_def
    rpc_message_target_reader_def rpc_message_target_builder_def rpc_payload_reader_def
    rpc_payload_builder_def rpc_cap_descriptor_reader_def rpc_cap_descriptor_builder_def
    rpc_promised_answer_reader_def rpc_promised_answer_builder_def
    rpc_promised_answer_op_reader_def rpc_promised_answer_op_builder_def
    rpc_third_party_cap_descriptor_reader_def rpc_third_party_cap_descriptor_builder_def
    rpc_exception_reader_def rpc_exception_builder_def rpc_provide_reader_def
    rpc_provide_builder_def rpc_accept_reader_def rpc_accept_builder_def rpc_join_reader_def
    rpc_join_builder_def rpc_disembargo_reader_def rpc_disembargo_builder_def

lemmas tunnel_tables =
    tunnel_client_info_reader_def tunnel_client_info_builder_def
    tunnel_connection_options_reader_def tunnel_connection_options_builder_def
    tunnel_connection_response_result_reader_def tunnel_connection_response_result_builder_def
    tunnel_connection_error_reader_def tunnel_connection_error_builder_def
    tunnel_connection_details_reader_def tunnel_connection_details_builder_def
    tunnel_tunnel_auth_reader_def tunnel_tunnel_auth_builder_def
    tunnel_register_connection_params_reader_def tunnel_register_connection_params_builder_def
    tunnel_register_connection_results_reader_def tunnel_register_connection_results_builder_def
    tunnel_update_local_configuration_params_reader_def
    tunnel_update_local_configuration_params_builder_def
    tunnel_register_udp_session_response_reader_def
    tunnel_register_udp_session_response_builder_def tunnel_register_udp_session_params_reader_def
    tunnel_register_udp_session_params_builder_def tunnel_register_udp_session_results_reader_def
    tunnel_register_udp_session_results_builder_def tunnel_unregister_udp_session_params_reader_def
    tunnel_unregister_udp_session_params_builder_def
    tunnel_update_configuration_response_reader_def
    tunnel_update_configuration_response_builder_def tunnel_update_configuration_params_reader_def
    tunnel_update_configuration_params_builder_def tunnel_update_configuration_results_reader_def
    tunnel_update_configuration_results_builder_def

lemmas metadata_tables =
    metadata_connect_request_reader_def metadata_connect_request_builder_def
    metadata_metadata_reader_def metadata_metadata_builder_def metadata_connect_response_reader_def
    metadata_connect_response_builder_def

lemma rpc_structs_ok: "list_all layout_ok rpc_structs"
  by (simp add: rpc_structs_def rpc_tables layout_eqs)

lemma tunnel_structs_ok: "list_all layout_ok tunnel_structs"
  by (simp add: tunnel_structs_def tunnel_tables layout_eqs)

lemma metadata_structs_ok: "list_all layout_ok metadata_structs"
  by (simp add: metadata_structs_def metadata_tables layout_eqs)

lemma generated_structs_ok: "L \<in> set generated_structs \<Longrightarrow> layout_ok L"
  using rpc_structs_ok tunnel_structs_ok metadata_structs_ok
  by (auto simp: generated_structs_def list_all_iff)

text \<open>C9. The accessors of the generated code are well typed as a family: in every struct, what a
  builder's setter writes is what the reader's getter of the same field reads back, whatever the
  default; no setter changes what another getter reads or which member of another union is live;
  and setting a member of a union makes it, and no other member of that union, live. No accessor
  leaves its struct's sections. A pointer field is present after a write of a pointer that is not
  null.\<close>

theorem generated_accessors_safe:
  assumes "capnp_layout cp" and "GenStruct name words pointers readers writers \<in> set generated_structs"
    and "cp_size cp st = (words, pointers)" and "w \<in> set writers" and "r \<in> set readers"
    and "value_fits (acc_kind w) v"
  shows "accessor_fits words pointers r \<and> accessor_fits words pointers w \<and>
    (if acc_name r = acc_name w
     then get_value cp r (set_value cp w v st) = v \<and> live cp r (set_value cp w v st) \<and>
       (has_value cp r (set_value cp w v st) \<longleftrightarrow> (\<exists>p. v = PointerValue p \<and> p \<noteq> cp_null cp))
     else if excludes r w then \<not> live cp r (set_value cp w v st)
     else get_value cp r (set_value cp w v st) = get_value cp r st \<and>
       (live cp r (set_value cp w v st) \<longleftrightarrow> live cp r st) \<and>
       (has_value cp r (set_value cp w v st) \<longleftrightarrow> has_value cp r st))"
proof -
  note ok = generated_structs_ok [OF assms(2)]
  moreover from ok assms(4,5) have "accessor_fits words pointers r \<and> accessor_fits words pointers w"
    by (simp add: list_all_iff)
  ultimately show ?thesis
    using capnp_layout.layout_ok_set_value [OF assms(1) ok assms(3-6)]
    by (auto simp: has_value_iff split: if_splits)
qed

theorem generated_accessors_safe_witness:
  "let cp = tree_capnp []; st = cp_init cp 1 0; w = Field ''release_result_caps'' (Flag 32 True);
       r = Field ''question_id'' (Bits 32 0 0)
   in get_value cp r (set_value cp w (FlagValue False) st) = (BitsValue 0 :: capnp_pointer field_value)"
proof -
  let ?cp = "tree_capnp []" and ?w = "Field ''release_result_caps'' (Flag 32 True)"
  let ?r = "Field ''question_id'' (Bits 32 0 0)"
  have "get_value ?cp ?r (set_value ?cp ?w (FlagValue False) (cp_init ?cp 1 0)) = get_value ?cp ?r (cp_init ?cp 1 0)"
    using generated_accessors_safe [of ?cp "''rpc_finish''" 1 0 rpc_finish_reader rpc_finish_builder
        "cp_init ?cp 1 0" ?w ?r "FlagValue False"]
    by (simp add: tree_capnp_layout generated_structs_def rpc_structs_def rpc_finish_reader_def
        rpc_finish_builder_def)
  then show ?thesis by (simp add: get_value_def)
qed

end
