(* ===== verification/Schema_Node.thy ===== *)
theory Schema_Node
  imports Accessors
begin

text \<open>
  The schema that the generated code embeds for every struct: \<open>ENCODED_NODE\<close> is a message of the
  Cap'n Proto encoding whose root is a \<open>Node\<close> of \<open>schema.capnp\<close>, and the constants next to it
  index its fields. A word is its eight bytes. The functions that read a node follow the documented
  encoding and the documented layout of \<open>Node\<close>, \<open>Field\<close>, \<open>Type\<close> and \<open>Value\<close>; they say what the embedded
  schema means, and the tables of \<open>Generated_Structs\<close> are compared with that in \<open>Schemas\<close>.
\<close>

type_synonym node = "byte list list"

text \<open>\<open>TypeVariant\<close>: what \<open>introspect()\<close> of a field's type says; structs and enums by their id.\<close>

datatype intro_type =
    Void | Bool | Int8 | Int16 | Int32 | Int64 | UInt8 | UInt16 | UInt32 | UInt64 | Float32 | Float64
  | TextType | DataType | ListType intro_type | EnumType u64 | StructType u64 | Capability u64 | AnyPointer

text \<open>The constants of a \<open>_private\<close> module.\<close>

record raw_schema =
  encoded_node :: node
  field_types :: "intro_type list"
  nonunion_members :: "nat list"
  members_by_discriminant :: "nat list"
  members_by_name :: "nat list"
  type_id :: u64

section \<open>Reading the encoding\<close>

fun num :: "byte list \<Rightarrow> nat" where
  "num [] = 0"
| "num (b # bs) = unat b + 256 * num bs"

text \<open>\<open>n\<close> bytes at byte \<open>j\<close> of a word; word \<open>i\<close> of a section, zero beyond it.\<close>

definition part :: "byte list \<Rightarrow> nat \<Rightarrow> nat \<Rightarrow> nat" where
  "part w j n = num (take n (drop j w))"

fun word_at :: "node \<Rightarrow> nat \<Rightarrow> byte list" where
  "word_at [] i = []"
| "word_at (w # ws) i = (if i = 0 then w else word_at ws (i - 1))"

text \<open>A struct in a node: its data words, its pointers, and where the pointers are.\<close>

type_synonym struct_ref = "node \<times> node \<times> nat"

definition struct_from :: "nat \<Rightarrow> nat \<Rightarrow> nat \<Rightarrow> node \<Rightarrow> struct_ref" where
  "struct_from a d p rest = (take d rest, take p (drop d rest), a + d)"

text \<open>What the pointer \<open>w\<close> at word \<open>i\<close> refers to. A list of structs has a tag word with their number
  and their sections, a text is a list of bytes that ends with NUL; null is an empty list.\<close>

definition target :: "nat \<Rightarrow> byte list \<Rightarrow> nat" where
  "target i w = i + 1 + part w 0 4 div 4"

definition struct_at :: "node \<Rightarrow> nat \<Rightarrow> byte list \<Rightarrow> struct_ref option" where
  "struct_at ws i w =
     (if part w 0 8 = 0 \<or> part w 0 1 mod 4 \<noteq> 0 then None
      else Some (struct_from (target i w) (part w 4 2) (part w 6 2) (drop (target i w) ws)))"

fun structs_from :: "nat \<Rightarrow> nat \<Rightarrow> nat \<Rightarrow> nat \<Rightarrow> node \<Rightarrow> struct_ref list" where
  "structs_from n a d p rest =
     (if n = 0 then []
      else struct_from a d p rest # structs_from (n - 1) (a + d + p) d p (drop (d + p) rest))"

declare structs_from.simps [simp del]

definition structs_at :: "node \<Rightarrow> nat \<Rightarrow> byte list \<Rightarrow> struct_ref list option" where
  "structs_at ws i w =
     (if part w 0 8 = 0 then Some []
      else if part w 0 1 mod 4 \<noteq> 1 \<or> part w 4 1 mod 8 \<noteq> 7 then None
      else (case drop (target i w) ws of
              [] \<Rightarrow> None
            | tag # rest \<Rightarrow>
                Some (structs_from (part tag 0 4 div 4) (target i w + 1) (part tag 4 2) (part tag 6 2) rest)))"

definition text_at :: "node \<Rightarrow> nat \<Rightarrow> byte list \<Rightarrow> string option" where
  "text_at ws i w =
     (if part w 0 1 mod 4 \<noteq> 1 \<or> part w 4 1 mod 8 \<noteq> 2 then None
      else let n = part w 4 4 div 8 - 1 in
           Some (string_of_bytes (take n (concat (take (n div 8 + 1) (drop (target i w) ws))))))"

fun data_of :: "struct_ref \<Rightarrow> nat \<Rightarrow> nat \<Rightarrow> nat \<Rightarrow> nat" where
  "data_of (ds, ps, a) i j n = part (word_at ds i) j n"

text \<open>Follow pointer \<open>i\<close> of a struct with one of the functions above.\<close>

fun follow :: "(node \<Rightarrow> nat \<Rightarrow> byte list \<Rightarrow> 'a) \<Rightarrow> node \<Rightarrow> struct_ref \<Rightarrow> nat \<Rightarrow> 'a" where
  "follow f ws (ds, ps, a) i = f ws (a + i) (word_at ps i)"

section \<open>Reading a node\<close>

text \<open>Types nest only as elements of lists; \<open>depth\<close> bounds the nesting.\<close>

fun type_at :: "nat \<Rightarrow> node \<Rightarrow> nat \<Rightarrow> byte list \<Rightarrow> intro_type option" where
  "type_at 0 ws i w = None"
| "type_at (Suc depth) ws i w =
     Option.bind (struct_at ws i w) (\<lambda>t.
       let tag = data_of t 0 0 2; ident = of_nat (data_of t 1 0 8) in
       if tag < 14
       then Some ([Void, Bool, Int8, Int16, Int32, Int64, UInt8, UInt16, UInt32, UInt64, Float32,
                   Float64, TextType, DataType] ! tag)
       else if tag = 14 then map_option ListType (follow (type_at depth) ws t 0)
       else if tag = 15 then Some (EnumType ident)
       else if tag = 16 then Some (StructType ident)
       else if tag = 17 then Some (Capability ident)
       else if tag = 18 then Some AnyPointer
       else None)"

text \<open>The default of a field, as the number its bits are stored exclusive-or.\<close>

fun default_bits :: "struct_ref \<Rightarrow> intro_type \<Rightarrow> nat" where
  "default_bits v Bool = data_of v 0 2 1 mod 2"
| "default_bits v Int8 = data_of v 0 2 1"
| "default_bits v UInt8 = data_of v 0 2 1"
| "default_bits v Int16 = data_of v 0 2 2"
| "default_bits v UInt16 = data_of v 0 2 2"
| "default_bits v (EnumType t) = data_of v 0 2 2"
| "default_bits v Int32 = data_of v 0 4 4"
| "default_bits v UInt32 = data_of v 0 4 4"
| "default_bits v Float32 = data_of v 0 4 4"
| "default_bits v Int64 = data_of v 1 0 8"
| "default_bits v UInt64 = data_of v 1 0 8"
| "default_bits v Float64 = data_of v 1 0 8"
| "default_bits v _ = 0"

text \<open>A field: its name, its discriminant in a union, and a slot or a group.\<close>

datatype node_place = Slot nat nat | Group

record node_field =
  field_name :: string
  discriminant :: "nat option"
  field_type :: intro_type
  place :: node_place

definition field_at :: "node \<Rightarrow> struct_ref \<Rightarrow> node_field option" where
  "field_at ws f =
     Option.bind (follow text_at ws f 0) (\<lambda>name.
       let d = 65535 - data_of f 0 2 2;
           disc = (if d = 65535 then None else Some d) in
       if data_of f 1 0 2 = 0
       then Option.bind (follow (type_at (Suc (Suc 0))) ws f 2) (\<lambda>t.
              Option.bind (follow struct_at ws f 3) (\<lambda>v.
                Some \<lparr>field_name = name, discriminant = disc, field_type = t,
                      place = Slot (data_of f 0 4 4) (default_bits v t)\<rparr>))
       else Some \<lparr>field_name = name, discriminant = disc,
                  field_type = StructType (of_nat (data_of f 2 0 8)), place = Group\<rparr>)"

fun all_some :: "'a option list \<Rightarrow> 'a list option" where
  "all_some [] = Some []"
| "all_some (x # xs) = Option.bind x (\<lambda>y. map_option ((#) y) (all_some xs))"

record struct_node =
  node_id :: u64
  data_words :: nat
  pointer_words :: nat
  is_group :: bool
  union_at :: nat
  members :: "node_field list"

definition read_node :: "node \<Rightarrow> struct_node option" where
  "read_node ws =
     Option.bind (struct_at ws 0 (word_at ws 0)) (\<lambda>n.
       if data_of n 1 4 2 \<noteq> 1 then None
       else Option.bind (follow structs_at ws n 3) (\<lambda>refs.
         map_option (\<lambda>fs.
             \<lparr>node_id = of_nat (data_of n 0 0 8), data_words = data_of n 1 6 2,
              pointer_words = data_of n 3 0 2, is_group = odd (data_of n 3 4 1),
              union_at = data_of n 4 0 4, members = fs\<rparr>)
           (all_some (map (field_at ws) refs))))"

end
