(* ===== verification/Schema_Rpc.thy ===== *)
theory Schema_Rpc
  imports Schema_Node
begin

text \<open>
  The embedded schemas of \<open>rpc/pregenerated/rpc_capnp.rs\<close>: for every struct the words of its node, the
  types of its fields, the indices of its fields and its id, as the \<open>_private\<close> modules have them.
\<close>

section \<open>Ids\<close>

definition rpc_message_id :: u64 where "rpc_message_id = 0x91b79f1f808db032"
definition rpc_bootstrap_id :: u64 where "rpc_bootstrap_id = 0xe94ccf8031176ec4"
definition rpc_call_id :: u64 where "rpc_call_id = 0x836a53ce789d4cd4"
definition rpc_call_send_results_to_id :: u64 where "rpc_call_send_results_to_id = 0xdae8b0f61aab5f99"
definition rpc_return_id :: u64 where "rpc_return_id = 0x9e19b28d3db3573a"
definition rpc_finish_id :: u64 where "rpc_finish_id = 0xd37d2eb2c2f80e63"
definition rpc_resolve_id :: u64 where "rpc_resolve_id = 0xbbc29655fa89086e"
definition rpc_release_id :: u64 where "rpc_release_id = 0xad1a6c0d7dd07497"
definition rpc_message_target_id :: u64 where "rpc_message_target_id = 0x95bc14545813fbc1"
definition rpc_payload_id :: u64 where "rpc_payload_id = 0x9a0e61223d96743b"
definition rpc_cap_descriptor_id :: u64 where "rpc_cap_descriptor_id = 0x8523ddc40b86b8b0"
definition rpc_promised_answer_id :: u64 where "rpc_promised_answer_id = 0xd800b1d6cd6f1ca0"
definition rpc_promised_answer_op_id :: u64 where "rpc_promised_answer_op_id = 0xf316944415569081"
definition rpc_third_party_cap_descriptor_id :: u64 where "rpc_third_party_cap_descriptor_id = 0xd37007fde1f0027d"
definition rpc_exception_id :: u64 where "rpc_exception_id = 0xd625b7063acf691a"
definition rpc_provide_id :: u64 where "rpc_provide_id = 0x9c6a046bfbc1ac5a"
definition rpc_accept_id :: u64 where "rpc_accept_id = 0xd4c9b56290554016"
definition rpc_join_id :: u64 where "rpc_join_id = 0xfbe1980490e001af"
definition rpc_disembargo_id :: u64 where "rpc_disembargo_id = 0xf964368b0fbd3711"
definition rpc_exception_type_id :: u64 where "rpc_exception_type_id = 0xb28c96e23f4cbd58"

section \<open>Schemas\<close>

definition rpc_message_node :: node where
  "rpc_message_node =
     [[0, 0, 0, 0, 6, 0, 6, 0], [50, 176, 141, 128, 31, 159, 183, 145], [10, 0, 0, 0, 1, 0, 1, 0],
      [80, 162, 82, 37, 27, 152, 18, 179], [1, 0, 7, 0, 0, 0, 14, 0], [0, 0, 0, 0, 0, 0, 0, 0],
      [11, 2, 0, 0, 157, 3, 0, 0], [21, 0, 0, 0, 146, 0, 0, 0], [29, 0, 0, 0, 7, 0, 0, 0],
      [0, 0, 0, 0, 0, 0, 0, 0], [25, 0, 0, 0, 23, 3, 0, 0], [0, 0, 0, 0, 0, 0, 0, 0],
      [0, 0, 0, 0, 0, 0, 0, 0], [114, 112, 99, 46, 99, 97, 112, 110],
      [112, 58, 77, 101, 115, 115, 97, 103], [101, 0, 0, 0, 0, 0, 0, 0], [0, 0, 0, 0, 1, 0, 1, 0],
      [56, 0, 0, 0, 3, 0, 4, 0], [0, 0, 255, 255, 0, 0, 0, 0], [0, 0, 1, 0, 0, 0, 0, 0],
      [0, 0, 0, 0, 0, 0, 0, 0], [121, 1, 0, 0, 114, 0, 0, 0], [0, 0, 0, 0, 0, 0, 0, 0],
      [120, 1, 0, 0, 3, 0, 1, 0], [132, 1, 0, 0, 2, 0, 1, 0], [1, 0, 254, 255, 0, 0, 0, 0],
      [0, 0, 1, 0, 1, 0, 0, 0], [0, 0, 0, 0, 0, 0, 0, 0], [129, 1, 0, 0, 50, 0, 0, 0],
      [0, 0, 0, 0, 0, 0, 0, 0], [124, 1, 0, 0, 3, 0, 1, 0], [136, 1, 0, 0, 2, 0, 1, 0],
      [2, 0, 253, 255, 0, 0, 0, 0], [0, 0, 1, 0, 2, 0, 0, 0], [0, 0, 0, 0, 0, 0, 0, 0],
      [133, 1, 0, 0, 42, 0, 0, 0], [0, 0, 0, 0, 0, 0, 0, 0], [128, 1, 0, 0, 3, 0, 1, 0],
      [140, 1, 0, 0, 2, 0, 1, 0], [3, 0, 252, 255, 0, 0, 0, 0], [0, 0, 1, 0, 3, 0, 0, 0],
      [0, 0, 0, 0, 0, 0, 0, 0], [137, 1, 0, 0, 58, 0, 0, 0], [0, 0, 0, 0, 0, 0, 0, 0],
      [132, 1, 0, 0, 3, 0, 1, 0], [144, 1, 0, 0, 2, 0, 1, 0], [4, 0, 251, 255, 0, 0, 0, 0],
      [0, 0, 1, 0, 4, 0, 0, 0], [0, 0, 0, 0, 0, 0, 0, 0], [141, 1, 0, 0, 58, 0, 0, 0],
      [0, 0, 0, 0, 0, 0, 0, 0], [136, 1, 0, 0, 3, 0, 1, 0], [148, 1, 0, 0, 2, 0, 1, 0],
      [5, 0, 250, 255, 0, 0, 0, 0], [0, 0, 1, 0, 5, 0, 0, 0], [0, 0, 0, 0, 0, 0, 0, 0],
      [145, 1, 0, 0, 66, 0, 0, 0], [0, 0, 0, 0, 0, 0, 0, 0], [140, 1, 0, 0, 3, 0, 1, 0],
      [152, 1, 0, 0, 2, 0, 1, 0], [6, 0, 249, 255, 0, 0, 0, 0], [0, 0, 1, 0, 6, 0, 0, 0],
      [0, 0, 0, 0, 0, 0, 0, 0], [149, 1, 0, 0, 66, 0, 0, 0], [0, 0, 0, 0, 0, 0, 0, 0],
      [144, 1, 0, 0, 3, 0, 1, 0], [156, 1, 0, 0, 2, 0, 1, 0], [7, 0, 248, 255, 0, 0, 0, 0],
      [0, 0, 1, 0, 7, 0, 0, 0], [0, 0, 0, 0, 0, 0, 0, 0], [153, 1, 0, 0, 106, 0, 0, 0],
      [0, 0, 0, 0, 0, 0, 0, 0], [152, 1, 0, 0, 3, 0, 1, 0], [164, 1, 0, 0, 2, 0, 1, 0],
      [8, 0, 247, 255, 0, 0, 0, 0], [0, 0, 1, 0, 8, 0, 0, 0], [0, 0, 0, 0, 0, 0, 0, 0],
      [161, 1, 0, 0, 82, 0, 0, 0], [0, 0, 0, 0, 0, 0, 0, 0], [160, 1, 0, 0, 3, 0, 1, 0],
      [172, 1, 0, 0, 2, 0, 1, 0], [9, 0, 246, 255, 0, 0, 0, 0], [0, 0, 1, 0, 9, 0, 0, 0],
      [0, 0, 0, 0, 0, 0, 0, 0], [169, 1, 0, 0, 122, 0, 0, 0], [0, 0, 0, 0, 0, 0, 0, 0],
      [168, 1, 0, 0, 3, 0, 1, 0], [180, 1, 0, 0, 2, 0, 1, 0], [10, 0, 245, 255, 0, 0, 0, 0],
      [0, 0, 1, 0, 10, 0, 0, 0], [0, 0, 0, 0, 0, 0, 0, 0], [177, 1, 0, 0, 66, 0, 0, 0],
      [0, 0, 0, 0, 0, 0, 0, 0], [172, 1, 0, 0, 3, 0, 1, 0], [184, 1, 0, 0, 2, 0, 1, 0],
      [11, 0, 244, 255, 0, 0, 0, 0], [0, 0, 1, 0, 11, 0, 0, 0], [0, 0, 0, 0, 0, 0, 0, 0],
      [181, 1, 0, 0, 58, 0, 0, 0], [0, 0, 0, 0, 0, 0, 0, 0], [176, 1, 0, 0, 3, 0, 1, 0],
      [188, 1, 0, 0, 2, 0, 1, 0], [12, 0, 243, 255, 0, 0, 0, 0], [0, 0, 1, 0, 12, 0, 0, 0],
      [0, 0, 0, 0, 0, 0, 0, 0], [185, 1, 0, 0, 42, 0, 0, 0], [0, 0, 0, 0, 0, 0, 0, 0],
      [180, 1, 0, 0, 3, 0, 1, 0], [192, 1, 0, 0, 2, 0, 1, 0], [13, 0, 242, 255, 0, 0, 0, 0],
      [0, 0, 1, 0, 13, 0, 0, 0], [0, 0, 0, 0, 0, 0, 0, 0], [189, 1, 0, 0, 90, 0, 0, 0],
      [0, 0, 0, 0, 0, 0, 0, 0], [188, 1, 0, 0, 3, 0, 1, 0], [200, 1, 0, 0, 2, 0, 1, 0],
      [117, 110, 105, 109, 112, 108, 101, 109], [101, 110, 116, 101, 100, 0, 0, 0],
      [16, 0, 0, 0, 0, 0, 0, 0], [50, 176, 141, 128, 31, 159, 183, 145], [0, 0, 0, 0, 0, 0, 0, 0],
      [0, 0, 0, 0, 0, 0, 0, 0], [16, 0, 0, 0, 0, 0, 0, 0], [0, 0, 0, 0, 0, 0, 0, 0],
      [0, 0, 0, 0, 0, 0, 0, 0], [97, 98, 111, 114, 116, 0, 0, 0], [16, 0, 0, 0, 0, 0, 0, 0],
      [26, 105, 207, 58, 6, 183, 37, 214], [0, 0, 0, 0, 0, 0, 0, 0], [0, 0, 0, 0, 0, 0, 0, 0],
      [16, 0, 0, 0, 0, 0, 0, 0], [0, 0, 0, 0, 0, 0, 0, 0], [0, 0, 0, 0, 0, 0, 0, 0],
      [99, 97, 108, 108, 0, 0, 0, 0], [16, 0, 0, 0, 0, 0, 0, 0],
      [212, 76, 157, 120, 206, 83, 106, 131], [0, 0, 0, 0, 0, 0, 0, 0], [0, 0, 0, 0, 0, 0, 0, 0],
      [16, 0, 0, 0, 0, 0, 0, 0], [0, 0, 0, 0, 0, 0, 0, 0], [0, 0, 0, 0, 0, 0, 0, 0],
      [114, 101, 116, 117, 114, 110, 0, 0], [16, 0, 0, 0, 0, 0, 0, 0],
      [58, 87, 179, 61, 141, 178, 25, 158], [0, 0, 0, 0, 0, 0, 0, 0], [0, 0, 0, 0, 0, 0, 0, 0],
      [16, 0, 0, 0, 0, 0, 0, 0], [0, 0, 0, 0, 0, 0, 0, 0], [0, 0, 0, 0, 0, 0, 0, 0],
      [102, 105, 110, 105, 115, 104, 0, 0], [16, 0, 0, 0, 0, 0, 0, 0],
      [99, 14, 248, 194, 178, 46, 125, 211], [0, 0, 0, 0, 0, 0, 0, 0], [0, 0, 0, 0, 0, 0, 0, 0],
      [16, 0, 0, 0, 0, 0, 0, 0], [0, 0, 0, 0, 0, 0, 0, 0], [0, 0, 0, 0, 0, 0, 0, 0],
      [114, 101, 115, 111, 108, 118, 101, 0], [16, 0, 0, 0, 0, 0, 0, 0],
      [110, 8, 137, 250, 85, 150, 194, 187], [0, 0, 0, 0, 0, 0, 0, 0], [0, 0, 0, 0, 0, 0, 0, 0],
      [16, 0, 0, 0, 0, 0, 0, 0], [0, 0, 0, 0, 0, 0, 0, 0], [0, 0, 0, 0, 0, 0, 0, 0],
      [114, 101, 108, 101, 97, 115, 101, 0], [16, 0, 0, 0, 0, 0, 0, 0],
      [151, 116, 208, 125, 13, 108, 26, 173], [0, 0, 0, 0, 0, 0, 0, 0], [0, 0, 0, 0, 0, 0, 0, 0],
      [16, 0, 0, 0, 0, 0, 0, 0], [0, 0, 0, 0, 0, 0, 0, 0], [0, 0, 0, 0, 0, 0, 0, 0],
      [111, 98, 115, 111, 108, 101, 116, 101], [83, 97, 118, 101, 0, 0, 0, 0],
      [18, 0, 0, 0, 0, 0, 0, 0], [0, 0, 0, 0, 0, 0, 0, 0], [0, 0, 0, 0, 0, 0, 0, 0],
      [0, 0, 0, 0, 0, 0, 0, 0], [18, 0, 0, 0, 0, 0, 0, 0], [0, 0, 0, 0, 0, 0, 0, 0],
      [0, 0, 0, 0, 0, 0, 0, 0], [98, 111, 111, 116, 115, 116, 114, 97],
      [112, 0, 0, 0, 0, 0, 0, 0], [16, 0, 0, 0, 0, 0, 0, 0],
      [196, 110, 23, 49, 128, 207, 76, 233], [0, 0, 0, 0, 0, 0, 0, 0], [0, 0, 0, 0, 0, 0, 0, 0],
      [16, 0, 0, 0, 0, 0, 0, 0], [0, 0, 0, 0, 0, 0, 0, 0], [0, 0, 0, 0, 0, 0, 0, 0],
      [111, 98, 115, 111, 108, 101, 116, 101], [68, 101, 108, 101, 116, 101, 0, 0],
      [18, 0, 0, 0, 0, 0, 0, 0], [0, 0, 0, 0, 0, 0, 0, 0], [0, 0, 0, 0, 0, 0, 0, 0],
      [0, 0, 0, 0, 0, 0, 0, 0], [18, 0, 0, 0, 0, 0, 0, 0], [0, 0, 0, 0, 0, 0, 0, 0],
      [0, 0, 0, 0, 0, 0, 0, 0], [112, 114, 111, 118, 105, 100, 101, 0], [16, 0, 0, 0, 0, 0, 0, 0],
      [90, 172, 193, 251, 107, 4, 106, 156], [0, 0, 0, 0, 0, 0, 0, 0], [0, 0, 0, 0, 0, 0, 0, 0],
      [16, 0, 0, 0, 0, 0, 0, 0], [0, 0, 0, 0, 0, 0, 0, 0], [0, 0, 0, 0, 0, 0, 0, 0],
      [97, 99, 99, 101, 112, 116, 0, 0], [16, 0, 0, 0, 0, 0, 0, 0],
      [22, 64, 85, 144, 98, 181, 201, 212], [0, 0, 0, 0, 0, 0, 0, 0], [0, 0, 0, 0, 0, 0, 0, 0],
      [16, 0, 0, 0, 0, 0, 0, 0], [0, 0, 0, 0, 0, 0, 0, 0], [0, 0, 0, 0, 0, 0, 0, 0],
      [106, 111, 105, 110, 0, 0, 0, 0], [16, 0, 0, 0, 0, 0, 0, 0],
      [175, 1, 224, 144, 4, 152, 225, 251], [0, 0, 0, 0, 0, 0, 0, 0], [0, 0, 0, 0, 0, 0, 0, 0],
      [16, 0, 0, 0, 0, 0, 0, 0], [0, 0, 0, 0, 0, 0, 0, 0], [0, 0, 0, 0, 0, 0, 0, 0],
      [100, 105, 115, 101, 109, 98, 97, 114], [103, 111, 0, 0, 0, 0, 0, 0],
      [16, 0, 0, 0, 0, 0, 0, 0], [17, 55, 189, 15, 139, 54, 100, 249], [0, 0, 0, 0, 0, 0, 0, 0],
      [0, 0, 0, 0, 0, 0, 0, 0], [16, 0, 0, 0, 0, 0, 0, 0], [0, 0, 0, 0, 0, 0, 0, 0],
      [0, 0, 0, 0, 0, 0, 0, 0]]"

definition rpc_message_schema :: raw_schema where
  "rpc_message_schema =
     \<lparr>encoded_node = rpc_message_node,
      field_types = [StructType rpc_message_id, StructType rpc_exception_id, StructType rpc_call_id,
        StructType rpc_return_id, StructType rpc_finish_id, StructType rpc_resolve_id,
        StructType rpc_release_id, AnyPointer, StructType rpc_bootstrap_id, AnyPointer,
        StructType rpc_provide_id, StructType rpc_accept_id, StructType rpc_join_id,
        StructType rpc_disembargo_id],
      nonunion_members = [],
      members_by_discriminant = [0, 1, 2, 3, 4, 5, 6, 7, 8, 9, 10, 11, 12, 13],
      members_by_name = [1, 11, 8, 2, 13, 4, 12, 9, 7, 10, 6, 5, 3, 0],
      type_id = rpc_message_id\<rparr>"

definition rpc_bootstrap_node :: node where
  "rpc_bootstrap_node =
     [[0, 0, 0, 0, 6, 0, 6, 0], [196, 110, 23, 49, 128, 207, 76, 233], [10, 0, 0, 0, 1, 0, 1, 0],
      [80, 162, 82, 37, 27, 152, 18, 179], [1, 0, 7, 0, 0, 0, 0, 0], [0, 0, 0, 0, 0, 0, 0, 0],
      [159, 3, 0, 0, 245, 3, 0, 0], [21, 0, 0, 0, 162, 0, 0, 0], [29, 0, 0, 0, 7, 0, 0, 0],
      [0, 0, 0, 0, 0, 0, 0, 0], [25, 0, 0, 0, 119, 0, 0, 0], [0, 0, 0, 0, 0, 0, 0, 0],
      [0, 0, 0, 0, 0, 0, 0, 0], [114, 112, 99, 46, 99, 97, 112, 110],
      [112, 58, 66, 111, 111, 116, 115, 116], [114, 97, 112, 0, 0, 0, 0, 0],
      [0, 0, 0, 0, 1, 0, 1, 0], [8, 0, 0, 0, 3, 0, 4, 0], [0, 0, 0, 0, 0, 0, 0, 0],
      [0, 0, 1, 0, 0, 0, 0, 0], [0, 0, 0, 0, 0, 0, 0, 0], [41, 0, 0, 0, 90, 0, 0, 0],
      [0, 0, 0, 0, 0, 0, 0, 0], [40, 0, 0, 0, 3, 0, 1, 0], [52, 0, 0, 0, 2, 0, 1, 0],
      [1, 0, 0, 0, 0, 0, 0, 0], [0, 0, 1, 0, 1, 0, 0, 0], [0, 0, 0, 0, 0, 0, 0, 0],
      [49, 0, 0, 0, 154, 0, 0, 0], [0, 0, 0, 0, 0, 0, 0, 0], [52, 0, 0, 0, 3, 0, 1, 0],
      [64, 0, 0, 0, 2, 0, 1, 0], [113, 117, 101, 115, 116, 105, 111, 110],
      [73, 100, 0, 0, 0, 0, 0, 0], [8, 0, 0, 0, 0, 0, 0, 0], [0, 0, 0, 0, 0, 0, 0, 0],
      [0, 0, 0, 0, 0, 0, 0, 0], [0, 0, 0, 0, 0, 0, 0, 0], [8, 0, 0, 0, 0, 0, 0, 0],
      [0, 0, 0, 0, 0, 0, 0, 0], [0, 0, 0, 0, 0, 0, 0, 0], [100, 101, 112, 114, 101, 99, 97, 116],
      [101, 100, 79, 98, 106, 101, 99, 116], [73, 100, 0, 0, 0, 0, 0, 0],
      [18, 0, 0, 0, 0, 0, 0, 0], [0, 0, 0, 0, 0, 0, 0, 0], [0, 0, 0, 0, 0, 0, 0, 0],
      [0, 0, 0, 0, 0, 0, 0, 0], [18, 0, 0, 0, 0, 0, 0, 0], [0, 0, 0, 0, 0, 0, 0, 0],
      [0, 0, 0, 0, 0, 0, 0, 0]]"

definition rpc_bootstrap_schema :: raw_schema where
  "rpc_bootstrap_schema =
     \<lparr>encoded_node = rpc_bootstrap_node,
      field_types = [UInt32, AnyPointer],
      nonunion_members = [0, 1],
      members_by_discriminant = [],
      members_by_name = [1, 0],
      type_id = rpc_bootstrap_id\<rparr>"

definition rpc_call_node :: node where
  "rpc_call_node =
     [[0, 0, 0, 0, 6, 0, 6, 0], [212, 76, 157, 120, 206, 83, 106, 131], [10, 0, 0, 0, 1, 0, 3, 0],
      [80, 162, 82, 37, 27, 152, 18, 179], [3, 0, 7, 0, 0, 0, 0, 0], [0, 0, 0, 0, 0, 0, 0, 0],
      [247, 3, 0, 0, 33, 5, 0, 0], [21, 0, 0, 0, 122, 0, 0, 0], [25, 0, 0, 0, 7, 0, 0, 0],
      [0, 0, 0, 0, 0, 0, 0, 0], [21, 0, 0, 0, 143, 1, 0, 0], [0, 0, 0, 0, 0, 0, 0, 0],
      [0, 0, 0, 0, 0, 0, 0, 0], [114, 112, 99, 46, 99, 97, 112, 110],
      [112, 58, 67, 97, 108, 108, 0, 0], [0, 0, 0, 0, 1, 0, 1, 0], [28, 0, 0, 0, 3, 0, 4, 0],
      [0, 0, 0, 0, 0, 0, 0, 0], [0, 0, 1, 0, 0, 0, 0, 0], [0, 0, 0, 0, 0, 0, 0, 0],
      [181, 0, 0, 0, 90, 0, 0, 0], [0, 0, 0, 0, 0, 0, 0, 0], [180, 0, 0, 0, 3, 0, 1, 0],
      [192, 0, 0, 0, 2, 0, 1, 0], [1, 0, 0, 0, 0, 0, 0, 0], [0, 0, 1, 0, 1, 0, 0, 0],
      [0, 0, 0, 0, 0, 0, 0, 0], [189, 0, 0, 0, 58, 0, 0, 0], [0, 0, 0, 0, 0, 0, 0, 0],
      [184, 0, 0, 0, 3, 0, 1, 0], [196, 0, 0, 0, 2, 0, 1, 0], [2, 0, 0, 0, 1, 0, 0, 0],
      [0, 0, 1, 0, 2, 0, 0, 0], [0, 0, 0, 0, 0, 0, 0, 0], [193, 0, 0, 0, 98, 0, 0, 0],
      [0, 0, 0, 0, 0, 0, 0, 0], [192, 0, 0, 0, 3, 0, 1, 0], [204, 0, 0, 0, 2, 0, 1, 0],
      [3, 0, 0, 0, 2, 0, 0, 0], [0, 0, 1, 0, 3, 0, 0, 0], [0, 0, 0, 0, 0, 0, 0, 0],
      [201, 0, 0, 0, 74, 0, 0, 0], [0, 0, 0, 0, 0, 0, 0, 0], [200, 0, 0, 0, 3, 0, 1, 0],
      [212, 0, 0, 0, 2, 0, 1, 0], [5, 0, 0, 0, 1, 0, 0, 0], [0, 0, 1, 0, 4, 0, 0, 0],
      [0, 0, 0, 0, 0, 0, 0, 0], [209, 0, 0, 0, 58, 0, 0, 0], [0, 0, 0, 0, 0, 0, 0, 0],
      [204, 0, 0, 0, 3, 0, 1, 0], [216, 0, 0, 0, 2, 0, 1, 0], [6, 0, 0, 0, 0, 0, 0, 0],
      [1, 0, 0, 0, 0, 0, 0, 0], [153, 95, 171, 26, 246, 176, 232, 218],
      [213, 0, 0, 0, 114, 0, 0, 0], [0, 0, 0, 0, 0, 0, 0, 0], [0, 0, 0, 0, 0, 0, 0, 0],
      [0, 0, 0, 0, 0, 0, 0, 0], [4, 0, 0, 0, 128, 0, 0, 0], [0, 0, 1, 0, 8, 0, 0, 0],
      [1, 0, 0, 0, 0, 0, 0, 0], [193, 0, 0, 0, 194, 0, 0, 0], [0, 0, 0, 0, 0, 0, 0, 0],
      [196, 0, 0, 0, 3, 0, 1, 0], [208, 0, 0, 0, 2, 0, 1, 0],
      [113, 117, 101, 115, 116, 105, 111, 110], [73, 100, 0, 0, 0, 0, 0, 0],
      [8, 0, 0, 0, 0, 0, 0, 0], [0, 0, 0, 0, 0, 0, 0, 0], [0, 0, 0, 0, 0, 0, 0, 0],
      [0, 0, 0, 0, 0, 0, 0, 0], [8, 0, 0, 0, 0, 0, 0, 0], [0, 0, 0, 0, 0, 0, 0, 0],
      [0, 0, 0, 0, 0, 0, 0, 0], [116, 97, 114, 103, 101, 116, 0, 0], [16, 0, 0, 0, 0, 0, 0, 0],
      [193, 251, 19, 88, 84, 20, 188, 149], [0, 0, 0, 0, 0, 0, 0, 0], [0, 0, 0, 0, 0, 0, 0, 0],
      [16, 0, 0, 0, 0, 0, 0, 0], [0, 0, 0, 0, 0, 0, 0, 0], [0, 0, 0, 0, 0, 0, 0, 0],
      [105, 110, 116, 101, 114, 102, 97, 99], [101, 73, 100, 0, 0, 0, 0, 0],
      [9, 0, 0, 0, 0, 0, 0, 0], [0, 0, 0, 0, 0, 0, 0, 0], [0, 0, 0, 0, 0, 0, 0, 0],
      [0, 0, 0, 0, 0, 0, 0, 0], [9, 0, 0, 0, 0, 0, 0, 0], [0, 0, 0, 0, 0, 0, 0, 0],
      [0, 0, 0, 0, 0, 0, 0, 0], [109, 101, 116, 104, 111, 100, 73, 100], [0, 0, 0, 0, 0, 0, 0, 0],
      [7, 0, 0, 0, 0, 0, 0, 0], [0, 0, 0, 0, 0, 0, 0, 0], [0, 0, 0, 0, 0, 0, 0, 0],
      [0, 0, 0, 0, 0, 0, 0, 0], [7, 0, 0, 0, 0, 0, 0, 0], [0, 0, 0, 0, 0, 0, 0, 0],
      [0, 0, 0, 0, 0, 0, 0, 0], [112, 97, 114, 97, 109, 115, 0, 0], [16, 0, 0, 0, 0, 0, 0, 0],
      [59, 116, 150, 61, 34, 97, 14, 154], [0, 0, 0, 0, 0, 0, 0, 0], [0, 0, 0, 0, 0, 0, 0, 0],
      [16, 0, 0, 0, 0, 0, 0, 0], [0, 0, 0, 0, 0, 0, 0, 0], [0, 0, 0, 0, 0, 0, 0, 0],
      [115, 101, 110, 100, 82, 101, 115, 117], [108, 116, 115, 84, 111, 0, 0, 0],
      [97, 108, 108, 111, 119, 84, 104, 105], [114, 100, 80, 97, 114, 116, 121, 84],
      [97, 105, 108, 67, 97, 108, 108, 0], [1, 0, 0, 0, 0, 0, 0, 0], [0, 0, 0, 0, 0, 0, 0, 0],
      [0, 0, 0, 0, 0, 0, 0, 0], [0, 0, 0, 0, 0, 0, 0, 0], [1, 0, 0, 0, 0, 0, 0, 0],
      [0, 0, 0, 0, 0, 0, 0, 0], [0, 0, 0, 0, 0, 0, 0, 0]]"

definition rpc_call_schema :: raw_schema where
  "rpc_call_schema =
     \<lparr>encoded_node = rpc_call_node,
      field_types = [UInt32, StructType rpc_message_target_id, UInt64, UInt16, StructType rpc_payload_id,
        StructType rpc_call_send_results_to_id, Bool],
      nonunion_members = [0, 1, 2, 3, 4, 5, 6],
      members_by_discriminant = [],
      members_by_name = [6, 2, 3, 4, 0, 5, 1],
      type_id = rpc_call_id\<rparr>"

definition rpc_call_send_results_to_node :: node where
  "rpc_call_send_results_to_node =
     [[0, 0, 0, 0, 6, 0, 6, 0], [153, 95, 171, 26, 246, 176, 232, 218], [15, 0, 0, 0, 1, 0, 3, 0],
      [212, 76, 157, 120, 206, 83, 106, 131], [3, 0, 7, 0, 1, 0, 3, 0], [3, 0, 0, 0, 0, 0, 0, 0],
      [0, 0, 0, 0, 0, 0, 0, 0], [21, 0, 0, 0, 234, 0, 0, 0], [0, 0, 0, 0, 0, 0, 0, 0],
      [0, 0, 0, 0, 0, 0, 0, 0], [25, 0, 0, 0, 175, 0, 0, 0], [0, 0, 0, 0, 0, 0, 0, 0],
      [0, 0, 0, 0, 0, 0, 0, 0], [114, 112, 99, 46, 99, 97, 112, 110],
      [112, 58, 67, 97, 108, 108, 46, 115], [101, 110, 100, 82, 101, 115, 117, 108],
      [116, 115, 84, 111, 0, 0, 0, 0], [12, 0, 0, 0, 3, 0, 4, 0], [0, 0, 255, 255, 0, 0, 0, 0],
      [0, 0, 1, 0, 5, 0, 0, 0], [0, 0, 0, 0, 0, 0, 0, 0], [69, 0, 0, 0, 58, 0, 0, 0],
      [0, 0, 0, 0, 0, 0, 0, 0], [64, 0, 0, 0, 3, 0, 1, 0], [76, 0, 0, 0, 2, 0, 1, 0],
      [1, 0, 254, 255, 0, 0, 0, 0], [0, 0, 1, 0, 6, 0, 0, 0], [0, 0, 0, 0, 0, 0, 0, 0],
      [73, 0, 0, 0, 74, 0, 0, 0], [0, 0, 0, 0, 0, 0, 0, 0], [72, 0, 0, 0, 3, 0, 1, 0],
      [84, 0, 0, 0, 2, 0, 1, 0], [2, 0, 253, 255, 2, 0, 0, 0], [0, 0, 1, 0, 7, 0, 0, 0],
      [0, 0, 0, 0, 0, 0, 0, 0], [81, 0, 0, 0, 90, 0, 0, 0], [0, 0, 0, 0, 0, 0, 0, 0],
      [80, 0, 0, 0, 3, 0, 1, 0], [92, 0, 0, 0, 2, 0, 1, 0], [99, 97, 108, 108, 101, 114, 0, 0],
      [0, 0, 0, 0, 0, 0, 0, 0], [0, 0, 0, 0, 0, 0, 0, 0], [0, 0, 0, 0, 0, 0, 0, 0],
      [0, 0, 0, 0, 0, 0, 0, 0], [0, 0, 0, 0, 0, 0, 0, 0], [0, 0, 0, 0, 0, 0, 0, 0],
      [0, 0, 0, 0, 0, 0, 0, 0], [121, 111, 117, 114, 115, 101, 108, 102],
      [0, 0, 0, 0, 0, 0, 0, 0], [0, 0, 0, 0, 0, 0, 0, 0], [0, 0, 0, 0, 0, 0, 0, 0],
      [0, 0, 0, 0, 0, 0, 0, 0], [0, 0, 0, 0, 0, 0, 0, 0], [0, 0, 0, 0, 0, 0, 0, 0],
      [0, 0, 0, 0, 0, 0, 0, 0], [0, 0, 0, 0, 0, 0, 0, 0], [116, 104, 105, 114, 100, 80, 97, 114],
      [116, 121, 0, 0, 0, 0, 0, 0], [18, 0, 0, 0, 0, 0, 0, 0], [0, 0, 0, 0, 0, 0, 0, 0],
      [0, 0, 0, 0, 0, 0, 0, 0], [0, 0, 0, 0, 0, 0, 0, 0], [18, 0, 0, 0, 0, 0, 0, 0],
      [0, 0, 0, 0, 0, 0, 0, 0], [0, 0, 0, 0, 0, 0, 0, 0]]"

definition rpc_call_send_results_to_schema :: raw_schema where
  "rpc_call_send_results_to_schema =
     \<lparr>encoded_node = rpc_call_send_results_to_node,
      field_types = [Void, Void, AnyPointer],
      nonunion_members = [],
      members_by_discriminant = [0, 1, 2],
      members_by_name = [0, 2, 1],
      type_id = rpc_call_send_results_to_id\<rparr>"

definition rpc_return_node :: node where
  "rpc_return_node =
     [[0, 0, 0, 0, 6, 0, 6, 0], [58, 87, 179, 61, 141, 178, 25, 158], [10, 0, 0, 0, 1, 0, 2, 0],
      [80, 162, 82, 37, 27, 152, 18, 179], [1, 0, 7, 0, 0, 0, 6, 0], [3, 0, 0, 0, 0, 0, 0, 0],
      [35, 5, 0, 0, 66, 6, 0, 0], [21, 0, 0, 0, 138, 0, 0, 0], [29, 0, 0, 0, 7, 0, 0, 0],
      [0, 0, 0, 0, 0, 0, 0, 0], [25, 0, 0, 0, 199, 1, 0, 0], [0, 0, 0, 0, 0, 0, 0, 0],
      [0, 0, 0, 0, 0, 0, 0, 0], [114, 112, 99, 46, 99, 97, 112, 110],
      [112, 58, 82, 101, 116, 117, 114, 110], [0, 0, 0, 0, 0, 0, 0, 0], [0, 0, 0, 0, 1, 0, 1, 0],
      [32, 0, 0, 0, 3, 0, 4, 0], [0, 0, 0, 0, 0, 0, 0, 0], [0, 0, 1, 0, 0, 0, 0, 0],
      [0, 0, 0, 0, 0, 0, 0, 0], [209, 0, 0, 0, 74, 0, 0, 0], [0, 0, 0, 0, 0, 0, 0, 0],
      [208, 0, 0, 0, 3, 0, 1, 0], [220, 0, 0, 0, 2, 0, 1, 0], [1, 0, 0, 0, 32, 0, 0, 0],
      [0, 0, 1, 0, 1, 0, 0, 0], [1, 0, 0, 0, 0, 0, 0, 0], [217, 0, 0, 0, 138, 0, 0, 0],
      [0, 0, 0, 0, 0, 0, 0, 0], [220, 0, 0, 0, 3, 0, 1, 0], [232, 0, 0, 0, 2, 0, 1, 0],
      [2, 0, 255, 255, 0, 0, 0, 0], [0, 0, 1, 0, 2, 0, 0, 0], [0, 0, 0, 0, 0, 0, 0, 0],
      [229, 0, 0, 0, 66, 0, 0, 0], [0, 0, 0, 0, 0, 0, 0, 0], [224, 0, 0, 0, 3, 0, 1, 0],
      [236, 0, 0, 0, 2, 0, 1, 0], [3, 0, 254, 255, 0, 0, 0, 0], [0, 0, 1, 0, 3, 0, 0, 0],
      [0, 0, 0, 0, 0, 0, 0, 0], [233, 0, 0, 0, 82, 0, 0, 0], [0, 0, 0, 0, 0, 0, 0, 0],
      [232, 0, 0, 0, 3, 0, 1, 0], [244, 0, 0, 0, 2, 0, 1, 0], [4, 0, 253, 255, 0, 0, 0, 0],
      [0, 0, 1, 0, 4, 0, 0, 0], [0, 0, 0, 0, 0, 0, 0, 0], [241, 0, 0, 0, 74, 0, 0, 0],
      [0, 0, 0, 0, 0, 0, 0, 0], [240, 0, 0, 0, 3, 0, 1, 0], [252, 0, 0, 0, 2, 0, 1, 0],
      [5, 0, 252, 255, 0, 0, 0, 0], [0, 0, 1, 0, 5, 0, 0, 0], [0, 0, 0, 0, 0, 0, 0, 0],
      [249, 0, 0, 0, 170, 0, 0, 0], [0, 0, 0, 0, 0, 0, 0, 0], [252, 0, 0, 0, 3, 0, 1, 0],
      [8, 1, 0, 0, 2, 0, 1, 0], [6, 0, 251, 255, 2, 0, 0, 0], [0, 0, 1, 0, 6, 0, 0, 0],
      [0, 0, 0, 0, 0, 0, 0, 0], [5, 1, 0, 0, 178, 0, 0, 0], [0, 0, 0, 0, 0, 0, 0, 0],
      [8, 1, 0, 0, 3, 0, 1, 0], [20, 1, 0, 0, 2, 0, 1, 0], [7, 0, 250, 255, 0, 0, 0, 0],
      [0, 0, 1, 0, 7, 0, 0, 0], [0, 0, 0, 0, 0, 0, 0, 0], [17, 1, 0, 0, 170, 0, 0, 0],
      [0, 0, 0, 0, 0, 0, 0, 0], [20, 1, 0, 0, 3, 0, 1, 0], [32, 1, 0, 0, 2, 0, 1, 0],
      [97, 110, 115, 119, 101, 114, 73, 100], [0, 0, 0, 0, 0, 0, 0, 0], [8, 0, 0, 0, 0, 0, 0, 0],
      [0, 0, 0, 0, 0, 0, 0, 0], [0, 0, 0, 0, 0, 0, 0, 0], [0, 0, 0, 0, 0, 0, 0, 0],
      [8, 0, 0, 0, 0, 0, 0, 0], [0, 0, 0, 0, 0, 0, 0, 0], [0, 0, 0, 0, 0, 0, 0, 0],
      [114, 101, 108, 101, 97, 115, 101, 80], [97, 114, 97, 109, 67, 97, 112, 115],
      [0, 0, 0, 0, 0, 0, 0, 0], [1, 0, 0, 0, 0, 0, 0, 0], [0, 0, 0, 0, 0, 0, 0, 0],
      [0, 0, 0, 0, 0, 0, 0, 0], [0, 0, 0, 0, 0, 0, 0, 0], [1, 0, 1, 0, 0, 0, 0, 0],
      [0, 0, 0, 0, 0, 0, 0, 0], [0, 0, 0, 0, 0, 0, 0, 0], [114, 101, 115, 117, 108, 116, 115, 0],
      [16, 0, 0, 0, 0, 0, 0, 0], [59, 116, 150, 61, 34, 97, 14, 154], [0, 0, 0, 0, 0, 0, 0, 0],
      [0, 0, 0, 0, 0, 0, 0, 0], [16, 0, 0, 0, 0, 0, 0, 0], [0, 0, 0, 0, 0, 0, 0, 0],
      [0, 0, 0, 0, 0, 0, 0, 0], [101, 120, 99, 101, 112, 116, 105, 111],
      [110, 0, 0, 0, 0, 0, 0, 0], [16, 0, 0, 0, 0, 0, 0, 0], [26, 105, 207, 58, 6, 183, 37, 214],
      [0, 0, 0, 0, 0, 0, 0, 0], [0, 0, 0, 0, 0, 0, 0, 0], [16, 0, 0, 0, 0, 0, 0, 0],
      [0, 0, 0, 0, 0, 0, 0, 0], [0, 0, 0, 0, 0, 0, 0, 0], [99, 97, 110, 99, 101, 108, 101, 100],
      [0, 0, 0, 0, 0, 0, 0, 0], [0, 0, 0, 0, 0, 0, 0, 0], [0, 0, 0, 0, 0, 0, 0, 0],
      [0, 0, 0, 0, 0, 0, 0, 0], [0, 0, 0, 0, 0, 0, 0, 0], [0, 0, 0, 0, 0, 0, 0, 0],
      [0, 0, 0, 0, 0, 0, 0, 0], [0, 0, 0, 0, 0, 0, 0, 0], [114, 101, 115, 117, 108, 116, 115, 83],
      [101, 110, 116, 69, 108, 115, 101, 119], [104, 101, 114, 101, 0, 0, 0, 0],
      [0, 0, 0, 0, 0, 0, 0, 0], [0, 0, 0, 0, 0, 0, 0, 0], [0, 0, 0, 0, 0, 0, 0, 0],
      [0, 0, 0, 0, 0, 0, 0, 0], [0, 0, 0, 0, 0, 0, 0, 0], [0, 0, 0, 0, 0, 0, 0, 0],
      [0, 0, 0, 0, 0, 0, 0, 0], [116, 97, 107, 101, 70, 114, 111, 109],
      [79, 116, 104, 101, 114, 81, 117, 101], [115, 116, 105, 111, 110, 0, 0, 0],
      [8, 0, 0, 0, 0, 0, 0, 0], [0, 0, 0, 0, 0, 0, 0, 0], [0, 0, 0, 0, 0, 0, 0, 0],
      [0, 0, 0, 0, 0, 0, 0, 0], [8, 0, 0, 0, 0, 0, 0, 0], [0, 0, 0, 0, 0, 0, 0, 0],
      [0, 0, 0, 0, 0, 0, 0, 0], [97, 99, 99, 101, 112, 116, 70, 114],
      [111, 109, 84, 104, 105, 114, 100, 80], [97, 114, 116, 121, 0, 0, 0, 0],
      [18, 0, 0, 0, 0, 0, 0, 0], [0, 0, 0, 0, 0, 0, 0, 0], [0, 0, 0, 0, 0, 0, 0, 0],
      [0, 0, 0, 0, 0, 0, 0, 0], [18, 0, 0, 0, 0, 0, 0, 0], [0, 0, 0, 0, 0, 0, 0, 0],
      [0, 0, 0, 0, 0, 0, 0, 0]]"

definition rpc_return_schema :: raw_schema where
  "rpc_return_schema =
     \<lparr>encoded_node = rpc_return_node,
      field_types = [UInt32, Bool, StructType rpc_payload_id, StructType rpc_exception_id, Void, Void, UInt32,
        AnyPointer],
      nonunion_members = [0, 1],
      members_by_discriminant = [2, 3, 4, 5, 6, 7],
      members_by_name = [7, 0, 4, 3, 1, 2, 5, 6],
      type_id = rpc_return_id\<rparr>"

definition rpc_finish_node :: node where
  "rpc_finish_node =
     [[0, 0, 0, 0, 6, 0, 6, 0], [99, 14, 248, 194, 178, 46, 125, 211], [10, 0, 0, 0, 1, 0, 1, 0],
      [80, 162, 82, 37, 27, 152, 18, 179], [0, 0, 7, 0, 0, 0, 0, 0], [0, 0, 0, 0, 0, 0, 0, 0],
      [68, 6, 0, 0, 151, 6, 0, 0], [21, 0, 0, 0, 138, 0, 0, 0], [29, 0, 0, 0, 7, 0, 0, 0],
      [0, 0, 0, 0, 0, 0, 0, 0], [25, 0, 0, 0, 119, 0, 0, 0], [0, 0, 0, 0, 0, 0, 0, 0],
      [0, 0, 0, 0, 0, 0, 0, 0], [114, 112, 99, 46, 99, 97, 112, 110],
      [112, 58, 70, 105, 110, 105, 115, 104], [0, 0, 0, 0, 0, 0, 0, 0], [0, 0, 0, 0, 1, 0, 1, 0],
      [8, 0, 0, 0, 3, 0, 4, 0], [0, 0, 0, 0, 0, 0, 0, 0], [0, 0, 1, 0, 0, 0, 0, 0],
      [0, 0, 0, 0, 0, 0, 0, 0], [41, 0, 0, 0, 90, 0, 0, 0], [0, 0, 0, 0, 0, 0, 0, 0],
      [40, 0, 0, 0, 3, 0, 1, 0], [52, 0, 0, 0, 2, 0, 1, 0], [1, 0, 0, 0, 32, 0, 0, 0],
      [0, 0, 1, 0, 1, 0, 0, 0], [1, 0, 0, 0, 0, 0, 0, 0], [49, 0, 0, 0, 146, 0, 0, 0],
      [0, 0, 0, 0, 0, 0, 0, 0], [52, 0, 0, 0, 3, 0, 1, 0], [64, 0, 0, 0, 2, 0, 1, 0],
      [113, 117, 101, 115, 116, 105, 111, 110], [73, 100, 0, 0, 0, 0, 0, 0],
      [8, 0, 0, 0, 0, 0, 0, 0], [0, 0, 0, 0, 0, 0, 0, 0], [0, 0, 0, 0, 0, 0, 0, 0],
      [0, 0, 0, 0, 0, 0, 0, 0], [8, 0, 0, 0, 0, 0, 0, 0], [0, 0, 0, 0, 0, 0, 0, 0],
      [0, 0, 0, 0, 0, 0, 0, 0], [114, 101, 108, 101, 97, 115, 101, 82],
      [101, 115, 117, 108, 116, 67, 97, 112], [115, 0, 0, 0, 0, 0, 0, 0],
      [1, 0, 0, 0, 0, 0, 0, 0], [0, 0, 0, 0, 0, 0, 0, 0], [0, 0, 0, 0, 0, 0, 0, 0],
      [0, 0, 0, 0, 0, 0, 0, 0], [1, 0, 1, 0, 0, 0, 0, 0], [0, 0, 0, 0, 0, 0, 0, 0],
      [0, 0, 0, 0, 0, 0, 0, 0]]"

definition rpc_finish_schema :: raw_schema where
  "rpc_finish_schema =
     \<lparr>encoded_node = rpc_finish_node,
      field_types = [UInt32, Bool],
      nonunion_members = [0, 1],
      members_by_discriminant = [],
      members_by_name = [0, 1],
      type_id = rpc_finish_id\<rparr>"

definition rpc_resolve_node :: node where
  "rpc_resolve_node =
     [[0, 0, 0, 0, 6, 0, 6, 0], [110, 8, 137, 250, 85, 150, 194, 187], [10, 0, 0, 0, 1, 0, 1, 0],
      [80, 162, 82, 37, 27, 152, 18, 179], [1, 0, 7, 0, 0, 0, 2, 0], [2, 0, 0, 0, 0, 0, 0, 0],
      [153, 6, 0, 0, 11, 7, 0, 0], [21, 0, 0, 0, 146, 0, 0, 0], [29, 0, 0, 0, 7, 0, 0, 0],
      [0, 0, 0, 0, 0, 0, 0, 0], [25, 0, 0, 0, 175, 0, 0, 0], [0, 0, 0, 0, 0, 0, 0, 0],
      [0, 0, 0, 0, 0, 0, 0, 0], [114, 112, 99, 46, 99, 97, 112, 110],
      [112, 58, 82, 101, 115, 111, 108, 118], [101, 0, 0, 0, 0, 0, 0, 0],
      [0, 0, 0, 0, 1, 0, 1, 0], [12, 0, 0, 0, 3, 0, 4, 0], [0, 0, 0, 0, 0, 0, 0, 0],
      [0, 0, 1, 0, 0, 0, 0, 0], [0, 0, 0, 0, 0, 0, 0, 0], [69, 0, 0, 0, 82, 0, 0, 0],
      [0, 0, 0, 0, 0, 0, 0, 0], [68, 0, 0, 0, 3, 0, 1, 0], [80, 0, 0, 0, 2, 0, 1, 0],
      [1, 0, 255, 255, 0, 0, 0, 0], [0, 0, 1, 0, 1, 0, 0, 0], [0, 0, 0, 0, 0, 0, 0, 0],
      [77, 0, 0, 0, 34, 0, 0, 0], [0, 0, 0, 0, 0, 0, 0, 0], [72, 0, 0, 0, 3, 0, 1, 0],
      [84, 0, 0, 0, 2, 0, 1, 0], [2, 0, 254, 255, 0, 0, 0, 0], [0, 0, 1, 0, 2, 0, 0, 0],
      [0, 0, 0, 0, 0, 0, 0, 0], [81, 0, 0, 0, 82, 0, 0, 0], [0, 0, 0, 0, 0, 0, 0, 0],
      [80, 0, 0, 0, 3, 0, 1, 0], [92, 0, 0, 0, 2, 0, 1, 0],
      [112, 114, 111, 109, 105, 115, 101, 73], [100, 0, 0, 0, 0, 0, 0, 0],
      [8, 0, 0, 0, 0, 0, 0, 0], [0, 0, 0, 0, 0, 0, 0, 0], [0, 0, 0, 0, 0, 0, 0, 0],
      [0, 0, 0, 0, 0, 0, 0, 0], [8, 0, 0, 0, 0, 0, 0, 0], [0, 0, 0, 0, 0, 0, 0, 0],
      [0, 0, 0, 0, 0, 0, 0, 0], [99, 97, 112, 0, 0, 0, 0, 0], [16, 0, 0, 0, 0, 0, 0, 0],
      [176, 184, 134, 11, 196, 221, 35, 133], [0, 0, 0, 0, 0, 0, 0, 0], [0, 0, 0, 0, 0, 0, 0, 0],
      [16, 0, 0, 0, 0, 0, 0, 0], [0, 0, 0, 0, 0, 0, 0, 0], [0, 0, 0, 0, 0, 0, 0, 0],
      [101, 120, 99, 101, 112, 116, 105, 111], [110, 0, 0, 0, 0, 0, 0, 0],
      [16, 0, 0, 0, 0, 0, 0, 0], [26, 105, 207, 58, 6, 183, 37, 214], [0, 0, 0, 0, 0, 0, 0, 0],
      [0, 0, 0, 0, 0, 0, 0, 0], [16, 0, 0, 0, 0, 0, 0, 0], [0, 0, 0, 0, 0, 0, 0, 0],
      [0, 0, 0, 0, 0, 0, 0, 0]]"

definition rpc_resolve_schema :: raw_schema where
  "rpc_resolve_schema =
     \<lparr>encoded_node = rpc_resolve_node,
      field_types = [UInt32, StructType rpc_cap_descriptor_id, StructType rpc_exception_id],
      nonunion_members = [0],
      members_by_discriminant = [1, 2],
      members_by_name = [1, 2, 0],
      type_id = rpc_resolve_id\<rparr>"

definition rpc_release_node :: node where
  "rpc_release_node =
     [[0, 0, 0, 0, 6, 0, 6, 0], [151, 116, 208, 125, 13, 108, 26, 173], [10, 0, 0, 0, 1, 0, 1, 0],
      [80, 162, 82, 37, 27, 152, 18, 179], [0, 0, 7, 0, 0, 0, 0, 0], [0, 0, 0, 0, 0, 0, 0, 0],
      [13, 7, 0, 0, 79, 7, 0, 0], [21, 0, 0, 0, 146, 0, 0, 0], [29, 0, 0, 0, 7, 0, 0, 0],
      [0, 0, 0, 0, 0, 0, 0, 0], [25, 0, 0, 0, 119, 0, 0, 0], [0, 0, 0, 0, 0, 0, 0, 0],
      [0, 0, 0, 0, 0, 0, 0, 0], [114, 112, 99, 46, 99, 97, 112, 110],
      [112, 58, 82, 101, 108, 101, 97, 115], [101, 0, 0, 0, 0, 0, 0, 0], [0, 0, 0, 0, 1, 0, 1, 0],
      [8, 0, 0, 0, 3, 0, 4, 0], [0, 0, 0, 0, 0, 0, 0, 0], [0, 0, 1, 0, 0, 0, 0, 0],
      [0, 0, 0, 0, 0, 0, 0, 0], [41, 0, 0, 0, 26, 0, 0, 0], [0, 0, 0, 0, 0, 0, 0, 0],
      [36, 0, 0, 0, 3, 0, 1, 0], [48, 0, 0, 0, 2, 0, 1, 0], [1, 0, 0, 0, 1, 0, 0, 0],
      [0, 0, 1, 0, 1, 0, 0, 0], [0, 0, 0, 0, 0, 0, 0, 0], [45, 0, 0, 0, 122, 0, 0, 0],
      [0, 0, 0, 0, 0, 0, 0, 0], [44, 0, 0, 0, 3, 0, 1, 0], [56, 0, 0, 0, 2, 0, 1, 0],
      [105, 100, 0, 0, 0, 0, 0, 0], [8, 0, 0, 0, 0, 0, 0, 0], [0, 0, 0, 0, 0, 0, 0, 0],
      [0, 0, 0, 0, 0, 0, 0, 0], [0, 0, 0, 0, 0, 0, 0, 0], [8, 0, 0, 0, 0, 0, 0, 0],
      [0, 0, 0, 0, 0, 0, 0, 0], [0, 0, 0, 0, 0, 0, 0, 0], [114, 101, 102, 101, 114, 101, 110, 99],
      [101, 67, 111, 117, 110, 116, 0, 0], [8, 0, 0, 0, 0, 0, 0, 0], [0, 0, 0, 0, 0, 0, 0, 0],
      [0, 0, 0, 0, 0, 0, 0, 0], [0, 0, 0, 0, 0, 0, 0, 0], [8, 0, 0, 0, 0, 0, 0, 0],
      [0, 0, 0, 0, 0, 0, 0, 0], [0, 0, 0, 0, 0, 0, 0, 0]]"

definition rpc_release_schema :: raw_schema where
  "rpc_release_schema =
     \<lparr>encoded_node = rpc_release_node,
      field_types = [UInt32, UInt32],
      nonunion_members = [0, 1],
      members_by_discriminant = [],
      members_by_name = [0, 1],
      type_id = rpc_release_id\<rparr>"

definition rpc_message_target_node :: node where
  "rpc_message_target_node =
     [[0, 0, 0, 0, 6, 0, 6, 0], [193, 251, 19, 88, 84, 20, 188, 149], [10, 0, 0, 0, 1, 0, 1, 0],
      [80, 162, 82, 37, 27, 152, 18, 179], [1, 0, 7, 0, 0, 0, 2, 0], [2, 0, 0, 0, 0, 0, 0, 0],
      [81, 7, 0, 0, 188, 7, 0, 0], [21, 0, 0, 0, 194, 0, 0, 0], [29, 0, 0, 0, 7, 0, 0, 0],
      [0, 0, 0, 0, 0, 0, 0, 0], [25, 0, 0, 0, 119, 0, 0, 0], [0, 0, 0, 0, 0, 0, 0, 0],
      [0, 0, 0, 0, 0, 0, 0, 0], [114, 112, 99, 46, 99, 97, 112, 110],
      [112, 58, 77, 101, 115, 115, 97, 103], [101, 84, 97, 114, 103, 101, 116, 0],
      [0, 0, 0, 0, 1, 0, 1, 0], [8, 0, 0, 0, 3, 0, 4, 0], [0, 0, 255, 255, 0, 0, 0, 0],
      [0, 0, 1, 0, 0, 0, 0, 0], [0, 0, 0, 0, 0, 0, 0, 0], [41, 0, 0, 0, 98, 0, 0, 0],
      [0, 0, 0, 0, 0, 0, 0, 0], [40, 0, 0, 0, 3, 0, 1, 0], [52, 0, 0, 0, 2, 0, 1, 0],
      [1, 0, 254, 255, 0, 0, 0, 0], [0, 0, 1, 0, 1, 0, 0, 0], [0, 0, 0, 0, 0, 0, 0, 0],
      [49, 0, 0, 0, 122, 0, 0, 0], [0, 0, 0, 0, 0, 0, 0, 0], [48, 0, 0, 0, 3, 0, 1, 0],
      [60, 0, 0, 0, 2, 0, 1, 0], [105, 109, 112, 111, 114, 116, 101, 100],
      [67, 97, 112, 0, 0, 0, 0, 0], [8, 0, 0, 0, 0, 0, 0, 0], [0, 0, 0, 0, 0, 0, 0, 0],
      [0, 0, 0, 0, 0, 0, 0, 0], [0, 0, 0, 0, 0, 0, 0, 0], [8, 0, 0, 0, 0, 0, 0, 0],
      [0, 0, 0, 0, 0, 0, 0, 0], [0, 0, 0, 0, 0, 0, 0, 0],
      [112, 114, 111, 109, 105, 115, 101, 100], [65, 110, 115, 119, 101, 114, 0, 0],
      [16, 0, 0, 0, 0, 0, 0, 0], [160, 28, 111, 205, 214, 177, 0, 216], [0, 0, 0, 0, 0, 0, 0, 0],
      [0, 0, 0, 0, 0, 0, 0, 0], [16, 0, 0, 0, 0, 0, 0, 0], [0, 0, 0, 0, 0, 0, 0, 0],
      [0, 0, 0, 0, 0, 0, 0, 0]]"

definition rpc_message_target_schema :: raw_schema where
  "rpc_message_target_schema =
     \<lparr>encoded_node = rpc_message_target_node,
      field_types = [UInt32, StructType rpc_promised_answer_id],
      nonunion_members = [],
      members_by_discriminant = [0, 1],
      members_by_name = [0, 1],
      type_id = rpc_message_target_id\<rparr>"

definition rpc_payload_node :: node where
  "rpc_payload_node =
     [[0, 0, 0, 0, 6, 0, 6, 0], [59, 116, 150, 61, 34, 97, 14, 154], [10, 0, 0, 0, 1, 0, 0, 0],
      [80, 162, 82, 37, 27, 152, 18, 179], [2, 0, 7, 0, 0, 0, 0, 0], [0, 0, 0, 0, 0, 0, 0, 0],
      [190, 7, 0, 0, 14, 8, 0, 0], [21, 0, 0, 0, 146, 0, 0, 0], [29, 0, 0, 0, 7, 0, 0, 0],
      [0, 0, 0, 0, 0, 0, 0, 0], [25, 0, 0, 0, 119, 0, 0, 0], [0, 0, 0, 0, 0, 0, 0, 0],
      [0, 0, 0, 0, 0, 0, 0, 0], [114, 112, 99, 46, 99, 97, 112, 110],
      [112, 58, 80, 97, 121, 108, 111, 97], [100, 0, 0, 0, 0, 0, 0, 0], [0, 0, 0, 0, 1, 0, 1, 0],
      [8, 0, 0, 0, 3, 0, 4, 0], [0, 0, 0, 0, 0, 0, 0, 0], [0, 0, 1, 0, 0, 0, 0, 0],
      [0, 0, 0, 0, 0, 0, 0, 0], [41, 0, 0, 0, 66, 0, 0, 0], [0, 0, 0, 0, 0, 0, 0, 0],
      [36, 0, 0, 0, 3, 0, 1, 0], [48, 0, 0, 0, 2, 0, 1, 0], [1, 0, 0, 0, 1, 0, 0, 0],
      [0, 0, 1, 0, 1, 0, 0, 0], [0, 0, 0, 0, 0, 0, 0, 0], [45, 0, 0, 0, 74, 0, 0, 0],
      [0, 0, 0, 0, 0, 0, 0, 0], [44, 0, 0, 0, 3, 0, 1, 0], [72, 0, 0, 0, 2, 0, 1, 0],
      [99, 111, 110, 116, 101, 110, 116, 0], [18, 0, 0, 0, 0, 0, 0, 0], [0, 0, 0, 0, 0, 0, 0, 0],
      [0, 0, 0, 0, 0, 0, 0, 0], [0, 0, 0, 0, 0, 0, 0, 0], [18, 0, 0, 0, 0, 0, 0, 0],
      [0, 0, 0, 0, 0, 0, 0, 0], [0, 0, 0, 0, 0, 0, 0, 0], [99, 97, 112, 84, 97, 98, 108, 101],
      [0, 0, 0, 0, 0, 0, 0, 0], [14, 0, 0, 0, 0, 0, 0, 0], [0, 0, 0, 0, 0, 0, 0, 0],
      [0, 0, 0, 0, 0, 0, 0, 0], [0, 0, 0, 0, 3, 0, 1, 0], [16, 0, 0, 0, 0, 0, 0, 0],
      [176, 184, 134, 11, 196, 221, 35, 133], [0, 0, 0, 0, 0, 0, 0, 0], [0, 0, 0, 0, 0, 0, 0, 0],
      [14, 0, 0, 0, 0, 0, 0, 0], [0, 0, 0, 0, 0, 0, 0, 0], [0, 0, 0, 0, 0, 0, 0, 0]]"

definition rpc_payload_schema :: raw_schema where
  "rpc_payload_schema =
     \<lparr>encoded_node = rpc_payload_node,
      field_types = [AnyPointer, ListType (StructType rpc_cap_descriptor_id)],
      nonunion_members = [0, 1],
      members_by_discriminant = [],
      members_by_name = [1, 0],
      type_id = rpc_payload_id\<rparr>"

definition rpc_cap_descriptor_node :: node where
  "rpc_cap_descriptor_node =
     [[0, 0, 0, 0, 6, 0, 6, 0], [176, 184, 134, 11, 196, 221, 35, 133], [10, 0, 0, 0, 1, 0, 1, 0],
      [80, 162, 82, 37, 27, 152, 18, 179], [1, 0, 7, 0, 0, 0, 6, 0], [0, 0, 0, 0, 0, 0, 0, 0],
      [16, 8, 0, 0, 33, 9, 0, 0], [21, 0, 0, 0, 194, 0, 0, 0], [29, 0, 0, 0, 7, 0, 0, 0],
      [0, 0, 0, 0, 0, 0, 0, 0], [25, 0, 0, 0, 143, 1, 0, 0], [0, 0, 0, 0, 0, 0, 0, 0],
      [0, 0, 0, 0, 0, 0, 0, 0], [114, 112, 99, 46, 99, 97, 112, 110],
      [112, 58, 67, 97, 112, 68, 101, 115], [99, 114, 105, 112, 116, 111, 114, 0],
      [0, 0, 0, 0, 1, 0, 1, 0], [28, 0, 0, 0, 3, 0, 4, 0], [0, 0, 255, 255, 0, 0, 0, 0],
      [0, 0, 1, 0, 0, 0, 0, 0], [0, 0, 0, 0, 0, 0, 0, 0], [181, 0, 0, 0, 42, 0, 0, 0],
      [0, 0, 0, 0, 0, 0, 0, 0], [176, 0, 0, 0, 3, 0, 1, 0], [188, 0, 0, 0, 2, 0, 1, 0],
      [1, 0, 254, 255, 1, 0, 0, 0], [0, 0, 1, 0, 1, 0, 0, 0], [0, 0, 0, 0, 0, 0, 0, 0],
      [185, 0, 0, 0, 106, 0, 0, 0], [0, 0, 0, 0, 0, 0, 0, 0], [184, 0, 0, 0, 3, 0, 1, 0],
      [196, 0, 0, 0, 2, 0, 1, 0], [2, 0, 253, 255, 1, 0, 0, 0], [0, 0, 1, 0, 2, 0, 0, 0],
      [0, 0, 0, 0, 0, 0, 0, 0], [193, 0, 0, 0, 114, 0, 0, 0], [0, 0, 0, 0, 0, 0, 0, 0],
      [192, 0, 0, 0, 3, 0, 1, 0], [204, 0, 0, 0, 2, 0, 1, 0], [3, 0, 252, 255, 1, 0, 0, 0],
      [0, 0, 1, 0, 3, 0, 0, 0], [0, 0, 0, 0, 0, 0, 0, 0], [201, 0, 0, 0, 122, 0, 0, 0],
      [0, 0, 0, 0, 0, 0, 0, 0], [200, 0, 0, 0, 3, 0, 1, 0], [212, 0, 0, 0, 2, 0, 1, 0],
      [4, 0, 251, 255, 0, 0, 0, 0], [0, 0, 1, 0, 4, 0, 0, 0], [0, 0, 0, 0, 0, 0, 0, 0],
      [209, 0, 0, 0, 122, 0, 0, 0], [0, 0, 0, 0, 0, 0, 0, 0], [208, 0, 0, 0, 3, 0, 1, 0],
      [220, 0, 0, 0, 2, 0, 1, 0], [5, 0, 250, 255, 0, 0, 0, 0], [0, 0, 1, 0, 5, 0, 0, 0],
      [0, 0, 0, 0, 0, 0, 0, 0], [217, 0, 0, 0, 138, 0, 0, 0], [0, 0, 0, 0, 0, 0, 0, 0],
      [220, 0, 0, 0, 3, 0, 1, 0], [232, 0, 0, 0, 2, 0, 1, 0], [6, 0, 0, 0, 2, 0, 0, 0],
      [0, 0, 1, 0, 6, 0, 0, 0], [1, 0, 0, 0, 0, 0, 0, 0], [229, 0, 0, 0, 90, 0, 0, 0],
      [0, 0, 0, 0, 0, 0, 0, 0], [228, 0, 0, 0, 3, 0, 1, 0], [240, 0, 0, 0, 2, 0, 1, 0],
      [110, 111, 110, 101, 0, 0, 0, 0], [0, 0, 0, 0, 0, 0, 0, 0], [0, 0, 0, 0, 0, 0, 0, 0],
      [0, 0, 0, 0, 0, 0, 0, 0], [0, 0, 0, 0, 0, 0, 0, 0], [0, 0, 0, 0, 0, 0, 0, 0],
      [0, 0, 0, 0, 0, 0, 0, 0], [0, 0, 0, 0, 0, 0, 0, 0], [115, 101, 110, 100, 101, 114, 72, 111],
      [115, 116, 101, 100, 0, 0, 0, 0], [8, 0, 0, 0, 0, 0, 0, 0], [0, 0, 0, 0, 0, 0, 0, 0],
      [0, 0, 0, 0, 0, 0, 0, 0], [0, 0, 0, 0, 0, 0, 0, 0], [8, 0, 0, 0, 0, 0, 0, 0],
      [0, 0, 0, 0, 0, 0, 0, 0], [0, 0, 0, 0, 0, 0, 0, 0], [115, 101, 110, 100, 101, 114, 80, 114],
      [111, 109, 105, 115, 101, 0, 0, 0], [8, 0, 0, 0, 0, 0, 0, 0], [0, 0, 0, 0, 0, 0, 0, 0],
      [0, 0, 0, 0, 0, 0, 0, 0], [0, 0, 0, 0, 0, 0, 0, 0], [8, 0, 0, 0, 0, 0, 0, 0],
      [0, 0, 0, 0, 0, 0, 0, 0], [0, 0, 0, 0, 0, 0, 0, 0], [114, 101, 99, 101, 105, 118, 101, 114],
      [72, 111, 115, 116, 101, 100, 0, 0], [8, 0, 0, 0, 0, 0, 0, 0], [0, 0, 0, 0, 0, 0, 0, 0],
      [0, 0, 0, 0, 0, 0, 0, 0], [0, 0, 0, 0, 0, 0, 0, 0], [8, 0, 0, 0, 0, 0, 0, 0],
      [0, 0, 0, 0, 0, 0, 0, 0], [0, 0, 0, 0, 0, 0, 0, 0], [114, 101, 99, 101, 105, 118, 101, 114],
      [65, 110, 115, 119, 101, 114, 0, 0], [16, 0, 0, 0, 0, 0, 0, 0],
      [160, 28, 111, 205, 214, 177, 0, 216], [0, 0, 0, 0, 0, 0, 0, 0], [0, 0, 0, 0, 0, 0, 0, 0],
      [16, 0, 0, 0, 0, 0, 0, 0], [0, 0, 0, 0, 0, 0, 0, 0], [0, 0, 0, 0, 0, 0, 0, 0],
      [116, 104, 105, 114, 100, 80, 97, 114], [116, 121, 72, 111, 115, 116, 101, 100],
      [0, 0, 0, 0, 0, 0, 0, 0], [16, 0, 0, 0, 0, 0, 0, 0], [125, 2, 240, 225, 253, 7, 112, 211],
      [0, 0, 0, 0, 0, 0, 0, 0], [0, 0, 0, 0, 0, 0, 0, 0], [16, 0, 0, 0, 0, 0, 0, 0],
      [0, 0, 0, 0, 0, 0, 0, 0], [0, 0, 0, 0, 0, 0, 0, 0], [97, 116, 116, 97, 99, 104, 101, 100],
      [70, 100, 0, 0, 0, 0, 0, 0], [6, 0, 0, 0, 0, 0, 0, 0], [0, 0, 0, 0, 0, 0, 0, 0],
      [0, 0, 0, 0, 0, 0, 0, 0], [0, 0, 0, 0, 0, 0, 0, 0], [6, 0, 255, 0, 0, 0, 0, 0],
      [0, 0, 0, 0, 0, 0, 0, 0], [0, 0, 0, 0, 0, 0, 0, 0]]"

definition rpc_cap_descriptor_schema :: raw_schema where
  "rpc_cap_descriptor_schema =
     \<lparr>encoded_node = rpc_cap_descriptor_node,
      field_types = [Void, UInt32, UInt32, UInt32, StructType rpc_promised_answer_id,
        StructType rpc_third_party_cap_descriptor_id, UInt8],
      nonunion_members = [6],
      members_by_discriminant = [0, 1, 2, 3, 4, 5],
      members_by_name = [6, 0, 4, 3, 1, 2, 5],
      type_id = rpc_cap_descriptor_id\<rparr>"

definition rpc_promised_answer_node :: node where
  "rpc_promised_answer_node =
     [[0, 0, 0, 0, 6, 0, 6, 0], [160, 28, 111, 205, 214, 177, 0, 216], [10, 0, 0, 0, 1, 0, 1, 0],
      [80, 162, 82, 37, 27, 152, 18, 179], [1, 0, 7, 0, 0, 0, 0, 0], [0, 0, 0, 0, 0, 0, 0, 0],
      [35, 9, 0, 0, 206, 9, 0, 0], [21, 0, 0, 0, 202, 0, 0, 0], [33, 0, 0, 0, 23, 0, 0, 0],
      [0, 0, 0, 0, 0, 0, 0, 0], [41, 0, 0, 0, 119, 0, 0, 0], [0, 0, 0, 0, 0, 0, 0, 0],
      [0, 0, 0, 0, 0, 0, 0, 0], [114, 112, 99, 46, 99, 97, 112, 110],
      [112, 58, 80, 114, 111, 109, 105, 115], [101, 100, 65, 110, 115, 119, 101, 114],
      [0, 0, 0, 0, 0, 0, 0, 0], [4, 0, 0, 0, 1, 0, 1, 0], [129, 144, 86, 21, 68, 148, 22, 243],
      [1, 0, 0, 0, 26, 0, 0, 0], [79, 112, 0, 0, 0, 0, 0, 0], [8, 0, 0, 0, 3, 0, 4, 0],
      [0, 0, 0, 0, 0, 0, 0, 0], [0, 0, 1, 0, 0, 0, 0, 0], [0, 0, 0, 0, 0, 0, 0, 0],
      [41, 0, 0, 0, 90, 0, 0, 0], [0, 0, 0, 0, 0, 0, 0, 0], [40, 0, 0, 0, 3, 0, 1, 0],
      [52, 0, 0, 0, 2, 0, 1, 0], [1, 0, 0, 0, 0, 0, 0, 0], [0, 0, 1, 0, 1, 0, 0, 0],
      [0, 0, 0, 0, 0, 0, 0, 0], [49, 0, 0, 0, 82, 0, 0, 0], [0, 0, 0, 0, 0, 0, 0, 0],
      [48, 0, 0, 0, 3, 0, 1, 0], [76, 0, 0, 0, 2, 0, 1, 0],
      [113, 117, 101, 115, 116, 105, 111, 110], [73, 100, 0, 0, 0, 0, 0, 0],
      [8, 0, 0, 0, 0, 0, 0, 0], [0, 0, 0, 0, 0, 0, 0, 0], [0, 0, 0, 0, 0, 0, 0, 0],
      [0, 0, 0, 0, 0, 0, 0, 0], [8, 0, 0, 0, 0, 0, 0, 0], [0, 0, 0, 0, 0, 0, 0, 0],
      [0, 0, 0, 0, 0, 0, 0, 0], [116, 114, 97, 110, 115, 102, 111, 114],
      [109, 0, 0, 0, 0, 0, 0, 0], [14, 0, 0, 0, 0, 0, 0, 0], [0, 0, 0, 0, 0, 0, 0, 0],
      [0, 0, 0, 0, 0, 0, 0, 0], [0, 0, 0, 0, 3, 0, 1, 0], [16, 0, 0, 0, 0, 0, 0, 0],
      [129, 144, 86, 21, 68, 148, 22, 243], [0, 0, 0, 0, 0, 0, 0, 0], [0, 0, 0, 0, 0, 0, 0, 0],
      [14, 0, 0, 0, 0, 0, 0, 0], [0, 0, 0, 0, 0, 0, 0, 0], [0, 0, 0, 0, 0, 0, 0, 0]]"

definition rpc_promised_answer_schema :: raw_schema where
  "rpc_promised_answer_schema =
     \<lparr>encoded_node = rpc_promised_answer_node,
      field_types = [UInt32, ListType (StructType rpc_promised_answer_op_id)],
      nonunion_members = [0, 1],
      members_by_discriminant = [],
      members_by_name = [0, 1],
      type_id = rpc_promised_answer_id\<rparr>"

definition rpc_promised_answer_op_node :: node where
  "rpc_promised_answer_op_node =
     [[0, 0, 0, 0, 6, 0, 6, 0], [129, 144, 86, 21, 68, 148, 22, 243], [25, 0, 0, 0, 1, 0, 1, 0],
      [160, 28, 111, 205, 214, 177, 0, 216], [0, 0, 7, 0, 0, 0, 2, 0], [0, 0, 0, 0, 0, 0, 0, 0],
      [116, 9, 0, 0, 204, 9, 0, 0], [21, 0, 0, 0, 226, 0, 0, 0], [33, 0, 0, 0, 7, 0, 0, 0],
      [0, 0, 0, 0, 0, 0, 0, 0], [29, 0, 0, 0, 119, 0, 0, 0], [0, 0, 0, 0, 0, 0, 0, 0],
      [0, 0, 0, 0, 0, 0, 0, 0], [114, 112, 99, 46, 99, 97, 112, 110],
      [112, 58, 80, 114, 111, 109, 105, 115], [101, 100, 65, 110, 115, 119, 101, 114],
      [46, 79, 112, 0, 0, 0, 0, 0], [0, 0, 0, 0, 1, 0, 1, 0], [8, 0, 0, 0, 3, 0, 4, 0],
      [0, 0, 255, 255, 0, 0, 0, 0], [0, 0, 1, 0, 0, 0, 0, 0], [0, 0, 0, 0, 0, 0, 0, 0],
      [41, 0, 0, 0, 42, 0, 0, 0], [0, 0, 0, 0, 0, 0, 0, 0], [36, 0, 0, 0, 3, 0, 1, 0],
      [48, 0, 0, 0, 2, 0, 1, 0], [1, 0, 254, 255, 1, 0, 0, 0], [0, 0, 1, 0, 1, 0, 0, 0],
      [0, 0, 0, 0, 0, 0, 0, 0], [45, 0, 0, 0, 130, 0, 0, 0], [0, 0, 0, 0, 0, 0, 0, 0],
      [44, 0, 0, 0, 3, 0, 1, 0], [56, 0, 0, 0, 2, 0, 1, 0], [110, 111, 111, 112, 0, 0, 0, 0],
      [0, 0, 0, 0, 0, 0, 0, 0], [0, 0, 0, 0, 0, 0, 0, 0], [0, 0, 0, 0, 0, 0, 0, 0],
      [0, 0, 0, 0, 0, 0, 0, 0], [0, 0, 0, 0, 0, 0, 0, 0], [0, 0, 0, 0, 0, 0, 0, 0],
      [0, 0, 0, 0, 0, 0, 0, 0], [103, 101, 116, 80, 111, 105, 110, 116],
      [101, 114, 70, 105, 101, 108, 100, 0], [7, 0, 0, 0, 0, 0, 0, 0], [0, 0, 0, 0, 0, 0, 0, 0],
      [0, 0, 0, 0, 0, 0, 0, 0], [0, 0, 0, 0, 0, 0, 0, 0], [7, 0, 0, 0, 0, 0, 0, 0],
      [0, 0, 0, 0, 0, 0, 0, 0], [0, 0, 0, 0, 0, 0, 0, 0]]"

definition rpc_promised_answer_op_schema :: raw_schema where
  "rpc_promised_answer_op_schema =
     \<lparr>encoded_node = rpc_promised_answer_op_node,
      field_types = [Void, UInt16],
      nonunion_members = [],
      members_by_discriminant = [0, 1],
      members_by_name = [1, 0],
      type_id = rpc_promised_answer_op_id\<rparr>"

definition rpc_third_party_cap_descriptor_node :: node where
  "rpc_third_party_cap_descriptor_node =
     [[0, 0, 0, 0, 6, 0, 6, 0], [125, 2, 240, 225, 253, 7, 112, 211], [10, 0, 0, 0, 1, 0, 1, 0],
      [80, 162, 82, 37, 27, 152, 18, 179], [1, 0, 7, 0, 0, 0, 0, 0], [0, 0, 0, 0, 0, 0, 0, 0],
      [208, 9, 0, 0, 30, 10, 0, 0], [21, 0, 0, 0, 18, 1, 0, 0], [37, 0, 0, 0, 7, 0, 0, 0],
      [0, 0, 0, 0, 0, 0, 0, 0], [33, 0, 0, 0, 119, 0, 0, 0], [0, 0, 0, 0, 0, 0, 0, 0],
      [0, 0, 0, 0, 0, 0, 0, 0], [114, 112, 99, 46, 99, 97, 112, 110],
      [112, 58, 84, 104, 105, 114, 100, 80], [97, 114, 116, 121, 67, 97, 112, 68],
      [101, 115, 99, 114, 105, 112, 116, 111], [114, 0, 0, 0, 0, 0, 0, 0],
      [0, 0, 0, 0, 1, 0, 1, 0], [8, 0, 0, 0, 3, 0, 4, 0], [0, 0, 0, 0, 0, 0, 0, 0],
      [0, 0, 1, 0, 0, 0, 0, 0], [0, 0, 0, 0, 0, 0, 0, 0], [41, 0, 0, 0, 26, 0, 0, 0],
      [0, 0, 0, 0, 0, 0, 0, 0], [36, 0, 0, 0, 3, 0, 1, 0], [48, 0, 0, 0, 2, 0, 1, 0],
      [1, 0, 0, 0, 0, 0, 0, 0], [0, 0, 1, 0, 1, 0, 0, 0], [0, 0, 0, 0, 0, 0, 0, 0],
      [45, 0, 0, 0, 58, 0, 0, 0], [0, 0, 0, 0, 0, 0, 0, 0], [40, 0, 0, 0, 3, 0, 1, 0],
      [52, 0, 0, 0, 2, 0, 1, 0], [105, 100, 0, 0, 0, 0, 0, 0], [18, 0, 0, 0, 0, 0, 0, 0],
      [0, 0, 0, 0, 0, 0, 0, 0], [0, 0, 0, 0, 0, 0, 0, 0], [0, 0, 0, 0, 0, 0, 0, 0],
      [18, 0, 0, 0, 0, 0, 0, 0], [0, 0, 0, 0, 0, 0, 0, 0], [0, 0, 0, 0, 0, 0, 0, 0],
      [118, 105, 110, 101, 73, 100, 0, 0], [8, 0, 0, 0, 0, 0, 0, 0], [0, 0, 0, 0, 0, 0, 0, 0],
      [0, 0, 0, 0, 0, 0, 0, 0], [0, 0, 0, 0, 0, 0, 0, 0], [8, 0, 0, 0, 0, 0, 0, 0],
      [0, 0, 0, 0, 0, 0, 0, 0], [0, 0, 0, 0, 0, 0, 0, 0]]"

definition rpc_third_party_cap_descriptor_schema :: raw_schema where
  "rpc_third_party_cap_descriptor_schema =
     \<lparr>encoded_node = rpc_third_party_cap_descriptor_node,
      field_types = [AnyPointer, UInt32],
      nonunion_members = [0, 1],
      members_by_discriminant = [],
      members_by_name = [0, 1],
      type_id = rpc_third_party_cap_descriptor_id\<rparr>"

definition rpc_exception_node :: node where
  "rpc_exception_node =
     [[0, 0, 0, 0, 6, 0, 6, 0], [26, 105, 207, 58, 6, 183, 37, 214], [10, 0, 0, 0, 1, 0, 1, 0],
      [80, 162, 82, 37, 27, 152, 18, 179], [1, 0, 7, 0, 0, 0, 0, 0], [0, 0, 0, 0, 0, 0, 0, 0],
      [32, 10, 0, 0, 251, 10, 0, 0], [21, 0, 0, 0, 162, 0, 0, 0], [29, 0, 0, 0, 23, 0, 0, 0],
      [0, 0, 0, 0, 0, 0, 0, 0], [37, 0, 0, 0, 231, 0, 0, 0], [0, 0, 0, 0, 0, 0, 0, 0],
      [0, 0, 0, 0, 0, 0, 0, 0], [114, 112, 99, 46, 99, 97, 112, 110],
      [112, 58, 69, 120, 99, 101, 112, 116], [105, 111, 110, 0, 0, 0, 0, 0],
      [4, 0, 0, 0, 1, 0, 1, 0], [88, 189, 76, 63, 226, 150, 140, 178], [1, 0, 0, 0, 42, 0, 0, 0],
      [84, 121, 112, 101, 0, 0, 0, 0], [16, 0, 0, 0, 3, 0, 4, 0], [0, 0, 0, 0, 0, 0, 0, 0],
      [0, 0, 1, 0, 0, 0, 0, 0], [0, 0, 0, 0, 0, 0, 0, 0], [97, 0, 0, 0, 58, 0, 0, 0],
      [0, 0, 0, 0, 0, 0, 0, 0], [92, 0, 0, 0, 3, 0, 1, 0], [104, 0, 0, 0, 2, 0, 1, 0],
      [2, 0, 0, 0, 0, 0, 0, 0], [0, 0, 1, 0, 1, 0, 0, 0], [0, 0, 0, 0, 0, 0, 0, 0],
      [101, 0, 0, 0, 186, 0, 0, 0], [0, 0, 0, 0, 0, 0, 0, 0], [104, 0, 0, 0, 3, 0, 1, 0],
      [116, 0, 0, 0, 2, 0, 1, 0], [3, 0, 0, 0, 1, 0, 0, 0], [0, 0, 1, 0, 2, 0, 0, 0],
      [0, 0, 0, 0, 0, 0, 0, 0], [113, 0, 0, 0, 154, 0, 0, 0], [0, 0, 0, 0, 0, 0, 0, 0],
      [116, 0, 0, 0, 3, 0, 1, 0], [128, 0, 0, 0, 2, 0, 1, 0], [1, 0, 0, 0, 2, 0, 0, 0],
      [0, 0, 1, 0, 3, 0, 0, 0], [0, 0, 0, 0, 0, 0, 0, 0], [125, 0, 0, 0, 42, 0, 0, 0],
      [0, 0, 0, 0, 0, 0, 0, 0], [120, 0, 0, 0, 3, 0, 1, 0], [132, 0, 0, 0, 2, 0, 1, 0],
      [114, 101, 97, 115, 111, 110, 0, 0], [12, 0, 0, 0, 0, 0, 0, 0], [0, 0, 0, 0, 0, 0, 0, 0],
      [0, 0, 0, 0, 0, 0, 0, 0], [0, 0, 0, 0, 0, 0, 0, 0], [12, 0, 0, 0, 0, 0, 0, 0],
      [0, 0, 0, 0, 0, 0, 0, 0], [0, 0, 0, 0, 0, 0, 0, 0], [111, 98, 115, 111, 108, 101, 116, 101],
      [73, 115, 67, 97, 108, 108, 101, 114], [115, 70, 97, 117, 108, 116, 0, 0],
      [1, 0, 0, 0, 0, 0, 0, 0], [0, 0, 0, 0, 0, 0, 0, 0], [0, 0, 0, 0, 0, 0, 0, 0],
      [0, 0, 0, 0, 0, 0, 0, 0], [1, 0, 0, 0, 0, 0, 0, 0], [0, 0, 0, 0, 0, 0, 0, 0],
      [0, 0, 0, 0, 0, 0, 0, 0], [111, 98, 115, 111, 108, 101, 116, 101],
      [68, 117, 114, 97, 98, 105, 108, 105], [116, 121, 0, 0, 0, 0, 0, 0],
      [7, 0, 0, 0, 0, 0, 0, 0], [0, 0, 0, 0, 0, 0, 0, 0], [0, 0, 0, 0, 0, 0, 0, 0],
      [0, 0, 0, 0, 0, 0, 0, 0], [7, 0, 0, 0, 0, 0, 0, 0], [0, 0, 0, 0, 0, 0, 0, 0],
      [0, 0, 0, 0, 0, 0, 0, 0], [116, 121, 112, 101, 0, 0, 0, 0], [15, 0, 0, 0, 0, 0, 0, 0],
      [88, 189, 76, 63, 226, 150, 140, 178], [0, 0, 0, 0, 0, 0, 0, 0], [0, 0, 0, 0, 0, 0, 0, 0],
      [15, 0, 0, 0, 0, 0, 0, 0], [0, 0, 0, 0, 0, 0, 0, 0], [0, 0, 0, 0, 0, 0, 0, 0]]"

definition rpc_exception_schema :: raw_schema where
  "rpc_exception_schema =
     \<lparr>encoded_node = rpc_exception_node,
      field_types = [TextType, Bool, UInt16, EnumType rpc_exception_type_id],
      nonunion_members = [0, 1, 2, 3],
      members_by_discriminant = [],
      members_by_name = [2, 1, 0, 3],
      type_id = rpc_exception_id\<rparr>"

definition rpc_provide_node :: node where
  "rpc_provide_node =
     [[0, 0, 0, 0, 6, 0, 6, 0], [90, 172, 193, 251, 107, 4, 106, 156], [10, 0, 0, 0, 1, 0, 1, 0],
      [80, 162, 82, 37, 27, 152, 18, 179], [2, 0, 7, 0, 0, 0, 0, 0], [0, 0, 0, 0, 0, 0, 0, 0],
      [253, 10, 0, 0, 100, 11, 0, 0], [21, 0, 0, 0, 146, 0, 0, 0], [29, 0, 0, 0, 7, 0, 0, 0],
      [0, 0, 0, 0, 0, 0, 0, 0], [25, 0, 0, 0, 175, 0, 0, 0], [0, 0, 0, 0, 0, 0, 0, 0],
      [0, 0, 0, 0, 0, 0, 0, 0], [114, 112, 99, 46, 99, 97, 112, 110],
      [112, 58, 80, 114, 111, 118, 105, 100], [101, 0, 0, 0, 0, 0, 0, 0],
      [0, 0, 0, 0, 1, 0, 1, 0], [12, 0, 0, 0, 3, 0, 4, 0], [0, 0, 0, 0, 0, 0, 0, 0],
      [0, 0, 1, 0, 0, 0, 0, 0], [0, 0, 0, 0, 0, 0, 0, 0], [69, 0, 0, 0, 90, 0, 0, 0],
      [0, 0, 0, 0, 0, 0, 0, 0], [68, 0, 0, 0, 3, 0, 1, 0], [80, 0, 0, 0, 2, 0, 1, 0],
      [1, 0, 0, 0, 0, 0, 0, 0], [0, 0, 1, 0, 1, 0, 0, 0], [0, 0, 0, 0, 0, 0, 0, 0],
      [77, 0, 0, 0, 58, 0, 0, 0], [0, 0, 0, 0, 0, 0, 0, 0], [72, 0, 0, 0, 3, 0, 1, 0],
      [84, 0, 0, 0, 2, 0, 1, 0], [2, 0, 0, 0, 1, 0, 0, 0], [0, 0, 1, 0, 2, 0, 0, 0],
      [0, 0, 0, 0, 0, 0, 0, 0], [81, 0, 0, 0, 82, 0, 0, 0], [0, 0, 0, 0, 0, 0, 0, 0],
      [80, 0, 0, 0, 3, 0, 1, 0], [92, 0, 0, 0, 2, 0, 1, 0],
      [113, 117, 101, 115, 116, 105, 111, 110], [73, 100, 0, 0, 0, 0, 0, 0],
      [8, 0, 0, 0, 0, 0, 0, 0], [0, 0, 0, 0, 0, 0, 0, 0], [0, 0, 0, 0, 0, 0, 0, 0],
      [0, 0, 0, 0, 0, 0, 0, 0], [8, 0, 0, 0, 0, 0, 0, 0], [0, 0, 0, 0, 0, 0, 0, 0],
      [0, 0, 0, 0, 0, 0, 0, 0], [116, 97, 114, 103, 101, 116, 0, 0], [16, 0, 0, 0, 0, 0, 0, 0],
      [193, 251, 19, 88, 84, 20, 188, 149], [0, 0, 0, 0, 0, 0, 0, 0], [0, 0, 0, 0, 0, 0, 0, 0],
      [16, 0, 0, 0, 0, 0, 0, 0], [0, 0, 0, 0, 0, 0, 0, 0], [0, 0, 0, 0, 0, 0, 0, 0],
      [114, 101, 99, 105, 112, 105, 101, 110], [116, 0, 0, 0, 0, 0, 0, 0],
      [18, 0, 0, 0, 0, 0, 0, 0], [0, 0, 0, 0, 0, 0, 0, 0], [0, 0, 0, 0, 0, 0, 0, 0],
      [0, 0, 0, 0, 0, 0, 0, 0], [18, 0, 0, 0, 0, 0, 0, 0], [0, 0, 0, 0, 0, 0, 0, 0],
      [0, 0, 0, 0, 0, 0, 0, 0]]"

definition rpc_provide_schema :: raw_schema where
  "rpc_provide_schema =
     \<lparr>encoded_node = rpc_provide_node,
      field_types = [UInt32, StructType rpc_message_target_id, AnyPointer],
      nonunion_members = [0, 1, 2],
      members_by_discriminant = [],
      members_by_name = [0, 2, 1],
      type_id = rpc_provide_id\<rparr>"

definition rpc_accept_node :: node where
  "rpc_accept_node =
     [[0, 0, 0, 0, 6, 0, 6, 0], [22, 64, 85, 144, 98, 181, 201, 212], [10, 0, 0, 0, 1, 0, 1, 0],
      [80, 162, 82, 37, 27, 152, 18, 179], [1, 0, 7, 0, 0, 0, 0, 0], [0, 0, 0, 0, 0, 0, 0, 0],
      [102, 11, 0, 0, 196, 11, 0, 0], [21, 0, 0, 0, 138, 0, 0, 0], [29, 0, 0, 0, 7, 0, 0, 0],
      [0, 0, 0, 0, 0, 0, 0, 0], [25, 0, 0, 0, 175, 0, 0, 0], [0, 0, 0, 0, 0, 0, 0, 0],
      [0, 0, 0, 0, 0, 0, 0, 0], [114, 112, 99, 46, 99, 97, 112, 110],
      [112, 58, 65, 99, 99, 101, 112, 116], [0, 0, 0, 0, 0, 0, 0, 0], [0, 0, 0, 0, 1, 0, 1, 0],
      [12, 0, 0, 0, 3, 0, 4, 0], [0, 0, 0, 0, 0, 0, 0, 0], [0, 0, 1, 0, 0, 0, 0, 0],
      [0, 0, 0, 0, 0, 0, 0, 0], [69, 0, 0, 0, 90, 0, 0, 0], [0, 0, 0, 0, 0, 0, 0, 0],
      [68, 0, 0, 0, 3, 0, 1, 0], [80, 0, 0, 0, 2, 0, 1, 0], [1, 0, 0, 0, 0, 0, 0, 0],
      [0, 0, 1, 0, 1, 0, 0, 0], [0, 0, 0, 0, 0, 0, 0, 0], [77, 0, 0, 0, 82, 0, 0, 0],
      [0, 0, 0, 0, 0, 0, 0, 0], [76, 0, 0, 0, 3, 0, 1, 0], [88, 0, 0, 0, 2, 0, 1, 0],
      [2, 0, 0, 0, 32, 0, 0, 0], [0, 0, 1, 0, 2, 0, 0, 0], [0, 0, 0, 0, 0, 0, 0, 0],
      [85, 0, 0, 0, 66, 0, 0, 0], [0, 0, 0, 0, 0, 0, 0, 0], [80, 0, 0, 0, 3, 0, 1, 0],
      [92, 0, 0, 0, 2, 0, 1, 0], [113, 117, 101, 115, 116, 105, 111, 110],
      [73, 100, 0, 0, 0, 0, 0, 0], [8, 0, 0, 0, 0, 0, 0, 0], [0, 0, 0, 0, 0, 0, 0, 0],
      [0, 0, 0, 0, 0, 0, 0, 0], [0, 0, 0, 0, 0, 0, 0, 0], [8, 0, 0, 0, 0, 0, 0, 0],
      [0, 0, 0, 0, 0, 0, 0, 0], [0, 0, 0, 0, 0, 0, 0, 0],
      [112, 114, 111, 118, 105, 115, 105, 111], [110, 0, 0, 0, 0, 0, 0, 0],
      [18, 0, 0, 0, 0, 0, 0, 0], [0, 0, 0, 0, 0, 0, 0, 0], [0, 0, 0, 0, 0, 0, 0, 0],
      [0, 0, 0, 0, 0, 0, 0, 0], [18, 0, 0, 0, 0, 0, 0, 0], [0, 0, 0, 0, 0, 0, 0, 0],
      [0, 0, 0, 0, 0, 0, 0, 0], [101, 109, 98, 97, 114, 103, 111, 0], [1, 0, 0, 0, 0, 0, 0, 0],
      [0, 0, 0, 0, 0, 0, 0, 0], [0, 0, 0, 0, 0, 0, 0, 0], [0, 0, 0, 0, 0, 0, 0, 0],
      [1, 0, 0, 0, 0, 0, 0, 0], [0, 0, 0, 0, 0, 0, 0, 0], [0, 0, 0, 0, 0, 0, 0, 0]]"

definition rpc_accept_schema :: raw_schema where
  "rpc_accept_schema =
     \<lparr>encoded_node = rpc_accept_node,
      field_types = [UInt32, AnyPointer, Bool],
      nonunion_members = [0, 1, 2],
      members_by_discriminant = [],
      members_by_name = [2, 1, 0],
      type_id = rpc_accept_id\<rparr>"

definition rpc_join_node :: node where
  "rpc_join_node =
     [[0, 0, 0, 0, 6, 0, 6, 0], [175, 1, 224, 144, 4, 152, 225, 251], [10, 0, 0, 0, 1, 0, 1, 0],
      [80, 162, 82, 37, 27, 152, 18, 179], [1, 0, 7, 0, 0, 0, 0, 0], [0, 0, 0, 0, 0, 0, 0, 0],
      [198, 11, 0, 0, 11, 12, 0, 0], [21, 0, 0, 0, 122, 0, 0, 0], [25, 0, 0, 0, 7, 0, 0, 0],
      [0, 0, 0, 0, 0, 0, 0, 0], [21, 0, 0, 0, 119, 0, 0, 0], [0, 0, 0, 0, 0, 0, 0, 0],
      [0, 0, 0, 0, 0, 0, 0, 0], [114, 112, 99, 46, 99, 97, 112, 110],
      [112, 58, 74, 111, 105, 110, 0, 0], [0, 0, 0, 0, 1, 0, 1, 0], [8, 0, 0, 0, 3, 0, 4, 0],
      [0, 0, 0, 0, 0, 0, 0, 0], [0, 0, 1, 0, 0, 0, 0, 0], [0, 0, 0, 0, 0, 0, 0, 0],
      [41, 0, 0, 0, 90, 0, 0, 0], [0, 0, 0, 0, 0, 0, 0, 0], [40, 0, 0, 0, 3, 0, 1, 0],
      [52, 0, 0, 0, 2, 0, 1, 0], [1, 0, 0, 0, 0, 0, 0, 0], [0, 0, 1, 0, 1, 0, 0, 0],
      [0, 0, 0, 0, 0, 0, 0, 0], [49, 0, 0, 0, 58, 0, 0, 0], [0, 0, 0, 0, 0, 0, 0, 0],
      [44, 0, 0, 0, 3, 0, 1, 0], [56, 0, 0, 0, 2, 0, 1, 0],
      [113, 117, 101, 115, 116, 105, 111, 110], [73, 100, 0, 0, 0, 0, 0, 0],
      [8, 0, 0, 0, 0, 0, 0, 0], [0, 0, 0, 0, 0, 0, 0, 0], [0, 0, 0, 0, 0, 0, 0, 0],
      [0, 0, 0, 0, 0, 0, 0, 0], [8, 0, 0, 0, 0, 0, 0, 0], [0, 0, 0, 0, 0, 0, 0, 0],
      [0, 0, 0, 0, 0, 0, 0, 0], [116, 97, 114, 103, 101, 116, 0, 0], [18, 0, 0, 0, 0, 0, 0, 0],
      [0, 0, 0, 0, 0, 0, 0, 0], [0, 0, 0, 0, 0, 0, 0, 0], [0, 0, 0, 0, 0, 0, 0, 0],
      [18, 0, 0, 0, 0, 0, 0, 0], [0, 0, 0, 0, 0, 0, 0, 0], [0, 0, 0, 0, 0, 0, 0, 0]]"

definition rpc_join_schema :: raw_schema where
  "rpc_join_schema =
     \<lparr>encoded_node = rpc_join_node,
      field_types = [UInt32, AnyPointer],
      nonunion_members = [0, 1],
      members_by_discriminant = [],
      members_by_name = [0, 1],
      type_id = rpc_join_id\<rparr>"

definition rpc_disembargo_node :: node where
  "rpc_disembargo_node =
     [[0, 0, 0, 0, 6, 0, 6, 0], [17, 55, 189, 15, 139, 54, 100, 249], [10, 0, 0, 0, 1, 0, 0, 0],
      [80, 162, 82, 37, 27, 152, 18, 179], [2, 0, 7, 0, 0, 0, 0, 0], [0, 0, 0, 0, 0, 0, 0, 0],
      [13, 12, 0, 0, 88, 12, 0, 0], [21, 0, 0, 0, 170, 0, 0, 0], [29, 0, 0, 0, 7, 0, 0, 0],
      [0, 0, 0, 0, 0, 0, 0, 0], [25, 0, 0, 0, 119, 0, 0, 0], [0, 0, 0, 0, 0, 0, 0, 0],
      [0, 0, 0, 0, 0, 0, 0, 0], [114, 112, 99, 46, 99, 97, 112, 110],
      [112, 58, 68, 105, 115, 101, 109, 98], [97, 114, 103, 111, 0, 0, 0, 0],
      [0, 0, 0, 0, 1, 0, 1, 0], [8, 0, 0, 0, 3, 0, 4, 0], [0, 0, 0, 0, 0, 0, 0, 0],
      [0, 0, 1, 0, 0, 0, 0, 0], [0, 0, 0, 0, 0, 0, 0, 0], [41, 0, 0, 0, 58, 0, 0, 0],
      [0, 0, 0, 0, 0, 0, 0, 0], [36, 0, 0, 0, 3, 0, 1, 0], [48, 0, 0, 0, 2, 0, 1, 0],
      [1, 0, 0, 0, 1, 0, 0, 0], [0, 0, 1, 0, 1, 0, 0, 0], [0, 0, 0, 0, 0, 0, 0, 0],
      [45, 0, 0, 0, 66, 0, 0, 0], [0, 0, 0, 0, 0, 0, 0, 0], [40, 0, 0, 0, 3, 0, 1, 0],
      [52, 0, 0, 0, 2, 0, 1, 0], [116, 97, 114, 103, 101, 116, 0, 0], [16, 0, 0, 0, 0, 0, 0, 0],
      [193, 251, 19, 88, 84, 20, 188, 149], [0, 0, 0, 0, 0, 0, 0, 0], [0, 0, 0, 0, 0, 0, 0, 0],
      [16, 0, 0, 0, 0, 0, 0, 0], [0, 0, 0, 0, 0, 0, 0, 0], [0, 0, 0, 0, 0, 0, 0, 0],
      [99, 111, 110, 116, 101, 120, 116, 0], [18, 0, 0, 0, 0, 0, 0, 0], [0, 0, 0, 0, 0, 0, 0, 0],
      [0, 0, 0, 0, 0, 0, 0, 0], [0, 0, 0, 0, 0, 0, 0, 0], [18, 0, 0, 0, 0, 0, 0, 0],
      [0, 0, 0, 0, 0, 0, 0, 0], [0, 0, 0, 0, 0, 0, 0, 0]]"

definition rpc_disembargo_schema :: raw_schema where
  "rpc_disembargo_schema =
     \<lparr>encoded_node = rpc_disembargo_node,
      field_types = [StructType rpc_message_target_id, AnyPointer],
      nonunion_members = [0, 1],
      members_by_discriminant = [],
      members_by_name = [1, 0],
      type_id = rpc_disembargo_id\<rparr>"

end
