(* ===== verification/Schema_Tunnel.thy ===== *)
theory Schema_Tunnel
  imports Schema_Node
begin

text \<open>
  The embedded schemas of \<open>rpc/pregenerated/tunnelrpc_capnp.rs\<close> and
  \<open>quic_metadata_protocol_capnp.rs\<close>, as in \<open>Schema_Rpc\<close>.
\<close>

section \<open>Ids\<close>

definition tunnel_client_info_id :: u64 where "tunnel_client_info_id = 0x83ced0145b2f114b"
definition tunnel_connection_options_id :: u64 where "tunnel_connection_options_id = 0xb4bf9861fe035d04"
definition tunnel_connection_response_id :: u64 where "tunnel_connection_response_id = 0xdbaa9d03d52b62dc"
definition tunnel_connection_response_result_id :: u64 where "tunnel_connection_response_result_id = 0x97b3c5c260257622"
definition tunnel_connection_error_id :: u64 where "tunnel_connection_error_id = 0xf5f383d2785edb86"
definition tunnel_connection_details_id :: u64 where "tunnel_connection_details_id = 0xb5f39f082b9ac18a"
definition tunnel_tunnel_auth_id :: u64 where "tunnel_tunnel_auth_id = 0x9496331ab9cd463f"
definition tunnel_register_connection_params_id :: u64 where "tunnel_register_connection_params_id = 0xe6646dec8feaa6ee"
definition tunnel_register_connection_results_id :: u64 where "tunnel_register_connection_results_id = 0xea50d822450d1f17"
definition tunnel_unregister_connection_params_id :: u64 where "tunnel_unregister_connection_params_id = 0xf9cb7f4431a307d0"
definition tunnel_unregister_connection_results_id :: u64 where "tunnel_unregister_connection_results_id = 0xb046e578094b1ead"
definition tunnel_update_local_configuration_params_id :: u64 where "tunnel_update_local_configuration_params_id = 0xc5d6e311876a3604"
definition tunnel_update_local_configuration_results_id :: u64 where "tunnel_update_local_configuration_results_id = 0xe5ceae5d6897d7be"
definition tunnel_register_udp_session_response_id :: u64 where "tunnel_register_udp_session_response_id = 0xab6d5210c1f26687"
definition tunnel_register_udp_session_params_id :: u64 where "tunnel_register_udp_session_params_id = 0x904e297b87fbecea"
definition tunnel_register_udp_session_results_id :: u64 where "tunnel_register_udp_session_results_id = 0x8635c6b4f45bf5cd"
definition tunnel_unregister_udp_session_params_id :: u64 where "tunnel_unregister_udp_session_params_id = 0x96b74375ce9b0ef6"
definition tunnel_unregister_udp_session_results_id :: u64 where "tunnel_unregister_udp_session_results_id = 0xf24ec4ab5891b676"
definition tunnel_update_configuration_response_id :: u64 where "tunnel_update_configuration_response_id = 0xdb58ff694ba05cf9"
definition tunnel_update_configuration_params_id :: u64 where "tunnel_update_configuration_params_id = 0xb177ca2526a3ca76"
definition tunnel_update_configuration_results_id :: u64 where "tunnel_update_configuration_results_id = 0x958096448eb3373e"
definition metadata_connect_request_id :: u64 where "metadata_connect_request_id = 0xc47116a1045e4061"
definition metadata_metadata_id :: u64 where "metadata_metadata_id = 0xe1446b97bfd1cd37"
definition metadata_connect_response_id :: u64 where "metadata_connect_response_id = 0xb1032ec91cef8727"
definition metadata_connection_type_id :: u64 where "metadata_connection_type_id = 0xc52e1bac26d379c8"

section \<open>Schemas\<close>

definition tunnel_client_info_node :: node where
  "tunnel_client_info_node =
     [[0, 0, 0, 0, 6, 0, 6, 0], [75, 17, 47, 91, 20, 208, 206, 131], [16, 0, 0, 0, 1, 0, 0, 0],
      [126, 188, 74, 20, 249, 116, 130, 219], [4, 0, 7, 0, 0, 0, 0, 0], [0, 0, 0, 0, 0, 0, 0, 0],
      [210, 0, 0, 0, 88, 1, 0, 0], [21, 0, 0, 0, 218, 0, 0, 0], [33, 0, 0, 0, 7, 0, 0, 0],
      [0, 0, 0, 0, 0, 0, 0, 0], [29, 0, 0, 0, 231, 0, 0, 0], [0, 0, 0, 0, 0, 0, 0, 0],
      [0, 0, 0, 0, 0, 0, 0, 0], [116, 117, 110, 110, 101, 108, 114, 112],
      [99, 46, 99, 97, 112, 110, 112, 58], [67, 108, 105, 101, 110, 116, 73, 110],
      [102, 111, 0, 0, 0, 0, 0, 0], [0, 0, 0, 0, 1, 0, 1, 0], [16, 0, 0, 0, 3, 0, 4, 0],
      [0, 0, 0, 0, 0, 0, 0, 0], [0, 0, 1, 0, 0, 0, 0, 0], [0, 0, 0, 0, 0, 0, 0, 0],
      [97, 0, 0, 0, 74, 0, 0, 0], [0, 0, 0, 0, 0, 0, 0, 0], [96, 0, 0, 0, 3, 0, 1, 0],
      [108, 0, 0, 0, 2, 0, 1, 0], [1, 0, 0, 0, 1, 0, 0, 0], [0, 0, 1, 0, 1, 0, 0, 0],
      [0, 0, 0, 0, 0, 0, 0, 0], [105, 0, 0, 0, 74, 0, 0, 0], [0, 0, 0, 0, 0, 0, 0, 0],
      [104, 0, 0, 0, 3, 0, 1, 0], [132, 0, 0, 0, 2, 0, 1, 0], [2, 0, 0, 0, 2, 0, 0, 0],
      [0, 0, 1, 0, 2, 0, 0, 0], [0, 0, 0, 0, 0, 0, 0, 0], [129, 0, 0, 0, 66, 0, 0, 0],
      [0, 0, 0, 0, 0, 0, 0, 0], [124, 0, 0, 0, 3, 0, 1, 0], [136, 0, 0, 0, 2, 0, 1, 0],
      [3, 0, 0, 0, 3, 0, 0, 0], [0, 0, 1, 0, 3, 0, 0, 0], [0, 0, 0, 0, 0, 0, 0, 0],
      [133, 0, 0, 0, 42, 0, 0, 0], [0, 0, 0, 0, 0, 0, 0, 0], [128, 0, 0, 0, 3, 0, 1, 0],
      [140, 0, 0, 0, 2, 0, 1, 0], [99, 108, 105, 101, 110, 116, 73, 100],
      [0, 0, 0, 0, 0, 0, 0, 0], [13, 0, 0, 0, 0, 0, 0, 0], [0, 0, 0, 0, 0, 0, 0, 0],
      [0, 0, 0, 0, 0, 0, 0, 0], [0, 0, 0, 0, 0, 0, 0, 0], [13, 0, 0, 0, 0, 0, 0, 0],
      [0, 0, 0, 0, 0, 0, 0, 0], [0, 0, 0, 0, 0, 0, 0, 0], [102, 101, 97, 116, 117, 114, 101, 115],
      [0, 0, 0, 0, 0, 0, 0, 0], [14, 0, 0, 0, 0, 0, 0, 0], [0, 0, 0, 0, 0, 0, 0, 0],
      [0, 0, 0, 0, 0, 0, 0, 0], [0, 0, 0, 0, 3, 0, 1, 0], [12, 0, 0, 0, 0, 0, 0, 0],
      [0, 0, 0, 0, 0, 0, 0, 0], [0, 0, 0, 0, 0, 0, 0, 0], [0, 0, 0, 0, 0, 0, 0, 0],
      [14, 0, 0, 0, 0, 0, 0, 0], [0, 0, 0, 0, 0, 0, 0, 0], [0, 0, 0, 0, 0, 0, 0, 0],
      [118, 101, 114, 115, 105, 111, 110, 0], [12, 0, 0, 0, 0, 0, 0, 0], [0, 0, 0, 0, 0, 0, 0, 0],
      [0, 0, 0, 0, 0, 0, 0, 0], [0, 0, 0, 0, 0, 0, 0, 0], [12, 0, 0, 0, 0, 0, 0, 0],
      [0, 0, 0, 0, 0, 0, 0, 0], [0, 0, 0, 0, 0, 0, 0, 0], [97, 114, 99, 104, 0, 0, 0, 0],
      [12, 0, 0, 0, 0, 0, 0, 0], [0, 0, 0, 0, 0, 0, 0, 0], [0, 0, 0, 0, 0, 0, 0, 0],
      [0, 0, 0, 0, 0, 0, 0, 0], [12, 0, 0, 0, 0, 0, 0, 0], [0, 0, 0, 0, 0, 0, 0, 0],
      [0, 0, 0, 0, 0, 0, 0, 0]]"

definition tunnel_client_info_schema :: raw_schema where
  "tunnel_client_info_schema =
     \<lparr>encoded_node = tunnel_client_info_node,
      field_types = [DataType, ListType TextType, TextType, TextType],
      nonunion_members = [0, 1, 2, 3],
      members_by_discriminant = [],
      members_by_name = [3, 0, 1, 2],
      type_id = tunnel_client_info_id\<rparr>"

definition tunnel_connection_options_node :: node where
  "tunnel_connection_options_node =
     [[0, 0, 0, 0, 6, 0, 6, 0], [4, 93, 3, 254, 97, 152, 191, 180], [16, 0, 0, 0, 1, 0, 1, 0],
      [126, 188, 74, 20, 249, 116, 130, 219], [2, 0, 7, 0, 0, 0, 0, 0], [0, 0, 0, 0, 0, 0, 0, 0],
      [90, 1, 0, 0, 36, 2, 0, 0], [21, 0, 0, 0, 18, 1, 0, 0], [37, 0, 0, 0, 7, 0, 0, 0],
      [0, 0, 0, 0, 0, 0, 0, 0], [33, 0, 0, 0, 31, 1, 0, 0], [0, 0, 0, 0, 0, 0, 0, 0],
      [0, 0, 0, 0, 0, 0, 0, 0], [116, 117, 110, 110, 101, 108, 114, 112],
      [99, 46, 99, 97, 112, 110, 112, 58], [67, 111, 110, 110, 101, 99, 116, 105],
      [111, 110, 79, 112, 116, 105, 111, 110], [115, 0, 0, 0, 0, 0, 0, 0],
      [0, 0, 0, 0, 1, 0, 1, 0], [20, 0, 0, 0, 3, 0, 4, 0], [0, 0, 0, 0, 0, 0, 0, 0],
      [0, 0, 1, 0, 0, 0, 0, 0], [0, 0, 0, 0, 0, 0, 0, 0], [125, 0, 0, 0, 58, 0, 0, 0],
      [0, 0, 0, 0, 0, 0, 0, 0], [120, 0, 0, 0, 3, 0, 1, 0], [132, 0, 0, 0, 2, 0, 1, 0],
      [1, 0, 0, 0, 1, 0, 0, 0], [0, 0, 1, 0, 1, 0, 0, 0], [0, 0, 0, 0, 0, 0, 0, 0],
      [129, 0, 0, 0, 114, 0, 0, 0], [0, 0, 0, 0, 0, 0, 0, 0], [128, 0, 0, 0, 3, 0, 1, 0],
      [140, 0, 0, 0, 2, 0, 1, 0], [2, 0, 0, 0, 0, 0, 0, 0], [0, 0, 1, 0, 2, 0, 0, 0],
      [0, 0, 0, 0, 0, 0, 0, 0], [137, 0, 0, 0, 130, 0, 0, 0], [0, 0, 0, 0, 0, 0, 0, 0],
      [136, 0, 0, 0, 3, 0, 1, 0], [148, 0, 0, 0, 2, 0, 1, 0], [3, 0, 0, 0, 1, 0, 0, 0],
      [0, 0, 1, 0, 3, 0, 0, 0], [0, 0, 0, 0, 0, 0, 0, 0], [145, 0, 0, 0, 154, 0, 0, 0],
      [0, 0, 0, 0, 0, 0, 0, 0], [148, 0, 0, 0, 3, 0, 1, 0], [160, 0, 0, 0, 2, 0, 1, 0],
      [4, 0, 0, 0, 2, 0, 0, 0], [0, 0, 1, 0, 4, 0, 0, 0], [0, 0, 0, 0, 0, 0, 0, 0],
      [157, 0, 0, 0, 162, 0, 0, 0], [0, 0, 0, 0, 0, 0, 0, 0], [160, 0, 0, 0, 3, 0, 1, 0],
      [172, 0, 0, 0, 2, 0, 1, 0], [99, 108, 105, 101, 110, 116, 0, 0], [16, 0, 0, 0, 0, 0, 0, 0],
      [75, 17, 47, 91, 20, 208, 206, 131], [0, 0, 0, 0, 0, 0, 0, 0], [0, 0, 0, 0, 0, 0, 0, 0],
      [16, 0, 0, 0, 0, 0, 0, 0], [0, 0, 0, 0, 0, 0, 0, 0], [0, 0, 0, 0, 0, 0, 0, 0],
      [111, 114, 105, 103, 105, 110, 76, 111], [99, 97, 108, 73, 112, 0, 0, 0],
      [13, 0, 0, 0, 0, 0, 0, 0], [0, 0, 0, 0, 0, 0, 0, 0], [0, 0, 0, 0, 0, 0, 0, 0],
      [0, 0, 0, 0, 0, 0, 0, 0], [13, 0, 0, 0, 0, 0, 0, 0], [0, 0, 0, 0, 0, 0, 0, 0],
      [0, 0, 0, 0, 0, 0, 0, 0], [114, 101, 112, 108, 97, 99, 101, 69],
      [120, 105, 115, 116, 105, 110, 103, 0], [1, 0, 0, 0, 0, 0, 0, 0], [0, 0, 0, 0, 0, 0, 0, 0],
      [0, 0, 0, 0, 0, 0, 0, 0], [0, 0, 0, 0, 0, 0, 0, 0], [1, 0, 0, 0, 0, 0, 0, 0],
      [0, 0, 0, 0, 0, 0, 0, 0], [0, 0, 0, 0, 0, 0, 0, 0], [99, 111, 109, 112, 114, 101, 115, 115],
      [105, 111, 110, 81, 117, 97, 108, 105], [116, 121, 0, 0, 0, 0, 0, 0],
      [6, 0, 0, 0, 0, 0, 0, 0], [0, 0, 0, 0, 0, 0, 0, 0], [0, 0, 0, 0, 0, 0, 0, 0],
      [0, 0, 0, 0, 0, 0, 0, 0], [6, 0, 0, 0, 0, 0, 0, 0], [0, 0, 0, 0, 0, 0, 0, 0],
      [0, 0, 0, 0, 0, 0, 0, 0], [110, 117, 109, 80, 114, 101, 118, 105],
      [111, 117, 115, 65, 116, 116, 101, 109], [112, 116, 115, 0, 0, 0, 0, 0],
      [6, 0, 0, 0, 0, 0, 0, 0], [0, 0, 0, 0, 0, 0, 0, 0], [0, 0, 0, 0, 0, 0, 0, 0],
      [0, 0, 0, 0, 0, 0, 0, 0], [6, 0, 0, 0, 0, 0, 0, 0], [0, 0, 0, 0, 0, 0, 0, 0],
      [0, 0, 0, 0, 0, 0, 0, 0]]"

definition tunnel_connection_options_schema :: raw_schema where
  "tunnel_connection_options_schema =
     \<lparr>encoded_node = tunnel_connection_options_node,
      field_types = [StructType tunnel_client_info_id, DataType, Bool, UInt8, UInt8],
      nonunion_members = [0, 1, 2, 3, 4],
      members_by_discriminant = [],
      members_by_name = [0, 3, 4, 1, 2],
      type_id = tunnel_connection_options_id\<rparr>"

definition tunnel_connection_response_node :: node where
  "tunnel_connection_response_node =
     [[0, 0, 0, 0, 6, 0, 6, 0], [220, 98, 43, 213, 3, 157, 170, 219], [16, 0, 0, 0, 1, 0, 1, 0],
      [126, 188, 74, 20, 249, 116, 130, 219], [1, 0, 7, 0, 0, 0, 0, 0], [0, 0, 0, 0, 0, 0, 0, 0],
      [38, 2, 0, 0, 197, 2, 0, 0], [21, 0, 0, 0, 26, 1, 0, 0], [37, 0, 0, 0, 7, 0, 0, 0],
      [0, 0, 0, 0, 0, 0, 0, 0], [33, 0, 0, 0, 63, 0, 0, 0], [0, 0, 0, 0, 0, 0, 0, 0],
      [0, 0, 0, 0, 0, 0, 0, 0], [116, 117, 110, 110, 101, 108, 114, 112],
      [99, 46, 99, 97, 112, 110, 112, 58], [67, 111, 110, 110, 101, 99, 116, 105],
      [111, 110, 82, 101, 115, 112, 111, 110], [115, 101, 0, 0, 0, 0, 0, 0],
      [0, 0, 0, 0, 1, 0, 1, 0], [4, 0, 0, 0, 3, 0, 4, 0], [0, 0, 0, 0, 0, 0, 0, 0],
      [1, 0, 0, 0, 0, 0, 0, 0], [34, 118, 37, 96, 194, 197, 179, 151], [13, 0, 0, 0, 58, 0, 0, 0],
      [0, 0, 0, 0, 0, 0, 0, 0], [0, 0, 0, 0, 0, 0, 0, 0], [0, 0, 0, 0, 0, 0, 0, 0],
      [114, 101, 115, 117, 108, 116, 0, 0]]"

definition tunnel_connection_response_schema :: raw_schema where
  "tunnel_connection_response_schema =
     \<lparr>encoded_node = tunnel_connection_response_node,
      field_types = [StructType tunnel_connection_response_result_id],
      nonunion_members = [0],
      members_by_discriminant = [],
      members_by_name = [0],
      type_id = tunnel_connection_response_id\<rparr>"

definition tunnel_connection_response_result_node :: node where
  "tunnel_connection_response_result_node =
     [[0, 0, 0, 0, 6, 0, 6, 0], [34, 118, 37, 96, 194, 197, 179, 151], [35, 0, 0, 0, 1, 0, 1, 0],
      [220, 98, 43, 213, 3, 157, 170, 219], [1, 0, 7, 0, 1, 0, 2, 0], [0, 0, 0, 0, 0, 0, 0, 0],
      [0, 0, 0, 0, 0, 0, 0, 0], [21, 0, 0, 0, 82, 1, 0, 0], [0, 0, 0, 0, 0, 0, 0, 0],
      [0, 0, 0, 0, 0, 0, 0, 0], [33, 0, 0, 0, 119, 0, 0, 0], [0, 0, 0, 0, 0, 0, 0, 0],
      [0, 0, 0, 0, 0, 0, 0, 0], [116, 117, 110, 110, 101, 108, 114, 112],
      [99, 46, 99, 97, 112, 110, 112, 58], [67, 111, 110, 110, 101, 99, 116, 105],
      [111, 110, 82, 101, 115, 112, 111, 110], [115, 101, 46, 114, 101, 115, 117, 108],
      [116, 0, 0, 0, 0, 0, 0, 0], [8, 0, 0, 0, 3, 0, 4, 0], [0, 0, 255, 255, 0, 0, 0, 0],
      [0, 0, 1, 0, 0, 0, 0, 0], [0, 0, 0, 0, 0, 0, 0, 0], [41, 0, 0, 0, 50, 0, 0, 0],
      [0, 0, 0, 0, 0, 0, 0, 0], [36, 0, 0, 0, 3, 0, 1, 0], [48, 0, 0, 0, 2, 0, 1, 0],
      [1, 0, 254, 255, 0, 0, 0, 0], [0, 0, 1, 0, 1, 0, 0, 0], [0, 0, 0, 0, 0, 0, 0, 0],
      [45, 0, 0, 0, 146, 0, 0, 0], [0, 0, 0, 0, 0, 0, 0, 0], [48, 0, 0, 0, 3, 0, 1, 0],
      [60, 0, 0, 0, 2, 0, 1, 0], [101, 114, 114, 111, 114, 0, 0, 0], [16, 0, 0, 0, 0, 0, 0, 0],
      [134, 219, 94, 120, 210, 131, 243, 245], [0, 0, 0, 0, 0, 0, 0, 0], [0, 0, 0, 0, 0, 0, 0, 0],
      [16, 0, 0, 0, 0, 0, 0, 0], [0, 0, 0, 0, 0, 0, 0, 0], [0, 0, 0, 0, 0, 0, 0, 0],
      [99, 111, 110, 110, 101, 99, 116, 105], [111, 110, 68, 101, 116, 97, 105, 108],
      [115, 0, 0, 0, 0, 0, 0, 0], [16, 0, 0, 0, 0, 0, 0, 0],
      [138, 193, 154, 43, 8, 159, 243, 181], [0, 0, 0, 0, 0, 0, 0, 0], [0, 0, 0, 0, 0, 0, 0, 0],
      [16, 0, 0, 0, 0, 0, 0, 0], [0, 0, 0, 0, 0, 0, 0, 0], [0, 0, 0, 0, 0, 0, 0, 0]]"

definition tunnel_connection_response_result_schema :: raw_schema where
  "tunnel_connection_response_result_schema =
     \<lparr>encoded_node = tunnel_connection_response_result_node,
      field_types = [StructType tunnel_connection_error_id, StructType tunnel_connection_details_id],
      nonunion_members = [],
      members_by_discriminant = [0, 1],
      members_by_name = [1, 0],
      type_id = tunnel_connection_response_result_id\<rparr>"

definition tunnel_connection_error_node :: node where
  "tunnel_connection_error_node =
     [[0, 0, 0, 0, 6, 0, 6, 0], [134, 219, 94, 120, 210, 131, 243, 245],
      [16, 0, 0, 0, 1, 0, 2, 0], [126, 188, 74, 20, 249, 116, 130, 219], [1, 0, 7, 0, 0, 0, 0, 0],
      [0, 0, 0, 0, 0, 0, 0, 0], [199, 2, 0, 0, 61, 3, 0, 0], [21, 0, 0, 0, 2, 1, 0, 0],
      [33, 0, 0, 0, 7, 0, 0, 0], [0, 0, 0, 0, 0, 0, 0, 0], [29, 0, 0, 0, 175, 0, 0, 0],
      [0, 0, 0, 0, 0, 0, 0, 0], [0, 0, 0, 0, 0, 0, 0, 0],
      [116, 117, 110, 110, 101, 108, 114, 112], [99, 46, 99, 97, 112, 110, 112, 58],
      [67, 111, 110, 110, 101, 99, 116, 105], [111, 110, 69, 114, 114, 111, 114, 0],
      [0, 0, 0, 0, 1, 0, 1, 0], [12, 0, 0, 0, 3, 0, 4, 0], [0, 0, 0, 0, 0, 0, 0, 0],
      [0, 0, 1, 0, 0, 0, 0, 0], [0, 0, 0, 0, 0, 0, 0, 0], [69, 0, 0, 0, 50, 0, 0, 0],
      [0, 0, 0, 0, 0, 0, 0, 0], [64, 0, 0, 0, 3, 0, 1, 0], [76, 0, 0, 0, 2, 0, 1, 0],
      [1, 0, 0, 0, 0, 0, 0, 0], [0, 0, 1, 0, 1, 0, 0, 0], [0, 0, 0, 0, 0, 0, 0, 0],
      [73, 0, 0, 0, 90, 0, 0, 0], [0, 0, 0, 0, 0, 0, 0, 0], [72, 0, 0, 0, 3, 0, 1, 0],
      [84, 0, 0, 0, 2, 0, 1, 0], [2, 0, 0, 0, 64, 0, 0, 0], [0, 0, 1, 0, 2, 0, 0, 0],
      [0, 0, 0, 0, 0, 0, 0, 0], [81, 0, 0, 0, 98, 0, 0, 0], [0, 0, 0, 0, 0, 0, 0, 0],
      [80, 0, 0, 0, 3, 0, 1, 0], [92, 0, 0, 0, 2, 0, 1, 0], [99, 97, 117, 115, 101, 0, 0, 0],
      [12, 0, 0, 0, 0, 0, 0, 0], [0, 0, 0, 0, 0, 0, 0, 0], [0, 0, 0, 0, 0, 0, 0, 0],
      [0, 0, 0, 0, 0, 0, 0, 0], [12, 0, 0, 0, 0, 0, 0, 0], [0, 0, 0, 0, 0, 0, 0, 0],
      [0, 0, 0, 0, 0, 0, 0, 0], [114, 101, 116, 114, 121, 65, 102, 116],
      [101, 114, 0, 0, 0, 0, 0, 0], [5, 0, 0, 0, 0, 0, 0, 0], [0, 0, 0, 0, 0, 0, 0, 0],
      [0, 0, 0, 0, 0, 0, 0, 0], [0, 0, 0, 0, 0, 0, 0, 0], [5, 0, 0, 0, 0, 0, 0, 0],
      [0, 0, 0, 0, 0, 0, 0, 0], [0, 0, 0, 0, 0, 0, 0, 0], [115, 104, 111, 117, 108, 100, 82, 101],
      [116, 114, 121, 0, 0, 0, 0, 0], [1, 0, 0, 0, 0, 0, 0, 0], [0, 0, 0, 0, 0, 0, 0, 0],
      [0, 0, 0, 0, 0, 0, 0, 0], [0, 0, 0, 0, 0, 0, 0, 0], [1, 0, 0, 0, 0, 0, 0, 0],
      [0, 0, 0, 0, 0, 0, 0, 0], [0, 0, 0, 0, 0, 0, 0, 0]]"

definition tunnel_connection_error_schema :: raw_schema where
  "tunnel_connection_error_schema =
     \<lparr>encoded_node = tunnel_connection_error_node,
      field_types = [TextType, Int64, Bool],
      nonunion_members = [0, 1, 2],
      members_by_discriminant = [],
      members_by_name = [0, 1, 2],
      type_id = tunnel_connection_error_id\<rparr>"

definition tunnel_connection_details_node :: node where
  "tunnel_connection_details_node =
     [[0, 0, 0, 0, 6, 0, 6, 0], [138, 193, 154, 43, 8, 159, 243, 181], [16, 0, 0, 0, 1, 0, 1, 0],
      [126, 188, 74, 20, 249, 116, 130, 219], [2, 0, 7, 0, 0, 0, 0, 0], [0, 0, 0, 0, 0, 0, 0, 0],
      [63, 3, 0, 0, 195, 3, 0, 0], [21, 0, 0, 0, 18, 1, 0, 0], [37, 0, 0, 0, 7, 0, 0, 0],
      [0, 0, 0, 0, 0, 0, 0, 0], [33, 0, 0, 0, 175, 0, 0, 0], [0, 0, 0, 0, 0, 0, 0, 0],
      [0, 0, 0, 0, 0, 0, 0, 0], [116, 117, 110, 110, 101, 108, 114, 112],
      [99, 46, 99, 97, 112, 110, 112, 58], [67, 111, 110, 110, 101, 99, 116, 105],
      [111, 110, 68, 101, 116, 97, 105, 108], [115, 0, 0, 0, 0, 0, 0, 0],
      [0, 0, 0, 0, 1, 0, 1, 0], [12, 0, 0, 0, 3, 0, 4, 0], [0, 0, 0, 0, 0, 0, 0, 0],
      [0, 0, 1, 0, 0, 0, 0, 0], [0, 0, 0, 0, 0, 0, 0, 0], [69, 0, 0, 0, 42, 0, 0, 0],
      [0, 0, 0, 0, 0, 0, 0, 0], [64, 0, 0, 0, 3, 0, 1, 0], [76, 0, 0, 0, 2, 0, 1, 0],
      [1, 0, 0, 0, 1, 0, 0, 0], [0, 0, 1, 0, 1, 0, 0, 0], [0, 0, 0, 0, 0, 0, 0, 0],
      [73, 0, 0, 0, 106, 0, 0, 0], [0, 0, 0, 0, 0, 0, 0, 0], [72, 0, 0, 0, 3, 0, 1, 0],
      [84, 0, 0, 0, 2, 0, 1, 0], [2, 0, 0, 0, 0, 0, 0, 0], [0, 0, 1, 0, 2, 0, 0, 0],
      [0, 0, 0, 0, 0, 0, 0, 0], [81, 0, 0, 0, 194, 0, 0, 0], [0, 0, 0, 0, 0, 0, 0, 0],
      [84, 0, 0, 0, 3, 0, 1, 0], [96, 0, 0, 0, 2, 0, 1, 0], [117, 117, 105, 100, 0, 0, 0, 0],
      [13, 0, 0, 0, 0, 0, 0, 0], [0, 0, 0, 0, 0, 0, 0, 0], [0, 0, 0, 0, 0, 0, 0, 0],
      [0, 0, 0, 0, 0, 0, 0, 0], [13, 0, 0, 0, 0, 0, 0, 0], [0, 0, 0, 0, 0, 0, 0, 0],
      [0, 0, 0, 0, 0, 0, 0, 0], [108, 111, 99, 97, 116, 105, 111, 110],
      [78, 97, 109, 101, 0, 0, 0, 0], [12, 0, 0, 0, 0, 0, 0, 0], [0, 0, 0, 0, 0, 0, 0, 0],
      [0, 0, 0, 0, 0, 0, 0, 0], [0, 0, 0, 0, 0, 0, 0, 0], [12, 0, 0, 0, 0, 0, 0, 0],
      [0, 0, 0, 0, 0, 0, 0, 0], [0, 0, 0, 0, 0, 0, 0, 0], [116, 117, 110, 110, 101, 108, 73, 115],
      [82, 101, 109, 111, 116, 101, 108, 121], [77, 97, 110, 97, 103, 101, 100, 0],
      [1, 0, 0, 0, 0, 0, 0, 0], [0, 0, 0, 0, 0, 0, 0, 0], [0, 0, 0, 0, 0, 0, 0, 0],
      [0, 0, 0, 0, 0, 0, 0, 0], [1, 0, 0, 0, 0, 0, 0, 0], [0, 0, 0, 0, 0, 0, 0, 0],
      [0, 0, 0, 0, 0, 0, 0, 0]]"

definition tunnel_connection_details_schema :: raw_schema where
  "tunnel_connection_details_schema =
     \<lparr>encoded_node = tunnel_connection_details_node,
      field_types = [DataType, TextType, Bool],
      nonunion_members = [0, 1, 2],
      members_by_discriminant = [],
      members_by_name = [1, 2, 0],
      type_id = tunnel_connection_details_id\<rparr>"

definition tunnel_tunnel_auth_node :: node where
  "tunnel_tunnel_auth_node =
     [[0, 0, 0, 0, 6, 0, 6, 0], [63, 70, 205, 185, 26, 51, 150, 148], [16, 0, 0, 0, 1, 0, 0, 0],
      [126, 188, 74, 20, 249, 116, 130, 219], [2, 0, 7, 0, 0, 0, 0, 0], [0, 0, 0, 0, 0, 0, 0, 0],
      [197, 3, 0, 0, 34, 4, 0, 0], [21, 0, 0, 0, 218, 0, 0, 0], [33, 0, 0, 0, 7, 0, 0, 0],
      [0, 0, 0, 0, 0, 0, 0, 0], [29, 0, 0, 0, 119, 0, 0, 0], [0, 0, 0, 0, 0, 0, 0, 0],
      [0, 0, 0, 0, 0, 0, 0, 0], [116, 117, 110, 110, 101, 108, 114, 112],
      [99, 46, 99, 97, 112, 110, 112, 58], [84, 117, 110, 110, 101, 108, 65, 117],
      [116, 104, 0, 0, 0, 0, 0, 0], [0, 0, 0, 0, 1, 0, 1, 0], [8, 0, 0, 0, 3, 0, 4, 0],
      [0, 0, 0, 0, 0, 0, 0, 0], [0, 0, 1, 0, 0, 0, 0, 0], [0, 0, 0, 0, 0, 0, 0, 0],
      [41, 0, 0, 0, 90, 0, 0, 0], [0, 0, 0, 0, 0, 0, 0, 0], [40, 0, 0, 0, 3, 0, 1, 0],
      [52, 0, 0, 0, 2, 0, 1, 0], [1, 0, 0, 0, 1, 0, 0, 0], [0, 0, 1, 0, 1, 0, 0, 0],
      [0, 0, 0, 0, 0, 0, 0, 0], [49, 0, 0, 0, 106, 0, 0, 0], [0, 0, 0, 0, 0, 0, 0, 0],
      [48, 0, 0, 0, 3, 0, 1, 0], [60, 0, 0, 0, 2, 0, 1, 0], [97, 99, 99, 111, 117, 110, 116, 84],
      [97, 103, 0, 0, 0, 0, 0, 0], [12, 0, 0, 0, 0, 0, 0, 0], [0, 0, 0, 0, 0, 0, 0, 0],
      [0, 0, 0, 0, 0, 0, 0, 0], [0, 0, 0, 0, 0, 0, 0, 0], [12, 0, 0, 0, 0, 0, 0, 0],
      [0, 0, 0, 0, 0, 0, 0, 0], [0, 0, 0, 0, 0, 0, 0, 0], [116, 117, 110, 110, 101, 108, 83, 101],
      [99, 114, 101, 116, 0, 0, 0, 0], [13, 0, 0, 0, 0, 0, 0, 0], [0, 0, 0, 0, 0, 0, 0, 0],
      [0, 0, 0, 0, 0, 0, 0, 0], [0, 0, 0, 0, 0, 0, 0, 0], [13, 0, 0, 0, 0, 0, 0, 0],
      [0, 0, 0, 0, 0, 0, 0, 0], [0, 0, 0, 0, 0, 0, 0, 0]]"

definition tunnel_tunnel_auth_schema :: raw_schema where
  "tunnel_tunnel_auth_schema =
     \<lparr>encoded_node = tunnel_tunnel_auth_node,
      field_types = [TextType, DataType],
      nonunion_members = [0, 1],
      members_by_discriminant = [],
      members_by_name = [0, 1],
      type_id = tunnel_tunnel_auth_id\<rparr>"

definition tunnel_register_connection_params_node :: node where
  "tunnel_register_connection_params_node =
     [[0, 0, 0, 0, 6, 0, 6, 0], [238, 166, 234, 143, 236, 109, 100, 230],
      [35, 0, 0, 0, 1, 0, 1, 0], [0, 0, 0, 0, 0, 0, 0, 0], [3, 0, 7, 0, 0, 0, 0, 0],
      [0, 0, 0, 0, 0, 0, 0, 0], [0, 0, 0, 0, 0, 0, 0, 0], [21, 0, 0, 0, 234, 1, 0, 0],
      [0, 0, 0, 0, 0, 0, 0, 0], [0, 0, 0, 0, 0, 0, 0, 0], [41, 0, 0, 0, 231, 0, 0, 0],
      [0, 0, 0, 0, 0, 0, 0, 0], [0, 0, 0, 0, 0, 0, 0, 0],
      [116, 117, 110, 110, 101, 108, 114, 112], [99, 46, 99, 97, 112, 110, 112, 58],
      [82, 101, 103, 105, 115, 116, 114, 97], [116, 105, 111, 110, 83, 101, 114, 118],
      [101, 114, 46, 114, 101, 103, 105, 115], [116, 101, 114, 67, 111, 110, 110, 101],
      [99, 116, 105, 111, 110, 36, 80, 97], [114, 97, 109, 115, 0, 0, 0, 0],
      [16, 0, 0, 0, 3, 0, 4, 0], [0, 0, 0, 0, 0, 0, 0, 0], [0, 0, 1, 0, 0, 0, 0, 0],
      [0, 0, 0, 0, 0, 0, 0, 0], [97, 0, 0, 0, 42, 0, 0, 0], [0, 0, 0, 0, 0, 0, 0, 0],
      [92, 0, 0, 0, 3, 0, 1, 0], [104, 0, 0, 0, 2, 0, 1, 0], [1, 0, 0, 0, 1, 0, 0, 0],
      [0, 0, 1, 0, 1, 0, 0, 0], [0, 0, 0, 0, 0, 0, 0, 0], [101, 0, 0, 0, 74, 0, 0, 0],
      [0, 0, 0, 0, 0, 0, 0, 0], [100, 0, 0, 0, 3, 0, 1, 0], [112, 0, 0, 0, 2, 0, 1, 0],
      [2, 0, 0, 0, 0, 0, 0, 0], [0, 0, 1, 0, 2, 0, 0, 0], [0, 0, 0, 0, 0, 0, 0, 0],
      [109, 0, 0, 0, 82, 0, 0, 0], [0, 0, 0, 0, 0, 0, 0, 0], [108, 0, 0, 0, 3, 0, 1, 0],
      [120, 0, 0, 0, 2, 0, 1, 0], [3, 0, 0, 0, 2, 0, 0, 0], [0, 0, 1, 0, 3, 0, 0, 0],
      [0, 0, 0, 0, 0, 0, 0, 0], [117, 0, 0, 0, 66, 0, 0, 0], [0, 0, 0, 0, 0, 0, 0, 0],
      [112, 0, 0, 0, 3, 0, 1, 0], [124, 0, 0, 0, 2, 0, 1, 0], [97, 117, 116, 104, 0, 0, 0, 0],
      [16, 0, 0, 0, 0, 0, 0, 0], [63, 70, 205, 185, 26, 51, 150, 148], [0, 0, 0, 0, 0, 0, 0, 0],
      [0, 0, 0, 0, 0, 0, 0, 0], [16, 0, 0, 0, 0, 0, 0, 0], [0, 0, 0, 0, 0, 0, 0, 0],
      [0, 0, 0, 0, 0, 0, 0, 0], [116, 117, 110, 110, 101, 108, 73, 100], [0, 0, 0, 0, 0, 0, 0, 0],
      [13, 0, 0, 0, 0, 0, 0, 0], [0, 0, 0, 0, 0, 0, 0, 0], [0, 0, 0, 0, 0, 0, 0, 0],
      [0, 0, 0, 0, 0, 0, 0, 0], [13, 0, 0, 0, 0, 0, 0, 0], [0, 0, 0, 0, 0, 0, 0, 0],
      [0, 0, 0, 0, 0, 0, 0, 0], [99, 111, 110, 110, 73, 110, 100, 101],
      [120, 0, 0, 0, 0, 0, 0, 0], [6, 0, 0, 0, 0, 0, 0, 0], [0, 0, 0, 0, 0, 0, 0, 0],
      [0, 0, 0, 0, 0, 0, 0, 0], [0, 0, 0, 0, 0, 0, 0, 0], [6, 0, 0, 0, 0, 0, 0, 0],
      [0, 0, 0, 0, 0, 0, 0, 0], [0, 0, 0, 0, 0, 0, 0, 0], [111, 112, 116, 105, 111, 110, 115, 0],
      [16, 0, 0, 0, 0, 0, 0, 0], [4, 93, 3, 254, 97, 152, 191, 180], [0, 0, 0, 0, 0, 0, 0, 0],
      [0, 0, 0, 0, 0, 0, 0, 0], [16, 0, 0, 0, 0, 0, 0, 0], [0, 0, 0, 0, 0, 0, 0, 0],
      [0, 0, 0, 0, 0, 0, 0, 0]]"

definition tunnel_register_connection_params_schema :: raw_schema where
  "tunnel_register_connection_params_schema =
     \<lparr>encoded_node = tunnel_register_connection_params_node,
      field_types = [StructType tunnel_tunnel_auth_id, DataType, UInt8, StructType tunnel_connection_options_id],
      nonunion_members = [0, 1, 2, 3],
      members_by_discriminant = [],
      members_by_name = [0, 2, 3, 1],
      type_id = tunnel_register_connection_params_id\<rparr>"

definition tunnel_register_connection_results_node :: node where
  "tunnel_register_connection_results_node =
     [[0, 0, 0, 0, 6, 0, 6, 0], [23, 31, 13, 69, 34, 216, 80, 234], [35, 0, 0, 0, 1, 0, 0, 0],
      [0, 0, 0, 0, 0, 0, 0, 0], [1, 0, 7, 0, 0, 0, 0, 0], [0, 0, 0, 0, 0, 0, 0, 0],
      [0, 0, 0, 0, 0, 0, 0, 0], [21, 0, 0, 0, 242, 1, 0, 0], [0, 0, 0, 0, 0, 0, 0, 0],
      [0, 0, 0, 0, 0, 0, 0, 0], [41, 0, 0, 0, 63, 0, 0, 0], [0, 0, 0, 0, 0, 0, 0, 0],
      [0, 0, 0, 0, 0, 0, 0, 0], [116, 117, 110, 110, 101, 108, 114, 112],
      [99, 46, 99, 97, 112, 110, 112, 58], [82, 101, 103, 105, 115, 116, 114, 97],
      [116, 105, 111, 110, 83, 101, 114, 118], [101, 114, 46, 114, 101, 103, 105, 115],
      [116, 101, 114, 67, 111, 110, 110, 101], [99, 116, 105, 111, 110, 36, 82, 101],
      [115, 117, 108, 116, 115, 0, 0, 0], [4, 0, 0, 0, 3, 0, 4, 0], [0, 0, 0, 0, 0, 0, 0, 0],
      [0, 0, 1, 0, 0, 0, 0, 0], [0, 0, 0, 0, 0, 0, 0, 0], [13, 0, 0, 0, 58, 0, 0, 0],
      [0, 0, 0, 0, 0, 0, 0, 0], [8, 0, 0, 0, 3, 0, 1, 0], [20, 0, 0, 0, 2, 0, 1, 0],
      [114, 101, 115, 117, 108, 116, 0, 0], [16, 0, 0, 0, 0, 0, 0, 0],
      [220, 98, 43, 213, 3, 157, 170, 219], [0, 0, 0, 0, 0, 0, 0, 0], [0, 0, 0, 0, 0, 0, 0, 0],
      [16, 0, 0, 0, 0, 0, 0, 0], [0, 0, 0, 0, 0, 0, 0, 0], [0, 0, 0, 0, 0, 0, 0, 0]]"

definition tunnel_register_connection_results_schema :: raw_schema where
  "tunnel_register_connection_results_schema =
     \<lparr>encoded_node = tunnel_register_connection_results_node,
      field_types = [StructType tunnel_connection_response_id],
      nonunion_members = [0],
      members_by_discriminant = [],
      members_by_name = [0],
      type_id = tunnel_register_connection_results_id\<rparr>"

definition tunnel_unregister_connection_params_node :: node where
  "tunnel_unregister_connection_params_node =
     [[0, 0, 0, 0, 6, 0, 6, 0], [208, 7, 163, 49, 68, 127, 203, 249], [35, 0, 0, 0, 1, 0, 0, 0],
      [0, 0, 0, 0, 0, 0, 0, 0], [0, 0, 7, 0, 0, 0, 0, 0], [0, 0, 0, 0, 0, 0, 0, 0],
      [0, 0, 0, 0, 0, 0, 0, 0], [21, 0, 0, 0, 250, 1, 0, 0], [0, 0, 0, 0, 0, 0, 0, 0],
      [0, 0, 0, 0, 0, 0, 0, 0], [0, 0, 0, 0, 0, 0, 0, 0], [0, 0, 0, 0, 0, 0, 0, 0],
      [0, 0, 0, 0, 0, 0, 0, 0], [116, 117, 110, 110, 101, 108, 114, 112],
      [99, 46, 99, 97, 112, 110, 112, 58], [82, 101, 103, 105, 115, 116, 114, 97],
      [116, 105, 111, 110, 83, 101, 114, 118], [101, 114, 46, 117, 110, 114, 101, 103],
      [105, 115, 116, 101, 114, 67, 111, 110], [110, 101, 99, 116, 105, 111, 110, 36],
      [80, 97, 114, 97, 109, 115, 0, 0]]"

definition tunnel_unregister_connection_params_schema :: raw_schema where
  "tunnel_unregister_connection_params_schema =
     \<lparr>encoded_node = tunnel_unregister_connection_params_node,
      field_types = [],
      nonunion_members = [],
      members_by_discriminant = [],
      members_by_name = [],
      type_id = tunnel_unregister_connection_params_id\<rparr>"

definition tunnel_unregister_connection_results_node :: node where
  "tunnel_unregister_connection_results_node =
     [[0, 0, 0, 0, 6, 0, 6, 0], [173, 30, 75, 9, 120, 229, 70, 176], [35, 0, 0, 0, 1, 0, 0, 0],
      [0, 0, 0, 0, 0, 0, 0, 0], [0, 0, 7, 0, 0, 0, 0, 0], [0, 0, 0, 0, 0, 0, 0, 0],
      [0, 0, 0, 0, 0, 0, 0, 0], [21, 0, 0, 0, 2, 2, 0, 0], [0, 0, 0, 0, 0, 0, 0, 0],
      [0, 0, 0, 0, 0, 0, 0, 0], [0, 0, 0, 0, 0, 0, 0, 0], [0, 0, 0, 0, 0, 0, 0, 0],
      [0, 0, 0, 0, 0, 0, 0, 0], [116, 117, 110, 110, 101, 108, 114, 112],
      [99, 46, 99, 97, 112, 110, 112, 58], [82, 101, 103, 105, 115, 116, 114, 97],
      [116, 105, 111, 110, 83, 101, 114, 118], [101, 114, 46, 117, 110, 114, 101, 103],
      [105, 115, 116, 101, 114, 67, 111, 110], [110, 101, 99, 116, 105, 111, 110, 36],
      [82, 101, 115, 117, 108, 116, 115, 0]]"

definition tunnel_unregister_connection_results_schema :: raw_schema where
  "tunnel_unregister_connection_results_schema =
     \<lparr>encoded_node = tunnel_unregister_connection_results_node,
      field_types = [],
      nonunion_members = [],
      members_by_discriminant = [],
      members_by_name = [],
      type_id = tunnel_unregister_connection_results_id\<rparr>"

definition tunnel_update_local_configuration_params_node :: node where
  "tunnel_update_local_configuration_params_node =
     [[0, 0, 0, 0, 6, 0, 6, 0], [4, 54, 106, 135, 17, 227, 214, 197], [35, 0, 0, 0, 1, 0, 0, 0],
      [0, 0, 0, 0, 0, 0, 0, 0], [1, 0, 7, 0, 0, 0, 0, 0], [0, 0, 0, 0, 0, 0, 0, 0],
      [0, 0, 0, 0, 0, 0, 0, 0], [21, 0, 0, 0, 26, 2, 0, 0], [0, 0, 0, 0, 0, 0, 0, 0],
      [0, 0, 0, 0, 0, 0, 0, 0], [45, 0, 0, 0, 63, 0, 0, 0], [0, 0, 0, 0, 0, 0, 0, 0],
      [0, 0, 0, 0, 0, 0, 0, 0], [116, 117, 110, 110, 101, 108, 114, 112],
      [99, 46, 99, 97, 112, 110, 112, 58], [82, 101, 103, 105, 115, 116, 114, 97],
      [116, 105, 111, 110, 83, 101, 114, 118], [101, 114, 46, 117, 112, 100, 97, 116],
      [101, 76, 111, 99, 97, 108, 67, 111], [110, 102, 105, 103, 117, 114, 97, 116],
      [105, 111, 110, 36, 80, 97, 114, 97], [109, 115, 0, 0, 0, 0, 0, 0],
      [4, 0, 0, 0, 3, 0, 4, 0], [0, 0, 0, 0, 0, 0, 0, 0], [0, 0, 1, 0, 0, 0, 0, 0],
      [0, 0, 0, 0, 0, 0, 0, 0], [13, 0, 0, 0, 58, 0, 0, 0], [0, 0, 0, 0, 0, 0, 0, 0],
      [8, 0, 0, 0, 3, 0, 1, 0], [20, 0, 0, 0, 2, 0, 1, 0], [99, 111, 110, 102, 105, 103, 0, 0],
      [13, 0, 0, 0, 0, 0, 0, 0], [0, 0, 0, 0, 0, 0, 0, 0], [0, 0, 0, 0, 0, 0, 0, 0],
      [0, 0, 0, 0, 0, 0, 0, 0], [13, 0, 0, 0, 0, 0, 0, 0], [0, 0, 0, 0, 0, 0, 0, 0],
      [0, 0, 0, 0, 0, 0, 0, 0]]"

definition tunnel_update_local_configuration_params_schema :: raw_schema where
  "tunnel_update_local_configuration_params_schema =
     \<lparr>encoded_node = tunnel_update_local_configuration_params_node,
      field_types = [DataType],
      nonunion_members = [0],
      members_by_discriminant = [],
      members_by_name = [0],
      type_id = tunnel_update_local_configuration_params_id\<rparr>"

definition tunnel_update_local_configuration_results_node :: node where
  "tunnel_update_local_configuration_results_node =
     [[0, 0, 0, 0, 6, 0, 6, 0], [190, 215, 151, 104, 93, 174, 206, 229],
      [35, 0, 0, 0, 1, 0, 0, 0], [0, 0, 0, 0, 0, 0, 0, 0], [0, 0, 7, 0, 0, 0, 0, 0],
      [0, 0, 0, 0, 0, 0, 0, 0], [0, 0, 0, 0, 0, 0, 0, 0], [21, 0, 0, 0, 34, 2, 0, 0],
      [0, 0, 0, 0, 0, 0, 0, 0], [0, 0, 0, 0, 0, 0, 0, 0], [0, 0, 0, 0, 0, 0, 0, 0],
      [0, 0, 0, 0, 0, 0, 0, 0], [0, 0, 0, 0, 0, 0, 0, 0],
      [116, 117, 110, 110, 101, 108, 114, 112], [99, 46, 99, 97, 112, 110, 112, 58],
      [82, 101, 103, 105, 115, 116, 114, 97], [116, 105, 111, 110, 83, 101, 114, 118],
      [101, 114, 46, 117, 112, 100, 97, 116], [101, 76, 111, 99, 97, 108, 67, 111],
      [110, 102, 105, 103, 117, 114, 97, 116], [105, 111, 110, 36, 82, 101, 115, 117],
      [108, 116, 115, 0, 0, 0, 0, 0]]"

definition tunnel_update_local_configuration_results_schema :: raw_schema where
  "tunnel_update_local_configuration_results_schema =
     \<lparr>encoded_node = tunnel_update_local_configuration_results_node,
      field_types = [],
      nonunion_members = [],
      members_by_discriminant = [],
      members_by_name = [],
      type_id = tunnel_update_local_configuration_results_id\<rparr>"

definition tunnel_register_udp_session_response_node :: node where
  "tunnel_register_udp_session_response_node =
     [[0, 0, 0, 0, 6, 0, 6, 0], [135, 102, 242, 193, 16, 82, 109, 171], [16, 0, 0, 0, 1, 0, 0, 0],
      [126, 188, 74, 20, 249, 116, 130, 219], [2, 0, 7, 0, 0, 0, 0, 0], [0, 0, 0, 0, 0, 0, 0, 0],
      [66, 5, 0, 0, 161, 5, 0, 0], [21, 0, 0, 0, 90, 1, 0, 0], [41, 0, 0, 0, 7, 0, 0, 0],
      [0, 0, 0, 0, 0, 0, 0, 0], [37, 0, 0, 0, 119, 0, 0, 0], [0, 0, 0, 0, 0, 0, 0, 0],
      [0, 0, 0, 0, 0, 0, 0, 0], [116, 117, 110, 110, 101, 108, 114, 112],
      [99, 46, 99, 97, 112, 110, 112, 58], [82, 101, 103, 105, 115, 116, 101, 114],
      [85, 100, 112, 83, 101, 115, 115, 105], [111, 110, 82, 101, 115, 112, 111, 110],
      [115, 101, 0, 0, 0, 0, 0, 0], [0, 0, 0, 0, 1, 0, 1, 0], [8, 0, 0, 0, 3, 0, 4, 0],
      [0, 0, 0, 0, 0, 0, 0, 0], [0, 0, 1, 0, 0, 0, 0, 0], [0, 0, 0, 0, 0, 0, 0, 0],
      [41, 0, 0, 0, 34, 0, 0, 0], [0, 0, 0, 0, 0, 0, 0, 0], [36, 0, 0, 0, 3, 0, 1, 0],
      [48, 0, 0, 0, 2, 0, 1, 0], [1, 0, 0, 0, 1, 0, 0, 0], [0, 0, 1, 0, 1, 0, 0, 0],
      [0, 0, 0, 0, 0, 0, 0, 0], [45, 0, 0, 0, 50, 0, 0, 0], [0, 0, 0, 0, 0, 0, 0, 0],
      [40, 0, 0, 0, 3, 0, 1, 0], [52, 0, 0, 0, 2, 0, 1, 0], [101, 114, 114, 0, 0, 0, 0, 0],
      [12, 0, 0, 0, 0, 0, 0, 0], [0, 0, 0, 0, 0, 0, 0, 0], [0, 0, 0, 0, 0, 0, 0, 0],
      [0, 0, 0, 0, 0, 0, 0, 0], [12, 0, 0, 0, 0, 0, 0, 0], [0, 0, 0, 0, 0, 0, 0, 0],
      [0, 0, 0, 0, 0, 0, 0, 0], [115, 112, 97, 110, 115, 0, 0, 0], [13, 0, 0, 0, 0, 0, 0, 0],
      [0, 0, 0, 0, 0, 0, 0, 0], [0, 0, 0, 0, 0, 0, 0, 0], [0, 0, 0, 0, 0, 0, 0, 0],
      [13, 0, 0, 0, 0, 0, 0, 0], [0, 0, 0, 0, 0, 0, 0, 0], [0, 0, 0, 0, 0, 0, 0, 0]]"

definition tunnel_register_udp_session_response_schema :: raw_schema where
  "tunnel_register_udp_session_response_schema =
     \<lparr>encoded_node = tunnel_register_udp_session_response_node,
      field_types = [TextType, DataType],
      nonunion_members = [0, 1],
      members_by_discriminant = [],
      members_by_name = [0, 1],
      type_id = tunnel_register_udp_session_response_id\<rparr>"

definition tunnel_register_udp_session_params_node :: node where
  "tunnel_register_udp_session_params_node =
     [[0, 0, 0, 0, 6, 0, 6, 0], [234, 236, 251, 135, 123, 41, 78, 144], [31, 0, 0, 0, 1, 0, 2, 0],
      [0, 0, 0, 0, 0, 0, 0, 0], [3, 0, 7, 0, 0, 0, 0, 0], [0, 0, 0, 0, 0, 0, 0, 0],
      [0, 0, 0, 0, 0, 0, 0, 0], [21, 0, 0, 0, 202, 1, 0, 0], [0, 0, 0, 0, 0, 0, 0, 0],
      [0, 0, 0, 0, 0, 0, 0, 0], [41, 0, 0, 0, 31, 1, 0, 0], [0, 0, 0, 0, 0, 0, 0, 0],
      [0, 0, 0, 0, 0, 0, 0, 0], [116, 117, 110, 110, 101, 108, 114, 112],
      [99, 46, 99, 97, 112, 110, 112, 58], [83, 101, 115, 115, 105, 111, 110, 77],
      [97, 110, 97, 103, 101, 114, 46, 114], [101, 103, 105, 115, 116, 101, 114, 85],
      [100, 112, 83, 101, 115, 115, 105, 111], [110, 36, 80, 97, 114, 97, 109, 115],
      [0, 0, 0, 0, 0, 0, 0, 0], [20, 0, 0, 0, 3, 0, 4, 0], [0, 0, 0, 0, 0, 0, 0, 0],
      [0, 0, 1, 0, 0, 0, 0, 0], [0, 0, 0, 0, 0, 0, 0, 0], [125, 0, 0, 0, 82, 0, 0, 0],
      [0, 0, 0, 0, 0, 0, 0, 0], [124, 0, 0, 0, 3, 0, 1, 0], [136, 0, 0, 0, 2, 0, 1, 0],
      [1, 0, 0, 0, 1, 0, 0, 0], [0, 0, 1, 0, 1, 0, 0, 0], [0, 0, 0, 0, 0, 0, 0, 0],
      [133, 0, 0, 0, 50, 0, 0, 0], [0, 0, 0, 0, 0, 0, 0, 0], [128, 0, 0, 0, 3, 0, 1, 0],
      [140, 0, 0, 0, 2, 0, 1, 0], [2, 0, 0, 0, 0, 0, 0, 0], [0, 0, 1, 0, 2, 0, 0, 0],
      [0, 0, 0, 0, 0, 0, 0, 0], [137, 0, 0, 0, 66, 0, 0, 0], [0, 0, 0, 0, 0, 0, 0, 0],
      [132, 0, 0, 0, 3, 0, 1, 0], [144, 0, 0, 0, 2, 0, 1, 0], [3, 0, 0, 0, 1, 0, 0, 0],
      [0, 0, 1, 0, 3, 0, 0, 0], [0, 0, 0, 0, 0, 0, 0, 0], [141, 0, 0, 0, 154, 0, 0, 0],
      [0, 0, 0, 0, 0, 0, 0, 0], [144, 0, 0, 0, 3, 0, 1, 0], [156, 0, 0, 0, 2, 0, 1, 0],
      [4, 0, 0, 0, 2, 0, 0, 0], [0, 0, 1, 0, 4, 0, 0, 0], [1, 0, 0, 0, 0, 0, 0, 0],
      [153, 0, 0, 0, 106, 0, 0, 0], [0, 0, 0, 0, 0, 0, 0, 0], [152, 0, 0, 0, 3, 0, 1, 0],
      [164, 0, 0, 0, 2, 0, 1, 0], [115, 101, 115, 115, 105, 111, 110, 73],
      [100, 0, 0, 0, 0, 0, 0, 0], [13, 0, 0, 0, 0, 0, 0, 0], [0, 0, 0, 0, 0, 0, 0, 0],
      [0, 0, 0, 0, 0, 0, 0, 0], [0, 0, 0, 0, 0, 0, 0, 0], [13, 0, 0, 0, 0, 0, 0, 0],
      [0, 0, 0, 0, 0, 0, 0, 0], [0, 0, 0, 0, 0, 0, 0, 0], [100, 115, 116, 73, 112, 0, 0, 0],
      [13, 0, 0, 0, 0, 0, 0, 0], [0, 0, 0, 0, 0, 0, 0, 0], [0, 0, 0, 0, 0, 0, 0, 0],
      [0, 0, 0, 0, 0, 0, 0, 0], [13, 0, 0, 0, 0, 0, 0, 0], [0, 0, 0, 0, 0, 0, 0, 0],
      [0, 0, 0, 0, 0, 0, 0, 0], [100, 115, 116, 80, 111, 114, 116, 0], [7, 0, 0, 0, 0, 0, 0, 0],
      [0, 0, 0, 0, 0, 0, 0, 0], [0, 0, 0, 0, 0, 0, 0, 0], [0, 0, 0, 0, 0, 0, 0, 0],
      [7, 0, 0, 0, 0, 0, 0, 0], [0, 0, 0, 0, 0, 0, 0, 0], [0, 0, 0, 0, 0, 0, 0, 0],
      [99, 108, 111, 115, 101, 65, 102, 116], [101, 114, 73, 100, 108, 101, 72, 105],
      [110, 116, 0, 0, 0, 0, 0, 0], [5, 0, 0, 0, 0, 0, 0, 0], [0, 0, 0, 0, 0, 0, 0, 0],
      [0, 0, 0, 0, 0, 0, 0, 0], [0, 0, 0, 0, 0, 0, 0, 0], [5, 0, 0, 0, 0, 0, 0, 0],
      [0, 0, 0, 0, 0, 0, 0, 0], [0, 0, 0, 0, 0, 0, 0, 0], [116, 114, 97, 99, 101, 67, 111, 110],
      [116, 101, 120, 116, 0, 0, 0, 0], [12, 0, 0, 0, 0, 0, 0, 0], [0, 0, 0, 0, 0, 0, 0, 0],
      [0, 0, 0, 0, 0, 0, 0, 0], [0, 0, 0, 0, 0, 0, 0, 0], [12, 0, 0, 0, 0, 0, 0, 0],
      [0, 0, 0, 0, 0, 0, 0, 0], [1, 0, 0, 0, 10, 0, 0, 0], [0, 0, 0, 0, 0, 0, 0, 0]]"

definition tunnel_register_udp_session_params_schema :: raw_schema where
  "tunnel_register_udp_session_params_schema =
     \<lparr>encoded_node = tunnel_register_udp_session_params_node,
      field_types = [DataType, DataType, UInt16, Int64, TextType],
      nonunion_members = [0, 1, 2, 3, 4],
      members_by_discriminant = [],
      members_by_name = [3, 1, 2, 0, 4],
      type_id = tunnel_register_udp_session_params_id\<rparr>"

definition tunnel_register_udp_session_results_node :: node where
  "tunnel_register_udp_session_results_node =
     [[0, 0, 0, 0, 6, 0, 6, 0], [205, 245, 91, 244, 180, 198, 53, 134], [31, 0, 0, 0, 1, 0, 0, 0],
      [0, 0, 0, 0, 0, 0, 0, 0], [1, 0, 7, 0, 0, 0, 0, 0], [0, 0, 0, 0, 0, 0, 0, 0],
      [0, 0, 0, 0, 0, 0, 0, 0], [21, 0, 0, 0, 210, 1, 0, 0], [0, 0, 0, 0, 0, 0, 0, 0],
      [0, 0, 0, 0, 0, 0, 0, 0], [41, 0, 0, 0, 63, 0, 0, 0], [0, 0, 0, 0, 0, 0, 0, 0],
      [0, 0, 0, 0, 0, 0, 0, 0], [116, 117, 110, 110, 101, 108, 114, 112],
      [99, 46, 99, 97, 112, 110, 112, 58], [83, 101, 115, 115, 105, 111, 110, 77],
      [97, 110, 97, 103, 101, 114, 46, 114], [101, 103, 105, 115, 116, 101, 114, 85],
      [100, 112, 83, 101, 115, 115, 105, 111], [110, 36, 82, 101, 115, 117, 108, 116],
      [115, 0, 0, 0, 0, 0, 0, 0], [4, 0, 0, 0, 3, 0, 4, 0], [0, 0, 0, 0, 0, 0, 0, 0],
      [0, 0, 1, 0, 0, 0, 0, 0], [0, 0, 0, 0, 0, 0, 0, 0], [13, 0, 0, 0, 58, 0, 0, 0],
      [0, 0, 0, 0, 0, 0, 0, 0], [8, 0, 0, 0, 3, 0, 1, 0], [20, 0, 0, 0, 2, 0, 1, 0],
      [114, 101, 115, 117, 108, 116, 0, 0], [16, 0, 0, 0, 0, 0, 0, 0],
      [135, 102, 242, 193, 16, 82, 109, 171], [0, 0, 0, 0, 0, 0, 0, 0], [0, 0, 0, 0, 0, 0, 0, 0],
      [16, 0, 0, 0, 0, 0, 0, 0], [0, 0, 0, 0, 0, 0, 0, 0], [0, 0, 0, 0, 0, 0, 0, 0]]"

definition tunnel_register_udp_session_results_schema :: raw_schema where
  "tunnel_register_udp_session_results_schema =
     \<lparr>encoded_node = tunnel_register_udp_session_results_node,
      field_types = [StructType tunnel_register_udp_session_response_id],
      nonunion_members = [0],
      members_by_discriminant = [],
      members_by_name = [0],
      type_id = tunnel_register_udp_session_results_id\<rparr>"

definition tunnel_unregister_udp_session_params_node :: node where
  "tunnel_unregister_udp_session_params_node =
     [[0, 0, 0, 0, 6, 0, 6, 0], [246, 14, 155, 206, 117, 67, 183, 150], [31, 0, 0, 0, 1, 0, 0, 0],
      [0, 0, 0, 0, 0, 0, 0, 0], [2, 0, 7, 0, 0, 0, 0, 0], [0, 0, 0, 0, 0, 0, 0, 0],
      [0, 0, 0, 0, 0, 0, 0, 0], [21, 0, 0, 0, 218, 1, 0, 0], [0, 0, 0, 0, 0, 0, 0, 0],
      [0, 0, 0, 0, 0, 0, 0, 0], [41, 0, 0, 0, 119, 0, 0, 0], [0, 0, 0, 0, 0, 0, 0, 0],
      [0, 0, 0, 0, 0, 0, 0, 0], [116, 117, 110, 110, 101, 108, 114, 112],
      [99, 46, 99, 97, 112, 110, 112, 58], [83, 101, 115, 115, 105, 111, 110, 77],
      [97, 110, 97, 103, 101, 114, 46, 117], [110, 114, 101, 103, 105, 115, 116, 101],
      [114, 85, 100, 112, 83, 101, 115, 115], [105, 111, 110, 36, 80, 97, 114, 97],
      [109, 115, 0, 0, 0, 0, 0, 0], [8, 0, 0, 0, 3, 0, 4, 0], [0, 0, 0, 0, 0, 0, 0, 0],
      [0, 0, 1, 0, 0, 0, 0, 0], [0, 0, 0, 0, 0, 0, 0, 0], [41, 0, 0, 0, 82, 0, 0, 0],
      [0, 0, 0, 0, 0, 0, 0, 0], [40, 0, 0, 0, 3, 0, 1, 0], [52, 0, 0, 0, 2, 0, 1, 0],
      [1, 0, 0, 0, 1, 0, 0, 0], [0, 0, 1, 0, 1, 0, 0, 0], [0, 0, 0, 0, 0, 0, 0, 0],
      [49, 0, 0, 0, 66, 0, 0, 0], [0, 0, 0, 0, 0, 0, 0, 0], [44, 0, 0, 0, 3, 0, 1, 0],
      [56, 0, 0, 0, 2, 0, 1, 0], [115, 101, 115, 115, 105, 111, 110, 73],
      [100, 0, 0, 0, 0, 0, 0, 0], [13, 0, 0, 0, 0, 0, 0, 0], [0, 0, 0, 0, 0, 0, 0, 0],
      [0, 0, 0, 0, 0, 0, 0, 0], [0, 0, 0, 0, 0, 0, 0, 0], [13, 0, 0, 0, 0, 0, 0, 0],
      [0, 0, 0, 0, 0, 0, 0, 0], [0, 0, 0, 0, 0, 0, 0, 0], [109, 101, 115, 115, 97, 103, 101, 0],
      [12, 0, 0, 0, 0, 0, 0, 0], [0, 0, 0, 0, 0, 0, 0, 0], [0, 0, 0, 0, 0, 0, 0, 0],
      [0, 0, 0, 0, 0, 0, 0, 0], [12, 0, 0, 0, 0, 0, 0, 0], [0, 0, 0, 0, 0, 0, 0, 0],
      [0, 0, 0, 0, 0, 0, 0, 0]]"

definition tunnel_unregister_udp_session_params_schema :: raw_schema where
  "tunnel_unregister_udp_session_params_schema =
     \<lparr>encoded_node = tunnel_unregister_udp_session_params_node,
      field_types = [DataType, TextType],
      nonunion_members = [0, 1],
      members_by_discriminant = [],
      members_by_name = [1, 0],
      type_id = tunnel_unregister_udp_session_params_id\<rparr>"

definition tunnel_unregister_udp_session_results_node :: node where
  "tunnel_unregister_udp_session_results_node =
     [[0, 0, 0, 0, 6, 0, 6, 0], [118, 182, 145, 88, 171, 196, 78, 242], [31, 0, 0, 0, 1, 0, 0, 0],
      [0, 0, 0, 0, 0, 0, 0, 0], [0, 0, 7, 0, 0, 0, 0, 0], [0, 0, 0, 0, 0, 0, 0, 0],
      [0, 0, 0, 0, 0, 0, 0, 0], [21, 0, 0, 0, 226, 1, 0, 0], [0, 0, 0, 0, 0, 0, 0, 0],
      [0, 0, 0, 0, 0, 0, 0, 0], [0, 0, 0, 0, 0, 0, 0, 0], [0, 0, 0, 0, 0, 0, 0, 0],
      [0, 0, 0, 0, 0, 0, 0, 0], [116, 117, 110, 110, 101, 108, 114, 112],
      [99, 46, 99, 97, 112, 110, 112, 58], [83, 101, 115, 115, 105, 111, 110, 77],
      [97, 110, 97, 103, 101, 114, 46, 117], [110, 114, 101, 103, 105, 115, 116, 101],
      [114, 85, 100, 112, 83, 101, 115, 115], [105, 111, 110, 36, 82, 101, 115, 117],
      [108, 116, 115, 0, 0, 0, 0, 0]]"

definition tunnel_unregister_udp_session_results_schema :: raw_schema where
  "tunnel_unregister_udp_session_results_schema =
     \<lparr>encoded_node = tunnel_unregister_udp_session_results_node,
      field_types = [],
      nonunion_members = [],
      members_by_discriminant = [],
      members_by_name = [],
      type_id = tunnel_unregister_udp_session_results_id\<rparr>"

definition tunnel_update_configuration_response_node :: node where
  "tunnel_update_configuration_response_node =
     [[0, 0, 0, 0, 6, 0, 6, 0], [249, 92, 160, 75, 105, 255, 88, 219], [16, 0, 0, 0, 1, 0, 1, 0],
      [126, 188, 74, 20, 249, 116, 130, 219], [1, 0, 7, 0, 0, 0, 0, 0], [0, 0, 0, 0, 0, 0, 0, 0],
      [192, 6, 0, 0, 48, 7, 0, 0], [21, 0, 0, 0, 98, 1, 0, 0], [41, 0, 0, 0, 7, 0, 0, 0],
      [0, 0, 0, 0, 0, 0, 0, 0], [37, 0, 0, 0, 119, 0, 0, 0], [0, 0, 0, 0, 0, 0, 0, 0],
      [0, 0, 0, 0, 0, 0, 0, 0], [116, 117, 110, 110, 101, 108, 114, 112],
      [99, 46, 99, 97, 112, 110, 112, 58], [85, 112, 100, 97, 116, 101, 67, 111],
      [110, 102, 105, 103, 117, 114, 97, 116], [105, 111, 110, 82, 101, 115, 112, 111],
      [110, 115, 101, 0, 0, 0, 0, 0], [0, 0, 0, 0, 1, 0, 1, 0], [8, 0, 0, 0, 3, 0, 4, 0],
      [0, 0, 0, 0, 0, 0, 0, 0], [0, 0, 1, 0, 0, 0, 0, 0], [0, 0, 0, 0, 0, 0, 0, 0],
      [41, 0, 0, 0, 170, 0, 0, 0], [0, 0, 0, 0, 0, 0, 0, 0], [44, 0, 0, 0, 3, 0, 1, 0],
      [56, 0, 0, 0, 2, 0, 1, 0], [1, 0, 0, 0, 0, 0, 0, 0], [0, 0, 1, 0, 1, 0, 0, 0],
      [0, 0, 0, 0, 0, 0, 0, 0], [53, 0, 0, 0, 34, 0, 0, 0], [0, 0, 0, 0, 0, 0, 0, 0],
      [48, 0, 0, 0, 3, 0, 1, 0], [60, 0, 0, 0, 2, 0, 1, 0],
      [108, 97, 116, 101, 115, 116, 65, 112], [112, 108, 105, 101, 100, 86, 101, 114],
      [115, 105, 111, 110, 0, 0, 0, 0], [4, 0, 0, 0, 0, 0, 0, 0], [0, 0, 0, 0, 0, 0, 0, 0],
      [0, 0, 0, 0, 0, 0, 0, 0], [0, 0, 0, 0, 0, 0, 0, 0], [4, 0, 0, 0, 0, 0, 0, 0],
      [0, 0, 0, 0, 0, 0, 0, 0], [0, 0, 0, 0, 0, 0, 0, 0], [101, 114, 114, 0, 0, 0, 0, 0],
      [12, 0, 0, 0, 0, 0, 0, 0], [0, 0, 0, 0, 0, 0, 0, 0], [0, 0, 0, 0, 0, 0, 0, 0],
      [0, 0, 0, 0, 0, 0, 0, 0], [12, 0, 0, 0, 0, 0, 0, 0], [0, 0, 0, 0, 0, 0, 0, 0],
      [0, 0, 0, 0, 0, 0, 0, 0]]"

definition tunnel_update_configuration_response_schema :: raw_schema where
  "tunnel_update_configuration_response_schema =
     \<lparr>encoded_node = tunnel_update_configuration_response_node,
      field_types = [Int32, TextType],
      nonunion_members = [0, 1],
      members_by_discriminant = [],
      members_by_name = [1, 0],
      type_id = tunnel_update_configuration_response_id\<rparr>"

definition tunnel_update_configuration_params_node :: node where
  "tunnel_update_configuration_params_node =
     [[0, 0, 0, 0, 6, 0, 6, 0], [118, 202, 163, 38, 37, 202, 119, 177], [37, 0, 0, 0, 1, 0, 1, 0],
      [0, 0, 0, 0, 0, 0, 0, 0], [1, 0, 7, 0, 0, 0, 0, 0], [0, 0, 0, 0, 0, 0, 0, 0],
      [0, 0, 0, 0, 0, 0, 0, 0], [21, 0, 0, 0, 2, 2, 0, 0], [0, 0, 0, 0, 0, 0, 0, 0],
      [0, 0, 0, 0, 0, 0, 0, 0], [41, 0, 0, 0, 119, 0, 0, 0], [0, 0, 0, 0, 0, 0, 0, 0],
      [0, 0, 0, 0, 0, 0, 0, 0], [116, 117, 110, 110, 101, 108, 114, 112],
      [99, 46, 99, 97, 112, 110, 112, 58], [67, 111, 110, 102, 105, 103, 117, 114],
      [97, 116, 105, 111, 110, 77, 97, 110], [97, 103, 101, 114, 46, 117, 112, 100],
      [97, 116, 101, 67, 111, 110, 102, 105], [103, 117, 114, 97, 116, 105, 111, 110],
      [36, 80, 97, 114, 97, 109, 115, 0], [8, 0, 0, 0, 3, 0, 4, 0], [0, 0, 0, 0, 0, 0, 0, 0],
      [0, 0, 1, 0, 0, 0, 0, 0], [0, 0, 0, 0, 0, 0, 0, 0], [41, 0, 0, 0, 66, 0, 0, 0],
      [0, 0, 0, 0, 0, 0, 0, 0], [36, 0, 0, 0, 3, 0, 1, 0], [48, 0, 0, 0, 2, 0, 1, 0],
      [1, 0, 0, 0, 0, 0, 0, 0], [0, 0, 1, 0, 1, 0, 0, 0], [0, 0, 0, 0, 0, 0, 0, 0],
      [45, 0, 0, 0, 58, 0, 0, 0], [0, 0, 0, 0, 0, 0, 0, 0], [40, 0, 0, 0, 3, 0, 1, 0],
      [52, 0, 0, 0, 2, 0, 1, 0], [118, 101, 114, 115, 105, 111, 110, 0], [4, 0, 0, 0, 0, 0, 0, 0],
      [0, 0, 0, 0, 0, 0, 0, 0], [0, 0, 0, 0, 0, 0, 0, 0], [0, 0, 0, 0, 0, 0, 0, 0],
      [4, 0, 0, 0, 0, 0, 0, 0], [0, 0, 0, 0, 0, 0, 0, 0], [0, 0, 0, 0, 0, 0, 0, 0],
      [99, 111, 110, 102, 105, 103, 0, 0], [13, 0, 0, 0, 0, 0, 0, 0], [0, 0, 0, 0, 0, 0, 0, 0],
      [0, 0, 0, 0, 0, 0, 0, 0], [0, 0, 0, 0, 0, 0, 0, 0], [13, 0, 0, 0, 0, 0, 0, 0],
      [0, 0, 0, 0, 0, 0, 0, 0], [0, 0, 0, 0, 0, 0, 0, 0]]"

definition tunnel_update_configuration_params_schema :: raw_schema where
  "tunnel_update_configuration_params_schema =
     \<lparr>encoded_node = tunnel_update_configuration_params_node,
      field_types = [Int32, DataType],
      nonunion_members = [0, 1],
      members_by_discriminant = [],
      members_by_name = [1, 0],
      type_id = tunnel_update_configuration_params_id\<rparr>"

definition tunnel_update_configuration_results_node :: node where
  "tunnel_update_configuration_results_node =
     [[0, 0, 0, 0, 6, 0, 6, 0], [62, 55, 179, 142, 68, 150, 128, 149], [37, 0, 0, 0, 1, 0, 0, 0],
      [0, 0, 0, 0, 0, 0, 0, 0], [1, 0, 7, 0, 0, 0, 0, 0], [0, 0, 0, 0, 0, 0, 0, 0],
      [0, 0, 0, 0, 0, 0, 0, 0], [21, 0, 0, 0, 10, 2, 0, 0], [0, 0, 0, 0, 0, 0, 0, 0],
      [0, 0, 0, 0, 0, 0, 0, 0], [45, 0, 0, 0, 63, 0, 0, 0], [0, 0, 0, 0, 0, 0, 0, 0],
      [0, 0, 0, 0, 0, 0, 0, 0], [116, 117, 110, 110, 101, 108, 114, 112],
      [99, 46, 99, 97, 112, 110, 112, 58], [67, 111, 110, 102, 105, 103, 117, 114],
      [97, 116, 105, 111, 110, 77, 97, 110], [97, 103, 101, 114, 46, 117, 112, 100],
      [97, 116, 101, 67, 111, 110, 102, 105], [103, 117, 114, 97, 116, 105, 111, 110],
      [36, 82, 101, 115, 117, 108, 116, 115], [0, 0, 0, 0, 0, 0, 0, 0], [4, 0, 0, 0, 3, 0, 4, 0],
      [0, 0, 0, 0, 0, 0, 0, 0], [0, 0, 1, 0, 0, 0, 0, 0], [0, 0, 0, 0, 0, 0, 0, 0],
      [13, 0, 0, 0, 58, 0, 0, 0], [0, 0, 0, 0, 0, 0, 0, 0], [8, 0, 0, 0, 3, 0, 1, 0],
      [20, 0, 0, 0, 2, 0, 1, 0], [114, 101, 115, 117, 108, 116, 0, 0], [16, 0, 0, 0, 0, 0, 0, 0],
      [249, 92, 160, 75, 105, 255, 88, 219], [0, 0, 0, 0, 0, 0, 0, 0], [0, 0, 0, 0, 0, 0, 0, 0],
      [16, 0, 0, 0, 0, 0, 0, 0], [0, 0, 0, 0, 0, 0, 0, 0], [0, 0, 0, 0, 0, 0, 0, 0]]"

definition tunnel_update_configuration_results_schema :: raw_schema where
  "tunnel_update_configuration_results_schema =
     \<lparr>encoded_node = tunnel_update_configuration_results_node,
      field_types = [StructType tunnel_update_configuration_response_id],
      nonunion_members = [0],
      members_by_discriminant = [],
      members_by_name = [0],
      type_id = tunnel_update_configuration_results_id\<rparr>"

definition metadata_connect_request_node :: node where
  "metadata_connect_request_node =
     [[0, 0, 0, 0, 6, 0, 6, 0], [97, 64, 94, 4, 161, 22, 113, 196], [29, 0, 0, 0, 1, 0, 1, 0],
      [50, 204, 33, 116, 239, 33, 144, 178], [2, 0, 7, 0, 0, 0, 0, 0], [0, 0, 0, 0, 0, 0, 0, 0],
      [154, 0, 0, 0, 24, 1, 0, 0], [21, 0, 0, 0, 98, 1, 0, 0], [41, 0, 0, 0, 7, 0, 0, 0],
      [0, 0, 0, 0, 0, 0, 0, 0], [37, 0, 0, 0, 175, 0, 0, 0], [0, 0, 0, 0, 0, 0, 0, 0],
      [0, 0, 0, 0, 0, 0, 0, 0], [113, 117, 105, 99, 95, 109, 101, 116],
      [97, 100, 97, 116, 97, 95, 112, 114], [111, 116, 111, 99, 111, 108, 46, 99],
      [97, 112, 110, 112, 58, 67, 111, 110], [110, 101, 99, 116, 82, 101, 113, 117],
      [101, 115, 116, 0, 0, 0, 0, 0], [0, 0, 0, 0, 1, 0, 1, 0], [12, 0, 0, 0, 3, 0, 4, 0],
      [0, 0, 0, 0, 0, 0, 0, 0], [0, 0, 1, 0, 0, 0, 0, 0], [0, 0, 0, 0, 0, 0, 0, 0],
      [69, 0, 0, 0, 42, 0, 0, 0], [0, 0, 0, 0, 0, 0, 0, 0], [64, 0, 0, 0, 3, 0, 1, 0],
      [76, 0, 0, 0, 2, 0, 1, 0], [1, 0, 0, 0, 0, 0, 0, 0], [0, 0, 1, 0, 1, 0, 0, 0],
      [0, 0, 0, 0, 0, 0, 0, 0], [73, 0, 0, 0, 42, 0, 0, 0], [0, 0, 0, 0, 0, 0, 0, 0],
      [68, 0, 0, 0, 3, 0, 1, 0], [80, 0, 0, 0, 2, 0, 1, 0], [2, 0, 0, 0, 1, 0, 0, 0],
      [0, 0, 1, 0, 2, 0, 0, 0], [0, 0, 0, 0, 0, 0, 0, 0], [77, 0, 0, 0, 74, 0, 0, 0],
      [0, 0, 0, 0, 0, 0, 0, 0], [76, 0, 0, 0, 3, 0, 1, 0], [104, 0, 0, 0, 2, 0, 1, 0],
      [100, 101, 115, 116, 0, 0, 0, 0], [12, 0, 0, 0, 0, 0, 0, 0], [0, 0, 0, 0, 0, 0, 0, 0],
      [0, 0, 0, 0, 0, 0, 0, 0], [0, 0, 0, 0, 0, 0, 0, 0], [12, 0, 0, 0, 0, 0, 0, 0],
      [0, 0, 0, 0, 0, 0, 0, 0], [0, 0, 0, 0, 0, 0, 0, 0], [116, 121, 112, 101, 0, 0, 0, 0],
      [15, 0, 0, 0, 0, 0, 0, 0], [200, 121, 211, 38, 172, 27, 46, 197], [0, 0, 0, 0, 0, 0, 0, 0],
      [0, 0, 0, 0, 0, 0, 0, 0], [15, 0, 0, 0, 0, 0, 0, 0], [0, 0, 0, 0, 0, 0, 0, 0],
      [0, 0, 0, 0, 0, 0, 0, 0], [109, 101, 116, 97, 100, 97, 116, 97], [0, 0, 0, 0, 0, 0, 0, 0],
      [14, 0, 0, 0, 0, 0, 0, 0], [0, 0, 0, 0, 0, 0, 0, 0], [0, 0, 0, 0, 0, 0, 0, 0],
      [0, 0, 0, 0, 3, 0, 1, 0], [16, 0, 0, 0, 0, 0, 0, 0], [55, 205, 209, 191, 151, 107, 68, 225],
      [0, 0, 0, 0, 0, 0, 0, 0], [0, 0, 0, 0, 0, 0, 0, 0], [14, 0, 0, 0, 0, 0, 0, 0],
      [0, 0, 0, 0, 0, 0, 0, 0], [0, 0, 0, 0, 0, 0, 0, 0]]"

definition metadata_connect_request_schema :: raw_schema where
  "metadata_connect_request_schema =
     \<lparr>encoded_node = metadata_connect_request_node,
      field_types = [TextType, EnumType metadata_connection_type_id, ListType (StructType metadata_metadata_id)],
      nonunion_members = [0, 1, 2],
      members_by_discriminant = [],
      members_by_name = [0, 2, 1],
      type_id = metadata_connect_request_id\<rparr>"

definition metadata_metadata_node :: node where
  "metadata_metadata_node =
     [[0, 0, 0, 0, 6, 0, 6, 0], [55, 205, 209, 191, 151, 107, 68, 225], [29, 0, 0, 0, 1, 0, 0, 0],
      [50, 204, 33, 116, 239, 33, 144, 178], [2, 0, 7, 0, 0, 0, 0, 0], [0, 0, 0, 0, 0, 0, 0, 0],
      [114, 1, 0, 0, 189, 1, 0, 0], [21, 0, 0, 0, 50, 1, 0, 0], [37, 0, 0, 0, 7, 0, 0, 0],
      [0, 0, 0, 0, 0, 0, 0, 0], [33, 0, 0, 0, 119, 0, 0, 0], [0, 0, 0, 0, 0, 0, 0, 0],
      [0, 0, 0, 0, 0, 0, 0, 0], [113, 117, 105, 99, 95, 109, 101, 116],
      [97, 100, 97, 116, 97, 95, 112, 114], [111, 116, 111, 99, 111, 108, 46, 99],
      [97, 112, 110, 112, 58, 77, 101, 116], [97, 100, 97, 116, 97, 0, 0, 0],
      [0, 0, 0, 0, 1, 0, 1, 0], [8, 0, 0, 0, 3, 0, 4, 0], [0, 0, 0, 0, 0, 0, 0, 0],
      [0, 0, 1, 0, 0, 0, 0, 0], [0, 0, 0, 0, 0, 0, 0, 0], [41, 0, 0, 0, 34, 0, 0, 0],
      [0, 0, 0, 0, 0, 0, 0, 0], [36, 0, 0, 0, 3, 0, 1, 0], [48, 0, 0, 0, 2, 0, 1, 0],
      [1, 0, 0, 0, 1, 0, 0, 0], [0, 0, 1, 0, 1, 0, 0, 0], [0, 0, 0, 0, 0, 0, 0, 0],
      [45, 0, 0, 0, 34, 0, 0, 0], [0, 0, 0, 0, 0, 0, 0, 0], [40, 0, 0, 0, 3, 0, 1, 0],
      [52, 0, 0, 0, 2, 0, 1, 0], [107, 101, 121, 0, 0, 0, 0, 0], [12, 0, 0, 0, 0, 0, 0, 0],
      [0, 0, 0, 0, 0, 0, 0, 0], [0, 0, 0, 0, 0, 0, 0, 0], [0, 0, 0, 0, 0, 0, 0, 0],
      [12, 0, 0, 0, 0, 0, 0, 0], [0, 0, 0, 0, 0, 0, 0, 0], [0, 0, 0, 0, 0, 0, 0, 0],
      [118, 97, 108, 0, 0, 0, 0, 0], [12, 0, 0, 0, 0, 0, 0, 0], [0, 0, 0, 0, 0, 0, 0, 0],
      [0, 0, 0, 0, 0, 0, 0, 0], [0, 0, 0, 0, 0, 0, 0, 0], [12, 0, 0, 0, 0, 0, 0, 0],
      [0, 0, 0, 0, 0, 0, 0, 0], [0, 0, 0, 0, 0, 0, 0, 0]]"

definition metadata_metadata_schema :: raw_schema where
  "metadata_metadata_schema =
     \<lparr>encoded_node = metadata_metadata_node,
      field_types = [TextType, TextType],
      nonunion_members = [0, 1],
      members_by_discriminant = [],
      members_by_name = [0, 1],
      type_id = metadata_metadata_id\<rparr>"

definition metadata_connect_response_node :: node where
  "metadata_connect_response_node =
     [[0, 0, 0, 0, 6, 0, 6, 0], [39, 135, 239, 28, 201, 46, 3, 177], [29, 0, 0, 0, 1, 0, 0, 0],
      [50, 204, 33, 116, 239, 33, 144, 178], [2, 0, 7, 0, 0, 0, 0, 0], [0, 0, 0, 0, 0, 0, 0, 0],
      [191, 1, 0, 0, 34, 2, 0, 0], [21, 0, 0, 0, 106, 1, 0, 0], [41, 0, 0, 0, 7, 0, 0, 0],
      [0, 0, 0, 0, 0, 0, 0, 0], [37, 0, 0, 0, 119, 0, 0, 0], [0, 0, 0, 0, 0, 0, 0, 0],
      [0, 0, 0, 0, 0, 0, 0, 0], [113, 117, 105, 99, 95, 109, 101, 116],
      [97, 100, 97, 116, 97, 95, 112, 114], [111, 116, 111, 99, 111, 108, 46, 99],
      [97, 112, 110, 112, 58, 67, 111, 110], [110, 101, 99, 116, 82, 101, 115, 112],
      [111, 110, 115, 101, 0, 0, 0, 0], [0, 0, 0, 0, 1, 0, 1, 0], [8, 0, 0, 0, 3, 0, 4, 0],
      [0, 0, 0, 0, 0, 0, 0, 0], [0, 0, 1, 0, 0, 0, 0, 0], [0, 0, 0, 0, 0, 0, 0, 0],
      [41, 0, 0, 0, 50, 0, 0, 0], [0, 0, 0, 0, 0, 0, 0, 0], [36, 0, 0, 0, 3, 0, 1, 0],
      [48, 0, 0, 0, 2, 0, 1, 0], [1, 0, 0, 0, 1, 0, 0, 0], [0, 0, 1, 0, 1, 0, 0, 0],
      [0, 0, 0, 0, 0, 0, 0, 0], [45, 0, 0, 0, 74, 0, 0, 0], [0, 0, 0, 0, 0, 0, 0, 0],
      [44, 0, 0, 0, 3, 0, 1, 0], [72, 0, 0, 0, 2, 0, 1, 0], [101, 114, 114, 111, 114, 0, 0, 0],
      [12, 0, 0, 0, 0, 0, 0, 0], [0, 0, 0, 0, 0, 0, 0, 0], [0, 0, 0, 0, 0, 0, 0, 0],
      [0, 0, 0, 0, 0, 0, 0, 0], [12, 0, 0, 0, 0, 0, 0, 0], [0, 0, 0, 0, 0, 0, 0, 0],
      [0, 0, 0, 0, 0, 0, 0, 0], [109, 101, 116, 97, 100, 97, 116, 97], [0, 0, 0, 0, 0, 0, 0, 0],
      [14, 0, 0, 0, 0, 0, 0, 0], [0, 0, 0, 0, 0, 0, 0, 0], [0, 0, 0, 0, 0, 0, 0, 0],
      [0, 0, 0, 0, 3, 0, 1, 0], [16, 0, 0, 0, 0, 0, 0, 0], [55, 205, 209, 191, 151, 107, 68, 225],
      [0, 0, 0, 0, 0, 0, 0, 0], [0, 0, 0, 0, 0, 0, 0, 0], [14, 0, 0, 0, 0, 0, 0, 0],
      [0, 0, 0, 0, 0, 0, 0, 0], [0, 0, 0, 0, 0, 0, 0, 0]]"

definition metadata_connect_response_schema :: raw_schema where
  "metadata_connect_response_schema =
     \<lparr>encoded_node = metadata_connect_response_node,
      field_types = [TextType, ListType (StructType metadata_metadata_id)],
      nonunion_members = [0, 1],
      members_by_discriminant = [],
      members_by_name = [0, 1],
      type_id = metadata_connect_response_id\<rparr>"

end
