(* ===== verification/Schemas.thy ===== *)
theory Schemas
  imports Generated_Structs Schema_Rpc Schema_Tunnel
begin

text \<open>
  The accessors of the generated code against the schemas it embeds. Reflection (the \<open>Debug\<close> text of
  a message, dynamic values) goes by the schema, the accessors by the offsets written into them; both
  come from one file, and here the two are shown to agree on every field of every struct.
\<close>

section \<open>What a schema prescribes\<close>

text \<open>The accessor of a field: its Rust name and its place by its type.\<close>

definition snake_case :: "string \<Rightarrow> string" where
  "snake_case s =
     concat (map (\<lambda>c. let n = (of_char c :: nat) in
       if 65 \<le> n \<and> n \<le> 90 then [CHR 0x5F, char_of (n + 32)] else [c]) s)"

fun kind_of :: "intro_type \<Rightarrow> nat \<Rightarrow> nat \<Rightarrow> field_kind" where
  "kind_of Void i m = NoField"
| "kind_of Bool i m = Flag i (m = 1)"
| "kind_of Int8 i m = Bits 8 i m"
| "kind_of UInt8 i m = Bits 8 i m"
| "kind_of Int16 i m = Bits 16 i m"
| "kind_of UInt16 i m = Bits 16 i m"
| "kind_of (EnumType t) i m = Bits 16 i m"
| "kind_of Int32 i m = Bits 32 i m"
| "kind_of UInt32 i m = Bits 32 i m"
| "kind_of Float32 i m = Bits 32 i m"
| "kind_of Int64 i m = Bits 64 i m"
| "kind_of UInt64 i m = Bits 64 i m"
| "kind_of Float64 i m = Bits 64 i m"
| "kind_of _ i m = Pointer i"

definition prescribed :: "struct_node \<Rightarrow> accessor list" where
  "prescribed n =
     concat (map (\<lambda>f. case place f of
         Group \<Rightarrow> []
       | Slot i m \<Rightarrow>
           [(case discriminant f of None \<Rightarrow> Field | Some d \<Rightarrow> Member (union_at n) d)
              (snake_case (field_name f)) (kind_of (field_type f) i m)]) (members n))"

definition group_types :: "struct_node \<Rightarrow> intro_type list" where
  "group_types n = map field_type (filter (\<lambda>f. place f = Group) (members n))"

text \<open>The indices next to a node: the fields outside a union, the members of the union by their
  discriminants, all fields by name, and their types.\<close>

fun name_before :: "string \<Rightarrow> string \<Rightarrow> bool" where
  "name_before s [] \<longleftrightarrow> False"
| "name_before [] (d # t) \<longleftrightarrow> True"
| "name_before (c # s) (d # t) \<longleftrightarrow> (of_char c :: nat) < of_char d \<or> c = d \<and> name_before s t"

definition indexes :: "raw_schema \<Rightarrow> struct_node \<Rightarrow> bool" where
  "indexes s n \<longleftrightarrow>
     type_id s = node_id n \<and> field_types s = map field_type (members n) \<and>
     nonunion_members s = map fst (filter (\<lambda>(i, f). discriminant f = None) (enumerate 0 (members n))) \<and>
     list_all (\<lambda>i. i < length (members n)) (members_by_discriminant s) \<and>
     map (\<lambda>i. discriminant (members n ! i)) (members_by_discriminant s)
       = map Some [0..<length (members n) - length (nonunion_members s)] \<and>
     length (members_by_name s) = length (members n) \<and>
     list_all (\<lambda>i. i < length (members n)) (members_by_name s) \<and>
     successively name_before (map (\<lambda>i. field_name (members n ! i)) (members_by_name s))"

text \<open>A builder sets its fields in the order of the schema, a reader has the members of a union last.\<close>

fun in_union :: "accessor \<Rightarrow> bool" where
  "in_union (Field n k) \<longleftrightarrow> False"
| "in_union (Member u d n k) \<longleftrightarrow> True"

definition reader_order :: "accessor list \<Rightarrow> accessor list" where
  "reader_order xs = filter (\<lambda>a. \<not> in_union a) xs @ filter in_union xs"

text \<open>A struct with its own schema and those of its groups.\<close>

fun describes :: "gen_struct \<Rightarrow> raw_schema list \<Rightarrow> bool" where
  "describes (GenStruct name words pointers readers writers) ss \<longleftrightarrow>
     (case all_some (map (\<lambda>s. read_node (encoded_node s)) ss) of
        None \<Rightarrow> False
      | Some ns \<Rightarrow>
          list_all2 indexes ss ns \<and>
          list_all (\<lambda>n. data_words n = words \<and> pointer_words n = pointers) ns \<and>
          map is_group ns = False # map (\<lambda>_. True) (tl ns) \<and>
          concat (map group_types ns) = map (\<lambda>n. StructType (node_id n)) (tl ns) \<and>
          writers = concat (map prescribed ns) \<and>
          readers = concat (map (\<lambda>n. reader_order (prescribed n)) ns))"

section \<open>All structs\<close>

definition rpc_schemas :: "raw_schema list list" where
  "rpc_schemas =
     [[rpc_message_schema], [rpc_bootstrap_schema],
      [rpc_call_schema, rpc_call_send_results_to_schema], [rpc_return_schema],
      [rpc_finish_schema], [rpc_resolve_schema], [rpc_release_schema],
      [rpc_message_target_schema], [rpc_payload_schema], [rpc_cap_descriptor_schema],
      [rpc_promised_answer_schema], [rpc_promised_answer_op_schema],
      [rpc_third_party_cap_descriptor_schema], [rpc_exception_schema], [rpc_provide_schema],
      [rpc_accept_schema], [rpc_join_schema], [rpc_disembargo_schema]]"

definition tunnel_schemas :: "raw_schema list list" where
  "tunnel_schemas =
     [[tunnel_client_info_schema], [tunnel_connection_options_schema],
      [tunnel_connection_response_schema, tunnel_connection_response_result_schema],
      [tunnel_connection_error_schema], [tunnel_connection_details_schema],
      [tunnel_tunnel_auth_schema], [tunnel_register_connection_params_schema],
      [tunnel_register_connection_results_schema], [tunnel_unregister_connection_params_schema],
      [tunnel_unregister_connection_results_schema],
      [tunnel_update_local_configuration_params_schema],
      [tunnel_update_local_configuration_results_schema],
      [tunnel_register_udp_session_response_schema], [tunnel_register_udp_session_params_schema],
      [tunnel_register_udp_session_results_schema], [tunnel_unregister_udp_session_params_schema],
      [tunnel_unregister_udp_session_results_schema],
      [tunnel_update_configuration_response_schema], [tunnel_update_configuration_params_schema],
      [tunnel_update_configuration_results_schema]]"

definition metadata_schemas :: "raw_schema list list" where
  "metadata_schemas =
     [[metadata_connect_request_schema], [metadata_metadata_schema],
      [metadata_connect_response_schema]]"

definition embedded_schemas :: "raw_schema list list" where
  "embedded_schemas = rpc_schemas @ tunnel_schemas @ metadata_schemas"

section \<open>Evaluation\<close>

text \<open>Long lists are dropped from in strides; names are compared as literals.\<close>

lemma drop_8: "8 \<le> n \<Longrightarrow> drop n (a # b # c # d # e # f # g # h # xs) = drop (n - 8) xs"
proof -
  assume "8 \<le> n"
  then obtain k where k: "n = k + 8" by (metis le_add_diff_inverse2)
  have "drop (k + 8) (a # b # c # d # e # f # g # h # xs) = drop k (drop 8 (a # b # c # d # e # f # g # h # xs))"
    by (simp only: drop_drop)
  with k show ?thesis by simp
qed

lemma drop_32:
  "32 \<le> n \<Longrightarrow>
   drop n (a1 # a2 # a3 # a4 # a5 # a6 # a7 # a8 # b1 # b2 # b3 # b4 # b5 # b6 # b7 # b8
     # c1 # c2 # c3 # c4 # c5 # c6 # c7 # c8 # d1 # d2 # d3 # d4 # d5 # d6 # d7 # d8 # xs) = drop (n - 32) xs"
  by (simp add: drop_8)

lemma eq_char_of_iff: "c = char_of n \<longleftrightarrow> of_char c = take_bit 8 (n :: nat)"
  by (metis char_of_eq_iff)

lemmas node_eval = read_node_def struct_at_def struct_from_def structs_at_def structs_from.simps
  text_at_def target_def part_def field_at_def string_of_bytes_def Let_def drop_8 drop_32

lemmas describe_eval = indexes_def prescribed_def reader_order_def group_types_def snake_case_def
  char_of_eq_iff eq_char_of_iff upt_conv_Cons

lemmas rpc_embedded =
    rpc_message_schema_def rpc_bootstrap_schema_def rpc_call_schema_def
    rpc_call_send_results_to_schema_def rpc_return_schema_def rpc_finish_schema_def
    rpc_resolve_schema_def rpc_release_schema_def rpc_message_target_schema_def
    rpc_payload_schema_def rpc_cap_descriptor_schema_def rpc_promised_answer_schema_def
    rpc_promised_answer_op_schema_def rpc_third_party_cap_descriptor_schema_def
    rpc_exception_schema_def rpc_provide_schema_def rpc_accept_schema_def rpc_join_schema_def
    rpc_disembargo_schema_def rpc_message_node_def rpc_bootstrap_node_def rpc_call_node_def
    rpc_call_send_results_to_node_def rpc_return_node_def rpc_finish_node_def
    rpc_resolve_node_def rpc_release_node_def rpc_message_target_node_def rpc_payload_node_def
    rpc_cap_descriptor_node_def rpc_promised_answer_node_def rpc_promised_answer_op_node_def
    rpc_third_party_cap_descriptor_node_def rpc_exception_node_def rpc_provide_node_def
    rpc_accept_node_def rpc_join_node_def rpc_disembargo_node_def rpc_message_id_def
    rpc_bootstrap_id_def rpc_call_id_def rpc_call_send_results_to_id_def rpc_return_id_def
    rpc_finish_id_def rpc_resolve_id_def rpc_release_id_def rpc_message_target_id_def
    rpc_payload_id_def rpc_cap_descriptor_id_def rpc_promised_answer_id_def
    rpc_promised_answer_op_id_def rpc_third_party_cap_descriptor_id_def rpc_exception_id_def
    rpc_provide_id_def rpc_accept_id_def rpc_join_id_def rpc_disembargo_id_def
    rpc_exception_type_id_def

lemmas tunnel_embedded =
    tunnel_client_info_schema_def tunnel_connection_options_schema_def
    tunnel_connection_response_schema_def tunnel_connection_response_result_schema_def
    tunnel_connection_error_schema_def tunnel_connection_details_schema_def
    tunnel_tunnel_auth_schema_def tunnel_register_connection_params_schema_def
    tunnel_register_connection_results_schema_def tunnel_unregister_connection_params_schema_def
    tunnel_unregister_connection_results_schema_def
    tunnel_update_local_configuration_params_schema_def
    tunnel_update_local_configuration_results_schema_def
    tunnel_register_udp_session_response_schema_def tunnel_register_udp_session_params_schema_def
    tunnel_register_udp_session_results_schema_def
    tunnel_unregister_udp_session_params_schema_def
    tunnel_unregister_udp_session_results_schema_def
    tunnel_update_configuration_response_schema_def tunnel_update_configuration_params_schema_def
    tunnel_update_configuration_results_schema_def tunnel_client_info_node_def
    tunnel_connection_options_node_def tunnel_connection_response_node_def
    tunnel_connection_response_result_node_def tunnel_connection_error_node_def
    tunnel_connection_details_node_def tunnel_tunnel_auth_node_def
    tunnel_register_connection_params_node_def tunnel_register_connection_results_node_def
    tunnel_unregister_connection_params_node_def tunnel_unregister_connection_results_node_def
    tunnel_update_local_configuration_params_node_def
    tunnel_update_local_configuration_results_node_def
    tunnel_register_udp_session_response_node_def tunnel_register_udp_session_params_node_def
    tunnel_register_udp_session_results_node_def tunnel_unregister_udp_session_params_node_def
    tunnel_unregister_udp_session_results_node_def tunnel_update_configuration_response_node_def
    tunnel_update_configuration_params_node_def tunnel_update_configuration_results_node_def
    tunnel_client_info_id_def tunnel_connection_options_id_def tunnel_connection_response_id_def
    tunnel_connection_response_result_id_def tunnel_connection_error_id_def
    tunnel_connection_details_id_def tunnel_tunnel_auth_id_def
    tunnel_register_connection_params_id_def tunnel_register_connection_results_id_def
    tunnel_unregister_connection_params_id_def tunnel_unregister_connection_results_id_def
    tunnel_update_local_configuration_params_id_def
    tunnel_update_local_configuration_results_id_def tunnel_register_udp_session_response_id_def
    tunnel_register_udp_session_params_id_def tunnel_register_udp_session_results_id_def
    tunnel_unregister_udp_session_params_id_def tunnel_unregister_udp_session_results_id_def
    tunnel_update_configuration_response_id_def tunnel_update_configuration_params_id_def
    tunnel_update_configuration_results_id_def

lemmas metadata_embedded =
    metadata_connect_request_schema_def metadata_metadata_schema_def
    metadata_connect_response_schema_def metadata_connect_request_node_def
    metadata_metadata_node_def metadata_connect_response_node_def metadata_connect_request_id_def
    metadata_metadata_id_def metadata_connect_response_id_def metadata_connection_type_id_def

lemma list_all2_split:
  "list_all2 P (take n xs) (take n ys) \<Longrightarrow> list_all2 P (drop n xs) (drop n ys) \<Longrightarrow> list_all2 P xs ys"
  by (metis append_take_drop_id list_all2_appendI)

lemma rpc_described_1:
  "list_all2 describes (take 1 rpc_structs) (take 1 rpc_schemas)"
  by (simp add: rpc_structs_def rpc_schemas_def del: describes.simps,
      simp add: rpc_embedded rpc_tables node_eval describe_eval)

lemma rpc_described_2:
  "list_all2 describes (take 3 (drop 1 rpc_structs)) (take 3 (drop 1 rpc_schemas))"
  by (simp add: rpc_structs_def rpc_schemas_def del: describes.simps,
      simp add: rpc_embedded rpc_tables node_eval describe_eval)

lemma rpc_described_3:
  "list_all2 describes (take 4 (drop 4 rpc_structs)) (take 4 (drop 4 rpc_schemas))"
  by (simp add: rpc_structs_def rpc_schemas_def del: describes.simps,
      simp add: rpc_embedded rpc_tables node_eval describe_eval)

lemma rpc_described_4:
  "list_all2 describes (take 2 (drop 8 rpc_structs)) (take 2 (drop 8 rpc_schemas))"
  by (simp add: rpc_structs_def rpc_schemas_def del: describes.simps,
      simp add: rpc_embedded rpc_tables node_eval describe_eval)

lemma rpc_described_5:
  "list_all2 describes (take 4 (drop 10 rpc_structs)) (take 4 (drop 10 rpc_schemas))"
  by (simp add: rpc_structs_def rpc_schemas_def del: describes.simps,
      simp add: rpc_embedded rpc_tables node_eval describe_eval)

lemma rpc_described_6:
  "list_all2 describes (drop 14 rpc_structs) (drop 14 rpc_schemas)"
  by (simp add: rpc_structs_def rpc_schemas_def del: describes.simps,
      simp add: rpc_embedded rpc_tables node_eval describe_eval)

lemma tunnel_described_1:
  "list_all2 describes (take 4 tunnel_structs) (take 4 tunnel_schemas)"
  by (simp add: tunnel_structs_def tunnel_schemas_def del: describes.simps,
      simp add: tunnel_embedded tunnel_tables node_eval describe_eval)

lemma tunnel_described_2:
  "list_all2 describes (take 6 (drop 4 tunnel_structs)) (take 6 (drop 4 tunnel_schemas))"
  by (simp add: tunnel_structs_def tunnel_schemas_def del: describes.simps,
      simp add: tunnel_embedded tunnel_tables node_eval describe_eval)

lemma tunnel_described_3:
  "list_all2 describes (take 4 (drop 10 tunnel_structs)) (take 4 (drop 10 tunnel_schemas))"
  by (simp add: tunnel_structs_def tunnel_schemas_def del: describes.simps,
      simp add: tunnel_embedded tunnel_tables node_eval describe_eval)

lemma tunnel_described_4:
  "list_all2 describes (drop 14 tunnel_structs) (drop 14 tunnel_schemas)"
  by (simp add: tunnel_structs_def tunnel_schemas_def del: describes.simps,
      simp add: tunnel_embedded tunnel_tables node_eval describe_eval)

lemma rpc_described: "list_all2 describes rpc_structs rpc_schemas"
proof -
  have from_10: "list_all2 describes (drop 10 rpc_structs) (drop 10 rpc_schemas)"
    by (rule list_all2_split [where n = 4]) (use rpc_described_5 rpc_described_6 in simp_all)
  have from_8: "list_all2 describes (drop 8 rpc_structs) (drop 8 rpc_schemas)"
    by (rule list_all2_split [where n = 2]) (use rpc_described_4 from_10 in simp_all)
  have from_4: "list_all2 describes (drop 4 rpc_structs) (drop 4 rpc_schemas)"
    by (rule list_all2_split [where n = 4]) (use rpc_described_3 from_8 in simp_all)
  have from_1: "list_all2 describes (drop 1 rpc_structs) (drop 1 rpc_schemas)"
    by (rule list_all2_split [where n = 3]) (use rpc_described_2 from_4 in simp_all)
  show ?thesis
    by (rule list_all2_split [where n = 1]) (use rpc_described_1 from_1 in simp_all)
qed

lemma tunnel_described: "list_all2 describes tunnel_structs tunnel_schemas"
proof -
  have from_10: "list_all2 describes (drop 10 tunnel_structs) (drop 10 tunnel_schemas)"
    by (rule list_all2_split [where n = 4]) (use tunnel_described_3 tunnel_described_4 in simp_all)
  have from_4: "list_all2 describes (drop 4 tunnel_structs) (drop 4 tunnel_schemas)"
    by (rule list_all2_split [where n = 6]) (use tunnel_described_2 from_10 in simp_all)
  show ?thesis
    by (rule list_all2_split [where n = 4]) (use tunnel_described_1 from_4 in simp_all)
qed

lemma metadata_described: "list_all2 describes metadata_structs metadata_schemas"
  by (simp add: metadata_structs_def metadata_schemas_def del: describes.simps,
      simp add: metadata_embedded metadata_tables node_eval describe_eval)

text \<open>C10. The accessors of the generated code are the ones its embedded schemas prescribe, for every
  struct: the builder's setters, in the order of the schema, and the reader's getters, with the
  members of a union last, have the names, offsets, widths, defaults and discriminants of the
  schema's fields; the struct has the schema's size; and the indices beside a schema (fields outside
  a union, members by discriminant, fields by name, types, id) are right, down to the ids of the
  structs and groups a field refers to.\<close>

theorem accessors_follow_schemas:
  "list_all2 describes generated_structs embedded_schemas"
  unfolding generated_structs_def embedded_schemas_def
  by (intro list_all2_appendI rpc_described tunnel_described metadata_described)


end
