(* ===== verification/Dispatch.thy ===== *)
theory Dispatch
  imports Cloudflared Control
begin

text \<open>
  The generated clients and dispatchers of the RPC interfaces in \<open>rpc/pregenerated/tunnelrpc_capnp.rs\<close>:
  under which interface and method a client's request goes out, and which method of the server
  trait a dispatcher runs. The library addresses calls and answers them by hand; the property
  relates its numbers to the generated ones.
\<close>

section \<open>Requests of the clients\<close>

datatype registration_method = RegisterConnection | UnregisterConnection | UpdateLocalConfiguration
datatype session_method = SessionRegisterUdp | SessionUnregisterUdp
datatype configuration_method = ConfigurationUpdate

definition registration_type_id :: u64 where "registration_type_id = 0xf71695ec7fe85497"
definition session_type_id :: u64 where "session_type_id = 0x839445a59fb01686"
definition configuration_type_id :: u64 where "configuration_type_id = 0xb48edfbdaa25db04"
definition cloudflared_type_id :: u64 where "cloudflared_type_id = 0xf548cef9dea2a4a1"

fun registration_request :: "registration_method \<Rightarrow> u64 \<times> u16" where
  "registration_request RegisterConnection = (registration_type_id, 0)"
| "registration_request UnregisterConnection = (registration_type_id, 1)"
| "registration_request UpdateLocalConfiguration = (registration_type_id, 2)"

fun session_request :: "session_method \<Rightarrow> u64 \<times> u16" where
  "session_request SessionRegisterUdp = (session_type_id, 0)"
| "session_request SessionUnregisterUdp = (session_type_id, 1)"

fun configuration_request :: "configuration_method \<Rightarrow> u64 \<times> u16" where
  "configuration_request ConfigurationUpdate = (configuration_type_id, 0)"

section \<open>Dispatchers\<close>

text \<open>An error of kind \<open>unimplemented\<close> with its text, or the method that runs.\<close>

type_synonym 'm dispatched = "string + 'm"

definition not_implemented :: "'m dispatched" where
  "not_implemented = Inl ''Method not implemented.''"

definition registration_dispatch_internal :: "u16 \<Rightarrow> registration_method dispatched" where
  "registration_dispatch_internal m =
     (if m = 0 then Inr RegisterConnection
      else if m = 1 then Inr UnregisterConnection
      else if m = 2 then Inr UpdateLocalConfiguration
      else not_implemented)"

definition registration_dispatch :: "u64 \<Rightarrow> u16 \<Rightarrow> registration_method dispatched" where
  "registration_dispatch i m =
     (if i = registration_type_id then registration_dispatch_internal m else not_implemented)"

definition session_dispatch_internal :: "u16 \<Rightarrow> session_method dispatched" where
  "session_dispatch_internal m =
     (if m = 0 then Inr SessionRegisterUdp
      else if m = 1 then Inr SessionUnregisterUdp
      else not_implemented)"

definition session_dispatch :: "u64 \<Rightarrow> u16 \<Rightarrow> session_method dispatched" where
  "session_dispatch i m =
     (if i = session_type_id then session_dispatch_internal m else not_implemented)"

definition configuration_dispatch_internal :: "u16 \<Rightarrow> configuration_method dispatched" where
  "configuration_dispatch_internal m = (if m = 0 then Inr ConfigurationUpdate else not_implemented)"

definition configuration_dispatch :: "u64 \<Rightarrow> u16 \<Rightarrow> configuration_method dispatched" where
  "configuration_dispatch i m =
     (if i = configuration_type_id then configuration_dispatch_internal m else not_implemented)"

text \<open>\<open>CloudflaredServer\<close> extends the other two interfaces and has no method of its own.\<close>

definition cloudflared_dispatch_internal ::
  "u16 \<Rightarrow> (session_method + configuration_method) dispatched" where
  "cloudflared_dispatch_internal m = not_implemented"

definition cloudflared_dispatch ::
  "u64 \<Rightarrow> u16 \<Rightarrow> (session_method + configuration_method) dispatched" where
  "cloudflared_dispatch i m =
     (if i = cloudflared_type_id then cloudflared_dispatch_internal m
      else if i = 0x839445a59fb01686 then map_sum id Inl (session_dispatch_internal m)
      else if i = 0xb48edfbdaa25db04 then map_sum id Inr (configuration_dispatch_internal m)
      else not_implemented)"

text \<open>The methods of a server trait that its implementation does not define.\<close>

fun default_session_method :: "session_method \<Rightarrow> string" where
  "default_session_method SessionRegisterUdp =
     ''method session_manager::Server::register_udp_session not implemented''"
| "default_session_method SessionUnregisterUdp =
     ''method session_manager::Server::unregister_udp_session not implemented''"

fun default_configuration_method :: "configuration_method \<Rightarrow> string" where
  "default_configuration_method ConfigurationUpdate =
     ''method configuration_manager::Server::update_configuration not implemented''"

fun default_registration_method :: "registration_method \<Rightarrow> string" where
  "default_registration_method RegisterConnection =
     ''method registration_server::Server::register_connection not implemented''"
| "default_registration_method UnregisterConnection =
     ''method registration_server::Server::unregister_connection not implemented''"
| "default_registration_method UpdateLocalConfiguration =
     ''method registration_server::Server::update_local_configuration not implemented''"

section \<open>The numbers agree\<close>

text \<open>A request of a generated client is dispatched to the method it names, by the server of its
  own interface and, for the two base interfaces, by \<open>CloudflaredServer\<close>.\<close>

lemma requests_reach_methods:
  "case registration_request r of (i, m) \<Rightarrow> registration_dispatch i m = Inr r"
  "case session_request s of (i, m) \<Rightarrow>
     session_dispatch i m = Inr s \<and> cloudflared_dispatch i m = Inr (Inl s)"
  "case configuration_request c of (i, m) \<Rightarrow>
     configuration_dispatch i m = Inr c \<and> cloudflared_dispatch i m = Inr (Inr c)"
  by (cases r; cases s; cases c;
      simp add: registration_dispatch_def registration_dispatch_internal_def session_dispatch_def
        session_dispatch_internal_def configuration_dispatch_def configuration_dispatch_internal_def
        cloudflared_dispatch_def session_type_id_def configuration_type_id_def cloudflared_type_id_def)+

fun served :: "(session_method + configuration_method) dispatched \<Rightarrow> cloudflared_method" where
  "served (Inl e) = UnknownMethod"
| "served (Inr (Inl SessionRegisterUdp)) = RegisterUdpSession"
| "served (Inr (Inl SessionUnregisterUdp)) = UnregisterUdpSession"
| "served (Inr (Inr ConfigurationUpdate)) = UpdateConfiguration"

lemmas dispatch_defs =
  classify_method_def cloudflared_dispatch_def cloudflared_dispatch_internal_def
  session_dispatch_internal_def configuration_dispatch_internal_def not_implemented_def
  CLOUDFLARED_SERVER_INTERFACE_ID_def SESSION_MANAGER_INTERFACE_ID_def
  CONFIGURATION_MANAGER_INTERFACE_ID_def cloudflared_type_id_def

lemmas registration_ids =
  REGISTRATION_SERVER_INTERFACE_ID_def METHOD_REGISTER_CONNECTION_def
  METHOD_UNREGISTER_CONNECTION_def METHOD_UPDATE_LOCAL_CONFIGURATION_def registration_type_id_def
  registration_dispatch_def registration_dispatch_internal_def

text \<open>C37. The library's server classifies a call the way the dispatcher generated from the schema
  does, on every interface and method but one family: under the id of \<open>CloudflaredServer\<close> itself
  the schema has no method, and the library serves the methods 0 to 2 there as the two session
  methods and the configuration update. And the three calls of the registration client go out
  under the numbers by which the edge's dispatcher runs the methods of their names.\<close>

theorem server_agrees_with_dispatcher:
  "classify_method i m =
     (if i = cloudflared_type_id \<and> m = 0 then RegisterUdpSession
      else if i = cloudflared_type_id \<and> m = 1 then UnregisterUdpSession
      else if i = cloudflared_type_id \<and> m = 2 then UpdateConfiguration
      else served (cloudflared_dispatch i m)) \<and>
   registration_dispatch REGISTRATION_SERVER_INTERFACE_ID METHOD_REGISTER_CONNECTION
     = Inr RegisterConnection \<and>
   registration_dispatch REGISTRATION_SERVER_INTERFACE_ID METHOD_UNREGISTER_CONNECTION
     = Inr UnregisterConnection \<and>
   registration_dispatch REGISTRATION_SERVER_INTERFACE_ID METHOD_UPDATE_LOCAL_CONFIGURATION
     = Inr UpdateLocalConfiguration"
  by (simp add: dispatch_defs registration_ids)

end
