(* ===== verification/Build_Script.thy ===== *)
theory Build_Script
  imports Prelude
begin

text \<open>
  The build script of the RPC crate, \<open>rpc/build.rs\<close>: with a Cap'n Proto compiler it generates the
  code and compares it with the committed copy, or refreshes that copy on request; without one it
  builds from the committed copy. A failed \<open>expect\<close> ends the script with its message; what was
  written before stays.
\<close>

section \<open>The script's world\<close>

text \<open>The files of \<open>$OUT_DIR\<close> and of \<open>rpc/pregenerated\<close>, and the lines printed for cargo.\<close>

record build_world =
  out_dir :: "string \<rightharpoonup> byte list"
  pregenerated :: "string \<rightharpoonup> byte list"
  printed :: "string list"

text \<open>
  The environment: whether \<open>OUT_DIR\<close> and \<open>LIBCFD_UPDATE_PREGENERATED\<close> are set; how \<open>capnp --version\<close>
  ends (\<open>None\<close> when it cannot be started); the compiler on one schema, which writes to
  \<open>$OUT_DIR\<close>; whether a file can be written.
\<close>

record build_env =
  out_dir_is_set :: bool
  update_is_set :: bool
  capnp_exit :: "bool option"
  compile_schema :: "string \<Rightarrow> (string \<rightharpoonup> byte list) \<Rightarrow> (string \<rightharpoonup> byte list) option"
  writable :: "string \<Rightarrow> bool"

type_synonym build = "build_world \<Rightarrow> (string + unit) \<times> build_world"

definition and_then :: "build \<Rightarrow> build \<Rightarrow> build" where
  "and_then a b w = (case a w of (Inl e, w) \<Rightarrow> (Inl e, w) | (Inr u, w) \<Rightarrow> b w)"

definition done_ok :: build where "done_ok w = (Inr (), w)"

fun for_each :: "(string \<Rightarrow> build) \<Rightarrow> string list \<Rightarrow> build" where
  "for_each body [] = done_ok"
| "for_each body (x # xs) = and_then (body x) (for_each body xs)"

definition print_line :: "string \<Rightarrow> build" where
  "print_line s w = (Inr (), w\<lparr>printed := printed w @ [s]\<rparr>)"

section \<open>The script\<close>

definition SCHEMAS :: "string list" where
  "SCHEMAS = [''rpc.capnp'', ''tunnelrpc.capnp'', ''quic_metadata_protocol.capnp'']"

definition generated_names :: "string list" where
  "generated_names = [''rpc_capnp.rs'', ''tunnelrpc_capnp.rs'', ''quic_metadata_protocol_capnp.rs'']"

definition capnp_compiler_available :: "build_env \<Rightarrow> bool" where
  "capnp_compiler_available env = (case capnp_exit env of Some success \<Rightarrow> success | None \<Rightarrow> False)"

definition compile_step :: "build_env \<Rightarrow> string \<Rightarrow> build" where
  "compile_step env schema w =
     (case compile_schema env (''schemas/'' @ schema) (out_dir w) of
        None \<Rightarrow> (Inl ''failed to compile capnp schema'', w)
      | Some files \<Rightarrow> (Inr (), w\<lparr>out_dir := files\<rparr>))"

definition refresh_step :: "build_env \<Rightarrow> string \<Rightarrow> build" where
  "refresh_step env file w =
     (case out_dir w file of
        Some bytes \<Rightarrow>
          if writable env file then (Inr (), w\<lparr>pregenerated := (pregenerated w)(file \<mapsto> bytes)\<rparr>)
          else (Inl ''failed to refresh pregenerated file'', w)
      | None \<Rightarrow> (Inl ''failed to refresh pregenerated file'', w))"

definition copy_failed :: string where
  "copy_failed = ''failed to copy pregenerated file; build once in a checkout with the ''
     @ ''`capnp` compiler installed to regenerate rpc/pregenerated''"

definition fallback_step :: "build_env \<Rightarrow> string \<Rightarrow> build" where
  "fallback_step env file w =
     (case pregenerated w file of
        Some bytes \<Rightarrow>
          if writable env file then (Inr (), w\<lparr>out_dir := (out_dir w)(file \<mapsto> bytes)\<rparr>)
          else (Inl copy_failed, w)
      | None \<Rightarrow> (Inl copy_failed, w))"

definition stale_warning :: "string \<Rightarrow> string" where
  "stale_warning file =
     ''cargo:warning='' @ file @ '' differs from rpc/pregenerated; run ''
     @ ''`LIBCFD_UPDATE_PREGENERATED=1 cargo build -p libcfd-rpc` and commit the refreshed files''"

definition check_step :: "string \<Rightarrow> build" where
  "check_step file w =
     (case out_dir w file of
        None \<Rightarrow> (Inl ''generated file'', w)
      | Some generated \<Rightarrow>
          (case pregenerated w file of
             None \<Rightarrow> (Inl ''pregenerated file'', w)
           | Some committed \<Rightarrow>
               if generated \<noteq> committed then print_line (stale_warning file) w else (Inr (), w)))"

definition check_fresh :: build where "check_fresh = for_each check_step generated_names"

definition build_main :: "build_env \<Rightarrow> build" where
  "build_main env =
     and_then (print_line ''cargo:rerun-if-changed=schemas'')
      (and_then (print_line ''cargo:rerun-if-changed=pregenerated'')
        (if \<not> out_dir_is_set env then Pair (Inl ''OUT_DIR is set by cargo'')
         else if capnp_compiler_available env
         then and_then (for_each (compile_step env) SCHEMAS)
           (if update_is_set env then for_each (refresh_step env) generated_names else check_fresh)
         else for_each (fallback_step env) generated_names))"

section \<open>What the script keeps and what it writes\<close>

text \<open>Something a step preserves is preserved by a sequence of steps.\<close>

lemma and_then_keeps:
  assumes "\<And>w. f (snd (a w)) = f w" "\<And>w. f (snd (b w)) = f w"
  shows "f (snd (and_then a b w)) = f w"
  using assms by (auto simp: and_then_def split: prod.splits sum.splits) (metis snd_conv)+

lemma for_each_keeps:
  assumes "\<And>x w. f (snd (body x w)) = f w"
  shows "f (snd (for_each body xs w)) = f w"
proof (induction xs arbitrary: w)
  case (Cons x xs)
  then show ?case by (simp add: and_then_keeps [where f = f] assms)
qed (simp add: done_ok_def)

lemma step_keeps_pregenerated:
  "pregenerated (snd (compile_step env x w)) = pregenerated w"
  "pregenerated (snd (fallback_step env x w)) = pregenerated w"
  "pregenerated (snd (check_step x w)) = pregenerated w"
  "pregenerated (snd (print_line x w)) = pregenerated w"
  by (auto simp: compile_step_def fallback_step_def check_step_def print_line_def
      split: option.split)

text \<open>The committed code changes only when the compiler is there and a refresh is asked for.\<close>

lemma committed_code_kept:
  assumes "\<not> (capnp_compiler_available env \<and> update_is_set env)"
  shows "pregenerated (snd (build_main env w)) = pregenerated w"
  unfolding build_main_def check_fresh_def
  using assms
  by (intro and_then_keeps [where f = pregenerated])
     (auto simp: step_keeps_pregenerated for_each_keeps [where f = pregenerated]
        and_then_keeps [where f = pregenerated])

text \<open>Copying every file of a list: the target has them all, and nothing else changes.\<close>

lemma fallback_copies:
  assumes "\<forall>x\<in>set xs. pregenerated w x \<noteq> None" and "\<forall>x\<in>set xs. writable env x"
  shows "for_each (fallback_step env) xs w =
    (Inr (), w\<lparr>out_dir := \<lambda>x. if x \<in> set xs then pregenerated w x else out_dir w x\<rparr>)"
  using assms
proof (induction xs arbitrary: w)
  case (Cons x xs)
  then obtain bytes where "pregenerated w x = Some bytes" by auto
  with Cons show ?case
    by (simp add: and_then_def fallback_step_def)
       (rule arg_cong [where f = "\<lambda>f. w\<lparr>out_dir := f\<rparr>"]; auto)
qed (simp add: done_ok_def)

lemma refresh_copies:
  assumes "\<forall>x\<in>set xs. out_dir w x \<noteq> None" and "\<forall>x\<in>set xs. writable env x"
  shows "for_each (refresh_step env) xs w =
    (Inr (), w\<lparr>pregenerated := \<lambda>x. if x \<in> set xs then out_dir w x else pregenerated w x\<rparr>)"
  using assms
proof (induction xs arbitrary: w)
  case (Cons x xs)
  then obtain bytes where "out_dir w x = Some bytes" by auto
  with Cons show ?case
    by (simp add: and_then_def refresh_step_def)
       (rule arg_cong [where f = "\<lambda>f. w\<lparr>pregenerated := f\<rparr>"]; auto)
qed (simp add: done_ok_def)

lemma check_warns:
  assumes "\<forall>x\<in>set xs. out_dir w x \<noteq> None \<and> pregenerated w x \<noteq> None"
  shows "for_each check_step xs w =
    (Inr (), w\<lparr>printed := printed w @
       map stale_warning (filter (\<lambda>x. out_dir w x \<noteq> pregenerated w x) xs)\<rparr>)"
  using assms
proof (induction xs arbitrary: w)
  case (Cons x xs)
  then obtain a b where "out_dir w x = Some a" "pregenerated w x = Some b" by auto
  with Cons show ?case by (simp add: and_then_def check_step_def print_line_def)
qed (simp add: done_ok_def)

text \<open>Without a compiler the crate builds from the committed code.\<close>

lemma builds_without_compiler:
  assumes "out_dir_is_set env" "\<not> capnp_compiler_available env"
    and "\<forall>x\<in>set generated_names. pregenerated w x \<noteq> None \<and> writable env x"
  shows "fst (build_main env w) = Inr () \<and>
    (\<forall>x\<in>set generated_names. out_dir (snd (build_main env w)) x = pregenerated w x)"
  using assms by (simp add: build_main_def and_then_def print_line_def fallback_copies)

text \<open>With a compiler and no request to refresh, the warnings name exactly the stale files.\<close>

lemma warns_of_stale_files:
  assumes "out_dir_is_set env" "capnp_compiler_available env" "\<not> update_is_set env"
    and "for_each (compile_step env) SCHEMAS
      (w\<lparr>printed := printed w @ [''cargo:rerun-if-changed=schemas'',
         ''cargo:rerun-if-changed=pregenerated'']\<rparr>) = (Inr (), w')"
    and "\<forall>x\<in>set generated_names. out_dir w' x \<noteq> None \<and> pregenerated w' x \<noteq> None"
  shows "build_main env w = (Inr (), w'\<lparr>printed := printed w' @
    map stale_warning (filter (\<lambda>x. out_dir w' x \<noteq> pregenerated w' x) generated_names)\<rparr>)"
  using assms by (simp add: build_main_def and_then_def print_line_def check_fresh_def check_warns)

end
