(* ===== verification/Spec2Isabelle.thy ===== *)
theory Spec2Isabelle
  imports Runtime H2_Serve Axum Echo_Liveness Named_Example Quiche Quinn Quic_Requests Registration Server_Codec Schemas
    Dispatch Build_Script
begin

text \<open>
  A verification development for \<open>libcfd\<close>, the Rust library that connects an application to the
  Cloudflare Tunnel edge and serves the traffic of a tunnel from origin handlers.

  \<^bold>\<open>The program.\<close> \<open>run\<close> takes a tunnel identity, options and an origin. The connector discovers edge
  addresses (a DNS SRV lookup with a static fallback), dials them one after the other over QUIC
  or HTTP/2, registers the tunnel over a Cap'n Proto RPC on the control stream and serves the
  request streams of the edge until the connection ends; then it backs off and starts again,
  with HTTP/2 once QUIC has failed often enough. A request stream carries HTTP, a websocket or
  TCP; its metadata is translated into a request, a handler of the origin answers through a
  responder, and the answer's body is copied, or the two byte streams are pumped. The edge can
  push a configuration, over an RPC stream (QUIC) or a request (HTTP/2).

  \<^bold>\<open>Vocabulary.\<close> \<open>Prelude\<close>: machine words, bytes and text, results as sums, panics as \<open>fault\<close>.
  \<open>Rust_Std\<close>: the operations of Rust's standard library the code calls. \<open>Io\<close>: \<open>('w, 'e, 'a) io\<close>, a
  computation on a world or a stream that fails with an error, or never returns (\<open>None\<close>).
  \<open>Streams\<close>: readers, writers and byte streams as locales, with \<open>read_exact\<close> and \<open>write_all\<close>;
  \<open>Ip_Addr\<close>: socket addresses. \<open>Errors\<close>: the error types and their texts (\<open>src/error.rs\<close> and the
  \<open>error.rs\<close> of each module, \<open>rpc/src/error.rs\<close>).

  \<^bold>\<open>Finding and keeping a connection.\<close>
  \<^item> \<open>Dns\<close>, \<open>Discovery\<close>: \<open>src/edge/discovery.rs\<close>. The parser never indexes out of range and reads back
    what was encoded. Names are decoded as RFC 1035 defines them, stated by an inductive relation that
    does not refer to the decoder; a name whose parts lead into a cycle is followed for ever.
  \<^item> \<open>Features\<close> (\<open>build.rs\<close>), \<open>Options\<close> (\<open>connector/options.rs\<close>, \<open>run.rs\<close>), \<open>Backoff\<close>
    (\<open>connector/backoff.rs\<close>): cfg flags, defaults, transport selection, the delay.
  \<^item> \<open>Connector\<close>: \<open>connector/mod.rs\<close>. A round over the edges returns a \<open>control\<close>, which
    says whether the loop goes on; the run over an environment of effects is a partial function.
    The properties say when a run ends, when it changes the transport for good and how its
    counters move.
  \<^item> \<open>Runtime\<close>: \<open>connector/runtime.rs\<close> and \<open>event.rs\<close>, one attempt on a connection; with
    \<open>Connector\<close>, a run returns \<open>Ok\<close> only after a shutdown.
  \<^item> \<open>Roots\<close>: \<open>edge/roots.rs\<close> and the certificate loops of the three TLS set-ups.
  \<^item> \<open>Tunnel\<close>, \<open>Http_Api\<close>: \<open>src/tunnel\<close>, identities, tokens and the client of the quick tunnel API.

  \<^bold>\<open>RPC.\<close>
  \<^item> \<open>Framing\<close>: \<open>rpc/src/io.rs\<close>, the segment table with its limits.
  \<^item> \<open>Rpc\<close>: \<open>rpc/src/rpc.rs\<close>, the client. \<open>Control\<close>: \<open>rpc/src/tunnel.rs\<close> and \<open>edge/control.rs\<close>,
    registration. \<open>Cloudflared\<close>: \<open>rpc/src/cloudflared.rs\<close>, the server for the edge's calls.
    In these three, messages are values, and the codec between them and bytes is an argument.
  \<^item> \<open>Capnp\<close>: the layout interface of the \<open>capnp\<close> crate, data fields by width and index and pointer
    fields, as the locale \<open>capnp_layout\<close>. \<open>Rpc_Capnp\<close>, \<open>Tunnelrpc_Capnp\<close>: the generated accessors of
    \<open>rpc/pregenerated\<close> that the exchanges with the edge use, typed.
  \<^item> \<open>Accessors\<close>, \<open>Generated_Structs\<close>: all of the generated structs as tables of accessors, with one
    operation for all getters and one for all setters. A table is checked for overlaps by
    evaluation; that check implies that the accessors of a struct do not disturb each other.
    \<open>Schema_Node\<close>, \<open>Schema_Rpc\<close>, \<open>Schema_Tunnel\<close>, \<open>Schemas\<close>: the schema that every struct embeds, word by
    word, and the reader of the documented encoding it is in; the tables are exactly what the schemas
    prescribe. The reader follows types to one level of lists, which is all the schemas use; a deeper
    one would be unreadable, and the theorem false.
    \<open>Dispatch\<close>: the generated clients and dispatchers, with which the numbers of the calls and the
    classification in \<open>Cloudflared\<close> agree. \<open>Build_Script\<close>: \<open>rpc/build.rs\<close>, which produces that code.
  \<^item> \<open>Rpc_Codec\<close>, \<open>Registration_Codec\<close>, \<open>Server_Codec\<close>: the codecs as the code has them, every message
    and payload built and read with those accessors. What one side builds the other side reads:
    messages, the parameters and the answer of a registration, a configuration push and its reply.
    \<open>Registration\<close> puts the client, the framing and the codec together: \<open>register\<close> of \<open>edge/control.rs\<close>
    against the bytes of an edge that answers.
  \<^item> \<open>Quic_Metadata\<close>: \<open>rpc/src/quic.rs\<close> over the accessors of the generated code.

  \<^bold>\<open>HTTP/2.\<close> \<open>H2_Headers\<close>, \<open>H2_Stream\<close>, \<open>H2_Streams\<close>, \<open>H2_Serve\<close>: \<open>src/edge/h2\<close>. Header encoding
  against a list of what the client is to see, told by prefixes of the names, the adapters between \<open>h2\<close> streams and byte streams (interpreted as the streams of \<open>Streams\<close>), the
  handlers of request streams, whatever fails, sending the response head included, and the serve loop
  with the registration deadline.

  \<^bold>\<open>QUIC.\<close> \<open>Quic_Serve\<close>: \<open>src/edge/serve.rs\<close>, the handlers of request streams, the drain of an
  unread body and the accept loop, over the operations of a stream; what they write is proved in
  the locale \<open>quic_sender\<close>. \<open>Quic_Requests\<close>: from the bytes the edge writes to the call of a handler,
  and the request made of the metadata. \<open>Quinn\<close>: \<open>quic/quinn.rs\<close>, which interprets that locale on a
  crate with a script; the handles of a stream are a step relation, over which the receiving half
  is never lost. \<open>Quiche\<close>: \<open>quic/quiche\<close>, the state behind the mutex with its wakers; the driver
  and any number of tasks, which poll and leave streams, are a step relation. The task that polled a
  stream last does not lose its wake-up while the driver runs or closes; a task that another one
  has overtaken on the same stream may, and so may all once the driver has left because the socket
  failed. The waits on \<open>Notify\<close> and on the watch channel are not part of it.

  \<^bold>\<open>Origin.\<close> \<open>Http_Crate\<close>: the interface of the \<open>http\<close> crate. \<open>Origin\<close>, \<open>Axum\<close>, \<open>Pump\<close>,
  \<open>Configuration\<close>: \<open>src/origin\<close> and \<open>edge/configuration.rs\<close>, bodies and responders, the axum
  adapter, the pump as a step relation over its reads and the writes and closes of a branch, and
  configuration pushes, which refine the list of accepted versions. While a write of the pump is
  pending, neither side is read. \<open>Echo_Origin\<close> puts the echoing TCP origin of the examples behind the
  pump, with tokio's stream pair as a parameter under its documented laws: the edge gets back a
  prefix of what it sends in every interleaving. \<open>Echo_Liveness\<close>: all of it while it fits the
  buffers in between, within a number of steps; and beyond that, a run in which pump and origin wait
  for each other for ever.

  \<^bold>\<open>Examples.\<close> \<open>Example_Origins\<close>: the handlers and programs of the quick tunnel examples.
  \<open>Named_Example\<close>: \<open>examples/named_tunnel.rs\<close>, its HTTPS client, the polling of host names with its
  bound, and the task that waits for a configuration push.

  \<^bold>\<open>Bounds and fuel.\<close> No definition of the code has fuel. Loops end by a measure (the length of the
  input, the reads left of a drain) or are partial functions into option, where \<open>None\<close> says that
  they do not return; properties state for which inputs they return. A \<open>select!\<close> is a step
  relation, or a sequence of the events it sees.

  \<^bold>\<open>Parameters.\<close> Third-party crates (\<open>h2\<close>, \<open>http\<close>, \<open>quinn\<close>, \<open>quiche\<close>, \<open>boring\<close>, \<open>rustls\<close>, \<open>capnp\<close>,
  \<open>serde_json\<close>, \<open>base64\<close>, \<open>tokio\<close>, \<open>axum\<close>), the operating system and the origin's handlers are
  records of functions; what the code relies on is a named predicate on the record
  (\<open>http_laws\<close>, \<open>capnp_layout\<close>, \<open>notify_laws\<close>), which a concrete instance meets in the witnesses.

  \<^bold>\<open>Not modelled.\<close> In the generated code of \<open>rpc/pregenerated\<close>: the schemas of the two
  enums, the pipelines and the conversions between reader, builder and pointer types, which have no
  logic beyond the \<open>capnp\<close> runtime; that runtime is not part of the repository. Log
  lines, \<open>Debug\<close> texts and delegating trait implementations have no effect on the modelled state. The
  scripts, the tests and their mock edge are not part of the library; of the examples, the loopback
  server of \<open>origin_ws_tcp.rs\<close> and the last lines of the named tunnel's \<open>main\<close> are left out. Dropping a future in the middle of an operation is modelled where
  the code selects on it (the connector's shutdown) and for the polls of a quiche stream, not elsewhere.
\<close>

end
